(* ===== verification/Rve_Prelude.thy ===== *)
theory Rve_Prelude
  imports Main "HOL-Library.Word" "HOL-Library.Signed_Division" "HOL-Library.Monad_Syntax"
begin

unbundle bit_operations_syntax

text \<open>
  Shared vocabulary of the development: the integer types of include/rve/types.h at
  their C width, the C operators that HOL does not have under one name, the
  little-endian view of a machine word, and the lemmas about them that every
  component theory uses.

  A C function whose behaviour can be undefined (a null or dangling pointer, an access
  outside an allocated block, a pointer of the wrong type) is modelled with result type
  \<open>'a option\<close>: \<open>None\<close> is undefined behaviour, \<open>Some x\<close> is a defined run that
  produces \<open>x\<close>. The functions are composed with the do-notation of the option monad.
\<close>

section \<open>Integer types (include/rve/types.h)\<close>

type_synonym u8 = "8 word"
type_synonym u32 = "32 word"
type_synonym u64 = "64 word"

text \<open>\<open>word\<close>, \<open>reg_t\<close> and \<open>funct_t\<close> of types.h; \<open>word\<close> is a type of HOL.\<close>

type_synonym word_t = "32 word"
type_synonym reg_t = "8 word"
type_synonym funct_t = "8 word"

named_theorems sext_simps \<open>sign extension of immediates\<close>
named_theorems field_simps32 \<open>instruction fields of assembled words\<close>
named_theorems frame_simps \<open>what an operation leaves alone\<close>

section \<open>C operators\<close>

text \<open>
  \<open>(int32_t)x >> n\<close>: gcc shifts a negative value arithmetically. \<open>x << n\<close> and
  \<open>x >> n\<close> on unsigned operands are \<open>push_bit\<close> and \<open>drop_bit\<close>.
\<close>

abbreviation sar :: "nat \<Rightarrow> 'a::len word \<Rightarrow> 'a word" where
  "sar n x \<equiv> signed_drop_bit n x"

text \<open>The value of a C comparison stored in a register.\<close>

definition c_bool :: "bool \<Rightarrow> 'a::len word" where
  "c_bool b = (if b then 1 else 0)"

lemma c_bool_simps [simp]: "c_bool True = 1" "c_bool False = 0"
  by (simp_all add: c_bool_def)

section \<open>Words bit by bit\<close>

text \<open>
  Two words are equal when their bits are; the bit positions are spelt out, so that the
  simplifier decides each position with the library's \<open>bit_simps\<close>.
\<close>

lemma all_below_32:
  assumes "list_all P
    [0, 1, 2, 3, 4, 5, 6, 7, 8, 9, 10, 11, 12, 13, 14, 15, 16, 17, 18, 19, 20, 21,
     22, 23, 24, 25, 26, 27, 28, 29, 30, 31]"
    and "k < 32"
  shows "P (k :: nat)"
proof -
  from assms(2) have "k \<in> set [0..<32]" by simp
  also have "[0..<32] =
    [0, 1, 2, 3, 4, 5, 6, 7, 8, 9, 10, 11, 12, 13, 14, 15, 16, 17, 18, 19, 20, 21,
     22, 23, 24, 25, 26, 27, 28, 29, 30, 31]"
    by code_simp
  finally show "P k"
    using assms(1) by (simp only: list_all_iff)
qed

lemma bit_eq32I:
  fixes v w :: u32
  assumes "list_all (\<lambda>k. bit v k = bit w k)
    [0, 1, 2, 3, 4, 5, 6, 7, 8, 9, 10, 11, 12, 13, 14, 15, 16, 17, 18, 19, 20, 21,
     22, 23, 24, 25, 26, 27, 28, 29, 30, 31]"
  shows "v = w"
  by (rule bit_word_eqI) (rule all_below_32 [OF assms], simp)

lemma mask_and_eq_take_bit:
  fixes w :: u32
  shows "w AND 0x1 = take_bit 1 w" "w AND 0x3 = take_bit 2 w" "w AND 0x7 = take_bit 3 w"
    "w AND 0xF = take_bit 4 w" "w AND 0x1F = take_bit 5 w" "w AND 0x3F = take_bit 6 w"
    "w AND 0x7F = take_bit 7 w" "w AND 0xFF = take_bit 8 w" "w AND 0x3FF = take_bit 10 w"
    "w AND 0xFFF = take_bit 12 w" "w AND 0xFFFF = take_bit 16 w"
  by (simp_all add: take_bit_eq_mask mask_eq_exp_minus_1)

section \<open>Words as numbers\<close>

lemma unat_less32: "unat x < 4294967296" for x :: u32
proof -
  have "unat x < 2 ^ LENGTH(32)" by (rule unsigned_less)
  then show ?thesis by simp
qed

lemma unat_u64_of_u32: "unat (ucast x :: u64) = unat x" for x :: u32
  using unat_less32 [of x] by (simp add: unsigned_ucast_eq take_bit_nat_eq_self_iff)

lemma unat_u64_of_u8: "unat (ucast x :: u64) = unat x" for x :: u8
proof -
  have "unat x < 2 ^ LENGTH(8)" by (rule unsigned_less)
  then show ?thesis by (simp add: unsigned_ucast_eq take_bit_nat_eq_self_iff)
qed

lemma unat_of_nat_small:
  assumes "n < 2 ^ LENGTH('a::len)"
  shows "unat (of_nat n :: 'a word) = n"
  using assms by (simp add: unsigned_of_nat take_bit_nat_eq_self_iff)

lemma unat_add_small:
  fixes x y :: "'a::len word"
  assumes "unat x + unat y < 2 ^ LENGTH('a)"
  shows "unat (x + y) = unat x + unat y"
  using assms by (simp add: unat_add_lem [THEN iffD1])

section \<open>Sign extension\<close>

text \<open>The mathematical meaning of the low \<open>n\<close> bits of a word read in two's complement.\<close>

definition sx :: "nat \<Rightarrow> u32 \<Rightarrow> u32" where
  "sx n w = signed_take_bit (n - 1) w"

lemma shift_pair_eq_sx:
  fixes w :: u32
  assumes "0 < n" "n \<le> 32"
  shows "sar (32 - n) (push_bit (32 - n) w) = sx n w"
proof (rule bit_word_eqI)
  fix k assume "k < LENGTH(32)"
  then have k: "k < 32" by simp
  show "bit (sar (32 - n) (push_bit (32 - n) w)) k = bit (sx n w) k"
    using assms k
    by (cases "k = n - 1")
      (auto simp: sx_def bit_simps min_def not_le not_less Suc_le_eq dest: bit_imp_le_length)
qed

lemma bit_sx_iff: "bit (sx n w) k \<longleftrightarrow> k < 32 \<and> bit w (min k (n - 1))"
  by (auto simp: sx_def bit_simps min.commute)

lemma sx_idem [sext_simps]:
  assumes "n \<le> m"
  shows "sx m (sx n w) = sx n w"
proof (rule bit_word_eqI)
  fix k
  have "min (min k (m - 1)) (n - 1) = min k (n - 1)"
    using assms by arith
  then show "bit (sx m (sx n w)) k = bit (sx n w) k" if "k < LENGTH(32)"
    using that by (simp add: bit_sx_iff min_less_iff_disj)
qed

lemma sx_cong: "take_bit n v = take_bit n w \<Longrightarrow> 0 < n \<Longrightarrow> sx n v = sx n w"
proof (rule bit_word_eqI)
  fix k assume tb: "take_bit n v = take_bit n w" and n: "0 < n" and k: "k < LENGTH(32)"
  from n have "min k (n - 1) < n" by auto
  moreover have "bit (take_bit n v) (min k (n - 1)) = bit (take_bit n w) (min k (n - 1))"
    using tb by simp
  ultimately show "bit (sx n v) k = bit (sx n w) k"
    by (simp add: bit_sx_iff bit_take_bit_iff)
qed

lemma take_bit_sx: "m \<le> n \<Longrightarrow> 0 < n \<Longrightarrow> take_bit m (sx n w) = take_bit m w"
  by (rule bit_word_eqI) (auto simp: bit_sx_iff bit_simps min_def)

section \<open>Little-endian bytes\<close>

text \<open>
  \<open>memcpy\<close> between a 32-bit object and a byte array on a little-endian host, the byte
  order that include/rve/peripherals/memory.h assumes.
\<close>

definition le_bytes :: "nat \<Rightarrow> u32 \<Rightarrow> u8 list" where
  "le_bytes n w = map (\<lambda>i. ucast (drop_bit (8 * i) w)) [0..<n]"

fun le_word :: "u8 list \<Rightarrow> u32" where
  "le_word [] = 0"
| "le_word (b # bs) = ucast b OR push_bit 8 (le_word bs)"

lemma length_le_bytes [simp]: "length (le_bytes n w) = n"
  by (simp add: le_bytes_def)

lemma le_bytes_Suc: "le_bytes (Suc n) w = ucast w # le_bytes n (drop_bit 8 w)"
  by (simp add: le_bytes_def map_upt_Suc add.commute del: upt_Suc)

lemma nth_le_bytes: "i < n \<Longrightarrow> le_bytes n w ! i = ucast (drop_bit (8 * i) w)"
  by (simp add: le_bytes_def)

lemma le_word_le_bytes: "le_word (le_bytes n w) = take_bit (8 * n) w"
proof (induction n arbitrary: w)
  case 0
  then show ?case by (simp add: le_bytes_def)
next
  case (Suc n)
  have "ucast (ucast w :: u8) OR push_bit 8 (take_bit (8 * n) (drop_bit 8 w)) = take_bit (8 * Suc n) w"
    by (rule bit_word_eqI) (auto simp: bit_simps)
  then show ?case by (simp add: le_bytes_Suc Suc.IH)
qed

lemma bit_le_word_less: "bit (le_word bs) k \<Longrightarrow> k < 8 * length bs"
proof (induction bs arbitrary: k)
  case (Cons b bs)
  then show ?case
    by (cases "k < 8") (auto simp: bit_simps dest: bit_imp_le_length Cons.IH)
qed simp

lemma le_bytes_le_word: "length bs \<le> 4 \<Longrightarrow> le_bytes (length bs) (le_word bs) = bs"
proof (induction bs)
  case Nil
  then show ?case by (simp add: le_bytes_def)
next
  case (Cons b bs)
  have "ucast (ucast b OR push_bit 8 x :: u32) = b" for x
    by (rule bit_word_eqI) (auto simp: bit_simps)
  moreover have "drop_bit 8 (ucast b OR push_bit 8 (le_word bs)) = le_word bs"
    using Cons.prems by (intro bit_word_eqI) (auto simp: bit_simps dest: bit_le_word_less dest: bit_imp_le_length)
  ultimately show ?case using Cons by (simp add: le_bytes_Suc)
qed

end
