(* ===== verification/Rve_Decoder.thy ===== *)
theory Rve_Decoder
  imports Rve_Prelude
begin

text \<open>
  The instruction decoder: src/decoder.c lines 13 to 471, with the types of
  include/rve/decoder.h and the encoding constants of include/rve/riscv.h. The decoded
  struct is passed explicitly: each \<open>decode_instruction_*\<close> takes the zeroed struct that
  \<open>rve_decode_instruction\<close> prepared and returns it filled in. The messages the decoder
  prints to stderr are in Rve_Diagnostics.
\<close>

section \<open>Types (include/rve/decoder.h)\<close>

datatype instruction_format_t =
    INSTRUCTION_FORMAT_UNKNOWN
  | INSTRUCTION_FORMAT_R
  | INSTRUCTION_FORMAT_I
  | INSTRUCTION_FORMAT_S
  | INSTRUCTION_FORMAT_B
  | INSTRUCTION_FORMAT_U
  | INSTRUCTION_FORMAT_J
  | INSTRUCTION_FORMAT_NUM

datatype instruction_op_t =
    INSTRUCTION_OP_UNKNOWN
  | INSTRUCTION_OP_LUI | INSTRUCTION_OP_AUIPC
  | INSTRUCTION_OP_JAL
  | INSTRUCTION_OP_JALR
  | INSTRUCTION_OP_BEQ | INSTRUCTION_OP_BNE | INSTRUCTION_OP_BLT
  | INSTRUCTION_OP_BGE | INSTRUCTION_OP_BLTU | INSTRUCTION_OP_BGEU
  | INSTRUCTION_OP_LB | INSTRUCTION_OP_LH | INSTRUCTION_OP_LW
  | INSTRUCTION_OP_LBU | INSTRUCTION_OP_LHU
  | INSTRUCTION_OP_SB | INSTRUCTION_OP_SH | INSTRUCTION_OP_SW
  | INSTRUCTION_OP_ADDI | INSTRUCTION_OP_SLTI | INSTRUCTION_OP_SLTIU
  | INSTRUCTION_OP_XORI | INSTRUCTION_OP_ORI | INSTRUCTION_OP_ANDI
  | INSTRUCTION_OP_SLLI | INSTRUCTION_OP_SRLI | INSTRUCTION_OP_SRAI
  | INSTRUCTION_OP_ADD | INSTRUCTION_OP_SUB | INSTRUCTION_OP_SLL | INSTRUCTION_OP_SLT
  | INSTRUCTION_OP_SLTU | INSTRUCTION_OP_XOR | INSTRUCTION_OP_SRL | INSTRUCTION_OP_SRA
  | INSTRUCTION_OP_OR | INSTRUCTION_OP_AND
  | INSTRUCTION_OP_FENCE | INSTRUCTION_OP_FENCE_I
  | INSTRUCTION_OP_ECALL | INSTRUCTION_OP_EBREAK | INSTRUCTION_OP_MRET
  | INSTRUCTION_OP_MUL | INSTRUCTION_OP_MULH | INSTRUCTION_OP_MULHSU | INSTRUCTION_OP_MULHU
  | INSTRUCTION_OP_DIV | INSTRUCTION_OP_DIVU | INSTRUCTION_OP_REM | INSTRUCTION_OP_REMU
  | INSTRUCTION_OP_CSRRW | INSTRUCTION_OP_CSRRS | INSTRUCTION_OP_CSRRC
  | INSTRUCTION_OP_CSRRWI | INSTRUCTION_OP_CSRRSI | INSTRUCTION_OP_CSRRCI
  | INSTRUCTION_OP_NUM

record decoded_instruction_t =
  original_instruction :: word_t
  op :: instruction_op_t
  format :: instruction_format_t
  imm :: u32
  rs1 :: reg_t
  rs2 :: reg_t
  rd :: reg_t
  funct3 :: funct_t
  funct7 :: funct_t
  valid :: bool

text \<open>\<open>decoded_instruction_t di = {0}\<close>: both enums have 0 as their UNKNOWN value.\<close>

definition zero_decoded :: decoded_instruction_t where
  "zero_decoded = \<lparr>original_instruction = 0, op = INSTRUCTION_OP_UNKNOWN,
     format = INSTRUCTION_FORMAT_UNKNOWN, imm = 0, rs1 = 0, rs2 = 0, rd = 0,
     funct3 = 0, funct7 = 0, valid = False\<rparr>"

section \<open>Encoding constants (include/rve/riscv.h)\<close>

abbreviation (input) RISCV_OPCODE_LUI :: u32 where "RISCV_OPCODE_LUI \<equiv> 0x37"
abbreviation (input) RISCV_OPCODE_AUIPC :: u32 where "RISCV_OPCODE_AUIPC \<equiv> 0x17"
abbreviation (input) RISCV_OPCODE_JAL :: u32 where "RISCV_OPCODE_JAL \<equiv> 0x6F"
abbreviation (input) RISCV_OPCODE_JALR :: u32 where "RISCV_OPCODE_JALR \<equiv> 0x67"
abbreviation (input) RISCV_OPCODE_LOAD :: u32 where "RISCV_OPCODE_LOAD \<equiv> 0x03"
abbreviation (input) RISCV_OPCODE_OP_IMM :: u32 where "RISCV_OPCODE_OP_IMM \<equiv> 0x13"
abbreviation (input) RISCV_OPCODE_MISC_MEM :: u32 where "RISCV_OPCODE_MISC_MEM \<equiv> 0x0F"
abbreviation (input) RISCV_OPCODE_SYSTEM :: u32 where "RISCV_OPCODE_SYSTEM \<equiv> 0x73"
abbreviation (input) RISCV_OPCODE_BRANCH :: u32 where "RISCV_OPCODE_BRANCH \<equiv> 0x63"
abbreviation (input) RISCV_OPCODE_STORE :: u32 where "RISCV_OPCODE_STORE \<equiv> 0x23"
abbreviation (input) RISCV_OPCODE_OP :: u32 where "RISCV_OPCODE_OP \<equiv> 0x33"

abbreviation (input) RISCV_FUNCT3_LB :: u8 where "RISCV_FUNCT3_LB \<equiv> 0x0"
abbreviation (input) RISCV_FUNCT3_LH :: u8 where "RISCV_FUNCT3_LH \<equiv> 0x1"
abbreviation (input) RISCV_FUNCT3_LW :: u8 where "RISCV_FUNCT3_LW \<equiv> 0x2"
abbreviation (input) RISCV_FUNCT3_LBU :: u8 where "RISCV_FUNCT3_LBU \<equiv> 0x4"
abbreviation (input) RISCV_FUNCT3_LHU :: u8 where "RISCV_FUNCT3_LHU \<equiv> 0x5"
abbreviation (input) RISCV_FUNCT3_FENCE :: u8 where "RISCV_FUNCT3_FENCE \<equiv> 0x0"
abbreviation (input) RISCV_FUNCT3_FENCE_I :: u8 where "RISCV_FUNCT3_FENCE_I \<equiv> 0x1"
abbreviation (input) RISCV_FUNCT3_ADDI :: u8 where "RISCV_FUNCT3_ADDI \<equiv> 0x0"
abbreviation (input) RISCV_FUNCT3_SLTI :: u8 where "RISCV_FUNCT3_SLTI \<equiv> 0x2"
abbreviation (input) RISCV_FUNCT3_SLTIU :: u8 where "RISCV_FUNCT3_SLTIU \<equiv> 0x3"
abbreviation (input) RISCV_FUNCT3_XORI :: u8 where "RISCV_FUNCT3_XORI \<equiv> 0x4"
abbreviation (input) RISCV_FUNCT3_ORI :: u8 where "RISCV_FUNCT3_ORI \<equiv> 0x6"
abbreviation (input) RISCV_FUNCT3_ANDI :: u8 where "RISCV_FUNCT3_ANDI \<equiv> 0x7"
abbreviation (input) RISCV_FUNCT3_SLLI :: u8 where "RISCV_FUNCT3_SLLI \<equiv> 0x1"
abbreviation (input) RISCV_FUNCT3_SRLI_SRAI :: u8 where "RISCV_FUNCT3_SRLI_SRAI \<equiv> 0x5"
abbreviation (input) RISCV_FUNCT7_SLLI :: u8 where "RISCV_FUNCT7_SLLI \<equiv> 0x00"
abbreviation (input) RISCV_FUNCT7_SRLI :: u8 where "RISCV_FUNCT7_SRLI \<equiv> 0x00"
abbreviation (input) RISCV_FUNCT7_SRAI :: u8 where "RISCV_FUNCT7_SRAI \<equiv> 0x20"
abbreviation (input) RISCV_FUNCT3_SB :: u8 where "RISCV_FUNCT3_SB \<equiv> 0x0"
abbreviation (input) RISCV_FUNCT3_SH :: u8 where "RISCV_FUNCT3_SH \<equiv> 0x1"
abbreviation (input) RISCV_FUNCT3_SW :: u8 where "RISCV_FUNCT3_SW \<equiv> 0x2"
abbreviation (input) RISCV_FUNCT3_ADD_SUB :: u8 where "RISCV_FUNCT3_ADD_SUB \<equiv> 0x0"
abbreviation (input) RISCV_FUNCT3_SLL :: u8 where "RISCV_FUNCT3_SLL \<equiv> 0x1"
abbreviation (input) RISCV_FUNCT3_SLT :: u8 where "RISCV_FUNCT3_SLT \<equiv> 0x2"
abbreviation (input) RISCV_FUNCT3_SLTU :: u8 where "RISCV_FUNCT3_SLTU \<equiv> 0x3"
abbreviation (input) RISCV_FUNCT3_XOR :: u8 where "RISCV_FUNCT3_XOR \<equiv> 0x4"
abbreviation (input) RISCV_FUNCT3_SRL_SRA :: u8 where "RISCV_FUNCT3_SRL_SRA \<equiv> 0x5"
abbreviation (input) RISCV_FUNCT3_OR :: u8 where "RISCV_FUNCT3_OR \<equiv> 0x6"
abbreviation (input) RISCV_FUNCT3_AND :: u8 where "RISCV_FUNCT3_AND \<equiv> 0x7"
abbreviation (input) RISCV_FUNCT7_ADD :: u8 where "RISCV_FUNCT7_ADD \<equiv> 0x00"
abbreviation (input) RISCV_FUNCT7_SUB :: u8 where "RISCV_FUNCT7_SUB \<equiv> 0x20"
abbreviation (input) RISCV_FUNCT7_MULDIV :: u8 where "RISCV_FUNCT7_MULDIV \<equiv> 0x01"
abbreviation (input) RISCV_FUNCT3_MUL :: u8 where "RISCV_FUNCT3_MUL \<equiv> 0x0"
abbreviation (input) RISCV_FUNCT3_MULH :: u8 where "RISCV_FUNCT3_MULH \<equiv> 0x1"
abbreviation (input) RISCV_FUNCT3_MULHSU :: u8 where "RISCV_FUNCT3_MULHSU \<equiv> 0x2"
abbreviation (input) RISCV_FUNCT3_MULHU :: u8 where "RISCV_FUNCT3_MULHU \<equiv> 0x3"
abbreviation (input) RISCV_FUNCT3_DIV :: u8 where "RISCV_FUNCT3_DIV \<equiv> 0x4"
abbreviation (input) RISCV_FUNCT3_DIVU :: u8 where "RISCV_FUNCT3_DIVU \<equiv> 0x5"
abbreviation (input) RISCV_FUNCT3_REM :: u8 where "RISCV_FUNCT3_REM \<equiv> 0x6"
abbreviation (input) RISCV_FUNCT3_REMU :: u8 where "RISCV_FUNCT3_REMU \<equiv> 0x7"
abbreviation (input) RISCV_FUNCT3_BEQ :: u8 where "RISCV_FUNCT3_BEQ \<equiv> 0x0"
abbreviation (input) RISCV_FUNCT3_BNE :: u8 where "RISCV_FUNCT3_BNE \<equiv> 0x1"
abbreviation (input) RISCV_FUNCT3_BLT :: u8 where "RISCV_FUNCT3_BLT \<equiv> 0x4"
abbreviation (input) RISCV_FUNCT3_BGE :: u8 where "RISCV_FUNCT3_BGE \<equiv> 0x5"
abbreviation (input) RISCV_FUNCT3_BLTU :: u8 where "RISCV_FUNCT3_BLTU \<equiv> 0x6"
abbreviation (input) RISCV_FUNCT3_BGEU :: u8 where "RISCV_FUNCT3_BGEU \<equiv> 0x7"
abbreviation (input) RISCV_FUNCT3_JALR :: u8 where "RISCV_FUNCT3_JALR \<equiv> 0x0"
abbreviation (input) RISCV_FUNCT3_PRIV :: u8 where "RISCV_FUNCT3_PRIV \<equiv> 0x0"
abbreviation (input) RISCV_FUNCT3_CSRRW :: u8 where "RISCV_FUNCT3_CSRRW \<equiv> 0x1"
abbreviation (input) RISCV_FUNCT3_CSRRS :: u8 where "RISCV_FUNCT3_CSRRS \<equiv> 0x2"
abbreviation (input) RISCV_FUNCT3_CSRRC :: u8 where "RISCV_FUNCT3_CSRRC \<equiv> 0x3"
abbreviation (input) RISCV_FUNCT3_CSRRWI :: u8 where "RISCV_FUNCT3_CSRRWI \<equiv> 0x5"
abbreviation (input) RISCV_FUNCT3_CSRRSI :: u8 where "RISCV_FUNCT3_CSRRSI \<equiv> 0x6"
abbreviation (input) RISCV_FUNCT3_CSRRCI :: u8 where "RISCV_FUNCT3_CSRRCI \<equiv> 0x7"
abbreviation (input) RISCV_FUNCT12_ECALL :: u32 where "RISCV_FUNCT12_ECALL \<equiv> 0x000"
abbreviation (input) RISCV_FUNCT12_EBREAK :: u32 where "RISCV_FUNCT12_EBREAK \<equiv> 0x001"
abbreviation (input) RISCV_FUNCT12_MRET :: u32 where "RISCV_FUNCT12_MRET \<equiv> 0x302"

section \<open>Field extraction\<close>

definition get_opcode :: "word_t \<Rightarrow> u32" where
  "get_opcode instruction = instruction AND 0x7F"

definition get_rd :: "word_t \<Rightarrow> reg_t" where
  "get_rd instruction = ucast (drop_bit 7 instruction AND 0x1F)"

definition get_funct3 :: "word_t \<Rightarrow> reg_t" where
  "get_funct3 instruction = ucast (drop_bit 12 instruction AND 0x7)"

definition get_rs1 :: "word_t \<Rightarrow> reg_t" where
  "get_rs1 instruction = ucast (drop_bit 15 instruction AND 0x1F)"

definition get_rs2 :: "word_t \<Rightarrow> reg_t" where
  "get_rs2 instruction = ucast (drop_bit 20 instruction AND 0x1F)"

definition get_shamt :: "word_t \<Rightarrow> reg_t" where
  "get_shamt instruction = get_rs2 instruction"

definition get_funct7 :: "word_t \<Rightarrow> reg_t" where
  "get_funct7 instruction = ucast (drop_bit 25 instruction AND 0x7F)"

definition get_imm_i :: "word_t \<Rightarrow> u32" where
  "get_imm_i instruction = sar 20 instruction"

definition get_imm_s :: "word_t \<Rightarrow> u32" where
  "get_imm_s instruction =
    (let imm_11_5 = ucast (get_funct7 instruction) :: u32;
         imm_4_0 = ucast (get_rd instruction) :: u32;
         imm_unsigned = push_bit 5 imm_11_5 OR imm_4_0
     in sar 20 (push_bit 20 imm_unsigned))"

definition get_imm_u :: "word_t \<Rightarrow> u32" where
  "get_imm_u instruction = instruction AND 0xFFFFF000"

definition get_imm_j :: "word_t \<Rightarrow> u32" where
  "get_imm_j instruction =
    (let imm_20 = drop_bit 31 instruction AND 0x1;
         imm_10_1 = drop_bit 21 instruction AND 0x3FF;
         imm_11 = drop_bit 20 instruction AND 0x1;
         imm_19_12 = drop_bit 12 instruction AND 0xFF;
         imm_unsigned = push_bit 20 imm_20 OR push_bit 12 imm_19_12
           OR push_bit 11 imm_11 OR push_bit 1 imm_10_1
     in sar 11 (push_bit 11 imm_unsigned))"

definition get_imm_b :: "word_t \<Rightarrow> u32" where
  "get_imm_b instruction =
    (let imm_12 = drop_bit 31 instruction AND 0x1;
         imm_10_5 = drop_bit 25 instruction AND 0x3F;
         imm_4_1 = drop_bit 8 instruction AND 0xF;
         imm_11 = drop_bit 7 instruction AND 0x1;
         imm_unsigned = push_bit 12 imm_12 OR push_bit 11 imm_11
           OR push_bit 5 imm_10_5 OR push_bit 1 imm_4_1
     in sar 19 (push_bit 19 imm_unsigned))"

section \<open>Decoding, one function per format\<close>

definition decode_instruction_u ::
    "decoded_instruction_t \<Rightarrow> u32 \<Rightarrow> u32 \<Rightarrow> decoded_instruction_t" where
  "decode_instruction_u di0 instruction opcode =
    (let di = di0\<lparr>format := INSTRUCTION_FORMAT_U\<rparr>;
         finish = (\<lambda>d. d\<lparr>imm := get_imm_u instruction, rd := get_rd instruction, valid := True\<rparr>)
     in if opcode = RISCV_OPCODE_LUI then finish (di\<lparr>op := INSTRUCTION_OP_LUI\<rparr>)
        else if opcode = RISCV_OPCODE_AUIPC then finish (di\<lparr>op := INSTRUCTION_OP_AUIPC\<rparr>)
        else di\<lparr>valid := False\<rparr>)"

definition decode_instruction_j ::
    "decoded_instruction_t \<Rightarrow> u32 \<Rightarrow> u32 \<Rightarrow> decoded_instruction_t" where
  "decode_instruction_j di0 instruction opcode =
    (let di = di0\<lparr>format := INSTRUCTION_FORMAT_J\<rparr>
     in if opcode = RISCV_OPCODE_JAL then
          di\<lparr>op := INSTRUCTION_OP_JAL, imm := get_imm_j instruction, rd := get_rd instruction,
             valid := True\<rparr>
        else di)"

text \<open>
  A \<open>switch\<close> of \<open>decode_instruction_i\<close> is left in one of two ways: by \<open>return\<close>, or by
  \<open>break\<close>, after which the function still runs \<open>di->valid = true\<close>.
\<close>

datatype 'a flow = Return 'a | Break 'a

definition decode_jalr :: "decoded_instruction_t \<Rightarrow> decoded_instruction_t flow" where
  "decode_jalr di =
    (if funct3 di = RISCV_FUNCT3_JALR then Break (di\<lparr>op := INSTRUCTION_OP_JALR\<rparr>)
     else Return (di\<lparr>valid := False\<rparr>))"

definition decode_load :: "decoded_instruction_t \<Rightarrow> decoded_instruction_t flow" where
  "decode_load di =
    (if funct3 di = RISCV_FUNCT3_LB then Break (di\<lparr>op := INSTRUCTION_OP_LB\<rparr>)
     else if funct3 di = RISCV_FUNCT3_LH then Break (di\<lparr>op := INSTRUCTION_OP_LH\<rparr>)
     else if funct3 di = RISCV_FUNCT3_LW then Break (di\<lparr>op := INSTRUCTION_OP_LW\<rparr>)
     else if funct3 di = RISCV_FUNCT3_LBU then Break (di\<lparr>op := INSTRUCTION_OP_LBU\<rparr>)
     else if funct3 di = RISCV_FUNCT3_LHU then Break (di\<lparr>op := INSTRUCTION_OP_LHU\<rparr>)
     else Return (di\<lparr>valid := False\<rparr>))"

definition decode_op_imm ::
    "decoded_instruction_t \<Rightarrow> u32 \<Rightarrow> decoded_instruction_t flow" where
  "decode_op_imm di instruction =
    (if funct3 di = RISCV_FUNCT3_ADDI then Break (di\<lparr>op := INSTRUCTION_OP_ADDI\<rparr>)
     else if funct3 di = RISCV_FUNCT3_SLTI then Break (di\<lparr>op := INSTRUCTION_OP_SLTI\<rparr>)
     else if funct3 di = RISCV_FUNCT3_SLTIU then Break (di\<lparr>op := INSTRUCTION_OP_SLTIU\<rparr>)
     else if funct3 di = RISCV_FUNCT3_XORI then Break (di\<lparr>op := INSTRUCTION_OP_XORI\<rparr>)
     else if funct3 di = RISCV_FUNCT3_ORI then Break (di\<lparr>op := INSTRUCTION_OP_ORI\<rparr>)
     else if funct3 di = RISCV_FUNCT3_ANDI then Break (di\<lparr>op := INSTRUCTION_OP_ANDI\<rparr>)
     else if funct3 di = RISCV_FUNCT3_SLLI then
       (let di = di\<lparr>funct7 := get_funct7 instruction\<rparr>
        in if funct7 di = RISCV_FUNCT7_SLLI then Break (di\<lparr>op := INSTRUCTION_OP_SLLI\<rparr>)
           else Return (di\<lparr>valid := False\<rparr>))
     else if funct3 di = RISCV_FUNCT3_SRLI_SRAI then
       (let di = di\<lparr>funct7 := get_funct7 instruction\<rparr>
        in if funct7 di = RISCV_FUNCT7_SRLI then
             Break (di\<lparr>op := INSTRUCTION_OP_SRLI, imm := ucast (get_shamt instruction)\<rparr>)
           else if funct7 di = RISCV_FUNCT7_SRAI then
             Break (di\<lparr>op := INSTRUCTION_OP_SRAI, imm := ucast (get_shamt instruction)\<rparr>)
           else Return (di\<lparr>valid := False\<rparr>))
     else Break di)"

definition decode_misc_mem ::
    "decoded_instruction_t \<Rightarrow> u32 \<Rightarrow> decoded_instruction_t flow" where
  "decode_misc_mem di0 instruction =
    (let di = di0\<lparr>imm := 0, rs1 := get_rs1 instruction, rd := get_rd instruction,
                  funct3 := get_funct3 instruction\<rparr>
     in if funct3 di = RISCV_FUNCT3_FENCE then Break (di\<lparr>op := INSTRUCTION_OP_FENCE\<rparr>)
        else if funct3 di = RISCV_FUNCT3_FENCE_I then Break (di\<lparr>op := INSTRUCTION_OP_FENCE_I\<rparr>)
        else Return (di\<lparr>valid := False\<rparr>))"

text \<open>The \<open>case RISCV_FUNCT3_PRIV\<close> block: ECALL, EBREAK and MRET; anything else keeps \<open>op\<close>.\<close>

definition decode_priv :: "decoded_instruction_t \<Rightarrow> u32 \<Rightarrow> decoded_instruction_t" where
  "decode_priv di0 instruction =
    (let rs2_val = get_rs2 instruction;
         funct12 = imm di0 AND 0xFFF;
         di = (if funct12 = RISCV_FUNCT12_ECALL \<and> rs1 di0 = 0 \<and> rd di0 = 0 \<and> rs2_val = 0 then
                 di0\<lparr>op := INSTRUCTION_OP_ECALL, imm := 0\<rparr>
               else if funct12 = RISCV_FUNCT12_EBREAK \<and> rs1 di0 = 0 \<and> rd di0 = 0 \<and> rs2_val = 1 then
                 di0\<lparr>op := INSTRUCTION_OP_EBREAK, imm := 1\<rparr>
               else if funct12 = RISCV_FUNCT12_MRET \<and> rs1 di0 = 0 \<and> rd di0 = 0 \<and> rs2_val = 2 then
                 di0\<lparr>op := INSTRUCTION_OP_MRET\<rparr>
               else di0)
     in if op di = INSTRUCTION_OP_ECALL \<or> op di = INSTRUCTION_OP_EBREAK
        then di\<lparr>rd := 0, rs1 := 0\<rparr> else di)"

definition decode_system ::
    "decoded_instruction_t \<Rightarrow> u32 \<Rightarrow> decoded_instruction_t flow" where
  "decode_system di0 instruction =
    (let di = di0\<lparr>imm := get_imm_i instruction, funct3 := get_funct3 instruction\<rparr>
     in if funct3 di = RISCV_FUNCT3_PRIV then Break (decode_priv di instruction)
        else if funct3 di = RISCV_FUNCT3_CSRRW then Break (di\<lparr>op := INSTRUCTION_OP_CSRRW\<rparr>)
        else if funct3 di = RISCV_FUNCT3_CSRRS then Break (di\<lparr>op := INSTRUCTION_OP_CSRRS\<rparr>)
        else if funct3 di = RISCV_FUNCT3_CSRRC then Break (di\<lparr>op := INSTRUCTION_OP_CSRRC\<rparr>)
        else if funct3 di = RISCV_FUNCT3_CSRRWI then Break (di\<lparr>op := INSTRUCTION_OP_CSRRWI\<rparr>)
        else if funct3 di = RISCV_FUNCT3_CSRRSI then Break (di\<lparr>op := INSTRUCTION_OP_CSRRSI\<rparr>)
        else if funct3 di = RISCV_FUNCT3_CSRRCI then Break (di\<lparr>op := INSTRUCTION_OP_CSRRCI\<rparr>)
        else Break (di\<lparr>valid := False\<rparr>))"

definition decode_instruction_i ::
    "decoded_instruction_t \<Rightarrow> u32 \<Rightarrow> u32 \<Rightarrow> decoded_instruction_t" where
  "decode_instruction_i di0 instruction opcode =
    (let di = di0\<lparr>format := INSTRUCTION_FORMAT_I, funct3 := get_funct3 instruction,
                  rs1 := get_rs1 instruction, imm := get_imm_i instruction,
                  rd := get_rd instruction\<rparr>;
         left_switch =
           (if opcode = RISCV_OPCODE_JALR then decode_jalr di
            else if opcode = RISCV_OPCODE_LOAD then decode_load di
            else if opcode = RISCV_OPCODE_OP_IMM then decode_op_imm di instruction
            else if opcode = RISCV_OPCODE_MISC_MEM then decode_misc_mem di instruction
            else if opcode = RISCV_OPCODE_SYSTEM then decode_system di instruction
            else Return (di\<lparr>valid := False\<rparr>))
     in case left_switch of Return d \<Rightarrow> d | Break d \<Rightarrow> d\<lparr>valid := True\<rparr>)"

definition decode_instruction_b ::
    "decoded_instruction_t \<Rightarrow> u32 \<Rightarrow> u32 \<Rightarrow> decoded_instruction_t" where
  "decode_instruction_b di0 instruction opcode =
    (let di = di0\<lparr>format := INSTRUCTION_FORMAT_B, imm := get_imm_b instruction,
                  rs1 := get_rs1 instruction, rs2 := get_rs2 instruction,
                  funct3 := get_funct3 instruction\<rparr>;
         di = (if funct3 di = RISCV_FUNCT3_BEQ then di\<lparr>op := INSTRUCTION_OP_BEQ\<rparr>
               else if funct3 di = RISCV_FUNCT3_BNE then di\<lparr>op := INSTRUCTION_OP_BNE\<rparr>
               else if funct3 di = RISCV_FUNCT3_BLT then di\<lparr>op := INSTRUCTION_OP_BLT\<rparr>
               else if funct3 di = RISCV_FUNCT3_BGE then di\<lparr>op := INSTRUCTION_OP_BGE\<rparr>
               else if funct3 di = RISCV_FUNCT3_BLTU then di\<lparr>op := INSTRUCTION_OP_BLTU\<rparr>
               else if funct3 di = RISCV_FUNCT3_BGEU then di\<lparr>op := INSTRUCTION_OP_BGEU\<rparr>
               else di\<lparr>valid := False\<rparr>)
     in di\<lparr>valid := True\<rparr>)"

definition decode_instruction_s ::
    "decoded_instruction_t \<Rightarrow> u32 \<Rightarrow> u32 \<Rightarrow> decoded_instruction_t" where
  "decode_instruction_s di0 instruction opcode =
    (let di = di0\<lparr>format := INSTRUCTION_FORMAT_S, imm := get_imm_s instruction,
                  rs2 := get_rs2 instruction, rs1 := get_rs1 instruction,
                  funct3 := get_funct3 instruction, rd := get_rd instruction\<rparr>;
         di = (if funct3 di = RISCV_FUNCT3_SB then di\<lparr>op := INSTRUCTION_OP_SB\<rparr>
               else if funct3 di = RISCV_FUNCT3_SH then di\<lparr>op := INSTRUCTION_OP_SH\<rparr>
               else if funct3 di = RISCV_FUNCT3_SW then di\<lparr>op := INSTRUCTION_OP_SW\<rparr>
               else di\<lparr>valid := False\<rparr>)
     in di\<lparr>valid := True\<rparr>)"

definition decode_instruction_r ::
    "decoded_instruction_t \<Rightarrow> u32 \<Rightarrow> u32 \<Rightarrow> decoded_instruction_t" where
  "decode_instruction_r di0 instruction opcode =
    (let di = di0\<lparr>format := INSTRUCTION_FORMAT_R, imm := 0, funct7 := get_funct7 instruction,
                  rs2 := get_rs2 instruction, rs1 := get_rs1 instruction,
                  funct3 := get_funct3 instruction, rd := get_rd instruction\<rparr>;
         found = (\<lambda>oper. di\<lparr>op := oper, valid := True\<rparr>)
     in if funct7 di = RISCV_FUNCT7_ADD then
          (if funct3 di = RISCV_FUNCT3_ADD_SUB then found INSTRUCTION_OP_ADD
           else if funct3 di = RISCV_FUNCT3_SLL then found INSTRUCTION_OP_SLL
           else if funct3 di = RISCV_FUNCT3_SLT then found INSTRUCTION_OP_SLT
           else if funct3 di = RISCV_FUNCT3_SLTU then found INSTRUCTION_OP_SLTU
           else if funct3 di = RISCV_FUNCT3_XOR then found INSTRUCTION_OP_XOR
           else if funct3 di = RISCV_FUNCT3_SRL_SRA then found INSTRUCTION_OP_SRL
           else if funct3 di = RISCV_FUNCT3_OR then found INSTRUCTION_OP_OR
           else if funct3 di = RISCV_FUNCT3_AND then found INSTRUCTION_OP_AND
           else di\<lparr>valid := False\<rparr>)
        else if funct7 di = RISCV_FUNCT7_SUB then
          (if funct3 di = RISCV_FUNCT3_ADD_SUB then found INSTRUCTION_OP_SUB
           else if funct3 di = RISCV_FUNCT3_SRL_SRA then found INSTRUCTION_OP_SRA
           else di\<lparr>valid := False\<rparr>)
        else if funct7 di = RISCV_FUNCT7_MULDIV then
          (if funct3 di = RISCV_FUNCT3_MUL then found INSTRUCTION_OP_MUL
           else if funct3 di = RISCV_FUNCT3_MULH then found INSTRUCTION_OP_MULH
           else if funct3 di = RISCV_FUNCT3_MULHSU then found INSTRUCTION_OP_MULHSU
           else if funct3 di = RISCV_FUNCT3_MULHU then found INSTRUCTION_OP_MULHU
           else if funct3 di = RISCV_FUNCT3_DIV then found INSTRUCTION_OP_DIV
           else if funct3 di = RISCV_FUNCT3_DIVU then found INSTRUCTION_OP_DIVU
           else if funct3 di = RISCV_FUNCT3_REM then found INSTRUCTION_OP_REM
           else if funct3 di = RISCV_FUNCT3_REMU then found INSTRUCTION_OP_REMU
           else di\<lparr>valid := False\<rparr>)
        else di\<lparr>valid := False\<rparr>)"

definition rve_decode_instruction :: "word_t \<Rightarrow> decoded_instruction_t" where
  "rve_decode_instruction instruction =
    (let opcode = get_opcode instruction;
         di = zero_decoded\<lparr>original_instruction := instruction\<rparr>
     in if opcode = RISCV_OPCODE_LUI \<or> opcode = RISCV_OPCODE_AUIPC then
          decode_instruction_u di instruction opcode
        else if opcode = RISCV_OPCODE_JAL then
          decode_instruction_j di instruction opcode
        else if opcode = RISCV_OPCODE_JALR \<or> opcode = RISCV_OPCODE_LOAD
             \<or> opcode = RISCV_OPCODE_OP_IMM \<or> opcode = RISCV_OPCODE_MISC_MEM
             \<or> opcode = RISCV_OPCODE_SYSTEM then
          decode_instruction_i di instruction opcode
        else if opcode = RISCV_OPCODE_BRANCH then
          decode_instruction_b di instruction opcode
        else if opcode = RISCV_OPCODE_STORE then
          decode_instruction_s di instruction opcode
        else if opcode = RISCV_OPCODE_OP then
          decode_instruction_r di instruction opcode
        else di)"

end
