(* ===== verification/Rve_Encoding.thy ===== *)
theory Rve_Encoding
  imports Rve_Decoder
begin

unbundle bit_operations_syntax

text \<open>
  A reference encoder for RV32IM with Zicsr, FENCE and the privileged ECALL, EBREAK and
  MRET, written from the instruction formats of the RISC-V unprivileged manual (the
  manual the comments of include/rve/riscv.h cite), independently of the decoder. The
  decoder of Rve_Decoder is proved to invert it in both directions.
\<close>

section \<open>Assembling the six formats\<close>

text \<open>
  Every format is the R format with the immediate scattered over some of the fields.
\<close>

definition asm_r :: "u8 \<Rightarrow> u8 \<Rightarrow> u8 \<Rightarrow> u8 \<Rightarrow> u8 \<Rightarrow> u32 \<Rightarrow> u32" where
  "asm_r f7 r2 r1 f3 d opc =
     push_bit 25 (ucast (take_bit 7 f7)) OR push_bit 20 (ucast (take_bit 5 r2))
     OR push_bit 15 (ucast (take_bit 5 r1)) OR push_bit 12 (ucast (take_bit 3 f3))
     OR push_bit 7 (ucast (take_bit 5 d)) OR take_bit 7 opc"

definition asm_i :: "u32 \<Rightarrow> u8 \<Rightarrow> u8 \<Rightarrow> u8 \<Rightarrow> u32 \<Rightarrow> u32" where
  "asm_i im r1 f3 d opc = asm_r (ucast (drop_bit 5 im)) (ucast im) r1 f3 d opc"

definition asm_s :: "u32 \<Rightarrow> u8 \<Rightarrow> u8 \<Rightarrow> u8 \<Rightarrow> u32 \<Rightarrow> u32" where
  "asm_s im r2 r1 f3 opc = asm_r (ucast (drop_bit 5 im)) r2 r1 f3 (ucast im) opc"

definition asm_b :: "u32 \<Rightarrow> u8 \<Rightarrow> u8 \<Rightarrow> u8 \<Rightarrow> u32 \<Rightarrow> u32" where
  "asm_b im r2 r1 f3 opc =
     asm_r (ucast (push_bit 6 (take_bit 1 (drop_bit 12 im)) OR take_bit 6 (drop_bit 5 im)))
       r2 r1 f3
       (ucast (push_bit 1 (take_bit 4 (drop_bit 1 im)) OR take_bit 1 (drop_bit 11 im))) opc"

definition asm_u :: "u32 \<Rightarrow> u8 \<Rightarrow> u32 \<Rightarrow> u32" where
  "asm_u im d opc =
     asm_r (ucast (drop_bit 25 im)) (ucast (drop_bit 20 im)) (ucast (drop_bit 15 im))
       (ucast (drop_bit 12 im)) d opc"

definition asm_j :: "u32 \<Rightarrow> u8 \<Rightarrow> u32 \<Rightarrow> u32" where
  "asm_j im d opc =
     asm_r (ucast (push_bit 6 (take_bit 1 (drop_bit 20 im)) OR take_bit 6 (drop_bit 5 im)))
       (ucast (push_bit 1 (take_bit 4 (drop_bit 1 im)) OR take_bit 1 (drop_bit 11 im)))
       (ucast (drop_bit 15 im)) (ucast (drop_bit 12 im)) d opc"

lemmas get_field_defs =
  get_opcode_def get_rd_def get_funct3_def get_rs1_def get_rs2_def get_funct7_def
  mask_and_eq_take_bit

lemma get_fields_asm_r [simp]:
  "get_opcode (asm_r f7 r2 r1 f3 d opc) = take_bit 7 opc"
  "get_rd (asm_r f7 r2 r1 f3 d opc) = take_bit 5 d"
  "get_funct3 (asm_r f7 r2 r1 f3 d opc) = take_bit 3 f3"
  "get_rs1 (asm_r f7 r2 r1 f3 d opc) = take_bit 5 r1"
  "get_rs2 (asm_r f7 r2 r1 f3 d opc) = take_bit 5 r2"
  "get_funct7 (asm_r f7 r2 r1 f3 d opc) = take_bit 7 f7"
  by (rule bit_word_eqI, force simp: get_field_defs asm_r_def bit_simps)+

lemma asm_r_get [simp]:
  "asm_r (get_funct7 w) (get_rs2 w) (get_rs1 w) (get_funct3 w) (get_rd w) (get_opcode w) = w"
  by (rule bit_eq32I) (simp add: get_field_defs asm_r_def bit_simps)

lemma imm_i_asm: "get_imm_i (asm_i im r1 f3 d opc) = sx 12 im"
  by (rule bit_eq32I) (simp add: get_imm_i_def asm_i_def asm_r_def sx_def bit_simps)

lemma imm_s_asm: "get_imm_s (asm_s im r2 r1 f3 opc) = sx 12 im"
  by (rule bit_eq32I) (simp add: get_imm_s_def asm_s_def get_fields_asm_r sx_def bit_simps)

lemma imm_b_asm: "get_imm_b (asm_b im r2 r1 f3 opc) = sx 13 (im AND NOT 1)"
  by (rule bit_eq32I,
      simp add: get_imm_b_def asm_b_def asm_r_def mask_and_eq_take_bit sx_def bit_simps
        del: push_bit_Suc take_bit_Suc_0,
      simp add: eval_nat_numeral)

lemma imm_u_asm: "get_imm_u (asm_u im d opc) = im AND NOT (mask 12)"
  by (rule bit_eq32I) (simp add: get_imm_u_def asm_u_def asm_r_def bit_simps)

lemma imm_j_asm: "get_imm_j (asm_j im d opc) = sx 21 (im AND NOT 1)"
  by (rule bit_eq32I,
      simp add: get_imm_j_def asm_j_def asm_r_def mask_and_eq_take_bit sx_def bit_simps
        del: push_bit_Suc take_bit_Suc_0,
      simp add: eval_nat_numeral)

lemma asm_i_get: "asm_i (get_imm_i w) (get_rs1 w) (get_funct3 w) (get_rd w) (get_opcode w) = w"
  by (rule bit_eq32I) (simp add: get_field_defs asm_i_def asm_r_def get_imm_i_def bit_simps)

lemma asm_s_get: "asm_s (get_imm_s w) (get_rs2 w) (get_rs1 w) (get_funct3 w) (get_opcode w) = w"
  by (rule bit_eq32I) (simp add: get_field_defs asm_s_def asm_r_def get_imm_s_def bit_simps)

lemma asm_b_get: "asm_b (get_imm_b w) (get_rs2 w) (get_rs1 w) (get_funct3 w) (get_opcode w) = w"
  by (rule bit_eq32I)
    (simp add: get_field_defs asm_b_def asm_r_def get_imm_b_def bit_simps
      del: push_bit_Suc take_bit_Suc_0)

lemma asm_u_get: "asm_u (get_imm_u w) (get_rd w) (get_opcode w) = w"
  by (rule bit_eq32I) (simp add: get_field_defs asm_u_def asm_r_def get_imm_u_def bit_simps)

lemma asm_j_get: "asm_j (get_imm_j w) (get_rd w) (get_opcode w) = w"
  by (rule bit_eq32I)
    (simp add: get_field_defs asm_j_def asm_r_def get_imm_j_def bit_simps
      del: push_bit_Suc take_bit_Suc_0)

section \<open>The instruction table\<close>

definition rv32_format :: "instruction_op_t \<Rightarrow> instruction_format_t" where
  "rv32_format oper =
    (case oper of
       INSTRUCTION_OP_LUI \<Rightarrow> INSTRUCTION_FORMAT_U
     | INSTRUCTION_OP_AUIPC \<Rightarrow> INSTRUCTION_FORMAT_U
     | INSTRUCTION_OP_JAL \<Rightarrow> INSTRUCTION_FORMAT_J
     | INSTRUCTION_OP_BEQ \<Rightarrow> INSTRUCTION_FORMAT_B
     | INSTRUCTION_OP_BNE \<Rightarrow> INSTRUCTION_FORMAT_B
     | INSTRUCTION_OP_BLT \<Rightarrow> INSTRUCTION_FORMAT_B
     | INSTRUCTION_OP_BGE \<Rightarrow> INSTRUCTION_FORMAT_B
     | INSTRUCTION_OP_BLTU \<Rightarrow> INSTRUCTION_FORMAT_B
     | INSTRUCTION_OP_BGEU \<Rightarrow> INSTRUCTION_FORMAT_B
     | INSTRUCTION_OP_SB \<Rightarrow> INSTRUCTION_FORMAT_S
     | INSTRUCTION_OP_SH \<Rightarrow> INSTRUCTION_FORMAT_S
     | INSTRUCTION_OP_SW \<Rightarrow> INSTRUCTION_FORMAT_S
     | INSTRUCTION_OP_ADD \<Rightarrow> INSTRUCTION_FORMAT_R
     | INSTRUCTION_OP_SUB \<Rightarrow> INSTRUCTION_FORMAT_R
     | INSTRUCTION_OP_SLL \<Rightarrow> INSTRUCTION_FORMAT_R
     | INSTRUCTION_OP_SLT \<Rightarrow> INSTRUCTION_FORMAT_R
     | INSTRUCTION_OP_SLTU \<Rightarrow> INSTRUCTION_FORMAT_R
     | INSTRUCTION_OP_XOR \<Rightarrow> INSTRUCTION_FORMAT_R
     | INSTRUCTION_OP_SRL \<Rightarrow> INSTRUCTION_FORMAT_R
     | INSTRUCTION_OP_SRA \<Rightarrow> INSTRUCTION_FORMAT_R
     | INSTRUCTION_OP_OR \<Rightarrow> INSTRUCTION_FORMAT_R
     | INSTRUCTION_OP_AND \<Rightarrow> INSTRUCTION_FORMAT_R
     | INSTRUCTION_OP_MUL \<Rightarrow> INSTRUCTION_FORMAT_R
     | INSTRUCTION_OP_MULH \<Rightarrow> INSTRUCTION_FORMAT_R
     | INSTRUCTION_OP_MULHSU \<Rightarrow> INSTRUCTION_FORMAT_R
     | INSTRUCTION_OP_MULHU \<Rightarrow> INSTRUCTION_FORMAT_R
     | INSTRUCTION_OP_DIV \<Rightarrow> INSTRUCTION_FORMAT_R
     | INSTRUCTION_OP_DIVU \<Rightarrow> INSTRUCTION_FORMAT_R
     | INSTRUCTION_OP_REM \<Rightarrow> INSTRUCTION_FORMAT_R
     | INSTRUCTION_OP_REMU \<Rightarrow> INSTRUCTION_FORMAT_R
     | _ \<Rightarrow> INSTRUCTION_FORMAT_I)"

fun rv32_encode :: "instruction_op_t \<Rightarrow> u8 \<Rightarrow> u8 \<Rightarrow> u8 \<Rightarrow> u32 \<Rightarrow> u32 option" where
  "rv32_encode INSTRUCTION_OP_LUI d s1 s2 im = Some (asm_u im d 0x37)"
| "rv32_encode INSTRUCTION_OP_AUIPC d s1 s2 im = Some (asm_u im d 0x17)"
| "rv32_encode INSTRUCTION_OP_JAL d s1 s2 im = Some (asm_j im d 0x6F)"
| "rv32_encode INSTRUCTION_OP_JALR d s1 s2 im = Some (asm_i im s1 0 d 0x67)"
| "rv32_encode INSTRUCTION_OP_BEQ d s1 s2 im = Some (asm_b im s2 s1 0 0x63)"
| "rv32_encode INSTRUCTION_OP_BNE d s1 s2 im = Some (asm_b im s2 s1 1 0x63)"
| "rv32_encode INSTRUCTION_OP_BLT d s1 s2 im = Some (asm_b im s2 s1 4 0x63)"
| "rv32_encode INSTRUCTION_OP_BGE d s1 s2 im = Some (asm_b im s2 s1 5 0x63)"
| "rv32_encode INSTRUCTION_OP_BLTU d s1 s2 im = Some (asm_b im s2 s1 6 0x63)"
| "rv32_encode INSTRUCTION_OP_BGEU d s1 s2 im = Some (asm_b im s2 s1 7 0x63)"
| "rv32_encode INSTRUCTION_OP_LB d s1 s2 im = Some (asm_i im s1 0 d 0x03)"
| "rv32_encode INSTRUCTION_OP_LH d s1 s2 im = Some (asm_i im s1 1 d 0x03)"
| "rv32_encode INSTRUCTION_OP_LW d s1 s2 im = Some (asm_i im s1 2 d 0x03)"
| "rv32_encode INSTRUCTION_OP_LBU d s1 s2 im = Some (asm_i im s1 4 d 0x03)"
| "rv32_encode INSTRUCTION_OP_LHU d s1 s2 im = Some (asm_i im s1 5 d 0x03)"
| "rv32_encode INSTRUCTION_OP_SB d s1 s2 im = Some (asm_s im s2 s1 0 0x23)"
| "rv32_encode INSTRUCTION_OP_SH d s1 s2 im = Some (asm_s im s2 s1 1 0x23)"
| "rv32_encode INSTRUCTION_OP_SW d s1 s2 im = Some (asm_s im s2 s1 2 0x23)"
| "rv32_encode INSTRUCTION_OP_ADDI d s1 s2 im = Some (asm_i im s1 0 d 0x13)"
| "rv32_encode INSTRUCTION_OP_SLTI d s1 s2 im = Some (asm_i im s1 2 d 0x13)"
| "rv32_encode INSTRUCTION_OP_SLTIU d s1 s2 im = Some (asm_i im s1 3 d 0x13)"
| "rv32_encode INSTRUCTION_OP_XORI d s1 s2 im = Some (asm_i im s1 4 d 0x13)"
| "rv32_encode INSTRUCTION_OP_ORI d s1 s2 im = Some (asm_i im s1 6 d 0x13)"
| "rv32_encode INSTRUCTION_OP_ANDI d s1 s2 im = Some (asm_i im s1 7 d 0x13)"
| "rv32_encode INSTRUCTION_OP_SLLI d s1 s2 im = Some (asm_r 0 (ucast im) s1 1 d 0x13)"
| "rv32_encode INSTRUCTION_OP_SRLI d s1 s2 im = Some (asm_r 0 (ucast im) s1 5 d 0x13)"
| "rv32_encode INSTRUCTION_OP_SRAI d s1 s2 im = Some (asm_r 0x20 (ucast im) s1 5 d 0x13)"
| "rv32_encode INSTRUCTION_OP_ADD d s1 s2 im = Some (asm_r 0 s2 s1 0 d 0x33)"
| "rv32_encode INSTRUCTION_OP_SUB d s1 s2 im = Some (asm_r 0x20 s2 s1 0 d 0x33)"
| "rv32_encode INSTRUCTION_OP_SLL d s1 s2 im = Some (asm_r 0 s2 s1 1 d 0x33)"
| "rv32_encode INSTRUCTION_OP_SLT d s1 s2 im = Some (asm_r 0 s2 s1 2 d 0x33)"
| "rv32_encode INSTRUCTION_OP_SLTU d s1 s2 im = Some (asm_r 0 s2 s1 3 d 0x33)"
| "rv32_encode INSTRUCTION_OP_XOR d s1 s2 im = Some (asm_r 0 s2 s1 4 d 0x33)"
| "rv32_encode INSTRUCTION_OP_SRL d s1 s2 im = Some (asm_r 0 s2 s1 5 d 0x33)"
| "rv32_encode INSTRUCTION_OP_SRA d s1 s2 im = Some (asm_r 0x20 s2 s1 5 d 0x33)"
| "rv32_encode INSTRUCTION_OP_OR d s1 s2 im = Some (asm_r 0 s2 s1 6 d 0x33)"
| "rv32_encode INSTRUCTION_OP_AND d s1 s2 im = Some (asm_r 0 s2 s1 7 d 0x33)"
| "rv32_encode INSTRUCTION_OP_MUL d s1 s2 im = Some (asm_r 1 s2 s1 0 d 0x33)"
| "rv32_encode INSTRUCTION_OP_MULH d s1 s2 im = Some (asm_r 1 s2 s1 1 d 0x33)"
| "rv32_encode INSTRUCTION_OP_MULHSU d s1 s2 im = Some (asm_r 1 s2 s1 2 d 0x33)"
| "rv32_encode INSTRUCTION_OP_MULHU d s1 s2 im = Some (asm_r 1 s2 s1 3 d 0x33)"
| "rv32_encode INSTRUCTION_OP_DIV d s1 s2 im = Some (asm_r 1 s2 s1 4 d 0x33)"
| "rv32_encode INSTRUCTION_OP_DIVU d s1 s2 im = Some (asm_r 1 s2 s1 5 d 0x33)"
| "rv32_encode INSTRUCTION_OP_REM d s1 s2 im = Some (asm_r 1 s2 s1 6 d 0x33)"
| "rv32_encode INSTRUCTION_OP_REMU d s1 s2 im = Some (asm_r 1 s2 s1 7 d 0x33)"
| "rv32_encode INSTRUCTION_OP_FENCE d s1 s2 im = Some (asm_i im s1 0 d 0x0F)"
| "rv32_encode INSTRUCTION_OP_FENCE_I d s1 s2 im = Some (asm_i im s1 1 d 0x0F)"
| "rv32_encode INSTRUCTION_OP_ECALL d s1 s2 im = Some (asm_i 0 0 0 0 0x73)"
| "rv32_encode INSTRUCTION_OP_EBREAK d s1 s2 im = Some (asm_i 1 0 0 0 0x73)"
| "rv32_encode INSTRUCTION_OP_MRET d s1 s2 im = Some (asm_i 0x302 0 0 0 0x73)"
| "rv32_encode INSTRUCTION_OP_CSRRW d s1 s2 im = Some (asm_i im s1 1 d 0x73)"
| "rv32_encode INSTRUCTION_OP_CSRRS d s1 s2 im = Some (asm_i im s1 2 d 0x73)"
| "rv32_encode INSTRUCTION_OP_CSRRC d s1 s2 im = Some (asm_i im s1 3 d 0x73)"
| "rv32_encode INSTRUCTION_OP_CSRRWI d s1 s2 im = Some (asm_i im s1 5 d 0x73)"
| "rv32_encode INSTRUCTION_OP_CSRRSI d s1 s2 im = Some (asm_i im s1 6 d 0x73)"
| "rv32_encode INSTRUCTION_OP_CSRRCI d s1 s2 im = Some (asm_i im s1 7 d 0x73)"
| "rv32_encode INSTRUCTION_OP_UNKNOWN d s1 s2 im = None"
| "rv32_encode INSTRUCTION_OP_NUM d s1 s2 im = None"

text \<open>The operands an instruction carries: what the decoder must report for them.\<close>

definition rv32_system :: "instruction_op_t set" where
  "rv32_system = {INSTRUCTION_OP_ECALL, INSTRUCTION_OP_EBREAK, INSTRUCTION_OP_MRET}"

definition rv32_reg :: "instruction_op_t \<Rightarrow> u8 \<Rightarrow> u8" where
  "rv32_reg oper r = (if oper \<in> rv32_system then 0 else take_bit 5 r)"

definition rv32_imm :: "instruction_op_t \<Rightarrow> u32 \<Rightarrow> u32" where
  "rv32_imm oper im =
    (case rv32_format oper of
       INSTRUCTION_FORMAT_I \<Rightarrow>
         (if oper \<in> {INSTRUCTION_OP_SLLI, INSTRUCTION_OP_SRLI, INSTRUCTION_OP_SRAI} then take_bit 5 im
          else if oper \<in> {INSTRUCTION_OP_FENCE, INSTRUCTION_OP_FENCE_I, INSTRUCTION_OP_ECALL} then 0
          else if oper = INSTRUCTION_OP_EBREAK then 1
          else if oper = INSTRUCTION_OP_MRET then 0x302
          else sx 12 im)
     | INSTRUCTION_FORMAT_S \<Rightarrow> sx 12 im
     | INSTRUCTION_FORMAT_B \<Rightarrow> sx 13 (im AND NOT 1)
     | INSTRUCTION_FORMAT_U \<Rightarrow> im AND NOT (mask 12)
     | INSTRUCTION_FORMAT_J \<Rightarrow> sx 21 (im AND NOT 1)
     | _ \<Rightarrow> 0)"

section \<open>The decoder inverts the encoder\<close>

lemma get_fields_asm [field_simps32]:
  "get_opcode (asm_i im r1 f3 d opc) = take_bit 7 opc"
  "get_rd (asm_i im r1 f3 d opc) = take_bit 5 d"
  "get_funct3 (asm_i im r1 f3 d opc) = take_bit 3 f3"
  "get_rs1 (asm_i im r1 f3 d opc) = take_bit 5 r1"
  "get_opcode (asm_s im r2 r1 f3 opc) = take_bit 7 opc"
  "get_funct3 (asm_s im r2 r1 f3 opc) = take_bit 3 f3"
  "get_rs1 (asm_s im r2 r1 f3 opc) = take_bit 5 r1"
  "get_rs2 (asm_s im r2 r1 f3 opc) = take_bit 5 r2"
  "get_opcode (asm_b im r2 r1 f3 opc) = take_bit 7 opc"
  "get_funct3 (asm_b im r2 r1 f3 opc) = take_bit 3 f3"
  "get_rs1 (asm_b im r2 r1 f3 opc) = take_bit 5 r1"
  "get_rs2 (asm_b im r2 r1 f3 opc) = take_bit 5 r2"
  "get_opcode (asm_u im d opc) = take_bit 7 opc"
  "get_rd (asm_u im d opc) = take_bit 5 d"
  "get_opcode (asm_j im d opc) = take_bit 7 opc"
  "get_rd (asm_j im d opc) = take_bit 5 d"
  by (simp_all add: asm_i_def asm_s_def asm_b_def asm_u_def asm_j_def)

lemmas [field_simps32] = imm_i_asm imm_s_asm imm_b_asm imm_u_asm imm_j_asm

lemma get_rs2_asm_i: "get_rs2 (asm_i im r1 f3 d opc) = take_bit 5 (ucast im)"
  by (simp add: asm_i_def)

lemma get_imm_i_shift [field_simps32]:
  "get_imm_i (asm_r 0 (ucast im) r1 f3 d opc) = take_bit 5 im"
  by (rule bit_eq32I) (simp add: get_imm_i_def asm_r_def bit_simps)

lemma ucast_take_bit_shamt [field_simps32]:
  "(ucast (take_bit 5 (ucast im :: u8)) :: u32) = take_bit 5 im" for im :: u32
  by (rule bit_eq32I) (simp add: bit_simps)

text \<open>
  The decoder by opcode: what is left of \<open>rve_decode_instruction\<close> once the opcode is known.
\<close>

lemma decode_dispatch:
  "get_opcode w = 0x37 \<Longrightarrow> rve_decode_instruction w =
     decode_instruction_u (zero_decoded\<lparr>original_instruction := w\<rparr>) w 0x37"
  "get_opcode w = 0x17 \<Longrightarrow> rve_decode_instruction w =
     decode_instruction_u (zero_decoded\<lparr>original_instruction := w\<rparr>) w 0x17"
  "get_opcode w = 0x6F \<Longrightarrow> rve_decode_instruction w =
     decode_instruction_j (zero_decoded\<lparr>original_instruction := w\<rparr>) w 0x6F"
  "get_opcode w = 0x67 \<Longrightarrow> rve_decode_instruction w =
     decode_instruction_i (zero_decoded\<lparr>original_instruction := w\<rparr>) w 0x67"
  "get_opcode w = 0x03 \<Longrightarrow> rve_decode_instruction w =
     decode_instruction_i (zero_decoded\<lparr>original_instruction := w\<rparr>) w 0x03"
  "get_opcode w = 0x13 \<Longrightarrow> rve_decode_instruction w =
     decode_instruction_i (zero_decoded\<lparr>original_instruction := w\<rparr>) w 0x13"
  "get_opcode w = 0x0F \<Longrightarrow> rve_decode_instruction w =
     decode_instruction_i (zero_decoded\<lparr>original_instruction := w\<rparr>) w 0x0F"
  "get_opcode w = 0x73 \<Longrightarrow> rve_decode_instruction w =
     decode_instruction_i (zero_decoded\<lparr>original_instruction := w\<rparr>) w 0x73"
  "get_opcode w = 0x63 \<Longrightarrow> rve_decode_instruction w =
     decode_instruction_b (zero_decoded\<lparr>original_instruction := w\<rparr>) w 0x63"
  "get_opcode w = 0x23 \<Longrightarrow> rve_decode_instruction w =
     decode_instruction_s (zero_decoded\<lparr>original_instruction := w\<rparr>) w 0x23"
  "get_opcode w = 0x33 \<Longrightarrow> rve_decode_instruction w =
     decode_instruction_r (zero_decoded\<lparr>original_instruction := w\<rparr>) w 0x33"
  by (simp_all add: rve_decode_instruction_def)

lemma decode_unknown_opcode:
  "get_opcode w \<notin> {0x37, 0x17, 0x6F, 0x67, 0x03, 0x13, 0x0F, 0x73, 0x63, 0x23, 0x33} \<Longrightarrow>
   rve_decode_instruction w = zero_decoded\<lparr>original_instruction := w\<rparr>"
  by (simp add: rve_decode_instruction_def)

lemmas decode_format_defs =
  decode_instruction_u_def decode_instruction_j_def
  decode_instruction_i_def decode_instruction_b_def decode_instruction_s_def
  decode_instruction_r_def decode_jalr_def decode_load_def decode_op_imm_def
  decode_misc_mem_def decode_system_def decode_priv_def zero_decoded_def get_shamt_def Let_def

lemma sx_funct12: "sx 12 0 = 0" "sx 12 1 = 1" "sx 12 770 = 770"
  by (simp_all add: sx_def)

lemma decode_encode_lemma:
  assumes "rv32_encode oper d s1 s2 im = Some w"
  shows "let di = rve_decode_instruction w in
      valid di \<and> op di = oper \<and> format di = rv32_format oper \<and> imm di = rv32_imm oper im
    \<and> (rv32_format oper \<in> {INSTRUCTION_FORMAT_S, INSTRUCTION_FORMAT_B} \<or> rd di = rv32_reg oper d)
    \<and> (rv32_format oper \<in> {INSTRUCTION_FORMAT_U, INSTRUCTION_FORMAT_J} \<or> rs1 di = rv32_reg oper s1)
    \<and> (rv32_format oper \<in> {INSTRUCTION_FORMAT_U, INSTRUCTION_FORMAT_J, INSTRUCTION_FORMAT_I}
        \<or> rs2 di = rv32_reg oper s2)"
  using assms [symmetric]
  by (cases oper; simp add: decode_dispatch field_simps32 get_rs2_asm_i decode_format_defs
      rv32_format_def rv32_imm_def rv32_reg_def rv32_system_def sx_funct12)

text \<open>The fields of a word put back together give the word.\<close>

lemma reassemble [field_simps32]:
  "get_opcode w = opc \<Longrightarrow> asm_u (get_imm_u w) (get_rd w) opc = w"
  "get_opcode w = opc \<Longrightarrow> asm_j (get_imm_j w) (get_rd w) opc = w"
  "get_opcode w = opc \<Longrightarrow> get_funct3 w = f3 \<Longrightarrow> get_rs1 w = r1 \<Longrightarrow> get_rd w = d \<Longrightarrow>
     asm_i (get_imm_i w) r1 f3 d opc = w"
  "get_opcode w = opc \<Longrightarrow> get_funct3 w = f3 \<Longrightarrow>
     asm_s (get_imm_s w) (get_rs2 w) (get_rs1 w) f3 opc = w"
  "get_opcode w = opc \<Longrightarrow> get_funct3 w = f3 \<Longrightarrow>
     asm_b (get_imm_b w) (get_rs2 w) (get_rs1 w) f3 opc = w"
  "get_opcode w = opc \<Longrightarrow> get_funct3 w = f3 \<Longrightarrow> get_funct7 w = f7 \<Longrightarrow>
     asm_r f7 (get_rs2 w) (get_rs1 w) f3 (get_rd w) opc = w"
  using asm_u_get [of w] asm_j_get [of w] asm_i_get [of w] asm_s_get [of w] asm_b_get [of w]
    asm_r_get [of w]
  by simp_all

lemma reassemble_shift [field_simps32]:
  assumes "get_opcode w = opc" "get_funct3 w = f3" "get_funct7 w = f7"
  shows "asm_r f7 (ucast (get_imm_i w)) (get_rs1 w) f3 (get_rd w) opc = w"
    and "asm_r f7 (ucast (ucast (get_rs2 w) :: u32)) (get_rs1 w) f3 (get_rd w) opc = w"
proof -
  have "take_bit 5 (ucast (get_imm_i w) :: u8) = take_bit 5 (get_rs2 w)"
    by (rule bit_word_eqI) (auto simp: get_imm_i_def get_field_defs bit_simps)
  moreover have "(ucast (ucast (get_rs2 w) :: u32) :: u8) = get_rs2 w"
    by (rule bit_word_eqI) (simp add: bit_simps)
  ultimately show "asm_r f7 (ucast (get_imm_i w)) (get_rs1 w) f3 (get_rd w) opc = w"
    and "asm_r f7 (ucast (ucast (get_rs2 w) :: u32)) (get_rs1 w) f3 (get_rd w) opc = w"
    using reassemble(6) [OF assms] by (simp_all add: asm_r_def)
qed

lemma reassemble_priv [field_simps32]:
  assumes "get_imm_i w AND 4095 = c" "get_opcode w = opc" "get_funct3 w = 0" "get_rs1 w = 0" "get_rd w = 0"
  shows "asm_i c 0 0 0 opc = w"
proof -
  have "asm_i (get_imm_i w AND 4095) r1 f3 d opc = asm_i (get_imm_i w) r1 f3 d opc" for r1 f3 d
    by (rule bit_eq32I) (simp add: asm_i_def asm_r_def mask_and_eq_take_bit bit_simps)
  then show ?thesis using reassemble(3) [of w opc 0] assms by simp
qed

lemma opcode_cases:
  obtains "get_opcode w = 0x37" | "get_opcode w = 0x17" | "get_opcode w = 0x6F"
  | "get_opcode w = 0x67" | "get_opcode w = 0x03" | "get_opcode w = 0x13"
  | "get_opcode w = 0x0F" | "get_opcode w = 0x73" | "get_opcode w = 0x63"
  | "get_opcode w = 0x23" | "get_opcode w = 0x33"
  | "get_opcode w \<notin> {0x37, 0x17, 0x6F, 0x67, 0x03, 0x13, 0x0F, 0x73, 0x63, 0x23, 0x33}"
  by blast

lemma below_8_cases: "unat r < 8 \<Longrightarrow> r \<in> {0, 1, 2, 3, 4, 5, 6, 7}" for r :: u8
proof -
  assume "unat r < 8"
  then have "unat r \<in> {0, 1, 2, 3, 4, 5, 6, 7}" by (simp, linarith)
  then have "of_nat (unat r) \<in> (of_nat ` {0, 1, 2, 3, 4, 5, 6, 7} :: u8 set)" by (rule imageI)
  then show ?thesis by simp
qed

lemma get_funct3_range: "get_funct3 w \<in> {0, 1, 2, 3, 4, 5, 6, 7}"
proof (rule below_8_cases)
  have "take_bit 3 (get_funct3 w) = get_funct3 w"
    by (rule bit_word_eqI) (auto simp: get_field_defs bit_simps)
  then show "unat (get_funct3 w) < 8"
    using take_bit_nat_less_exp [of 3 "unat (get_funct3 w)"] by (simp flip: unsigned_take_bit_eq)
qed

lemma priv_words:
  assumes "get_opcode w = 0x73" "get_funct3 w = 0"
  shows "get_imm_i w AND 4095 = 0 \<and> get_rs1 w = 0 \<and> get_rd w = 0 \<and> get_rs2 w = 0 \<longleftrightarrow> w = 0x73"
    and "get_imm_i w AND 4095 = 1 \<and> get_rs1 w = 0 \<and> get_rd w = 0 \<and> get_rs2 w = 1 \<longleftrightarrow> w = 0x100073"
    and "get_imm_i w AND 4095 = 0x302 \<and> get_rs1 w = 0 \<and> get_rd w = 0 \<and> get_rs2 w = 2
      \<longleftrightarrow> w = 0x30200073"
proof -
  have asm: "asm_i 0 0 0 0 0x73 = 0x73" "asm_i 1 0 0 0 0x73 = 0x100073"
    "asm_i 0x302 0 0 0 0x73 = 0x30200073"
    by code_simp+
  note whole = reassemble_priv [OF _ assms]
  show "get_imm_i w AND 4095 = 0 \<and> get_rs1 w = 0 \<and> get_rd w = 0 \<and> get_rs2 w = 0 \<longleftrightarrow> w = 0x73"
    using whole [where c = 0] asm by (auto simp: get_field_defs get_imm_i_def)
  show "get_imm_i w AND 4095 = 1 \<and> get_rs1 w = 0 \<and> get_rd w = 0 \<and> get_rs2 w = 1 \<longleftrightarrow> w = 0x100073"
    using whole [where c = 1] asm by (auto simp: get_field_defs get_imm_i_def)
  show "get_imm_i w AND 4095 = 0x302 \<and> get_rs1 w = 0 \<and> get_rd w = 0 \<and> get_rs2 w = 2
      \<longleftrightarrow> w = 0x30200073"
    using whole [where c = 770] asm by (auto simp: get_field_defs get_imm_i_def)
qed

lemma encode_decode_lemma:
  assumes "op (rve_decode_instruction w) \<notin>
    {INSTRUCTION_OP_UNKNOWN, INSTRUCTION_OP_FENCE, INSTRUCTION_OP_FENCE_I}"
  shows "let di = rve_decode_instruction w in
    rv32_encode (op di) (rd di) (rs1 di) (rs2 di) (imm di) = Some w"
  using assms
  by (cases w rule: opcode_cases)
    (simp_all add: decode_dispatch decode_unknown_opcode decode_format_defs field_simps32
      split: if_splits)

lemma encode_decode_fence:
  assumes "op (rve_decode_instruction w) \<in> {INSTRUCTION_OP_FENCE, INSTRUCTION_OP_FENCE_I}"
  shows "rv32_encode (op (rve_decode_instruction w)) (get_rd w) (get_rs1 w) 0 (get_imm_i w) = Some w"
  using assms
  by (cases w rule: opcode_cases)
    (simp_all add: decode_dispatch decode_unknown_opcode decode_format_defs field_simps32
      split: if_splits)

text \<open>What the struct holds besides the operands.\<close>

lemma asm_i_cong: "take_bit 12 im = take_bit 12 im' \<Longrightarrow> asm_i im r f d oc = asm_i im' r f d oc"
proof -
  assume "take_bit 12 im = take_bit 12 im'"
  then have "bit im n = bit im' n" if "n < 12" for n
    using that by (metis bit_take_bit_iff)
  then have "take_bit 7 (ucast (drop_bit 5 im) :: u8) = take_bit 7 (ucast (drop_bit 5 im'))"
    "take_bit 5 (ucast im :: u8) = take_bit 5 (ucast im')"
    by (auto intro!: bit_word_eqI simp: bit_simps)
  then show ?thesis by (simp add: asm_i_def asm_r_def)
qed

lemma imm_i_top: "take_bit 12 (drop_bit 20 w) = take_bit 12 (get_imm_i w)"
  by (rule bit_eq32I) (simp add: get_imm_i_def bit_simps)

lemma decode_fence_registers:
  assumes "op (rve_decode_instruction w) \<in> {INSTRUCTION_OP_FENCE, INSTRUCTION_OP_FENCE_I}"
  shows "rd (rve_decode_instruction w) = get_rd w" "rs1 (rve_decode_instruction w) = get_rs1 w"
  using assms
  by (cases w rule: opcode_cases;
      simp add: decode_dispatch decode_unknown_opcode decode_format_defs split: if_splits)+

lemma decode_original: "original_instruction (rve_decode_instruction w) = w"
  by (cases w rule: opcode_cases;
      simp add: decode_dispatch decode_unknown_opcode decode_format_defs)

lemma decode_functs:
  assumes "op (rve_decode_instruction w) \<noteq> INSTRUCTION_OP_UNKNOWN"
  shows "funct3 (rve_decode_instruction w) =
      (if format (rve_decode_instruction w) \<in> {INSTRUCTION_FORMAT_U, INSTRUCTION_FORMAT_J} then 0 else get_funct3 w)"
   "funct7 (rve_decode_instruction w) =
      (if format (rve_decode_instruction w) = INSTRUCTION_FORMAT_R
          \<or> op (rve_decode_instruction w) \<in> {INSTRUCTION_OP_SLLI, INSTRUCTION_OP_SRLI, INSTRUCTION_OP_SRAI} then get_funct7 w else 0)"
  using assms
  by (cases w rule: opcode_cases;
      simp add: decode_dispatch decode_unknown_opcode decode_format_defs split: if_splits)+

lemma funct_fields:
  "get_funct3 w = ucast (take_bit 3 (drop_bit 12 w))" "get_funct7 w = ucast (drop_bit 25 w)"
  by (rule bit_word_eqI; auto simp: get_field_defs bit_simps dest: bit_imp_le_length)+

lemma encode_decode_all:
  assumes "op (rve_decode_instruction w) \<noteq> INSTRUCTION_OP_UNKNOWN"
  shows "let di = rve_decode_instruction w;
      im = (if op di \<in> {INSTRUCTION_OP_FENCE, INSTRUCTION_OP_FENCE_I} then drop_bit 20 w else imm di)
    in rv32_encode (op di) (rd di) (rs1 di) (rs2 di) im = Some w"
proof (cases "op (rve_decode_instruction w) \<in> {INSTRUCTION_OP_FENCE, INSTRUCTION_OP_FENCE_I}")
  case True
  from encode_decode_fence [OF this] decode_fence_registers [OF this] True
  show ?thesis by (auto simp: asm_i_cong [OF imm_i_top])
next
  case False
  with encode_decode_lemma [of w] assms show ?thesis by (simp add: Let_def)
qed

lemma decode_invalid_unknown:
  "\<not> valid (rve_decode_instruction w) \<Longrightarrow> op (rve_decode_instruction w) = INSTRUCTION_OP_UNKNOWN"
  by (cases w rule: opcode_cases)
    (simp_all add: decode_dispatch decode_unknown_opcode decode_format_defs split: if_splits)

section \<open>Register indices and immediates are in range\<close>

lemma take_bit_5_less: "take_bit 5 r = r \<Longrightarrow> unat r < 32" for r :: u8
  using take_bit_nat_less_exp [of 5 "unat r"]
  by (simp flip: unsigned_take_bit_eq)

lemma get_reg_bound:
  "unat (get_rd w) < 32" "unat (get_rs1 w) < 32" "unat (get_rs2 w) < 32"
  by (rule take_bit_5_less, rule bit_word_eqI, auto simp: get_field_defs bit_simps)+

lemma decode_regs_lemma:
  "unat (rd (rve_decode_instruction w)) < 32" "unat (rs1 (rve_decode_instruction w)) < 32"
  "unat (rs2 (rve_decode_instruction w)) < 32"
  by (cases w rule: opcode_cases;
      simp add: decode_dispatch decode_unknown_opcode decode_format_defs get_reg_bound)+

lemma recognised_lemma:
  "op (rve_decode_instruction w) \<noteq> INSTRUCTION_OP_UNKNOWN
   \<longleftrightarrow> (\<exists>oper d s1 s2 im. rv32_encode oper d s1 s2 im = Some w)"
proof
  assume known: "op (rve_decode_instruction w) \<noteq> INSTRUCTION_OP_UNKNOWN"
  show "\<exists>oper d s1 s2 im. rv32_encode oper d s1 s2 im = Some w"
  proof (cases "op (rve_decode_instruction w) \<in> {INSTRUCTION_OP_FENCE, INSTRUCTION_OP_FENCE_I}")
    case True
    from encode_decode_fence [OF this] show ?thesis by blast
  next
    case False
    with known encode_decode_lemma [of w] show ?thesis by (simp add: Let_def) blast
  qed
next
  assume "\<exists>oper d s1 s2 im. rv32_encode oper d s1 s2 im = Some w"
  then obtain oper d s1 s2 im where enc: "rv32_encode oper d s1 s2 im = Some w" by blast
  then have "oper \<noteq> INSTRUCTION_OP_UNKNOWN" by auto
  with decode_encode_lemma [OF enc] show "op (rve_decode_instruction w) \<noteq> INSTRUCTION_OP_UNKNOWN"
    by (simp add: Let_def)
qed

section \<open>Properties of the decoder\<close>

text \<open>
  C7 (roundtrip): decoding an encoded instruction gives the instruction back. For every
  operation of RV32IM, Zicsr, FENCE, FENCE.I, ECALL, EBREAK and MRET, the word the reference
  encoder assembles is decoded as valid, with that operation, its format, its immediate
  sign-extended or masked the way the format defines it, and the registers the format has.
\<close>

theorem decode_encode:
  assumes "rv32_encode oper d s1 s2 im = Some w"
  shows "let di = rve_decode_instruction w in
      valid di \<and> op di = oper \<and> format di = rv32_format oper \<and> imm di = rv32_imm oper im
    \<and> (rv32_format oper \<in> {INSTRUCTION_FORMAT_S, INSTRUCTION_FORMAT_B} \<or> rd di = rv32_reg oper d)
    \<and> (rv32_format oper \<in> {INSTRUCTION_FORMAT_U, INSTRUCTION_FORMAT_J} \<or> rs1 di = rv32_reg oper s1)
    \<and> (rv32_format oper \<in> {INSTRUCTION_FORMAT_U, INSTRUCTION_FORMAT_J, INSTRUCTION_FORMAT_I}
        \<or> rs2 di = rv32_reg oper s2)"
  using assms by (rule decode_encode_lemma)

lemma decode_encode_witness:
  "op (rve_decode_instruction (asm_b 0xFFFFFFF0 2 1 4 0x63)) = INSTRUCTION_OP_BLT"
  using decode_encode [of INSTRUCTION_OP_BLT 0 1 2 "0xFFFFFFF0" "asm_b 0xFFFFFFF0 2 1 4 0x63"]
  by (simp add: Let_def)

text \<open>
  C25 (roundtrip): the decoder loses nothing of a word it recognises. For every word whose operation is
  not UNKNOWN, FENCE and FENCE.I included, encoding the operation, registers and immediate it returns
  gives the word back; only for FENCE and FENCE.I the immediate field, which the decoder replaces by 0, has to
  be taken from the word. The struct also holds the word itself and its function codes, funct3 but for
  the formats U and J, and funct7 for the format R and the shifts by a constant, where the others are 0.
\<close>

theorem encode_decode:
  assumes "op (rve_decode_instruction w) \<noteq> INSTRUCTION_OP_UNKNOWN"
  shows "let di = rve_decode_instruction w;
      im = (if op di \<in> {INSTRUCTION_OP_FENCE, INSTRUCTION_OP_FENCE_I} then drop_bit 20 w else imm di)
    in rv32_encode (op di) (rd di) (rs1 di) (rs2 di) im = Some w \<and> original_instruction di = w
      \<and> funct3 di = (if format di \<in> {INSTRUCTION_FORMAT_U, INSTRUCTION_FORMAT_J} then 0
                      else ucast (take_bit 3 (drop_bit 12 w)))
      \<and> funct7 di = (if format di = INSTRUCTION_FORMAT_R
                        \<or> op di \<in> {INSTRUCTION_OP_SLLI, INSTRUCTION_OP_SRLI, INSTRUCTION_OP_SRAI}
                      then ucast (drop_bit 25 w) else 0)"
  using encode_decode_all [OF assms] decode_original [of w] decode_functs [OF assms]
  by (simp only: Let_def funct_fields)

lemma encode_decode_witness:
  "rv32_encode INSTRUCTION_OP_SUB 3 1 2 0 = Some 0x402081B3
   \<and> rv32_encode INSTRUCTION_OP_FENCE 3 1 0 0x0FF = Some 0x0FF0818F"
proof -
  have "rve_decode_instruction 0x402081B3 = \<lparr>original_instruction = 0x402081B3,
      op = INSTRUCTION_OP_SUB, format = INSTRUCTION_FORMAT_R, imm = 0, rs1 = 1, rs2 = 2, rd = 3,
      funct3 = 0, funct7 = 0x20, valid = True\<rparr>"
    "rve_decode_instruction 0x0FF0818F = \<lparr>original_instruction = 0x0FF0818F,
      op = INSTRUCTION_OP_FENCE, format = INSTRUCTION_FORMAT_I, imm = 0, rs1 = 1, rs2 = 0, rd = 3,
      funct3 = 0, funct7 = 0, valid = True\<rparr>"
    "drop_bit 20 (0x0FF0818F :: u32) = 0x0FF"
    by code_simp+
  then show ?thesis
    using encode_decode [of "0x402081B3"] encode_decode [of "0x0FF0818F"] by (simp add: Let_def)
qed

text \<open>
  C8 (equivalence): the decoder recognises exactly the instruction words of the reference
  table: it reports an operation other than UNKNOWN for a word if and only if that word is the
  encoding of some operation with some operands.
\<close>

theorem decode_recognises_exactly_the_encodings:
  "op (rve_decode_instruction w) \<noteq> INSTRUCTION_OP_UNKNOWN
   \<longleftrightarrow> (\<exists>oper d s1 s2 im. rv32_encode oper d s1 s2 im = Some w)"
  by (rule recognised_lemma)

text \<open>
  C27 (error): the words the decoder marks valid without recognising them, exactly: a BRANCH
  with funct3 2 or 3, a STORE with funct3 above 2, a SYSTEM word with funct3 4, and a PRIV word
  that is not ECALL, EBREAK or MRET. The branches of the code that clear \<open>valid\<close> for them are
  overridden by the assignment after the switch; the hart therefore meets them as valid
  instructions of operation UNKNOWN.
\<close>

theorem decode_valid_but_unknown_iff:
  "valid (rve_decode_instruction w) \<and> op (rve_decode_instruction w) = INSTRUCTION_OP_UNKNOWN
   \<longleftrightarrow> get_opcode w = 0x63 \<and> get_funct3 w \<in> {2, 3}
     \<or> get_opcode w = 0x23 \<and> get_funct3 w \<notin> {0, 1, 2}
     \<or> get_opcode w = 0x73 \<and> get_funct3 w = 4
     \<or> get_opcode w = 0x73 \<and> get_funct3 w = 0 \<and> w \<notin> {0x00000073, 0x00100073, 0x30200073}"
proof (cases w rule: opcode_cases)
  case 8
  show ?thesis
  proof (cases "get_funct3 w = 0")
    case True
    show ?thesis
      by (simp add: decode_dispatch decode_format_defs 8 True priv_words [OF 8 True])
  next
    case False
    with 8 show ?thesis
      using get_funct3_range [of w]
      by (simp add: decode_dispatch decode_format_defs split: if_splits; blast)
  qed
next
  case 6
  then show ?thesis
    using get_funct3_range [of w]
    by (simp add: decode_dispatch decode_format_defs split: if_splits; blast)
next
  case 9
  then show ?thesis
    using get_funct3_range [of w]
    by (simp add: decode_dispatch decode_format_defs split: if_splits; blast)
next
  case 10
  then show ?thesis by (simp add: decode_dispatch decode_format_defs)
qed (simp_all add: decode_dispatch decode_unknown_opcode decode_format_defs)

section \<open>Decoded instructions are well typed\<close>

text \<open>
  The immediates of a format as integers, and the fields a format does not have: they are 0, except
  that the decoder fills in \<open>rd\<close> of a store with the bits of the word, the low bits of the immediate.
\<close>

definition imm_typed :: "instruction_format_t \<Rightarrow> u32 \<Rightarrow> bool" where
  "imm_typed f v \<longleftrightarrow>
    (case f of
       INSTRUCTION_FORMAT_I \<Rightarrow> - 2048 \<le> sint v \<and> sint v < 2048
     | INSTRUCTION_FORMAT_S \<Rightarrow> - 2048 \<le> sint v \<and> sint v < 2048
     | INSTRUCTION_FORMAT_B \<Rightarrow> - 4096 \<le> sint v \<and> sint v < 4096 \<and> even (sint v)
     | INSTRUCTION_FORMAT_U \<Rightarrow> 4096 dvd sint v
     | INSTRUCTION_FORMAT_J \<Rightarrow> - (2 ^ 20) \<le> sint v \<and> sint v < 2 ^ 20 \<and> even (sint v)
     | _ \<Rightarrow> v = 0)"

definition instruction_typed :: "decoded_instruction_t \<Rightarrow> bool" where
  "instruction_typed di \<longleftrightarrow> valid di \<and> format di = rv32_format (op di) \<and> imm_typed (format di) (imm di)
     \<and> (case format di of
          INSTRUCTION_FORMAT_I \<Rightarrow> rs2 di = 0
        | INSTRUCTION_FORMAT_S \<Rightarrow> rd di = ucast (take_bit 5 (imm di))
        | INSTRUCTION_FORMAT_B \<Rightarrow> rd di = 0
        | INSTRUCTION_FORMAT_U \<Rightarrow> rs1 di = 0 \<and> rs2 di = 0
        | INSTRUCTION_FORMAT_J \<Rightarrow> rs1 di = 0 \<and> rs2 di = 0
        | _ \<Rightarrow> True)"

lemma sint_range:
  fixes v :: u32
  assumes "signed_take_bit k v = v" "k < 32"
  shows "- (2 ^ k) \<le> sint v" "sint v < 2 ^ k"
proof -
  have "sint v = signed_take_bit k (sint v)"
  proof (rule bit_eqI)
    fix n
    from arg_cong [OF assms(1), of "\<lambda>x. bit x (min n 31)"] assms(2)
    have "bit v (min n 31) = bit v (min (min n 31) k)" by (simp add: bit_signed_take_bit_iff min_less_iff_disj min.commute)
    with assms(2) show "bit (sint v) n \<longleftrightarrow> bit (signed_take_bit k (sint v)) n"
      by (simp add: bit_signed_iff bit_signed_take_bit_iff min.commute min.left_commute min.assoc)
  qed
  then show "- (2 ^ k) \<le> sint v" "sint v < 2 ^ k"
    by (metis signed_take_bit_int_greater_eq_minus_exp, metis signed_take_bit_int_less_exp)
qed

lemma sint_dvd:
  fixes v :: u32
  assumes "take_bit k v = 0" "k \<le> 32"
  shows "2 ^ k dvd sint v"
proof -
  have "bit (take_bit k v) n = False" for n using assms(1) by simp
  then have "take_bit k (sint v) = 0"
    using assms(2) by (intro bit_eqI) (auto simp: bit_take_bit_iff bit_signed_iff)
  then show ?thesis by (simp add: take_bit_eq_0_iff)
qed

lemma imm_fields_sign:
  "signed_take_bit 11 (get_imm_i w) = get_imm_i w" "signed_take_bit 11 (get_imm_s w) = get_imm_s w"
  "signed_take_bit 12 (get_imm_b w) = get_imm_b w" "signed_take_bit 20 (get_imm_j w) = get_imm_j w"
  "signed_take_bit 11 (ucast (get_rs2 w) :: u32) = ucast (get_rs2 w)"
  by (rule bit_eq32I; simp add: get_imm_i_def get_imm_s_def get_imm_b_def get_imm_j_def
      get_field_defs bit_simps)+

lemma imm_fields_even:
  "even (sint (get_imm_b w))" "even (sint (get_imm_j w))" "4096 dvd sint (get_imm_u w)"
proof -
  have "\<not> bit (sx n (v AND NOT 1)) 0" for n v by (simp add: sx_def bit_simps)
  from this [of 13 "get_imm_b w"] this [of 21 "get_imm_j w"]
  have "\<not> bit (get_imm_b w) 0" "\<not> bit (get_imm_j w) 0"
    by (metis imm_b_asm asm_b_get, metis imm_j_asm asm_j_get)
  moreover have "even (sint v) \<longleftrightarrow> \<not> bit v 0" for v :: u32
    using bit_signed_iff [of v 0] by (simp add: bit_0)
  ultimately show "even (sint (get_imm_b w))" "even (sint (get_imm_j w))" by simp_all
  have "take_bit 12 (get_imm_u w) = 0"
    by (rule bit_eq32I) (simp add: get_imm_u_def bit_simps)
  from sint_dvd [OF this] show "4096 dvd sint (get_imm_u w)" by simp
qed

lemma imm_fields_typed:
  "imm_typed INSTRUCTION_FORMAT_I (get_imm_i w)" "imm_typed INSTRUCTION_FORMAT_S (get_imm_s w)"
  "imm_typed INSTRUCTION_FORMAT_B (get_imm_b w)" "imm_typed INSTRUCTION_FORMAT_U (get_imm_u w)"
  "imm_typed INSTRUCTION_FORMAT_J (get_imm_j w)" "imm_typed INSTRUCTION_FORMAT_I (ucast (get_rs2 w))"
  "imm_typed INSTRUCTION_FORMAT_I 0" "imm_typed INSTRUCTION_FORMAT_I 1" "imm_typed INSTRUCTION_FORMAT_R 0"
  using imm_fields_sign [of w, THEN sint_range(1)] imm_fields_sign [of w, THEN sint_range(2)]
    imm_fields_even [of w]
  by (simp_all add: imm_typed_def)

lemma rd_of_store: "get_rd w = ucast (take_bit 5 (get_imm_s w))"
  by (rule bit_word_eqI) (auto simp: get_imm_s_def get_field_defs bit_simps)

lemma decode_typed_lemma:
  "op (rve_decode_instruction w) = INSTRUCTION_OP_UNKNOWN \<or> instruction_typed (rve_decode_instruction w)"
  by (cases w rule: opcode_cases)
    (simp_all add: decode_dispatch decode_unknown_opcode decode_format_defs instruction_typed_def rv32_format_def
      imm_fields_typed rd_of_store)

text \<open>
  C26 (type): what the decoder returns is well typed. For every word the three register indices are
  below 32, so every access the hart makes to its register file is inside the array; and when the
  operation is known, the instruction is valid, has the format of its operation and an immediate of that
  format: a 12-bit, 13-bit or 21-bit signed integer, even for branches and jumps, or a multiple of 4096;
  register fields the format does not have are 0, but for rd of a store.
\<close>

theorem decode_well_typed:
  "let di = rve_decode_instruction w
   in unat (rd di) < 32 \<and> unat (rs1 di) < 32 \<and> unat (rs2 di) < 32
      \<and> (op di = INSTRUCTION_OP_UNKNOWN \<or> instruction_typed di)"
  using decode_typed_lemma [of w] by (simp add: decode_regs_lemma Let_def)

end
