(* ===== verification/Rve_Bus.thy ===== *)
theory Rve_Bus
  imports Rve_Prelude
begin

text \<open>
  The address-mapped bus: include/rve/bus.h, include/rve/peripherals/peripheral.h, src/bus.c
  and src/peripheral.c. A device is a context pointer and a table of operations; the bus is
  generic in the type \<open>'w\<close> of what the operations change (the devices' memory and the host
  side of the emulator), so nothing here depends on which devices exist. The messages to
  stderr are not modelled.

  The file ends with the interface the hart relies on, as two locales: \<open>bus_world\<close> is what
  the devices promise slot by slot, \<open>safe_bus\<close> what the bus as a whole then promises.
\<close>

section \<open>Types\<close>

text \<open>\<open>void *ctx\<close>: \<open>None\<close> is NULL, \<open>Some l\<close> the address of a device's context.\<close>

type_synonym ctx_ptr = "nat option"

text \<open>
  The table of operations (the vtable); an operation that is not supported is NULL, that is
  \<open>None\<close>. A read returns \<open>None\<close> for \<open>false\<close> and \<open>Some v\<close> for \<open>true\<close> with \<open>*result = v\<close>; the
  outer option of every operation is \<open>None\<close> when its behaviour is undefined.
\<close>

record 'w peripheral_ops_t =
  init_fn :: "(ctx_ptr \<Rightarrow> 'w \<Rightarrow> (bool \<times> 'w) option) option"
  deinit_fn :: "(ctx_ptr \<Rightarrow> 'w \<Rightarrow> (bool \<times> 'w) option) option"
  read_fn :: "(ctx_ptr \<Rightarrow> u32 \<Rightarrow> u8 \<Rightarrow> 'w \<Rightarrow> (u32 option \<times> 'w) option) option"
  write_fn :: "(ctx_ptr \<Rightarrow> u32 \<Rightarrow> u32 \<Rightarrow> u8 \<Rightarrow> 'w \<Rightarrow> (bool \<times> 'w) option) option"
  tick_fn :: "(ctx_ptr \<Rightarrow> u64 \<Rightarrow> 'w \<Rightarrow> 'w option) option"

definition PERIPHERAL_NAME_MAX :: nat where "PERIPHERAL_NAME_MAX = 32"

record 'w peripheral_t =
  active :: bool
  name :: string
  addr_start :: u32
  addr_end :: u32
  ctx :: ctx_ptr
  ops :: "'w peripheral_ops_t option"
  config :: ctx_ptr

definition BUS_MAX_PERIPHERALS :: nat where "BUS_MAX_PERIPHERALS = 10"

text \<open>\<open>count\<close> is a \<open>size_t\<close>.\<close>

record 'w bus_t =
  peripherals :: "'w peripheral_t list"
  count :: u64

section \<open>Peripheral helpers (src/peripheral.c)\<close>

text \<open>
  \<open>peripheral_init\<close> fills in a block that malloc left uninitialised (\<open>fresh\<close>: its \<open>active\<close>
  and \<open>config\<close> keep whatever the block held). It asserts that malloc succeeded, and copies the
  name with an unbounded \<open>strcpy\<close>: a name of 32 characters or more overruns the array.
\<close>

definition peripheral_init ::
    "'w peripheral_t \<Rightarrow> u32 \<Rightarrow> u32 \<Rightarrow> ctx_ptr \<Rightarrow> 'w peripheral_ops_t option \<Rightarrow> string
      \<Rightarrow> 'w peripheral_t option" where
  "peripheral_init fresh start_a end_a cx tab nm =
    (if length nm < PERIPHERAL_NAME_MAX
     then Some (fresh\<lparr>addr_start := start_a, addr_end := end_a, ctx := cx, ops := tab, name := nm\<rparr>)
     else None)"

section \<open>The bus (src/bus.c)\<close>

definition bus_init :: "'w bus_t \<Rightarrow> 'w bus_t" where
  "bus_init bus =
    bus\<lparr>peripherals := map (\<lambda>p. p\<lparr>active := False\<rparr>) (peripherals bus), count := 0\<rparr>"

text \<open>The search loop: slots \<open>i\<close>, \<open>i + 1\<close>, ... up to the end of the array; \<open>None\<close> is -1.\<close>

fun find_slot_from :: "'w peripheral_t list \<Rightarrow> nat \<Rightarrow> nat option" where
  "find_slot_from [] i = None"
| "find_slot_from (p # ps) i = (if \<not> active p then Some i else find_slot_from ps (i + 1))"

definition bus_find_slot :: "'w bus_t \<Rightarrow> u32 \<Rightarrow> u32 \<Rightarrow> string \<Rightarrow> nat option" where
  "bus_find_slot bus start_a end_a nm = find_slot_from (peripherals bus) 0"

definition bus_add_peripheral ::
    "'w bus_t \<Rightarrow> u32 \<Rightarrow> u32 \<Rightarrow> ctx_ptr \<Rightarrow> 'w peripheral_ops_t option \<Rightarrow> string
      \<Rightarrow> bool \<times> 'w bus_t" where
  "bus_add_peripheral bus start_a end_a cx tab nm =
    (case bus_find_slot bus start_a end_a nm of
       None \<Rightarrow> (False, bus)
     | Some slot \<Rightarrow>
         (let p = (peripherals bus ! slot)
                \<lparr>active := True, addr_start := start_a, addr_end := end_a,
                 name := take (PERIPHERAL_NAME_MAX - 1) nm, ctx := cx, ops := tab\<rparr>
          in (True, bus\<lparr>peripherals := (peripherals bus)[slot := p], count := count bus + 1\<rparr>)))"

text \<open>The condition and the range of the matching loop.\<close>

definition covers :: "'w peripheral_t \<Rightarrow> u32 \<Rightarrow> bool" where
  "covers p addr \<longleftrightarrow> active p \<and> addr_start p \<le> addr \<and> addr < addr_end p"

definition addr_range :: "'w peripheral_t \<Rightarrow> u32" where
  "addr_range p = addr_end p - addr_start p"

fun best_from ::
    "'w peripheral_t list \<Rightarrow> nat \<Rightarrow> u32 \<Rightarrow> nat option \<Rightarrow> u32 \<Rightarrow> nat option" where
  "best_from [] i addr best_match smallest_range = best_match"
| "best_from (p # ps) i addr best_match smallest_range =
    (if covers p addr \<and> (best_match = None \<or> addr_range p < smallest_range)
     then best_from ps (i + 1) addr (Some i) (addr_range p)
     else best_from ps (i + 1) addr best_match smallest_range)"

text \<open>The pointer into the slot array is the slot's index.\<close>

definition bus_get_peripheral :: "'w bus_t \<Rightarrow> u32 \<Rightarrow> nat option" where
  "bus_get_peripheral bus addr = best_from (peripherals bus) 0 addr None 0xFFFFFFFF"

definition bus_read :: "'w bus_t \<Rightarrow> u32 \<Rightarrow> u8 \<Rightarrow> 'w \<Rightarrow> (u32 option \<times> 'w) option" where
  "bus_read bus addr size_bits w =
    (case bus_get_peripheral bus addr of
       None \<Rightarrow> Some (None, w)
     | Some i \<Rightarrow>
         (let p = peripherals bus ! i
          in do {
               tab \<leftarrow> ops p;
               case read_fn tab of
                 None \<Rightarrow> Some (None, w)
               | Some f \<Rightarrow> f (ctx p) addr size_bits w
             }))"

definition bus_write :: "'w bus_t \<Rightarrow> u32 \<Rightarrow> u32 \<Rightarrow> u8 \<Rightarrow> 'w \<Rightarrow> (bool \<times> 'w) option" where
  "bus_write bus addr data size_bits w =
    (case bus_get_peripheral bus addr of
       None \<Rightarrow> Some (False, w)
     | Some i \<Rightarrow>
         (let p = peripherals bus ! i
          in do {
               tab \<leftarrow> ops p;
               case write_fn tab of
                 None \<Rightarrow> Some (False, w)
               | Some f \<Rightarrow> f (ctx p) addr data size_bits w
             }))"

section \<open>Slots\<close>

lemma find_slot_from_Some:
  "find_slot_from ps i = Some k \<longleftrightarrow>
     (\<exists>j < length ps. k = i + j \<and> \<not> active (ps ! j) \<and> (\<forall>m < j. active (ps ! m)))"
proof (induction ps arbitrary: i)
  case (Cons p ps)
  show ?case
  proof (cases "active p")
    case True
    have "(\<exists>j < length (p # ps). k = i + j \<and> \<not> active ((p # ps) ! j) \<and> (\<forall>m < j. active ((p # ps) ! m)))
      \<longleftrightarrow> (\<exists>j < length ps. k = i + Suc j \<and> \<not> active (ps ! j) \<and> (\<forall>m < j. active (ps ! m)))"
      using True by (simp add: Ex_less_Suc2 All_less_Suc2)
    with True show ?thesis by (simp add: Cons.IH)
  next
    case False
    then show ?thesis by (auto simp: Ex_less_Suc2 All_less_Suc2)
  qed
qed simp

lemma find_slot_from_None: "find_slot_from ps i = None \<longleftrightarrow> (\<forall>p \<in> set ps. active p)"
  by (induction ps arbitrary: i) auto

lemma bus_find_slot_Some:
  "bus_find_slot bus a b n = Some k \<longleftrightarrow>
     k < length (peripherals bus) \<and> \<not> active (peripherals bus ! k)
     \<and> (\<forall>m < k. active (peripherals bus ! m))"
  by (auto simp: bus_find_slot_def find_slot_from_Some)

lemma bus_find_slot_None:
  "bus_find_slot bus a b n = None \<longleftrightarrow> (\<forall>p \<in> set (peripherals bus). active p)"
  by (simp add: bus_find_slot_def find_slot_from_None)

lemma bus_add_length:
  "bus_add_peripheral bus a b c t n = (r, bus') \<Longrightarrow>
     length (peripherals bus') = length (peripherals bus)"
  by (auto simp: bus_add_peripheral_def Let_def split: option.splits)

lemma bus_add_set:
  "bus_add_peripheral bus a b c t n = (r, bus') \<Longrightarrow> p \<in> set (peripherals bus') \<Longrightarrow>
     p \<in> set (peripherals bus) \<or>
     r \<and> active p \<and> addr_start p = a \<and> addr_end p = b \<and> ctx p = c \<and> ops p = t"
  by (auto simp: bus_add_peripheral_def Let_def bus_find_slot_Some
      split: option.splits dest!: set_update_subset_insert [THEN subsetD])

section \<open>The best match\<close>

text \<open>Slot \<open>k\<close> is the one the bus should pick: it covers, no slot that covers is smaller, and
  no earlier one is as small.\<close>

definition best_slot :: "'w peripheral_t list \<Rightarrow> u32 \<Rightarrow> nat \<Rightarrow> bool" where
  "best_slot ps addr k \<longleftrightarrow> k < length ps \<and> covers (ps ! k) addr
     \<and> (\<forall>j < length ps. covers (ps ! j) addr \<longrightarrow>
          addr_range (ps ! k) \<le> addr_range (ps ! j)
          \<and> (j < k \<longrightarrow> addr_range (ps ! k) < addr_range (ps ! j)))"

lemma best_slot_unique: "best_slot ps addr i \<Longrightarrow> best_slot ps addr j \<Longrightarrow> i = j"
  by (metis best_slot_def leD linorder_neqE_nat)

text \<open>
  The loop invariant: after the slots \<open>done\<close>, \<open>best_match\<close> is the best of them and
  \<open>smallest_range\<close> its range.
\<close>

definition best_inv :: "'w peripheral_t list \<Rightarrow> u32 \<Rightarrow> nat option \<Rightarrow> u32 \<Rightarrow> bool" where
  "best_inv seen addr best_match smallest_range \<longleftrightarrow>
     (case best_match of
        None \<Rightarrow> (\<forall>p \<in> set seen. \<not> covers p addr)
      | Some k \<Rightarrow> best_slot seen addr k \<and> smallest_range = addr_range (seen ! k))"

lemma best_inv_step:
  assumes "best_inv seen addr b s"
  shows "best_inv (seen @ [p]) addr
    (if covers p addr \<and> (b = None \<or> addr_range p < s) then Some (length seen) else b)
    (if covers p addr \<and> (b = None \<or> addr_range p < s) then addr_range p else s)"
  using assms
  by (cases b)
    (force simp: best_inv_def best_slot_def nth_append less_Suc_eq all_set_conv_all_nth not_less)+

lemma best_from_inv:
  "best_inv seen addr b s \<Longrightarrow>
   \<exists>s'. best_inv (seen @ ps) addr (best_from ps (length seen) addr b s) s'"
proof (induction ps arbitrary: seen b s)
  case (Cons p ps)
  from Cons.IH [OF best_inv_step [OF Cons.prems, of p]] show ?case
    by (auto split: if_splits)
qed auto

lemma bus_get_peripheral_None:
  "bus_get_peripheral bus addr = None \<longleftrightarrow> (\<forall>p \<in> set (peripherals bus). \<not> covers p addr)"
  and bus_get_peripheral_Some:
  "bus_get_peripheral bus addr = Some k \<longleftrightarrow> best_slot (peripherals bus) addr k"
proof -
  obtain s where inv: "best_inv (peripherals bus) addr (bus_get_peripheral bus addr) s"
    using best_from_inv [of "[]" addr None "0xFFFFFFFF" "peripherals bus"]
    by (auto simp: bus_get_peripheral_def best_inv_def)
  then show "bus_get_peripheral bus addr = None \<longleftrightarrow> (\<forall>p \<in> set (peripherals bus). \<not> covers p addr)"
    by (auto simp: best_inv_def best_slot_def split: option.splits)
  show "bus_get_peripheral bus addr = Some k \<longleftrightarrow> best_slot (peripherals bus) addr k"
  proof (cases "bus_get_peripheral bus addr")
    case None
    with inv show ?thesis by (auto simp: best_inv_def best_slot_def)
  next
    case (Some i)
    with inv have "best_slot (peripherals bus) addr i" by (simp add: best_inv_def)
    with Some show ?thesis by (auto dest: best_slot_unique)
  qed
qed

lemma bus_get_peripheral_covers:
  assumes "bus_get_peripheral bus addr = Some k"
  shows "k < length (peripherals bus)" "covers (peripherals bus ! k) addr"
    "active (peripherals bus ! k)" "peripherals bus ! k \<in> set (peripherals bus)"
  using assms by (auto simp: bus_get_peripheral_Some best_slot_def covers_def)

section \<open>The interface of the bus\<close>

text \<open>
  What the devices promise: \<open>slot_ok w p\<close> says that, in the world \<open>w\<close>, slot \<open>p\<close> holds a
  device whose context is alive and of the type its operations expect. An access of the
  widths the hart uses, anywhere in the address space, is then defined and keeps every
  slot's promise.
\<close>

definition bus_ok :: "('w \<Rightarrow> 'w peripheral_t \<Rightarrow> bool) \<Rightarrow> 'w bus_t \<Rightarrow> 'w \<Rightarrow> bool" where
  "bus_ok slot_ok bus w \<longleftrightarrow> (\<forall>p \<in> set (peripherals bus). active p \<longrightarrow> slot_ok w p)"

definition access_size :: "u8 \<Rightarrow> bool" where
  "access_size sz \<longleftrightarrow> sz \<in> {8, 16, 32}"

locale bus_world =
  fixes slot_ok :: "'w \<Rightarrow> 'w peripheral_t \<Rightarrow> bool"
  assumes ops_not_null: "slot_ok w p \<Longrightarrow> \<exists>tab. ops p = Some tab"
    and read_defined: "slot_ok w p \<Longrightarrow> ops p = Some tab \<Longrightarrow> read_fn tab = Some f \<Longrightarrow>
      access_size sz \<Longrightarrow> \<exists>r w'. f (ctx p) addr sz w = Some (r, w')"
    and write_defined: "slot_ok w p \<Longrightarrow> ops p = Some tab \<Longrightarrow> write_fn tab = Some g \<Longrightarrow>
      access_size sz \<Longrightarrow> \<exists>b w'. g (ctx p) addr data sz w = Some (b, w')"
    and read_keeps: "slot_ok w p \<Longrightarrow> ops p = Some tab \<Longrightarrow> read_fn tab = Some f \<Longrightarrow>
      f (ctx p) addr sz w = Some (r, w') \<Longrightarrow> slot_ok w q \<Longrightarrow> slot_ok w' q"
    and write_keeps: "slot_ok w p \<Longrightarrow> ops p = Some tab \<Longrightarrow> write_fn tab = Some g \<Longrightarrow>
      g (ctx p) addr data sz w = Some (b, w') \<Longrightarrow> slot_ok w q \<Longrightarrow> slot_ok w' q"
begin

abbreviation all_ok :: "'w bus_t \<Rightarrow> 'w \<Rightarrow> bool" where
  "all_ok \<equiv> bus_ok slot_ok"

lemma bus_ok_selected:
  assumes "all_ok bus w" "bus_get_peripheral bus addr = Some i"
  shows "slot_ok w (peripherals bus ! i)"
  using assms by (auto simp: bus_ok_def dest: bus_get_peripheral_covers)

lemma bus_read_ok:
  assumes "all_ok bus w" "access_size sz"
  shows "\<exists>r w'. bus_read bus addr sz w = Some (r, w') \<and> all_ok bus w'"
proof (cases "bus_get_peripheral bus addr")
  case (Some i)
  from bus_ok_selected [OF assms(1) Some] have ok: "slot_ok w (peripherals bus ! i)" .
  then obtain tab where tab: "ops (peripherals bus ! i) = Some tab"
    using ops_not_null by blast
  show ?thesis
  proof (cases "read_fn tab")
    case None
    with Some tab assms show ?thesis by (simp add: bus_read_def)
  next
    case f: (Some f)
    from read_defined [OF ok tab f assms(2)] obtain r w' where
      "f (ctx (peripherals bus ! i)) addr sz w = Some (r, w')" by blast
    with Some tab f assms show ?thesis
      by (auto simp: bus_read_def bus_ok_def intro: read_keeps [OF ok tab f])
  qed
qed (use assms in \<open>simp add: bus_read_def\<close>)

lemma bus_write_ok:
  assumes "all_ok bus w" "access_size sz"
  shows "\<exists>r w'. bus_write bus addr data sz w = Some (r, w') \<and> all_ok bus w'"
proof (cases "bus_get_peripheral bus addr")
  case (Some i)
  from bus_ok_selected [OF assms(1) Some] have ok: "slot_ok w (peripherals bus ! i)" .
  then obtain tab where tab: "ops (peripherals bus ! i) = Some tab"
    using ops_not_null by blast
  show ?thesis
  proof (cases "write_fn tab")
    case None
    with Some tab assms show ?thesis by (auto simp: bus_write_def)
  next
    case g: (Some g)
    from write_defined [OF ok tab g assms(2)] obtain r w' where
      "g (ctx (peripherals bus ! i)) addr data sz w = Some (r, w')" by blast
    with Some tab g assms show ?thesis
      by (auto simp: bus_write_def bus_ok_def intro: write_keeps [OF ok tab g])
  qed
qed (use assms in \<open>auto simp: bus_write_def\<close>)

lemma bus_init_ok: "all_ok (bus_init bus) w"
  by (simp add: bus_ok_def bus_init_def)

lemma bus_add_ok:
  assumes "bus_add_peripheral bus a b c t n = (r, bus')" "all_ok bus w"
    and "\<And>p. active p \<Longrightarrow> addr_start p = a \<Longrightarrow> addr_end p = b \<Longrightarrow> ctx p = c \<Longrightarrow> ops p = t \<Longrightarrow>
      slot_ok w p"
  shows "all_ok bus' w"
  using assms by (auto simp: bus_ok_def dest: bus_add_set [OF assms(1)])

end

text \<open>
  What the hart needs of the bus it is attached to, seen as two functions on the world:
  accesses of its three widths never go wrong and keep the world good.
\<close>

locale safe_bus =
  fixes world_ok :: "'w \<Rightarrow> bool"
    and rd_bus :: "u32 \<Rightarrow> u8 \<Rightarrow> 'w \<Rightarrow> (u32 option \<times> 'w) option"
    and wr_bus :: "u32 \<Rightarrow> u32 \<Rightarrow> u8 \<Rightarrow> 'w \<Rightarrow> (bool \<times> 'w) option"
  assumes rd_ok: "world_ok w \<Longrightarrow> access_size sz \<Longrightarrow>
      \<exists>r w'. rd_bus addr sz w = Some (r, w') \<and> world_ok w'"
    and wr_ok: "world_ok w \<Longrightarrow> access_size sz \<Longrightarrow>
      \<exists>b w'. wr_bus addr data sz w = Some (b, w') \<and> world_ok w'"

sublocale bus_world \<subseteq> safe: safe_bus "all_ok bus" "bus_read bus" "bus_write bus" for bus
  by unfold_locales (simp_all add: bus_read_ok bus_write_ok)

section \<open>Properties of the bus\<close>

text \<open>
  C23 (equivalence): an address is dispatched to the active slot that covers it and has the
  smallest range, the lowest slot when several ranges are equally small; this includes ranges
  that wrap (an \<open>addr_end\<close> of 0 covers nothing) and overlapping ones, whatever the order of
  registration.
\<close>

theorem bus_dispatches_to_best_match:
  "bus_get_peripheral bus addr = Some k \<longleftrightarrow> best_slot (peripherals bus) addr k"
  by (rule bus_get_peripheral_Some)

text \<open>
  An access that no active slot covers reaches no device: a read and a write both
  report failure and leave the world unchanged.
\<close>

theorem bus_unmapped_access_fails:
  assumes "\<forall>p \<in> set (peripherals bus). \<not> covers p addr"
  shows "bus_read bus addr sz w = Some (None, w) \<and> bus_write bus addr data sz w = Some (False, w)"
  using assms [folded bus_get_peripheral_None] by (simp add: bus_read_def bus_write_def)

lemma bus_unmapped_access_fails_witness:
  "bus_read (bus_init \<lparr>peripherals = [], count = 3\<rparr>) 0x80000000 32 (7::nat) = Some (None, 7)"
  using bus_unmapped_access_fails [of "bus_init \<lparr>peripherals = [], count = 3\<rparr>" "0x80000000" 32 "7::nat"]
  by (simp add: bus_init_def)

text \<open>
  Registering a device fails exactly when all slots are taken, and otherwise
  puts it, with its name cut to 31 characters, in the first free slot and changes no other slot;
  the ranges already registered are never consulted, so an overlapping registration succeeds.
\<close>

theorem bus_add_uses_first_free_slot:
  "bus_add_peripheral bus a b c t n =
     (if list_all active (peripherals bus) then (False, bus)
      else let k = (LEAST i. i < length (peripherals bus) \<and> \<not> active (peripherals bus ! i));
               p = peripherals bus ! k
           in (True, bus\<lparr>peripherals := (peripherals bus)
                  [k := p\<lparr>active := True, addr_start := a, addr_end := b, name := take 31 n,
                        ctx := c, ops := t\<rparr>],
                count := count bus + 1\<rparr>))"
proof (cases "list_all active (peripherals bus)")
  case True
  then have "bus_find_slot bus a b n = None" by (simp add: bus_find_slot_None list_all_iff)
  with True show ?thesis by (simp add: bus_add_peripheral_def)
next
  case False
  then obtain k where k: "bus_find_slot bus a b n = Some k"
    using bus_find_slot_None [of bus a b n]
    by (cases "bus_find_slot bus a b n") (auto simp: list_all_iff)
  then have "(LEAST i. i < length (peripherals bus) \<and> \<not> active (peripherals bus ! i)) = k"
    by (intro Least_equality) (auto simp: bus_find_slot_Some not_less [symmetric])
  with k False show ?thesis
    by (simp add: bus_add_peripheral_def PERIPHERAL_NAME_MAX_def Let_def)
qed

end
