(* ===== verification/Rve_Hart.thy ===== *)
theory Rve_Hart
  imports Rve_Encoding Rve_Bus
begin

unbundle bit_operations_syntax

text \<open>
  The hart: include/rve/hart.h and src/hart.c. One call of \<open>hart_step\<close> fetches, decodes,
  executes and commits one instruction. The C function's local variables are the record
  \<open>exec_t\<close>; \<open>goto commit\<close> is leaving \<open>execute\<close> with \<open>pending_trap\<close> set. The register file is an
  array: reading or writing an index outside it is undefined behaviour (\<open>None\<close>). The pointer
  \<open>hart->bus\<close> is passed as the argument \<open>bus\<close>, and what a bus access changes is the world.
\<close>

section \<open>State (include/rve/hart.h)\<close>

record csr_file_t =
  mstatus :: u32
  mtvec :: u32
  mepc :: u32
  mcause :: u32
  mtval :: u32
  mscratch :: u32

text \<open>
  \<open>trap_t\<close> is a C enumeration with two pairs of equal enumerators, so it is a number here.
\<close>

type_synonym trap_t = int

abbreviation (input) TRAP_NONE :: trap_t where "TRAP_NONE \<equiv> -1"
abbreviation (input) TRAP_INSTR_MISALIGNED :: trap_t where "TRAP_INSTR_MISALIGNED \<equiv> 0"
abbreviation (input) TRAP_INSTR_ACCESS_FAULT :: trap_t where "TRAP_INSTR_ACCESS_FAULT \<equiv> 1"
abbreviation (input) TRAP_ILLEGAL_INSTR :: trap_t where "TRAP_ILLEGAL_INSTR \<equiv> 2"
abbreviation (input) TRAP_LOAD_MISALIGNED :: trap_t where "TRAP_LOAD_MISALIGNED \<equiv> 4"
abbreviation (input) TRAP_LOAD_ACCESS_FAULT :: trap_t where "TRAP_LOAD_ACCESS_FAULT \<equiv> 5"
abbreviation (input) TRAP_STORE_MISALIGNED :: trap_t where "TRAP_STORE_MISALIGNED \<equiv> 6"
abbreviation (input) TRAP_STORE_ACCESS_FAULT :: trap_t where "TRAP_STORE_ACCESS_FAULT \<equiv> 7"
abbreviation (input) TRAP_ECALL_U :: trap_t where "TRAP_ECALL_U \<equiv> 8"
abbreviation (input) TRAP_ECALL_M :: trap_t where "TRAP_ECALL_M \<equiv> 11"
abbreviation (input) TRAP_INT_SW :: trap_t where "TRAP_INT_SW \<equiv> 3"
abbreviation (input) TRAP_INT_TIMER :: trap_t where "TRAP_INT_TIMER \<equiv> 7"
abbreviation (input) TRAP_INT_EXTERNAL :: trap_t where "TRAP_INT_EXTERNAL \<equiv> 11"

definition TRAP_IS_INTERRUPT :: "trap_t \<Rightarrow> bool" where
  "TRAP_IS_INTERRUPT c \<longleftrightarrow> c = TRAP_INT_SW \<or> c = TRAP_INT_TIMER \<or> c = TRAP_INT_EXTERNAL"

record hart_retire_t =
  r_pc :: u32
  r_next_pc :: u32
  r_instruction :: u32
  r_di :: decoded_instruction_t
  rd_written :: bool
  r_rd :: reg_t
  rd_value :: u32
  mem_read :: bool
  mem_read_addr :: u32
  mem_read_value :: u32
  mem_read_size :: u8
  mem_write :: bool
  mem_write_addr :: u32
  mem_write_value :: u32
  mem_write_size :: u8
  r_trap :: trap_t

definition XLEN :: nat where "XLEN = 32"

record hart_t =
  gpr :: "u32 list"
  csr :: csr_file_t
  pc :: u32

text \<open>\<open>memset(&r, 0, sizeof r)\<close>; the zero of \<open>trap_t\<close> is the instruction-misaligned cause.\<close>

definition zero_retire :: hart_retire_t where
  "zero_retire = \<lparr>r_pc = 0, r_next_pc = 0, r_instruction = 0, r_di = zero_decoded,
     rd_written = False, r_rd = 0, rd_value = 0, mem_read = False, mem_read_addr = 0,
     mem_read_value = 0, mem_read_size = 0, mem_write = False, mem_write_addr = 0,
     mem_write_value = 0, mem_write_size = 0, r_trap = 0\<rparr>"

definition zero_csr :: csr_file_t where
  "zero_csr = \<lparr>mstatus = 0, mtvec = 0, mepc = 0, mcause = 0, mtval = 0, mscratch = 0\<rparr>"

section \<open>Registers\<close>

definition reg_read :: "hart_t \<Rightarrow> reg_t \<Rightarrow> u32 option" where
  "reg_read h i = (if unat i < length (gpr h) then Some (gpr h ! unat i) else None)"

definition reg_write :: "hart_t \<Rightarrow> reg_t \<Rightarrow> u32 \<Rightarrow> hart_t option" where
  "reg_write h i v =
    (if unat i < length (gpr h) then Some (h\<lparr>gpr := (gpr h)[unat i := v]\<rparr>) else None)"

section \<open>Traps (src/hart.c)\<close>

definition sext :: "u32 \<Rightarrow> nat \<Rightarrow> u32" where
  "sext value bits = sar (32 - bits) (push_bit (32 - bits) value)"

definition trap_tval :: "trap_t \<Rightarrow> u32 \<Rightarrow> u32 \<Rightarrow> u32 \<Rightarrow> u32 \<Rightarrow> u32" where
  "trap_tval cause pc_val instruction mem_addr bad_pc =
    (if cause = TRAP_INSTR_MISALIGNED \<or> cause = TRAP_INSTR_ACCESS_FAULT then bad_pc
     else if cause = TRAP_LOAD_MISALIGNED \<or> cause = TRAP_LOAD_ACCESS_FAULT
          \<or> cause = TRAP_STORE_MISALIGNED \<or> cause = TRAP_STORE_ACCESS_FAULT then mem_addr
     else if cause = TRAP_ILLEGAL_INSTR then instruction
     else 0)"

text \<open>\<open>commit_trap\<close> returns the new program counter; it does not assign it.\<close>

definition commit_trap :: "hart_t \<Rightarrow> trap_t \<Rightarrow> u32 \<Rightarrow> u32 \<times> hart_t" where
  "commit_trap h cause tval =
    (let is_int = TRAP_IS_INTERRUPT cause;
         c = (csr h)\<lparr>mepc := pc h, mtval := tval,
               mcause := (if is_int then 0x80000000 OR word_of_int cause else word_of_int cause)\<rparr>;
         mie = drop_bit 3 (mstatus c) AND 1;
         c = c\<lparr>mstatus := (mstatus c AND NOT 0x88) OR push_bit 7 mie\<rparr>;
         c = c\<lparr>mstatus := mstatus c OR push_bit 11 3\<rparr>;
         base = mtvec c AND NOT 3;
         mode = mtvec c AND 3
     in (if mode = 1 \<and> is_int then base + (word_of_int cause AND 0x7FFFFFFF) * 4 else base,
         h\<lparr>csr := c\<rparr>))"

definition hart_take_trap :: "hart_t \<Rightarrow> trap_t \<Rightarrow> u32 \<Rightarrow> hart_t" where
  "hart_take_trap h cause tval =
    (let (new_pc, h') = commit_trap h cause tval in h'\<lparr>pc := new_pc\<rparr>)"

section \<open>CSR operations\<close>

datatype csr_op_t = CSR_RW | CSR_RS | CSR_RC

text \<open>\<open>uint32_t *reg\<close> always points to a field of \<open>hart->csr\<close>: the pointer is the field's name.\<close>

datatype csr_field = F_mstatus | F_mtvec | F_mepc | F_mcause | F_mtval | F_mscratch

fun csr_load :: "csr_file_t \<Rightarrow> csr_field \<Rightarrow> u32" where
  "csr_load c F_mstatus = mstatus c"
| "csr_load c F_mtvec = mtvec c"
| "csr_load c F_mepc = mepc c"
| "csr_load c F_mcause = mcause c"
| "csr_load c F_mtval = mtval c"
| "csr_load c F_mscratch = mscratch c"

fun csr_store :: "csr_file_t \<Rightarrow> csr_field \<Rightarrow> u32 \<Rightarrow> csr_file_t" where
  "csr_store c F_mstatus v = c\<lparr>mstatus := v\<rparr>"
| "csr_store c F_mtvec v = c\<lparr>mtvec := v\<rparr>"
| "csr_store c F_mepc v = c\<lparr>mepc := v\<rparr>"
| "csr_store c F_mcause v = c\<lparr>mcause := v\<rparr>"
| "csr_store c F_mtval v = c\<lparr>mtval := v\<rparr>"
| "csr_store c F_mscratch v = c\<lparr>mscratch := v\<rparr>"

definition csr_access ::
    "hart_t \<Rightarrow> decoded_instruction_t \<Rightarrow> csr_field \<Rightarrow> csr_op_t \<Rightarrow> bool \<Rightarrow> (trap_t \<times> hart_t) option" where
  "csr_access h di reg operation use_uimm =
    do {
      operand \<leftarrow> (if use_uimm then Some (ucast (rs1 di)) else reg_read h (rs1 di));
      let old_val = csr_load (csr h) reg;
      let new_val = (case operation of
                       CSR_RW \<Rightarrow> operand
                     | CSR_RS \<Rightarrow> old_val OR operand
                     | CSR_RC \<Rightarrow> old_val AND NOT operand);
      h1 \<leftarrow> (if rd di \<noteq> 0 then reg_write h (rd di) old_val else Some h);
      let h2 = (if rs1 di \<noteq> 0 then h1\<lparr>csr := csr_store (csr h1) reg new_val\<rparr> else h1);
      Some (TRAP_NONE, h2)
    }"

text \<open>A CSR that reads as a constant and ignores writes.\<close>

definition csr_constant ::
    "hart_t \<Rightarrow> decoded_instruction_t \<Rightarrow> u32 \<Rightarrow> (trap_t \<times> hart_t) option" where
  "csr_constant h di v =
    do {
      h1 \<leftarrow> (if rd di \<noteq> 0 then reg_write h (rd di) v else Some h);
      Some (TRAP_NONE, h1)
    }"

definition csr_dispatch ::
    "hart_t \<Rightarrow> decoded_instruction_t \<Rightarrow> csr_op_t \<Rightarrow> bool \<Rightarrow> (trap_t \<times> hart_t) option" where
  "csr_dispatch h di operation use_uimm =
    (let addr = drop_bit 20 (original_instruction di)
     in if addr = 0xF11 \<or> addr = 0xF12 \<or> addr = 0xF13 \<or> addr = 0xF14 then csr_constant h di 0
        else if addr = 0x301 then csr_constant h di 0x40001100
        else if addr = 0x302 \<or> addr = 0x303 \<or> addr = 0x304 \<or> addr = 0x344 \<or> addr = 0x180
             \<or> addr = 0x744 \<or> addr = 0x747
             \<or> addr = 0x3A0 \<or> addr = 0x3A1 \<or> addr = 0x3A2 \<or> addr = 0x3A3
             \<or> addr = 0x3B0 \<or> addr = 0x3B1 \<or> addr = 0x3B2 \<or> addr = 0x3B3 then csr_constant h di 0
        else if addr = 0x300 then csr_access h di F_mstatus operation use_uimm
        else if addr = 0x305 then csr_access h di F_mtvec operation use_uimm
        else if addr = 0x340 then csr_access h di F_mscratch operation use_uimm
        else if addr = 0x341 then csr_access h di F_mepc operation use_uimm
        else if addr = 0x342 then csr_access h di F_mcause operation use_uimm
        else if addr = 0x343 then csr_access h di F_mtval operation use_uimm
        else Some (TRAP_ILLEGAL_INSTR, h))"

section \<open>Execute-stage helpers\<close>

text \<open>The locals of \<open>hart_step\<close>: the hart itself, the record \<open>r\<close>, and the scalars.\<close>

record exec_t =
  hart_s :: hart_t
  ret_s :: hart_retire_t
  pending_trap :: trap_t
  next_pc :: u32
  mem_addr :: u32
  bad_pc :: u32

definition exec_branch :: "decoded_instruction_t \<Rightarrow> bool \<Rightarrow> exec_t \<Rightarrow> exec_t" where
  "exec_branch di cond s =
    (let target = pc (hart_s s) + sext (imm di) 13
     in if cond \<and> target AND 3 \<noteq> 0
        then s\<lparr>bad_pc := target, pending_trap := TRAP_INSTR_MISALIGNED\<rparr>
        else s\<lparr>next_pc := (if cond then target else pc (hart_s s) + 4),
               pending_trap := TRAP_NONE\<rparr>)"

definition exec_load ::
    "'w bus_t \<Rightarrow> decoded_instruction_t \<Rightarrow> u8 \<Rightarrow> bool \<Rightarrow> exec_t \<Rightarrow> 'w \<Rightarrow> (exec_t \<times> 'w) option" where
  "exec_load bus di size_bits sign_extend s w =
    do {
      a \<leftarrow> reg_read (hart_s s) (rs1 di);
      let addr = a + sext (imm di) 12;
      (res, w') \<leftarrow> bus_read bus addr size_bits w;
      case res of
        None \<Rightarrow> Some (s\<lparr>pending_trap := TRAP_LOAD_ACCESS_FAULT\<rparr>, w')
      | Some val \<Rightarrow>
          do {
            h' \<leftarrow> reg_write (hart_s s) (rd di) (if sign_extend then sext val (unat size_bits) else val);
            loaded \<leftarrow> reg_read h' (rd di);
            Some (s\<lparr>hart_s := h',
                    ret_s := (ret_s s)\<lparr>mem_read := True, mem_read_addr := addr,
                      mem_read_value := loaded, mem_read_size := size_bits\<rparr>,
                    mem_addr := addr, pending_trap := TRAP_NONE\<rparr>, w')
          }
    }"

definition exec_store ::
    "'w bus_t \<Rightarrow> decoded_instruction_t \<Rightarrow> u8 \<Rightarrow> u32 \<Rightarrow> exec_t \<Rightarrow> 'w \<Rightarrow> (exec_t \<times> 'w) option" where
  "exec_store bus di size_bits msk s w =
    do {
      a \<leftarrow> reg_read (hart_s s) (rs1 di);
      b \<leftarrow> reg_read (hart_s s) (rs2 di);
      let addr = a + sext (imm di) 12;
      let val = b AND msk;
      (res, w') \<leftarrow> bus_write bus addr val size_bits w;
      if \<not> res then Some (s\<lparr>pending_trap := TRAP_STORE_ACCESS_FAULT\<rparr>, w')
      else Some (s\<lparr>ret_s := (ret_s s)\<lparr>mem_write := True, mem_write_addr := addr,
                     mem_write_value := val, mem_write_size := size_bits\<rparr>,
                   mem_addr := addr, pending_trap := TRAP_NONE\<rparr>, w')
    }"

text \<open>The M extension, on the 64-bit products and the truncating signed division of C.\<close>

definition exec_mul :: "u32 \<Rightarrow> u32 \<Rightarrow> u32" where
  "exec_mul a b = ucast (scast a * scast b :: u64)"

definition exec_mulh :: "u32 \<Rightarrow> u32 \<Rightarrow> u32" where
  "exec_mulh a b = (let tmp = scast a * scast b :: u64 in ucast (drop_bit 32 tmp))"

definition exec_mulhsu :: "u32 \<Rightarrow> u32 \<Rightarrow> u32" where
  "exec_mulhsu a b = ucast (drop_bit 32 (scast a * ucast b :: u64))"

definition exec_mulhu :: "u32 \<Rightarrow> u32 \<Rightarrow> u32" where
  "exec_mulhu a b = ucast (drop_bit 32 (ucast a * ucast b :: u64))"

definition exec_div :: "u32 \<Rightarrow> u32 \<Rightarrow> u32" where
  "exec_div a b =
    (if b = 0 then 0xFFFFFFFF
     else if a = 0x80000000 \<and> b = -1 then 0x80000000
     else word_of_int (sint a sdiv sint b))"

definition exec_divu :: "u32 \<Rightarrow> u32 \<Rightarrow> u32" where
  "exec_divu a b = (if b = 0 then 0xFFFFFFFF else a div b)"

definition exec_rem :: "u32 \<Rightarrow> u32 \<Rightarrow> u32" where
  "exec_rem a b =
    (if b = 0 then a
     else if a = 0x80000000 \<and> b = -1 then 0
     else word_of_int (sint a smod sint b))"

definition exec_remu :: "u32 \<Rightarrow> u32 \<Rightarrow> u32" where
  "exec_remu a b = (if b = 0 then a else a mod b)"

text \<open>
  Three shapes that the cases of the switch share: \<open>gpr[rd] = v\<close>; \<open>gpr[rd] = f(gpr[rs1])\<close>;
  \<open>gpr[rd] = f(gpr[rs1], gpr[rs2])\<close>; and a branch on a comparison of the two registers.
\<close>

definition set_rd :: "decoded_instruction_t \<Rightarrow> u32 \<Rightarrow> exec_t \<Rightarrow> exec_t option" where
  "set_rd di v s = do { h' \<leftarrow> reg_write (hart_s s) (rd di) v; Some (s\<lparr>hart_s := h'\<rparr>) }"

definition op_imm :: "decoded_instruction_t \<Rightarrow> (u32 \<Rightarrow> u32) \<Rightarrow> exec_t \<Rightarrow> exec_t option" where
  "op_imm di f s = do { a \<leftarrow> reg_read (hart_s s) (rs1 di); set_rd di (f a) s }"

definition op_reg :: "decoded_instruction_t \<Rightarrow> (u32 \<Rightarrow> u32 \<Rightarrow> u32) \<Rightarrow> exec_t \<Rightarrow> exec_t option" where
  "op_reg di f s =
    do {
      a \<leftarrow> reg_read (hart_s s) (rs1 di);
      b \<leftarrow> reg_read (hart_s s) (rs2 di);
      set_rd di (f a b) s
    }"

definition op_branch ::
    "decoded_instruction_t \<Rightarrow> (u32 \<Rightarrow> u32 \<Rightarrow> bool) \<Rightarrow> exec_t \<Rightarrow> exec_t option" where
  "op_branch di cond s =
    do {
      a \<leftarrow> reg_read (hart_s s) (rs1 di);
      b \<leftarrow> reg_read (hart_s s) (rs2 di);
      Some (exec_branch di (cond a b) s)
    }"

text \<open>JAL and JALR once the target is known.\<close>

definition exec_jump :: "decoded_instruction_t \<Rightarrow> u32 \<Rightarrow> exec_t \<Rightarrow> exec_t option" where
  "exec_jump di target s =
    (if target AND 3 \<noteq> 0
     then Some (s\<lparr>bad_pc := target, pending_trap := TRAP_INSTR_MISALIGNED\<rparr>)
     else do {
       s' \<leftarrow> set_rd di (pc (hart_s s) + 4) s;
       Some (s'\<lparr>next_pc := target\<rparr>)
     })"

definition exec_csr ::
    "decoded_instruction_t \<Rightarrow> csr_op_t \<Rightarrow> bool \<Rightarrow> exec_t \<Rightarrow> exec_t option" where
  "exec_csr di operation use_uimm s =
    do {
      (t, h') \<leftarrow> csr_dispatch (hart_s s) di operation use_uimm;
      Some (s\<lparr>hart_s := h', pending_trap := t\<rparr>)
    }"

definition exec_ecall :: "exec_t \<Rightarrow> exec_t option" where
  "exec_ecall s =
    (let r = (ret_s s)\<lparr>r_trap := TRAP_ECALL_M, r_next_pc := pc (hart_s s) + 4\<rparr>
     in do {
          h1 \<leftarrow> reg_write (hart_s s) 0 0;
          Some (s\<lparr>ret_s := r, hart_s := h1\<lparr>pc := pc h1 + 4\<rparr>, pending_trap := TRAP_ECALL_M\<rparr>)
        })"

definition exec_mret :: "exec_t \<Rightarrow> exec_t" where
  "exec_mret s =
    (let c = csr (hart_s s);
         mpie = drop_bit 7 (mstatus c) AND 1;
         c' = c\<lparr>mstatus := (mstatus c AND NOT 0x8) OR push_bit 3 mpie\<rparr>;
         c' = c'\<lparr>mstatus := mstatus c' OR push_bit 7 1\<rparr>
     in s\<lparr>next_pc := mepc c, hart_s := (hart_s s)\<lparr>csr := c'\<rparr>\<rparr>)"

text \<open>A case of the switch that does not touch the world.\<close>

definition pure_case :: "exec_t option \<Rightarrow> 'w \<Rightarrow> (exec_t \<times> 'w) option" where
  "pure_case s w = map_option (\<lambda>s'. (s', w)) s"

section \<open>The switch of the execute stage\<close>

text \<open>The cases from ADDI to REMU: a value computed from registers and immediate goes to \<open>rd\<close>.\<close>

fun execute_int ::
    "decoded_instruction_t \<Rightarrow> instruction_op_t \<Rightarrow> exec_t \<Rightarrow> exec_t option" where
  "execute_int di INSTRUCTION_OP_ADDI s = op_imm di (\<lambda>a. a + sext (imm di) 12) s"
| "execute_int di INSTRUCTION_OP_SLTI s =
     op_imm di (\<lambda>a. c_bool (sint a < sint (sext (imm di) 12))) s"
| "execute_int di INSTRUCTION_OP_SLTIU s = op_imm di (\<lambda>a. c_bool (a < sext (imm di) 12)) s"
| "execute_int di INSTRUCTION_OP_XORI s = op_imm di (\<lambda>a. a XOR sext (imm di) 12) s"
| "execute_int di INSTRUCTION_OP_ORI s = op_imm di (\<lambda>a. a OR sext (imm di) 12) s"
| "execute_int di INSTRUCTION_OP_ANDI s = op_imm di (\<lambda>a. a AND sext (imm di) 12) s"
| "execute_int di INSTRUCTION_OP_SLLI s =
     op_imm di (\<lambda>a. push_bit (unat (imm di AND 0x1F)) a) s"
| "execute_int di INSTRUCTION_OP_SRLI s =
     op_imm di (\<lambda>a. drop_bit (unat (imm di AND 0x1F)) a) s"
| "execute_int di INSTRUCTION_OP_SRAI s = op_imm di (\<lambda>a. sar (unat (imm di AND 0x1F)) a) s"
| "execute_int di INSTRUCTION_OP_ADD s =
     op_reg di (\<lambda>a b. ucast (ucast a + ucast b :: u64)) s"
| "execute_int di INSTRUCTION_OP_SUB s =
     op_reg di (\<lambda>a b. ucast (ucast a - ucast b :: u64)) s"
| "execute_int di INSTRUCTION_OP_SLL s = op_reg di (\<lambda>a b. push_bit (unat (b AND 0x1F)) a) s"
| "execute_int di INSTRUCTION_OP_SLT s = op_reg di (\<lambda>a b. c_bool (sint a < sint b)) s"
| "execute_int di INSTRUCTION_OP_SLTU s = op_reg di (\<lambda>a b. c_bool (a < b)) s"
| "execute_int di INSTRUCTION_OP_XOR s = op_reg di (\<lambda>a b. a XOR b) s"
| "execute_int di INSTRUCTION_OP_SRL s = op_reg di (\<lambda>a b. drop_bit (unat (b AND 0x1F)) a) s"
| "execute_int di INSTRUCTION_OP_SRA s = op_reg di (\<lambda>a b. sar (unat (b AND 0x1F)) a) s"
| "execute_int di INSTRUCTION_OP_OR s = op_reg di (\<lambda>a b. a OR b) s"
| "execute_int di INSTRUCTION_OP_AND s = op_reg di (\<lambda>a b. a AND b) s"
| "execute_int di INSTRUCTION_OP_MUL s = op_reg di exec_mul s"
| "execute_int di INSTRUCTION_OP_MULH s = op_reg di exec_mulh s"
| "execute_int di INSTRUCTION_OP_MULHSU s = op_reg di exec_mulhsu s"
| "execute_int di INSTRUCTION_OP_MULHU s = op_reg di exec_mulhu s"
| "execute_int di INSTRUCTION_OP_DIV s = op_reg di exec_div s"
| "execute_int di INSTRUCTION_OP_DIVU s = op_reg di exec_divu s"
| "execute_int di INSTRUCTION_OP_REM s = op_reg di exec_rem s"
| "execute_int di INSTRUCTION_OP_REMU s = op_reg di exec_remu s"
| "execute_int di oper s = None"

text \<open>The cases from FENCE on, with the default case of the switch.\<close>

fun execute_system ::
    "decoded_instruction_t \<Rightarrow> instruction_op_t \<Rightarrow> exec_t \<Rightarrow> exec_t option" where
  "execute_system di INSTRUCTION_OP_FENCE s = Some s"
| "execute_system di INSTRUCTION_OP_FENCE_I s = Some s"
| "execute_system di INSTRUCTION_OP_CSRRW s = exec_csr di CSR_RW False s"
| "execute_system di INSTRUCTION_OP_CSRRS s = exec_csr di CSR_RS False s"
| "execute_system di INSTRUCTION_OP_CSRRC s = exec_csr di CSR_RC False s"
| "execute_system di INSTRUCTION_OP_CSRRWI s = exec_csr di CSR_RW True s"
| "execute_system di INSTRUCTION_OP_CSRRSI s = exec_csr di CSR_RS True s"
| "execute_system di INSTRUCTION_OP_CSRRCI s = exec_csr di CSR_RC True s"
| "execute_system di INSTRUCTION_OP_ECALL s = exec_ecall s"
| "execute_system di INSTRUCTION_OP_MRET s = Some (exec_mret s)"
| "execute_system di INSTRUCTION_OP_EBREAK s =
     Some (s\<lparr>pending_trap := TRAP_ILLEGAL_INSTR\<rparr>)"
| "execute_system di oper s = Some (s\<lparr>pending_trap := TRAP_ILLEGAL_INSTR\<rparr>)"

text \<open>The whole switch. The \<open>None\<close> of \<open>execute_int\<close> is never met: it is called on its own cases only.\<close>

fun execute ::
    "'w bus_t \<Rightarrow> decoded_instruction_t \<Rightarrow> instruction_op_t \<Rightarrow> exec_t \<Rightarrow> 'w \<Rightarrow> (exec_t \<times> 'w) option" where
  "execute bus di INSTRUCTION_OP_LUI s w = pure_case (set_rd di (imm di) s) w"
| "execute bus di INSTRUCTION_OP_AUIPC s w = pure_case (set_rd di (pc (hart_s s) + imm di) s) w"
| "execute bus di INSTRUCTION_OP_JAL s w =
     pure_case (exec_jump di (pc (hart_s s) + sext (imm di) 21) s) w"
| "execute bus di INSTRUCTION_OP_JALR s w =
     pure_case (do { a \<leftarrow> reg_read (hart_s s) (rs1 di);
                     exec_jump di ((a + sext (imm di) 12) AND NOT 1) s }) w"
| "execute bus di INSTRUCTION_OP_BEQ s w = pure_case (op_branch di (\<lambda>a b. a = b) s) w"
| "execute bus di INSTRUCTION_OP_BNE s w = pure_case (op_branch di (\<lambda>a b. a \<noteq> b) s) w"
| "execute bus di INSTRUCTION_OP_BLT s w = pure_case (op_branch di (\<lambda>a b. sint a < sint b) s) w"
| "execute bus di INSTRUCTION_OP_BGE s w = pure_case (op_branch di (\<lambda>a b. sint b \<le> sint a) s) w"
| "execute bus di INSTRUCTION_OP_BLTU s w = pure_case (op_branch di (\<lambda>a b. a < b) s) w"
| "execute bus di INSTRUCTION_OP_BGEU s w = pure_case (op_branch di (\<lambda>a b. b \<le> a) s) w"
| "execute bus di INSTRUCTION_OP_LB s w = exec_load bus di 8 True s w"
| "execute bus di INSTRUCTION_OP_LH s w = exec_load bus di 16 True s w"
| "execute bus di INSTRUCTION_OP_LW s w = exec_load bus di 32 True s w"
| "execute bus di INSTRUCTION_OP_LBU s w = exec_load bus di 8 False s w"
| "execute bus di INSTRUCTION_OP_LHU s w = exec_load bus di 16 False s w"
| "execute bus di INSTRUCTION_OP_SB s w = exec_store bus di 8 0x000000FF s w"
| "execute bus di INSTRUCTION_OP_SH s w = exec_store bus di 16 0x0000FFFF s w"
| "execute bus di INSTRUCTION_OP_SW s w = exec_store bus di 32 0xFFFFFFFF s w"
| "execute bus di INSTRUCTION_OP_ADDI s w = pure_case (execute_int di INSTRUCTION_OP_ADDI s) w"
| "execute bus di INSTRUCTION_OP_SLTI s w = pure_case (execute_int di INSTRUCTION_OP_SLTI s) w"
| "execute bus di INSTRUCTION_OP_SLTIU s w = pure_case (execute_int di INSTRUCTION_OP_SLTIU s) w"
| "execute bus di INSTRUCTION_OP_XORI s w = pure_case (execute_int di INSTRUCTION_OP_XORI s) w"
| "execute bus di INSTRUCTION_OP_ORI s w = pure_case (execute_int di INSTRUCTION_OP_ORI s) w"
| "execute bus di INSTRUCTION_OP_ANDI s w = pure_case (execute_int di INSTRUCTION_OP_ANDI s) w"
| "execute bus di INSTRUCTION_OP_SLLI s w = pure_case (execute_int di INSTRUCTION_OP_SLLI s) w"
| "execute bus di INSTRUCTION_OP_SRLI s w = pure_case (execute_int di INSTRUCTION_OP_SRLI s) w"
| "execute bus di INSTRUCTION_OP_SRAI s w = pure_case (execute_int di INSTRUCTION_OP_SRAI s) w"
| "execute bus di INSTRUCTION_OP_ADD s w = pure_case (execute_int di INSTRUCTION_OP_ADD s) w"
| "execute bus di INSTRUCTION_OP_SUB s w = pure_case (execute_int di INSTRUCTION_OP_SUB s) w"
| "execute bus di INSTRUCTION_OP_SLL s w = pure_case (execute_int di INSTRUCTION_OP_SLL s) w"
| "execute bus di INSTRUCTION_OP_SLT s w = pure_case (execute_int di INSTRUCTION_OP_SLT s) w"
| "execute bus di INSTRUCTION_OP_SLTU s w = pure_case (execute_int di INSTRUCTION_OP_SLTU s) w"
| "execute bus di INSTRUCTION_OP_XOR s w = pure_case (execute_int di INSTRUCTION_OP_XOR s) w"
| "execute bus di INSTRUCTION_OP_SRL s w = pure_case (execute_int di INSTRUCTION_OP_SRL s) w"
| "execute bus di INSTRUCTION_OP_SRA s w = pure_case (execute_int di INSTRUCTION_OP_SRA s) w"
| "execute bus di INSTRUCTION_OP_OR s w = pure_case (execute_int di INSTRUCTION_OP_OR s) w"
| "execute bus di INSTRUCTION_OP_AND s w = pure_case (execute_int di INSTRUCTION_OP_AND s) w"
| "execute bus di INSTRUCTION_OP_MUL s w = pure_case (execute_int di INSTRUCTION_OP_MUL s) w"
| "execute bus di INSTRUCTION_OP_MULH s w = pure_case (execute_int di INSTRUCTION_OP_MULH s) w"
| "execute bus di INSTRUCTION_OP_MULHSU s w = pure_case (execute_int di INSTRUCTION_OP_MULHSU s) w"
| "execute bus di INSTRUCTION_OP_MULHU s w = pure_case (execute_int di INSTRUCTION_OP_MULHU s) w"
| "execute bus di INSTRUCTION_OP_DIV s w = pure_case (execute_int di INSTRUCTION_OP_DIV s) w"
| "execute bus di INSTRUCTION_OP_DIVU s w = pure_case (execute_int di INSTRUCTION_OP_DIVU s) w"
| "execute bus di INSTRUCTION_OP_REM s w = pure_case (execute_int di INSTRUCTION_OP_REM s) w"
| "execute bus di INSTRUCTION_OP_REMU s w = pure_case (execute_int di INSTRUCTION_OP_REMU s) w"
| "execute bus di INSTRUCTION_OP_FENCE s w = pure_case (execute_system di INSTRUCTION_OP_FENCE s) w"
| "execute bus di INSTRUCTION_OP_FENCE_I s w = pure_case (execute_system di INSTRUCTION_OP_FENCE_I s) w"
| "execute bus di INSTRUCTION_OP_CSRRW s w = pure_case (execute_system di INSTRUCTION_OP_CSRRW s) w"
| "execute bus di INSTRUCTION_OP_CSRRS s w = pure_case (execute_system di INSTRUCTION_OP_CSRRS s) w"
| "execute bus di INSTRUCTION_OP_CSRRC s w = pure_case (execute_system di INSTRUCTION_OP_CSRRC s) w"
| "execute bus di INSTRUCTION_OP_CSRRWI s w = pure_case (execute_system di INSTRUCTION_OP_CSRRWI s) w"
| "execute bus di INSTRUCTION_OP_CSRRSI s w = pure_case (execute_system di INSTRUCTION_OP_CSRRSI s) w"
| "execute bus di INSTRUCTION_OP_CSRRCI s w = pure_case (execute_system di INSTRUCTION_OP_CSRRCI s) w"
| "execute bus di INSTRUCTION_OP_ECALL s w = pure_case (execute_system di INSTRUCTION_OP_ECALL s) w"
| "execute bus di INSTRUCTION_OP_MRET s w = pure_case (execute_system di INSTRUCTION_OP_MRET s) w"
| "execute bus di INSTRUCTION_OP_EBREAK s w = pure_case (execute_system di INSTRUCTION_OP_EBREAK s) w"
| "execute bus di INSTRUCTION_OP_UNKNOWN s w = pure_case (execute_system di INSTRUCTION_OP_UNKNOWN s) w"
| "execute bus di INSTRUCTION_OP_NUM s w = pure_case (execute_system di INSTRUCTION_OP_NUM s) w"

lemma pure_case_Some_eq [simp]: "pure_case (Some s) w = Some (s, w)"
  by (simp add: pure_case_def)

section \<open>Commit and step\<close>

text \<open>From the label \<open>commit\<close> to the end of \<open>hart_step\<close>.\<close>

definition hart_commit :: "decoded_instruction_t \<Rightarrow> exec_t \<Rightarrow> (hart_retire_t \<times> hart_t) option" where
  "hart_commit di s =
    (if pending_trap s = TRAP_ECALL_M then Some (ret_s s, hart_s s)
     else do {
       (h, r, npc) \<leftarrow>
         (if pending_trap s \<noteq> TRAP_NONE then
            (let r = (ret_s s)\<lparr>r_trap := pending_trap s\<rparr>;
                 tv = trap_tval (pending_trap s) (pc (hart_s s)) (r_instruction r)
                        (mem_addr s) (bad_pc s);
                 (npc, h) = commit_trap (hart_s s) (pending_trap s) tv
             in Some (h, r, npc))
          else if rd di \<noteq> 0 \<and> format di \<noteq> INSTRUCTION_FORMAT_S
                  \<and> format di \<noteq> INSTRUCTION_FORMAT_B then
            do {
              v \<leftarrow> reg_read (hart_s s) (rd di);
              Some (hart_s s, (ret_s s)\<lparr>rd_written := True, r_rd := rd di, rd_value := v\<rparr>, next_pc s)
            }
          else Some (hart_s s, ret_s s, next_pc s));
       h' \<leftarrow> reg_write h 0 0;
       Some (r\<lparr>r_next_pc := npc\<rparr>, h'\<lparr>pc := npc\<rparr>)
     })"

definition hart_init :: "u32 \<Rightarrow> hart_t" where
  "hart_init pc_val = \<lparr>gpr = replicate XLEN 0, csr = zero_csr, pc = pc_val\<rparr>"

text \<open>The locals as \<open>hart_step\<close> initialises them.\<close>

definition exec_init :: "hart_t \<Rightarrow> exec_t" where
  "exec_init h = \<lparr>hart_s = h, ret_s = zero_retire\<lparr>r_pc := pc h, r_trap := TRAP_NONE\<rparr>,
     pending_trap = TRAP_NONE, next_pc = pc h + 4, mem_addr = 0, bad_pc = 0\<rparr>"

definition hart_step :: "'w bus_t \<Rightarrow> hart_t \<Rightarrow> 'w \<Rightarrow> ((hart_retire_t \<times> hart_t) \<times> 'w) option" where
  "hart_step bus h w =
    (let s0 = exec_init h
     in if pc h AND 3 \<noteq> 0 then
          do {
            out \<leftarrow> hart_commit zero_decoded (s0\<lparr>bad_pc := pc h, pending_trap := TRAP_INSTR_MISALIGNED\<rparr>);
            Some (out, w)
          }
        else do {
          (fetched, w1) \<leftarrow> bus_read bus (pc h) 32 w;
          case fetched of
            None \<Rightarrow>
              do {
                out \<leftarrow> hart_commit zero_decoded
                        (s0\<lparr>bad_pc := pc h, pending_trap := TRAP_INSTR_ACCESS_FAULT\<rparr>);
                Some (out, w1)
              }
          | Some instruction \<Rightarrow>
              (let di = rve_decode_instruction instruction;
                   s1 = s0\<lparr>ret_s := (ret_s s0)\<lparr>r_instruction := instruction, r_di := di\<rparr>\<rparr>
               in if \<not> valid di then
                    do {
                      out \<leftarrow> hart_commit di (s1\<lparr>pending_trap := TRAP_ILLEGAL_INSTR\<rparr>);
                      Some (out, w1)
                    }
                  else do {
                    (s2, w2) \<leftarrow> execute bus di (op di) s1 w1;
                    out \<leftarrow> hart_commit di s2;
                    Some (out, w2)
                  })
        })"

definition rve_trap_to_cstr :: "trap_t \<Rightarrow> string" where
  "rve_trap_to_cstr trap =
    (if trap = TRAP_NONE then ''none''
     else if trap = TRAP_INSTR_MISALIGNED then ''instruction-address-misaligned''
     else if trap = TRAP_INSTR_ACCESS_FAULT then ''instruction-access-fault''
     else if trap = TRAP_ILLEGAL_INSTR then ''illegal-instruction''
     else if trap = TRAP_LOAD_MISALIGNED then ''load-address-misaligned''
     else if trap = TRAP_LOAD_ACCESS_FAULT then ''load-access-fault''
     else if trap = TRAP_STORE_MISALIGNED then ''store-address-misaligned''
     else if trap = TRAP_STORE_ACCESS_FAULT then ''store-access-fault''
     else if trap = TRAP_ECALL_U then ''ecall-u''
     else if trap = TRAP_ECALL_M then ''ecall-m''
     else if trap = TRAP_INT_SW then ''interrupt-software''
     else ''unknown'')"

end
