(* ===== verification/Rve_Step.thy ===== *)
theory Rve_Step
  imports Rve_Hart
begin

unbundle bit_operations_syntax

text \<open>
  One step of the hart: well-formed harts and decoded structs, what each case of the switch may
  change, what the commit stage makes of it, and that a step on a bus that keeps its contract is
  defined and keeps the hart well formed (the locale \<open>hart_bus\<close>).
\<close>

section \<open>Well-formed harts\<close>

definition hart_ok :: "hart_t \<Rightarrow> bool" where
  "hart_ok h \<longleftrightarrow> length (gpr h) = 32 \<and> gpr h ! 0 = 0"

definition regs_ok :: "hart_t \<Rightarrow> bool" where
  "regs_ok h \<longleftrightarrow> length (gpr h) = 32"

definition di_ok :: "decoded_instruction_t \<Rightarrow> bool" where
  "di_ok di \<longleftrightarrow> unat (rd di) < 32 \<and> unat (rs1 di) < 32 \<and> unat (rs2 di) < 32"

lemma di_ok_decode [simp]: "di_ok (rve_decode_instruction i)"
  by (simp add: di_ok_def decode_regs_lemma)

lemma di_okD [simp]: "di_ok di \<Longrightarrow> unat (rd di) < 32" "di_ok di \<Longrightarrow> unat (rs1 di) < 32"
  "di_ok di \<Longrightarrow> unat (rs2 di) < 32"
  by (simp_all add: di_ok_def)

lemma hart_ok_regs_ok [simp]: "hart_ok h \<Longrightarrow> regs_ok h"
  by (simp add: hart_ok_def regs_ok_def)

lemma reg_read_ok [simp]: "regs_ok h \<Longrightarrow> unat i < 32 \<Longrightarrow> reg_read h i = Some (gpr h ! unat i)"
  by (simp add: reg_read_def regs_ok_def)

lemma reg_write_ok [simp]:
  "regs_ok h \<Longrightarrow> unat i < 32 \<Longrightarrow> reg_write h i v = Some (h\<lparr>gpr := (gpr h)[unat i := v]\<rparr>)"
  by (simp add: reg_write_def regs_ok_def)

lemma x0_stays: "hart_ok h \<Longrightarrow> (gpr h)[0 := 0] = gpr h"
  by (metis hart_ok_def list_update_id)

lemma regs_ok_upd [simp]:
  "regs_ok (h\<lparr>gpr := xs\<rparr>) \<longleftrightarrow> length xs = 32"
  "regs_ok (h\<lparr>csr := c\<rparr>) \<longleftrightarrow> regs_ok h" "regs_ok (h\<lparr>pc := p\<rparr>) \<longleftrightarrow> regs_ok h"
  by (simp_all add: regs_ok_def)

lemma regs_okD [simp]: "regs_ok h \<Longrightarrow> length (gpr h) = 32"
  by (simp add: regs_ok_def)

lemma regs_ok_commit_trap [simp]: "regs_ok (snd (commit_trap h c t)) \<longleftrightarrow> regs_ok h"
  "gpr (snd (commit_trap h c t)) = gpr h" "pc (snd (commit_trap h c t)) = pc h"
  by (simp_all add: commit_trap_def Let_def)

section \<open>What each case of the switch does to the locals\<close>

text \<open>
  The frame of a case: the registers change at most at \<open>rd\<close>, and then only without a pending trap
  and for a format that has an \<open>rd\<close>; the parts of the record that the commit stage fills in stay.
\<close>

definition exec_frame :: "decoded_instruction_t \<Rightarrow> exec_t \<Rightarrow> exec_t \<Rightarrow> bool" where
  "exec_frame di s s' \<longleftrightarrow>
     (gpr (hart_s s') = gpr (hart_s s) \<or>
      pending_trap s' = TRAP_NONE \<and> format di \<notin> {INSTRUCTION_FORMAT_S, INSTRUCTION_FORMAT_B}
        \<and> (\<exists>v. gpr (hart_s s') = (gpr (hart_s s))[unat (rd di) := v]))
   \<and> rd_written (ret_s s') = rd_written (ret_s s)
   \<and> r_pc (ret_s s') = r_pc (ret_s s) \<and> r_instruction (ret_s s') = r_instruction (ret_s s)
   \<and> r_di (ret_s s') = r_di (ret_s s)
   \<and> (if pending_trap s' = TRAP_ECALL_M
      then pc (hart_s s') = pc (hart_s s) + 4 \<and> r_next_pc (ret_s s') = pc (hart_s s')
        \<and> r_trap (ret_s s') = TRAP_ECALL_M
      else pc (hart_s s') = pc (hart_s s) \<and> r_trap (ret_s s') = r_trap (ret_s s))"

lemma csr_dispatch_frame:
  assumes "csr_dispatch h di operation ui = Some (t, h')" "regs_ok h" "di_ok di"
  shows "(t = TRAP_NONE \<and> (gpr h' = gpr h \<or> (\<exists>v. gpr h' = (gpr h)[unat (rd di) := v]))
      \<or> t = TRAP_ILLEGAL_INSTR \<and> h' = h) \<and> pc h' = pc h"
  using assms
  by (auto simp: csr_dispatch_def csr_access_def csr_constant_def Let_def
      split: if_splits Option.bind_splits)

lemma csr_dispatch_defined:
  assumes "regs_ok h" "di_ok di"
  shows "\<exists>t h'. csr_dispatch h di operation ui = Some (t, h')"
  using assms
  by (simp add: csr_dispatch_def csr_access_def csr_constant_def Let_def)

lemmas case_defs =
  pure_case_def set_rd_def op_imm_def op_reg_def op_branch_def exec_jump_def exec_csr_def
  exec_ecall_def exec_mret_def exec_branch_def Let_def

lemma pure_case_Some: "pure_case s w = Some (s', w') \<longleftrightarrow> s = Some s' \<and> w' = w"
  by (auto simp: pure_case_def)


text \<open>The frames of the building blocks.\<close>

lemma set_rd_frame:
  assumes "set_rd di v s = Some s'" "regs_ok (hart_s s)" "di_ok di" "pending_trap s = TRAP_NONE"
    and "format di \<notin> {INSTRUCTION_FORMAT_S, INSTRUCTION_FORMAT_B}"
  shows "exec_frame di s s'"
  using assms by (auto simp: set_rd_def exec_frame_def)

lemma op_imm_frame:
  assumes "op_imm di f s = Some s'" "regs_ok (hart_s s)" "di_ok di" "pending_trap s = TRAP_NONE"
    and "format di \<notin> {INSTRUCTION_FORMAT_S, INSTRUCTION_FORMAT_B}"
  shows "exec_frame di s s'"
  using assms by (auto simp: op_imm_def intro: set_rd_frame)

lemma op_reg_frame:
  assumes "op_reg di g s = Some s'" "regs_ok (hart_s s)" "di_ok di" "pending_trap s = TRAP_NONE"
    and "format di \<notin> {INSTRUCTION_FORMAT_S, INSTRUCTION_FORMAT_B}"
  shows "exec_frame di s s'"
  using assms by (auto simp: op_reg_def intro: set_rd_frame)

lemma op_branch_frame:
  assumes "op_branch di c s = Some s'" "regs_ok (hart_s s)" "di_ok di" "pending_trap s = TRAP_NONE"
  shows "exec_frame di s s'"
  using assms by (auto simp: op_branch_def exec_branch_def Let_def exec_frame_def split: if_splits)

lemma exec_jump_frame:
  assumes "exec_jump di t s = Some s'" "regs_ok (hart_s s)" "di_ok di" "pending_trap s = TRAP_NONE"
    and "format di \<notin> {INSTRUCTION_FORMAT_S, INSTRUCTION_FORMAT_B}"
  shows "exec_frame di s s'"
  using assms by (auto simp: exec_jump_def set_rd_def exec_frame_def split: if_splits)

lemma exec_csr_frame:
  assumes "exec_csr di c u s = Some s'" "regs_ok (hart_s s)" "di_ok di" "pending_trap s = TRAP_NONE"
    and "format di \<notin> {INSTRUCTION_FORMAT_S, INSTRUCTION_FORMAT_B}"
  shows "exec_frame di s s'"
  using assms
  by (auto simp: exec_csr_def exec_frame_def split: Option.bind_splits dest!: csr_dispatch_frame)

lemma exec_load_frame:
  assumes "exec_load bus di n se s w = Some (s', w')" "regs_ok (hart_s s)" "di_ok di"
    and "pending_trap s = TRAP_NONE" "format di \<notin> {INSTRUCTION_FORMAT_S, INSTRUCTION_FORMAT_B}"
  shows "exec_frame di s s'"
  using assms
  by (auto simp: exec_load_def exec_frame_def Let_def split: Option.bind_splits option.splits)
    blast+

lemma exec_store_frame:
  assumes "exec_store bus di n m s w = Some (s', w')" "regs_ok (hart_s s)" "di_ok di"
    and "pending_trap s = TRAP_NONE"
  shows "exec_frame di s s'"
  using assms
  by (auto simp: exec_store_def exec_frame_def Let_def split: Option.bind_splits if_splits)

lemma exec_ecall_frame:
  assumes "exec_ecall s = Some s'" "hart_ok (hart_s s)"
  shows "exec_frame di s s'"
  using assms by (auto simp: exec_ecall_def exec_frame_def Let_def x0_stays)

lemma other_frames:
  "pending_trap s = TRAP_NONE \<Longrightarrow> exec_frame di s s"
  "exec_frame di s (s\<lparr>pending_trap := TRAP_ILLEGAL_INSTR\<rparr>)"
  "pending_trap s = TRAP_NONE \<Longrightarrow> exec_frame di s (exec_mret s)"
  by (simp_all add: exec_frame_def exec_mret_def Let_def)

lemmas case_frames =
  set_rd_frame op_imm_frame op_reg_frame op_branch_frame exec_jump_frame exec_csr_frame
  exec_load_frame exec_store_frame exec_ecall_frame other_frames

lemma execute_frame:
  assumes "execute bus di oper s w = Some (s', w')" "hart_ok (hart_s s)" "di_ok di"
    and "oper \<noteq> INSTRUCTION_OP_UNKNOWN \<longrightarrow> format di = rv32_format oper"
    and "pending_trap s = TRAP_NONE"
  shows "exec_frame di s s'"
  using assms
  by (cases oper; auto simp: pure_case_Some rv32_format_def intro: case_frames)


section \<open>One step\<close>

lemma decode_format:
  "op (rve_decode_instruction w) \<noteq> INSTRUCTION_OP_UNKNOWN \<longrightarrow>
   format (rve_decode_instruction w) = rv32_format (op (rve_decode_instruction w))"
  by (cases w rule: opcode_cases)
    (simp_all add: decode_dispatch decode_unknown_opcode decode_format_defs rv32_format_def)

text \<open>Every step ends in the commit stage, with locals framed by the initial ones.\<close>

lemma hart_step_frame:
  assumes "hart_step bus h w = Some ((r, h'), w')" "hart_ok h"
  obtains di s0 s where "hart_commit di s = Some (r, h')" "exec_frame di s0 s" "di_ok di"
    "hart_s s0 = h" "rd_written (ret_s s0) = False" "r_pc (ret_s s0) = pc h"
    "r_trap (ret_s s0) = TRAP_NONE"
proof -
  have zero: "di_ok zero_decoded" by (simp add: di_ok_def zero_decoded_def)
  consider (early) di s where "hart_commit di s = Some (r, h')" "di_ok di"
      "s = (exec_init h)\<lparr>bad_pc := bad_pc s, pending_trap := pending_trap s,
         ret_s := (ret_s (exec_init h))\<lparr>r_instruction := r_instruction (ret_s s), r_di := r_di (ret_s s)\<rparr>\<rparr>"
      "pending_trap s \<in> {0, 1, 2}"
    | (late) i w1 s where "hart_commit (rve_decode_instruction i) s = Some (r, h')"
      "execute bus (rve_decode_instruction i) (op (rve_decode_instruction i))
        ((exec_init h)\<lparr>ret_s := (ret_s (exec_init h))\<lparr>r_instruction := i, r_di := rve_decode_instruction i\<rparr>\<rparr>)
        w1 = Some (s, w')"
    using assms(1) zero
    by (fastforce simp: hart_step_def Let_def exec_init_def split: if_splits Option.bind_splits option.splits)
  then show thesis
  proof cases
    case early
    let ?s0 = "(exec_init h)\<lparr>ret_s := (ret_s (exec_init h))\<lparr>r_instruction := r_instruction (ret_s s),
      r_di := r_di (ret_s s)\<rparr>\<rparr>"
    have "exec_frame di ?s0 s"
      by (subst early(3)) (use early(4) in \<open>auto simp: exec_frame_def exec_init_def\<close>)
    then show thesis
      by (rule that [OF early(1) _ early(2)]) (simp_all add: exec_init_def zero_retire_def)
  next
    case late
    let ?di = "rve_decode_instruction i"
    let ?s0 = "(exec_init h)\<lparr>ret_s := (ret_s (exec_init h))\<lparr>r_instruction := i, r_di := ?di\<rparr>\<rparr>"
    have "exec_frame ?di ?s0 s"
      using late(2)
    proof (rule execute_frame)
      show "op ?di \<noteq> INSTRUCTION_OP_UNKNOWN \<longrightarrow> format ?di = rv32_format (op ?di)"
        by (rule decode_format)
    qed (use assms(2) in \<open>simp_all add: exec_init_def\<close>)
    then show thesis
      by (rule that [OF late(1)]) (simp_all add: exec_init_def zero_retire_def)
  qed
qed

text \<open>
  What a retirement record says of the step it came from: where it started, where it went, and
  which register it changed to what.
\<close>

definition retire_describes :: "hart_t \<Rightarrow> hart_retire_t \<Rightarrow> hart_t \<Rightarrow> bool" where
  "retire_describes h r h' \<longleftrightarrow>
     r_pc r = pc h \<and> r_next_pc r = pc h'
   \<and> gpr h' = (if rd_written r then (gpr h)[unat (r_rd r) := rd_value r] else gpr h)
   \<and> (rd_written r \<longrightarrow> r_trap r = TRAP_NONE \<and> 0 < unat (r_rd r) \<and> unat (r_rd r) < 32)"

lemma hart_commit_ecall: "pending_trap s = TRAP_ECALL_M \<Longrightarrow> hart_commit di s = Some (ret_s s, hart_s s)"
  by (simp add: hart_commit_def)

lemma hart_commit_trap:
  assumes "regs_ok (hart_s s)" "pending_trap s \<noteq> TRAP_ECALL_M" "pending_trap s \<noteq> TRAP_NONE"
  shows "hart_commit di s =
    (let tv = trap_tval (pending_trap s) (pc (hart_s s)) (r_instruction (ret_s s)) (mem_addr s) (bad_pc s);
         out = commit_trap (hart_s s) (pending_trap s) tv
     in Some ((ret_s s)\<lparr>r_trap := pending_trap s, r_next_pc := fst out\<rparr>,
              (snd out)\<lparr>gpr := (gpr (hart_s s))[0 := 0], pc := fst out\<rparr>))"
  using assms by (simp add: hart_commit_def Let_def case_prod_beta)

lemma hart_commit_clean:
  assumes "regs_ok (hart_s s)" "di_ok di" "pending_trap s = TRAP_NONE"
  shows "hart_commit di s = Some
    ((if rd di \<noteq> 0 \<and> format di \<noteq> INSTRUCTION_FORMAT_S \<and> format di \<noteq> INSTRUCTION_FORMAT_B
      then (ret_s s)\<lparr>rd_written := True, r_rd := rd di, rd_value := gpr (hart_s s) ! unat (rd di)\<rparr>
      else ret_s s)\<lparr>r_next_pc := next_pc s\<rparr>,
     (hart_s s)\<lparr>gpr := (gpr (hart_s s))[0 := 0], pc := next_pc s\<rparr>)"
  using assms by (simp add: hart_commit_def)

lemma hart_commit_describes:
  assumes "hart_commit di s = Some (r, h')" "exec_frame di s0 s" "di_ok di" "hart_ok (hart_s s0)"
    "rd_written (ret_s s0) = False" "r_pc (ret_s s0) = pc (hart_s s0)" "r_trap (ret_s s0) = TRAP_NONE"
  shows "retire_describes (hart_s s0) r h' \<and> hart_ok h'"
proof -
  have rd0: "rd di = 0 \<longleftrightarrow> unat (rd di) = 0"
    by (metis unat_eq_zero)
  have len: "length (gpr (hart_s s)) = 32" "length (gpr (hart_s s0)) = 32"
    using assms(2,4) by (auto simp: exec_frame_def hart_ok_def)
  then have rok: "regs_ok (hart_s s)" by (simp add: regs_ok_def)
  consider "pending_trap s = TRAP_ECALL_M" | "pending_trap s \<noteq> TRAP_ECALL_M" "pending_trap s \<noteq> TRAP_NONE"
    | "pending_trap s = TRAP_NONE" by blast
  then show ?thesis
  proof cases
    case 1
    with assms show ?thesis
      by (auto simp: hart_commit_ecall exec_frame_def retire_describes_def hart_ok_def)
  next
    case 2
    with assms(2) have "gpr (hart_s s) = gpr (hart_s s0)" by (auto simp: exec_frame_def)
    with 2 assms len show ?thesis
      by (auto simp: hart_commit_trap [OF rok] exec_frame_def retire_describes_def hart_ok_def
          Let_def x0_stays)
  next
    case 3
    note clean = assms(1) [unfolded hart_commit_clean [OF rok assms(3) 3]]
    show ?thesis
    proof (cases "gpr (hart_s s) = gpr (hart_s s0)")
      case True
      with 3 clean assms(2-) rd0 len show ?thesis
        by (auto simp: exec_frame_def retire_describes_def hart_ok_def x0_stays split: if_splits)
    next
      case False
      with assms(2) obtain v where "gpr (hart_s s) = (gpr (hart_s s0))[unat (rd di) := v]"
        "format di \<noteq> INSTRUCTION_FORMAT_S" "format di \<noteq> INSTRUCTION_FORMAT_B"
        by (auto simp: exec_frame_def)
      with 3 clean assms(2-) rd0 len show ?thesis
        by (auto simp: exec_frame_def retire_describes_def hart_ok_def x0_stays list_update_swap
            split: if_splits)
    qed
  qed
qed
section \<open>A step is defined on a safe bus\<close>

locale hart_bus = safe_bus world_ok "bus_read bus" "bus_write bus"
  for world_ok :: "'w \<Rightarrow> bool" and bus :: "'w bus_t"
begin

definition out_ok :: "(exec_t \<times> 'w) option \<Rightarrow> bool" where
  "out_ok x \<longleftrightarrow> (\<exists>s w. x = Some (s, w) \<and> regs_ok (hart_s s) \<and> world_ok w)"

lemma pure_ok:
  assumes "x = Some s" "regs_ok (hart_s s)" "world_ok w"
  shows "out_ok (pure_case x w)"
  using assms by (simp add: out_ok_def pure_case_def)

lemma load_ok:
  assumes "regs_ok (hart_s s)" "di_ok di" "world_ok w" "access_size sz"
  shows "out_ok (exec_load bus di sz se s w)"
proof -
  from rd_ok [OF assms(3,4)] obtain v w' where
    "bus_read bus (gpr (hart_s s) ! unat (rs1 di) + sext (imm di) 12) sz w = Some (v, w')" "world_ok w'"
    by blast
  with assms show ?thesis by (cases v) (simp_all add: exec_load_def out_ok_def Let_def)
qed

lemma store_ok:
  assumes "regs_ok (hart_s s)" "di_ok di" "world_ok w" "access_size sz"
  shows "out_ok (exec_store bus di sz m s w)"
proof -
  from wr_ok [OF assms(3,4)] obtain b w' where
    "bus_write bus (gpr (hart_s s) ! unat (rs1 di) + sext (imm di) 12)
       (gpr (hart_s s) ! unat (rs2 di) AND m) sz w = Some (b, w')" "world_ok w'"
    by blast
  with assms show ?thesis by (simp add: exec_store_def out_ok_def Let_def)
qed

lemma csr_ok:
  assumes "regs_ok (hart_s s)" "di_ok di" "world_ok w"
  shows "out_ok (pure_case (exec_csr di c u s) w)"
proof -
  from csr_dispatch_defined [OF assms(1,2)] obtain t h' where
    h': "csr_dispatch (hart_s s) di c u = Some (t, h')" by blast
  from csr_dispatch_frame [OF this assms(1,2)] assms(1) have "regs_ok h'"
    by (auto simp: regs_ok_def)
  with h' assms(3) show ?thesis by (simp add: out_ok_def pure_case_def exec_csr_def)
qed

lemma execute_ok:
  assumes "regs_ok (hart_s s)" "di_ok di" "world_ok w"
  shows "out_ok (execute bus di oper s w)"
  using assms
  by (cases oper; simp add: load_ok store_ok csr_ok access_size_def)
    (simp_all add: out_ok_def pure_case_def set_rd_def op_imm_def op_reg_def op_branch_def
      exec_branch_def exec_jump_def exec_ecall_def exec_mret_def Let_def)

lemma commit_ok:
  assumes "regs_ok (hart_s s)" "di_ok di"
  shows "\<exists>r h'. hart_commit di s = Some (r, h')"
  using assms
  by (cases "pending_trap s = TRAP_ECALL_M"; cases "pending_trap s = TRAP_NONE")
    (simp_all add: hart_commit_ecall hart_commit_clean hart_commit_trap Let_def)

text \<open>No step is undefined, whatever word is fetched and whatever the registers hold.\<close>

lemma step_ok:
  assumes "hart_ok h" "world_ok w"
  shows "\<exists>r h' w'. hart_step bus h w = Some ((r, h'), w') \<and> world_ok w' \<and> hart_ok h'"
proof -
  have "access_size 32" by (simp add: access_size_def)
  from rd_ok [OF assms(2) this] obtain f w1 where
    fetch: "bus_read bus (pc h) 32 w = Some (f, w1)" "world_ok w1" by blast
  have zero: "di_ok zero_decoded" by (simp add: di_ok_def zero_decoded_def)
  have "\<exists>r h' w'. hart_step bus h w = Some ((r, h'), w') \<and> world_ok w'"
  proof (cases "pc h AND 3 = 0")
    case False
    from commit_ok [OF _ zero, of "(exec_init h)\<lparr>bad_pc := pc h, pending_trap := TRAP_INSTR_MISALIGNED\<rparr>"]
      assms False show ?thesis
      by (auto simp: hart_step_def Let_def exec_init_def)
  next
    case aligned: True
    show ?thesis
    proof (cases f)
      case None
      from commit_ok [OF _ zero, of "(exec_init h)\<lparr>bad_pc := pc h, pending_trap := TRAP_INSTR_ACCESS_FAULT\<rparr>"]
        assms fetch aligned None show ?thesis
        by (auto simp: hart_step_def Let_def exec_init_def)
    next
      case (Some i)
      let ?di = "rve_decode_instruction i"
      define s1 where "s1 = (exec_init h)\<lparr>ret_s := (ret_s (exec_init h))\<lparr>r_instruction := i, r_di := ?di\<rparr>\<rparr>"
      have ok: "regs_ok (hart_s s1)" using assms by (simp add: s1_def exec_init_def)
      from execute_ok [OF ok di_ok_decode fetch(2), of i "op ?di"] obtain s2 w2 where
        ex: "execute bus ?di (op ?di) s1 w1 = Some (s2, w2)" "regs_ok (hart_s s2)" "world_ok w2"
        by (auto simp: out_ok_def)
      from commit_ok [OF ex(2) di_ok_decode, of i]
        commit_ok [of "s1\<lparr>pending_trap := TRAP_ILLEGAL_INSTR\<rparr>" ?di] ok ex fetch aligned Some
      show ?thesis
        by (cases "valid ?di") (auto simp: hart_step_def Let_def simp flip: s1_def)
    qed
  qed
  with hart_step_frame hart_commit_describes assms(1) show ?thesis
    by (metis)
qed

end

sublocale bus_world \<subseteq> hart: hart_bus "all_ok bus" bus for bus
  by unfold_locales (simp_all add: bus_read_ok bus_write_ok)

end
