(* ===== verification/Rve_Isa.thy ===== *)
theory Rve_Isa
  imports Rve_Step
begin

unbundle bit_operations_syntax

text \<open>
  What the instructions of RV32IM compute, on integers, as the unprivileged manual defines them, and
  the refinement of these functions by the step of src/hart.c: the register and immediate
  instructions, the upper immediates, the branches and the jumps.
\<close>

section \<open>Integer semantics of the arithmetic instructions\<close>

definition shamt :: "u32 \<Rightarrow> nat" where
  "shamt b = unat b mod 32"

fun rv_alu :: "instruction_op_t \<Rightarrow> u32 \<Rightarrow> u32 \<Rightarrow> u32 option" where
  "rv_alu INSTRUCTION_OP_ADD a b = Some (word_of_int (sint a + sint b))"
| "rv_alu INSTRUCTION_OP_SUB a b = Some (word_of_int (sint a - sint b))"
| "rv_alu INSTRUCTION_OP_SLL a b = Some (word_of_int (uint a * 2 ^ shamt b))"
| "rv_alu INSTRUCTION_OP_SLT a b = Some (if sint a < sint b then 1 else 0)"
| "rv_alu INSTRUCTION_OP_SLTU a b = Some (if uint a < uint b then 1 else 0)"
| "rv_alu INSTRUCTION_OP_XOR a b = Some (a XOR b)"
| "rv_alu INSTRUCTION_OP_SRL a b = Some (word_of_int (uint a div 2 ^ shamt b))"
| "rv_alu INSTRUCTION_OP_SRA a b = Some (word_of_int (sint a div 2 ^ shamt b))"
| "rv_alu INSTRUCTION_OP_OR a b = Some (a OR b)"
| "rv_alu INSTRUCTION_OP_AND a b = Some (a AND b)"
| "rv_alu INSTRUCTION_OP_MUL a b = Some (word_of_int (sint a * sint b))"
| "rv_alu INSTRUCTION_OP_MULH a b = Some (word_of_int (sint a * sint b div 2 ^ 32))"
| "rv_alu INSTRUCTION_OP_MULHSU a b = Some (word_of_int (sint a * uint b div 2 ^ 32))"
| "rv_alu INSTRUCTION_OP_MULHU a b = Some (word_of_int (uint a * uint b div 2 ^ 32))"
| "rv_alu INSTRUCTION_OP_DIV a b = Some (word_of_int (if sint b = 0 then -1 else sint a sdiv sint b))"
| "rv_alu INSTRUCTION_OP_DIVU a b = Some (word_of_int (if uint b = 0 then -1 else uint a div uint b))"
| "rv_alu INSTRUCTION_OP_REM a b = Some (word_of_int (if sint b = 0 then sint a else sint a smod sint b))"
| "rv_alu INSTRUCTION_OP_REMU a b = Some (word_of_int (if uint b = 0 then uint a else uint a mod uint b))"
| "rv_alu oper a b = None"

lemma scast_word_of_int: "(scast a :: 'b::len word) = word_of_int (sint a)"
  by (fact scast_eq)

lemma ucast_word_of_int: "(ucast a :: 'b::len word) = word_of_int (uint a)"
  by (fact ucast_eq)

lemma high_half: "(ucast (drop_bit 32 (word_of_int p :: u64)) :: u32) = word_of_int (p div 2 ^ 32)"
proof -
  have "p div 2 ^ 32 = drop_bit 32 p" by (simp add: drop_bit_eq_div)
  then show ?thesis
    by (simp only:) (rule bit_word_eqI, simp add: bit_simps)
qed

lemma low_half: "(ucast (word_of_int p :: u64) :: u32) = word_of_int p"
  by (rule bit_word_eqI) (simp add: bit_simps)

lemma mul_halves:
  "exec_mul a b = word_of_int (sint a * sint b)"
  "exec_mulh a b = word_of_int (sint a * sint b div 2 ^ 32)"
  "exec_mulhsu a b = word_of_int (sint a * uint b div 2 ^ 32)"
  "exec_mulhu a b = word_of_int (uint a * uint b div 2 ^ 32)"
  by (simp_all only: exec_mul_def exec_mulh_def exec_mulhsu_def exec_mulhu_def Let_def
      scast_word_of_int ucast_word_of_int [of a] ucast_word_of_int [of b] wi_hom_mult high_half low_half)

lemma and_1F: "unat (b AND 0x1F) = shamt b" for b :: u32
proof -
  have "b AND 0x1F = take_bit 5 b" by (simp add: mask_and_eq_take_bit)
  then show ?thesis by (simp add: shamt_def take_bit_eq_mod unat_mod_distrib)
qed

lemma shift_words:
  fixes a :: u32
  shows "push_bit n a = word_of_int (uint a * 2 ^ n)"
    and "drop_bit n a = word_of_int (uint a div 2 ^ n)"
    and "sar n a = word_of_int (sint a div 2 ^ n)"
proof -
  show "push_bit n a = word_of_int (uint a * 2 ^ n)" by (simp add: push_bit_eq_mult)
  have "drop_bit n a = word_of_int (drop_bit n (uint a))"
    by (rule bit_word_eqI) (auto simp: bit_simps dest: bit_imp_le_length)
  then show "drop_bit n a = word_of_int (uint a div 2 ^ n)" by (simp only: drop_bit_eq_div)
  have "sar n a = word_of_int (drop_bit n (sint a))"
    by (rule bit_word_eqI) (auto simp: bit_simps not_less)
  then show "sar n a = word_of_int (sint a div 2 ^ n)" by (simp only: drop_bit_eq_div)
qed

lemma sint_zero_iff: "sint b = 0 \<longleftrightarrow> b = 0" for b :: u32
proof
  assume z: "sint b = 0"
  have "b = word_of_int (sint b)" by simp
  then show "b = 0" by (simp only: z of_int_0)
qed simp

lemma uint_zero_iff: "uint b = 0 \<longleftrightarrow> b = 0" for b :: u32
proof
  assume z: "uint b = 0"
  have "b = word_of_int (uint b)" by simp
  then show "b = 0" by (simp only: z of_int_0)
qed simp

lemma div_words:
  "exec_div a b = word_of_int (if sint b = 0 then -1 else sint a sdiv sint b)"
  "exec_rem a b = word_of_int (if sint b = 0 then sint a else sint a smod sint b)"
proof -
  have ov: "word_of_int (sint (0x80000000 :: u32) sdiv sint (-1 :: u32)) = (0x80000000 :: u32)"
    "word_of_int (sint (0x80000000 :: u32) smod sint (-1 :: u32)) = (0 :: u32)"
    by code_simp+
  show "exec_div a b = word_of_int (if sint b = 0 then -1 else sint a sdiv sint b)"
    using ov(1) by (auto simp: exec_div_def sint_zero_iff)
  show "exec_rem a b = word_of_int (if sint b = 0 then sint a else sint a smod sint b)"
    using ov(2) by (auto simp: exec_rem_def sint_zero_iff)
qed

lemma divu_words:
  "exec_divu a b = word_of_int (if uint b = 0 then -1 else uint a div uint b)"
  "exec_remu a b = word_of_int (if uint b = 0 then uint a else uint a mod uint b)"
  by (simp_all add: exec_divu_def exec_remu_def word_div_def word_mod_def uint_zero_iff)


text \<open>The C expressions of the execute stage, seen as integers.\<close>

lemma add_sub_words:
  "(ucast (ucast a + ucast b :: u64) :: u32) = word_of_int (sint a + sint b)"
  "(ucast (ucast a - ucast b :: u64) :: u32) = word_of_int (sint a - sint b)"
  for a b :: u32
proof -
  have "(ucast (ucast a + ucast b :: u64) :: u32) = a + b"
    by (simp only: ucast_word_of_int [where 'b = 64] wi_hom_add low_half) simp
  then show "(ucast (ucast a + ucast b :: u64) :: u32) = word_of_int (sint a + sint b)" by simp
  have "(ucast (ucast a - ucast b :: u64) :: u32) = a - b"
    by (simp only: ucast_word_of_int [where 'b = 64] wi_hom_sub low_half) simp
  then show "(ucast (ucast a - ucast b :: u64) :: u32) = word_of_int (sint a - sint b)" by simp
qed

lemmas alu_words = add_sub_words mul_halves div_words divu_words shift_words and_1F

lemma execute_alu:
  assumes "rv_alu oper (gpr (hart_s s) ! unat (rs1 di)) (gpr (hart_s s) ! unat (rs2 di)) = Some v"
    and "regs_ok (hart_s s)" "di_ok di"
  shows "execute bus di oper s w = pure_case (set_rd di v s) w"
  using assms
  by (cases oper; simp add: op_reg_def alu_words c_bool_def word_less_alt)

text \<open>
  The immediate instructions are the register instructions with the second operand in the
  instruction word.
\<close>

fun rv_imm_op :: "instruction_op_t \<Rightarrow> instruction_op_t option" where
  "rv_imm_op INSTRUCTION_OP_ADDI = Some INSTRUCTION_OP_ADD"
| "rv_imm_op INSTRUCTION_OP_SLTI = Some INSTRUCTION_OP_SLT"
| "rv_imm_op INSTRUCTION_OP_SLTIU = Some INSTRUCTION_OP_SLTU"
| "rv_imm_op INSTRUCTION_OP_XORI = Some INSTRUCTION_OP_XOR"
| "rv_imm_op INSTRUCTION_OP_ORI = Some INSTRUCTION_OP_OR"
| "rv_imm_op INSTRUCTION_OP_ANDI = Some INSTRUCTION_OP_AND"
| "rv_imm_op INSTRUCTION_OP_SLLI = Some INSTRUCTION_OP_SLL"
| "rv_imm_op INSTRUCTION_OP_SRLI = Some INSTRUCTION_OP_SRL"
| "rv_imm_op INSTRUCTION_OP_SRAI = Some INSTRUCTION_OP_SRA"
| "rv_imm_op oper = None"

lemma sext_eq_sx: "0 < n \<Longrightarrow> n \<le> 32 \<Longrightarrow> sext v n = sx n v"
  by (simp add: sext_def shift_pair_eq_sx)

lemma sext_imm [simp]: "sext (sx 12 v) 12 = sx 12 v" "sext (sx 13 v) 13 = sx 13 v"
  "sext (sx 21 v) 21 = sx 21 v"
  by (simp_all add: sext_eq_sx sx_idem)

lemma execute_alu_imm:
  assumes "rv_imm_op oper = Some base"
    and "rv_alu base (gpr (hart_s s) ! unat (rs1 di)) (imm di) = Some v"
    and "imm di = rv32_imm oper im" "regs_ok (hart_s s)" "di_ok di"
  shows "execute bus di oper s w = pure_case (set_rd di v s) w"
  using assms
  by (cases oper; simp add: op_imm_def alu_words c_bool_def word_less_alt rv32_imm_def rv32_format_def)

section \<open>One instruction of the manual is one step of the hart\<close>

text \<open>The hart fetches the word \<open>i\<close>; reading it may already change the world.\<close>

definition fetches :: "'w bus_t \<Rightarrow> hart_t \<Rightarrow> 'w \<Rightarrow> u32 \<Rightarrow> 'w \<Rightarrow> bool" where
  "fetches bus h w i w1 \<longleftrightarrow> pc h AND 3 = 0 \<and> bus_read bus (pc h) 32 w = Some (Some i, w1)"

text \<open>The registers as the manual numbers them, by the low five bits of a field.\<close>

definition xreg :: "hart_t \<Rightarrow> u8 \<Rightarrow> u32" where
  "xreg h k = gpr h ! unat (take_bit 5 k)"

definition set_xreg :: "hart_t \<Rightarrow> u8 \<Rightarrow> u32 \<Rightarrow> hart_t" where
  "set_xreg h k v =
    h\<lparr>gpr := (if take_bit 5 k = 0 then gpr h else (gpr h)[unat (take_bit 5 k) := v])\<rparr>"

definition exec_at :: "hart_t \<Rightarrow> u32 \<Rightarrow> exec_t" where
  "exec_at h i = (exec_init h)\<lparr>ret_s :=
     (ret_s (exec_init h))\<lparr>r_instruction := i, r_di := rve_decode_instruction i\<rparr>\<rparr>"

lemma exec_at_simps [simp]:
  "hart_s (exec_at h i) = h" "pending_trap (exec_at h i) = TRAP_NONE"
  "next_pc (exec_at h i) = pc h + 4" "mem_addr (exec_at h i) = 0" "bad_pc (exec_at h i) = 0"
  "r_trap (ret_s (exec_at h i)) = TRAP_NONE" "r_instruction (ret_s (exec_at h i)) = i"
  by (simp_all add: exec_at_def exec_init_def)

definition run_decoded ::
    "'w bus_t \<Rightarrow> decoded_instruction_t \<Rightarrow> exec_t \<Rightarrow> 'w \<Rightarrow> ((hart_retire_t \<times> hart_t) \<times> 'w) option" where
  "run_decoded bus di s w =
     do { (s2, w2) \<leftarrow> execute bus di (op di) s w; out \<leftarrow> hart_commit di s2; Some (out, w2) }"

lemma step_fetched:
  assumes "fetches bus h w i w1"
  shows "hart_step bus h w =
    (let di = rve_decode_instruction i
     in if valid di then run_decoded bus di (exec_at h i) w1
        else do { out \<leftarrow> hart_commit di ((exec_at h i)\<lparr>pending_trap := TRAP_ILLEGAL_INSTR\<rparr>); Some (out, w1) })"
  using assms
  by (simp add: hart_step_def fetches_def Let_def run_decoded_def exec_at_def)

text \<open>The two ways a step of a fetched instruction ends.\<close>

definition retires_to :: "((hart_retire_t \<times> hart_t) \<times> 'w) option \<Rightarrow> trap_t \<Rightarrow> hart_t \<Rightarrow> 'w \<Rightarrow> bool" where
  "retires_to x t h w \<longleftrightarrow> (\<exists>r. x = Some ((r, h), w) \<and> r_trap r = t)"

lemma commit_written:
  assumes "hart_ok h" "di_ok di" "pending_trap s = TRAP_NONE"
    and "hart_s s = h\<lparr>gpr := (gpr h)[unat (rd di) := v]\<rparr>" "r_trap (ret_s s) = TRAP_NONE"
  shows "\<exists>r. hart_commit di s = Some (r, h\<lparr>gpr := (if rd di = 0 then gpr h else (gpr h)[unat (rd di) := v]),
      pc := next_pc s\<rparr>) \<and> r_trap r = TRAP_NONE"
proof -
  have rok: "regs_ok (hart_s s)" using assms by (simp add: hart_ok_def regs_ok_def)
  have "(gpr h)[unat (rd di) := v, 0 := 0] = (if rd di = 0 then gpr h else (gpr h)[unat (rd di) := v])"
    using x0_stays [OF assms(1)] by (auto simp: list_update_swap unat_eq_zero)
  then show ?thesis
    using assms by (auto simp: hart_commit_clean [OF rok])
qed

lemma commit_unwritten:
  assumes "hart_ok h" "di_ok di" "pending_trap s = TRAP_NONE"
    and "gpr (hart_s s) = gpr h" "r_trap (ret_s s) = TRAP_NONE"
  shows "\<exists>r. hart_commit di s = Some (r, (hart_s s)\<lparr>pc := next_pc s\<rparr>) \<and> r_trap r = TRAP_NONE"
proof -
  have rok: "regs_ok (hart_s s)" using assms by (simp add: hart_ok_def regs_ok_def)
  then show ?thesis
    using assms by (auto simp: hart_commit_clean [OF rok] x0_stays)
qed

lemma take_trap_eq: "hart_take_trap h c t = (snd (commit_trap h c t))\<lparr>pc := fst (commit_trap h c t)\<rparr>"
  by (simp add: hart_take_trap_def case_prod_beta)

lemma commit_trapped:
  assumes "hart_ok h" "hart_s s = h" "pending_trap s \<noteq> TRAP_NONE" "pending_trap s \<noteq> TRAP_ECALL_M"
  shows "\<exists>r. hart_commit di s = Some (r, hart_take_trap h (pending_trap s)
      (trap_tval (pending_trap s) (pc h) (r_instruction (ret_s s)) (mem_addr s) (bad_pc s)))
    \<and> r_trap r = pending_trap s"
proof -
  have "gpr h = gpr (snd (commit_trap h c t))" for c t by simp
  then have "(snd (commit_trap h c t))\<lparr>gpr := gpr h\<rparr> = snd (commit_trap h c t)" for c t
    by simp
  then show ?thesis
    using assms by (auto simp: hart_commit_trap Let_def take_trap_eq x0_stays)
qed

text \<open>The fields of an encoded instruction, as the hart sees them.\<close>

lemma encoded_fields:
  assumes "rv32_encode oper d s1 s2 im = Some i"
  shows "valid (rve_decode_instruction i)" "op (rve_decode_instruction i) = oper"
    "format (rve_decode_instruction i) = rv32_format oper"
    "imm (rve_decode_instruction i) = rv32_imm oper im"
    "rv32_format oper \<notin> {INSTRUCTION_FORMAT_S, INSTRUCTION_FORMAT_B} \<Longrightarrow>
       rd (rve_decode_instruction i) = rv32_reg oper d"
    "rv32_format oper \<notin> {INSTRUCTION_FORMAT_U, INSTRUCTION_FORMAT_J} \<Longrightarrow>
       rs1 (rve_decode_instruction i) = rv32_reg oper s1"
    "rv32_format oper \<notin> {INSTRUCTION_FORMAT_U, INSTRUCTION_FORMAT_J, INSTRUCTION_FORMAT_I} \<Longrightarrow>
       rs2 (rve_decode_instruction i) = rv32_reg oper s2"
  using decode_encode_lemma [OF assms] by (simp_all add: Let_def)

lemma step_encoded:
  assumes "fetches bus h w i w1" "rv32_encode oper d s1 s2 im = Some i"
  shows "hart_step bus h w = run_decoded bus (rve_decode_instruction i) (exec_at h i) w1"
  using step_fetched [OF assms(1)] encoded_fields(1) [OF assms(2)] by (simp add: Let_def)

text \<open>An instruction whose only effect is a value in \<open>rd\<close>.\<close>

lemma run_set_rd:
  assumes "execute bus di (op di) s w = pure_case (set_rd di v s) w" "hart_ok (hart_s s)" "di_ok di"
    and "pending_trap s = TRAP_NONE" "r_trap (ret_s s) = TRAP_NONE"
    and "rd di = take_bit 5 d"
  shows "retires_to (run_decoded bus di s w) TRAP_NONE ((set_xreg (hart_s s) d v)\<lparr>pc := next_pc s\<rparr>) w"
proof -
  define s2 where "s2 = s\<lparr>hart_s := (hart_s s)\<lparr>gpr := (gpr (hart_s s))[unat (rd di) := v]\<rparr>\<rparr>"
  have "execute bus di (op di) s w = Some (s2, w)"
    using assms(1-3) by (simp add: pure_case_def set_rd_def s2_def)
  moreover obtain r where "hart_commit di s2 = Some (r, (hart_s s)\<lparr>gpr := (if rd di = 0 then gpr (hart_s s)
      else (gpr (hart_s s))[unat (rd di) := v]), pc := next_pc s2\<rparr>)" "r_trap r = TRAP_NONE"
    using commit_written [OF assms(2,3), of s2 v] assms(4,5) by (auto simp: s2_def)
  ultimately show ?thesis
    using assms(6) by (auto simp: retires_to_def run_decoded_def set_xreg_def s2_def)
qed

text \<open>A bus that is one slot wide and covers the address space; its world is a map of words.\<close>

definition rom_ops :: "(u32 \<Rightarrow> u32) peripheral_ops_t" where
  "rom_ops = \<lparr>init_fn = None, deinit_fn = None, read_fn = Some (\<lambda>_ a _ w. Some (Some (w a), w)),
     write_fn = Some (\<lambda>_ a v _ w. Some (True, w(a := v))), tick_fn = None\<rparr>"

definition rom_bus :: "(u32 \<Rightarrow> u32) bus_t" where
  "rom_bus = snd (bus_add_peripheral
     (bus_init \<lparr>peripherals = [\<lparr>active = False, name = [], addr_start = 0, addr_end = 0, ctx = None,
        ops = None, config = None\<rparr>], count = 0\<rparr>)
     0 0x1000 None (Some rom_ops) ''ROM'')"

lemma rom_bus_simps [simp]:
  "a < 0x1000 \<Longrightarrow> bus_read rom_bus a sz w = Some (Some (w a), w)"
  "a < 0x1000 \<Longrightarrow> bus_write rom_bus a v sz w = Some (True, w(a := v))"
  "0x1000 \<le> a \<Longrightarrow> bus_read rom_bus a sz w = Some (None, w)"
  "0x1000 \<le> a \<Longrightarrow> bus_write rom_bus a v sz w = Some (False, w)"
  by (simp_all add: rom_bus_def bus_add_peripheral_def bus_find_slot_def bus_init_def bus_read_def
      bus_write_def bus_get_peripheral_def covers_def rom_ops_def Let_def)

definition demo_hart :: hart_t where
  "demo_hart = (hart_init 0x100)\<lparr>gpr := [0, 7, 0xFFFFFFFE, 0x80000000, 3] @ replicate 27 0\<rparr>"

lemma demo_hart_simps [simp]:
  "hart_ok demo_hart" "pc demo_hart = 0x100" "fetches rom_bus demo_hart (\<lambda>_. i) i (\<lambda>_. i)"
  by (simp_all add: demo_hart_def hart_init_def hart_ok_def fetches_def)

section \<open>Arithmetic\<close>

lemma unat_take_bit_5 [simp]: "unat (take_bit 5 k) < 32" for k :: u8
  by (rule take_bit_5_less) simp

lemma format_of_alu: "rv_alu oper a b = Some v \<Longrightarrow> rv32_format oper = INSTRUCTION_FORMAT_R \<and> oper \<notin> rv32_system"
  by (cases oper; simp add: rv32_format_def rv32_system_def)

lemma format_of_alu_imm:
  "rv_imm_op oper = Some base \<Longrightarrow> rv32_format oper = INSTRUCTION_FORMAT_I \<and> oper \<notin> rv32_system"
  by (cases oper; simp add: rv32_format_def rv32_system_def)

lemma step_register_instruction_lemma:
  assumes "hart_ok h" "fetches bus h w i w1" "rv32_encode oper d s1 s2 im = Some i"
    and "rv_alu oper (xreg h s1) (xreg h s2) = Some v"
  shows "retires_to (hart_step bus h w) TRAP_NONE ((set_xreg h d v)\<lparr>pc := pc h + 4\<rparr>) w1"
proof -
  from format_of_alu [OF assms(4)] encoded_fields [OF assms(3)]
  have f: "op (rve_decode_instruction i) = oper" "rd (rve_decode_instruction i) = take_bit 5 d"
    "rs1 (rve_decode_instruction i) = take_bit 5 s1" "rs2 (rve_decode_instruction i) = take_bit 5 s2"
    by (simp_all add: rv32_reg_def)
  have "execute bus (rve_decode_instruction i) oper (exec_at h i) w1 =
      pure_case (set_rd (rve_decode_instruction i) v (exec_at h i)) w1"
    using assms(1,4) by (intro execute_alu) (simp_all add: f xreg_def)
  with run_set_rd [of bus "rve_decode_instruction i" "exec_at h i" w1 v d] assms(1) f
  show ?thesis by (simp add: step_encoded [OF assms(2,3)])
qed

text \<open>
  The register instructions of RV32IM. A step on the encoding of an operation
  with registers d, s1, s2 writes to d the value the manual defines on integers (sums and products
  modulo 2 ^ 32, the high halves of the signed, mixed and unsigned products, arithmetic and logical
  shifts by the low five bits, divisions rounding towards zero with the results for a zero divisor
  and for the one overflow), keeps x0 at zero, changes no other register and no CSR, advances the
  program counter by 4 and touches no memory after the fetch.
\<close>

theorem step_register_instruction:
  assumes "hart_ok h" "fetches bus h w i w1" "rv32_encode oper d s1 s2 im = Some i"
    and "rv_alu oper (xreg h s1) (xreg h s2) = Some v"
  shows "retires_to (hart_step bus h w) TRAP_NONE ((set_xreg h d v)\<lparr>pc := pc h + 4\<rparr>) w1"
  using assms by (rule step_register_instruction_lemma)

lemma step_register_instruction_witness:
  "\<exists>h'. retires_to (hart_step rom_bus demo_hart (\<lambda>_. asm_r 1 4 2 4 5 0x33)) TRAP_NONE h'
      (\<lambda>_. asm_r 1 4 2 4 5 0x33) \<and> xreg h' 5 = 0"
proof -
  have "rv_alu INSTRUCTION_OP_DIV (xreg demo_hart 2) (xreg demo_hart 4) = Some 0"
    by (code_simp)
  from step_register_instruction [where i = "asm_r 1 4 2 4 5 0x33" and d = 5 and im = 0,
      OF demo_hart_simps(1,3) _ this]
  show ?thesis by (fastforce simp: xreg_def set_xreg_def demo_hart_def hart_init_def)
qed

lemma step_immediate_instruction_lemma:
  assumes "hart_ok h" "fetches bus h w i w1" "rv32_encode oper d s1 s2 im = Some i"
    and "rv_imm_op oper = Some base" "rv_alu base (xreg h s1) (rv32_imm oper im) = Some v"
  shows "retires_to (hart_step bus h w) TRAP_NONE ((set_xreg h d v)\<lparr>pc := pc h + 4\<rparr>) w1"
proof -
  from format_of_alu_imm [OF assms(4)] encoded_fields [OF assms(3)]
  have f: "op (rve_decode_instruction i) = oper" "rd (rve_decode_instruction i) = take_bit 5 d"
    "rs1 (rve_decode_instruction i) = take_bit 5 s1" "imm (rve_decode_instruction i) = rv32_imm oper im"
    by (simp_all add: rv32_reg_def)
  have "execute bus (rve_decode_instruction i) oper (exec_at h i) w1 =
      pure_case (set_rd (rve_decode_instruction i) v (exec_at h i)) w1"
    using assms(1,5) by (intro execute_alu_imm [OF assms(4)]) (simp_all add: f xreg_def)
  with run_set_rd [of bus "rve_decode_instruction i" "exec_at h i" w1 v d] assms(1) f
  show ?thesis by (simp add: step_encoded [OF assms(2,3)])
qed

text \<open>
  The immediate instructions compute the same functions as the register
  instructions, on the sign-extended 12-bit immediate or the 5-bit shift amount.
\<close>

theorem step_immediate_instruction:
  assumes "hart_ok h" "fetches bus h w i w1" "rv32_encode oper d s1 s2 im = Some i"
    and "rv_imm_op oper = Some base" "rv_alu base (xreg h s1) (rv32_imm oper im) = Some v"
  shows "retires_to (hart_step bus h w) TRAP_NONE ((set_xreg h d v)\<lparr>pc := pc h + 4\<rparr>) w1"
  using assms by (rule step_immediate_instruction_lemma)

lemma step_immediate_instruction_witness:
  "\<exists>h'. retires_to (hart_step rom_bus demo_hart (\<lambda>_. asm_i 0xFFFFFFFF 1 0 5 0x13)) TRAP_NONE h'
      (\<lambda>_. asm_i 0xFFFFFFFF 1 0 5 0x13) \<and> xreg h' 5 = 6"
proof -
  have "rv_alu INSTRUCTION_OP_ADD (xreg demo_hart 1) (rv32_imm INSTRUCTION_OP_ADDI 0xFFFFFFFF) = Some 6"
    by code_simp
  from step_immediate_instruction [where i = "asm_i 0xFFFFFFFF 1 0 5 0x13" and d = 5 and ?s2.0 = 0,
      OF demo_hart_simps(1,3) _ _ this]
  show ?thesis by (fastforce simp: xreg_def set_xreg_def demo_hart_def hart_init_def)
qed

lemma step_upper_immediate_lemma:
  assumes "hart_ok h" "fetches bus h w i w1" "rv32_encode oper d s1 s2 im = Some i"
    and "oper \<in> {INSTRUCTION_OP_LUI, INSTRUCTION_OP_AUIPC}"
  shows "retires_to (hart_step bus h w) TRAP_NONE
    ((set_xreg h d ((im AND NOT (mask 12)) + (if oper = INSTRUCTION_OP_AUIPC then pc h else 0)))
      \<lparr>pc := pc h + 4\<rparr>) w1"
proof -
  from assms(4) encoded_fields [OF assms(3)]
  have f: "op (rve_decode_instruction i) = oper" "rd (rve_decode_instruction i) = take_bit 5 d"
    "imm (rve_decode_instruction i) = im AND NOT (mask 12)"
    by (auto simp: rv32_reg_def rv32_imm_def rv32_format_def rv32_system_def)
  have "execute bus (rve_decode_instruction i) oper (exec_at h i) w1 =
      pure_case (set_rd (rve_decode_instruction i)
        ((im AND NOT (mask 12)) + (if oper = INSTRUCTION_OP_AUIPC then pc h else 0)) (exec_at h i)) w1"
    using assms(4) by (auto simp: f add.commute)
  with run_set_rd [of bus "rve_decode_instruction i" "exec_at h i" w1 _ d] assms(1) f
  show ?thesis by (simp add: step_encoded [OF assms(2,3)])
qed

text \<open>
  LUI loads the upper 20 bits, AUIPC adds them to the address of the instruction
  itself.
\<close>

theorem step_upper_immediate:
  assumes "hart_ok h" "fetches bus h w i w1" "rv32_encode oper d s1 s2 im = Some i"
    and "oper \<in> {INSTRUCTION_OP_LUI, INSTRUCTION_OP_AUIPC}"
  shows "retires_to (hart_step bus h w) TRAP_NONE
    ((set_xreg h d ((im AND NOT (mask 12)) + (if oper = INSTRUCTION_OP_AUIPC then pc h else 0)))
      \<lparr>pc := pc h + 4\<rparr>) w1"
  using assms by (rule step_upper_immediate_lemma)

lemma step_upper_immediate_witness:
  "retires_to (hart_step rom_bus demo_hart (\<lambda>_. asm_u 0xFFFFF000 5 0x17)) TRAP_NONE
     ((set_xreg demo_hart 5 0xFFFFF100)\<lparr>pc := 0x104\<rparr>) (\<lambda>_. asm_u 0xFFFFF000 5 0x17)"
  using step_upper_immediate [OF demo_hart_simps(1,3), of INSTRUCTION_OP_AUIPC 5 0 0 "0xFFFFF000"]
  by (simp add: mask_eq_exp_minus_1)

section \<open>Jumps and branches\<close>

text \<open>The target of a jump, by the immediate the format scatters over the word.\<close>

fun rv_jump_target :: "instruction_op_t \<Rightarrow> u32 \<Rightarrow> u32 \<Rightarrow> u32 \<Rightarrow> u32 option" where
  "rv_jump_target INSTRUCTION_OP_JAL pc_val a im = Some (pc_val + sx 21 (im AND NOT 1))"
| "rv_jump_target INSTRUCTION_OP_JALR pc_val a im = Some ((a + sx 12 im) AND NOT 1)"
| "rv_jump_target oper pc_val a im = None"

lemma step_jump_lemma:
  assumes "hart_ok h" "fetches bus h w i w1" "rv32_encode oper d s1 s2 im = Some i"
    and "rv_jump_target oper (pc h) (xreg h s1) im = Some t"
  shows "if t AND 3 = 0
    then retires_to (hart_step bus h w) TRAP_NONE ((set_xreg h d (pc h + 4))\<lparr>pc := t\<rparr>) w1
    else retires_to (hart_step bus h w) TRAP_INSTR_MISALIGNED
           (hart_take_trap h TRAP_INSTR_MISALIGNED t) w1"
proof -
  let ?di = "rve_decode_instruction i" and ?s = "exec_at h i"
  from assms(4) have jump: "oper = INSTRUCTION_OP_JAL \<or> oper = INSTRUCTION_OP_JALR"
    by (cases oper; simp)
  with encoded_fields [OF assms(3)] have f: "op ?di = oper" "rd ?di = take_bit 5 d"
    by (auto simp: rv32_reg_def rv32_format_def rv32_system_def)
  have ex: "execute bus ?di oper ?s w1 = pure_case (exec_jump ?di t ?s) w1"
    using assms(1,4) jump encoded_fields [OF assms(3)]
    by (auto simp: rv32_imm_def rv32_reg_def rv32_format_def rv32_system_def xreg_def)
  show ?thesis
  proof (cases "t AND 3 = 0")
    case True
    define s2 where "s2 = ?s\<lparr>hart_s := h\<lparr>gpr := (gpr h)[unat (rd ?di) := pc h + 4]\<rparr>, next_pc := t\<rparr>"
    have "execute bus ?di (op ?di) ?s w1 = Some (s2, w1)"
      using assms(1) True by (simp add: f ex pure_case_def exec_jump_def set_rd_def s2_def)
    then show ?thesis
      using commit_written [OF assms(1) di_ok_decode, of s2 i "pc h + 4"] True f
      by (auto simp: step_encoded [OF assms(2,3)] run_decoded_def retires_to_def set_xreg_def s2_def)
  next
    case False
    define s2 where "s2 = ?s\<lparr>bad_pc := t, pending_trap := TRAP_INSTR_MISALIGNED\<rparr>"
    have "execute bus ?di (op ?di) ?s w1 = Some (s2, w1)"
      using False by (simp add: f ex pure_case_def exec_jump_def s2_def)
    then show ?thesis
      using commit_trapped [OF assms(1), of s2 ?di] False
      by (auto simp: step_encoded [OF assms(2,3)] run_decoded_def retires_to_def s2_def trap_tval_def)
  qed
qed

text \<open>
  JAL and JALR write the address of the next instruction to d and jump; a target
  that is not a multiple of 4 is an instruction-address-misaligned trap instead, with the target in
  mtval and no register changed. JALR reads its base register before d is written.
\<close>

theorem step_jump:
  assumes "hart_ok h" "fetches bus h w i w1" "rv32_encode oper d s1 s2 im = Some i"
    and "rv_jump_target oper (pc h) (xreg h s1) im = Some t"
  shows "if t AND 3 = 0
    then retires_to (hart_step bus h w) TRAP_NONE ((set_xreg h d (pc h + 4))\<lparr>pc := t\<rparr>) w1
    else retires_to (hart_step bus h w) TRAP_INSTR_MISALIGNED
           (hart_take_trap h TRAP_INSTR_MISALIGNED t) w1"
  using assms by (rule step_jump_lemma)

lemma step_jump_witness:
  "retires_to (hart_step rom_bus demo_hart (\<lambda>_. asm_i 1 1 0 1 0x67)) TRAP_NONE
     ((set_xreg demo_hart 1 0x104)\<lparr>pc := 8\<rparr>) (\<lambda>_. asm_i 1 1 0 1 0x67)"
proof -
  have "rv_jump_target INSTRUCTION_OP_JALR (pc demo_hart) (xreg demo_hart 1) 1 = Some 8"
    by code_simp
  from step_jump [OF demo_hart_simps(1,3) _ this] show ?thesis by simp
qed

fun rv_branch_cond :: "instruction_op_t \<Rightarrow> u32 \<Rightarrow> u32 \<Rightarrow> bool option" where
  "rv_branch_cond INSTRUCTION_OP_BEQ a b = Some (uint a = uint b)"
| "rv_branch_cond INSTRUCTION_OP_BNE a b = Some (uint a \<noteq> uint b)"
| "rv_branch_cond INSTRUCTION_OP_BLT a b = Some (sint a < sint b)"
| "rv_branch_cond INSTRUCTION_OP_BGE a b = Some (sint a \<ge> sint b)"
| "rv_branch_cond INSTRUCTION_OP_BLTU a b = Some (uint a < uint b)"
| "rv_branch_cond INSTRUCTION_OP_BGEU a b = Some (uint a \<ge> uint b)"
| "rv_branch_cond oper a b = None"

lemma step_branch_lemma:
  assumes "hart_ok h" "fetches bus h w i w1" "rv32_encode oper d s1 s2 im = Some i"
    and "rv_branch_cond oper (xreg h s1) (xreg h s2) = Some taken"
  shows "let t = pc h + sx 13 (im AND NOT 1)
    in if \<not> taken then retires_to (hart_step bus h w) TRAP_NONE (h\<lparr>pc := pc h + 4\<rparr>) w1
       else if t AND 3 = 0 then retires_to (hart_step bus h w) TRAP_NONE (h\<lparr>pc := t\<rparr>) w1
       else retires_to (hart_step bus h w) TRAP_INSTR_MISALIGNED
              (hart_take_trap h TRAP_INSTR_MISALIGNED t) w1"
proof -
  let ?di = "rve_decode_instruction i" and ?s = "exec_at h i"
  define t where "t = pc h + sx 13 (im AND NOT 1)"
  from assms(4) have br: "rv32_format oper = INSTRUCTION_FORMAT_B \<and> oper \<notin> rv32_system"
    by (cases oper; simp add: rv32_format_def rv32_system_def)
  with encoded_fields [OF assms(3)] have f: "op ?di = oper" "rs1 ?di = take_bit 5 s1"
    "rs2 ?di = take_bit 5 s2" "imm ?di = sx 13 (im AND NOT 1)"
    by (auto simp: rv32_reg_def rv32_imm_def)
  have regs: "reg_read h (take_bit 5 s1) = Some (xreg h s1)" "reg_read h (take_bit 5 s2) = Some (xreg h s2)"
    using assms(1) by (simp_all add: xreg_def flip: f(2,3))
  define s2 where "s2 = exec_branch ?di taken ?s"
  have "execute bus ?di oper ?s w1 = pure_case (Some s2) w1"
    using assms(4)
    by (cases oper; simp add: op_branch_def f(2,3) regs s2_def word_less_alt word_le_def word_uint_eq_iff)
  then have ex: "execute bus ?di (op ?di) ?s w1 = Some (s2, w1)"
    by (simp add: f pure_case_def)
  have "pc h + sext (imm ?di) 13 = t" by (simp add: f t_def)
  then have s2: "s2 = (if taken \<and> t AND 3 \<noteq> 0
      then ?s\<lparr>bad_pc := t, pending_trap := TRAP_INSTR_MISALIGNED\<rparr>
      else ?s\<lparr>next_pc := (if taken then t else pc h + 4), pending_trap := TRAP_NONE\<rparr>)"
    by (simp add: s2_def exec_branch_def Let_def)
  have "if \<not> taken then retires_to (hart_step bus h w) TRAP_NONE (h\<lparr>pc := pc h + 4\<rparr>) w1
       else if t AND 3 = 0 then retires_to (hart_step bus h w) TRAP_NONE (h\<lparr>pc := t\<rparr>) w1
       else retires_to (hart_step bus h w) TRAP_INSTR_MISALIGNED
              (hart_take_trap h TRAP_INSTR_MISALIGNED t) w1"
  proof (cases "taken \<and> t AND 3 \<noteq> 0")
    case True
    then show ?thesis
      using commit_trapped [OF assms(1), of s2 ?di] ex
      by (auto simp: step_encoded [OF assms(2,3)] run_decoded_def retires_to_def s2 trap_tval_def)
  next
    case False
    then show ?thesis
      using commit_unwritten [OF assms(1) di_ok_decode, of s2 i] ex
      by (auto simp: step_encoded [OF assms(2,3)] run_decoded_def retires_to_def s2)
  qed
  then show ?thesis by (simp only: t_def Let_def)
qed

text \<open>
  The conditional branches compare two registers as signed or unsigned integers,
  change no register, and go to the address of the branch plus the sign-extended even offset or to
  the next instruction. Only a branch that is taken can trap on a misaligned target.
\<close>

theorem step_branch:
  assumes "hart_ok h" "fetches bus h w i w1" "rv32_encode oper d s1 s2 im = Some i"
    and "rv_branch_cond oper (xreg h s1) (xreg h s2) = Some taken"
  shows "let t = pc h + sx 13 (im AND NOT 1)
    in if \<not> taken then retires_to (hart_step bus h w) TRAP_NONE (h\<lparr>pc := pc h + 4\<rparr>) w1
       else if t AND 3 = 0 then retires_to (hart_step bus h w) TRAP_NONE (h\<lparr>pc := t\<rparr>) w1
       else retires_to (hart_step bus h w) TRAP_INSTR_MISALIGNED
              (hart_take_trap h TRAP_INSTR_MISALIGNED t) w1"
  using assms by (rule step_branch_lemma)

lemma step_branch_witness:
  "retires_to (hart_step rom_bus demo_hart (\<lambda>_. asm_b 0xFFFFFFF0 1 2 4 0x63)) TRAP_NONE
     (demo_hart\<lparr>pc := 0xF0\<rparr>) (\<lambda>_. asm_b 0xFFFFFFF0 1 2 4 0x63)"
proof -
  have "rv_branch_cond INSTRUCTION_OP_BLT (xreg demo_hart 2) (xreg demo_hart 1) = Some True"
    by code_simp
  from step_branch [where i = "asm_b 0xFFFFFFF0 1 2 4 0x63" and d = 0 and im = "0xFFFFFFF0",
      OF demo_hart_simps(1,3) _ this]
  show ?thesis by (simp add: Let_def sx_def)
qed

section \<open>The retirement record\<close>

text \<open>
  C16 (invariant): every step of the hart, whatever it fetches and however it ends, keeps the register
  file well formed (32 registers, x0 zero), and its retirement record describes it: the record has
  the program counters before and after, and at most one register differs between the two states,
  the one the record names, with the value it names, never x0, and only when no trap was taken.
\<close>

theorem hart_step_retire:
  assumes "hart_ok h" "hart_step bus h w = Some ((r, h'), w')"
  shows "retire_describes h r h' \<and> hart_ok h'"
  using hart_step_frame [OF assms(2,1)] hart_commit_describes assms(1) by metis

lemma hart_step_retire_witness:
  "\<exists>r h' w'. hart_step rom_bus demo_hart (\<lambda>_. asm_i 0xFFF 1 0 5 0x13) = Some ((r, h'), w')
     \<and> retire_describes demo_hart r h' \<and> hart_ok h'"
proof -
  have "rv_alu INSTRUCTION_OP_ADD (xreg demo_hart 1) (rv32_imm INSTRUCTION_OP_ADDI 0xFFF) = Some 6"
    by code_simp
  from step_immediate_instruction_lemma [where i = "asm_i 0xFFF 1 0 5 0x13" and d = 5 and im = "0xFFF"
      and ?s1.0 = 1 and ?s2.0 = 0 and base = INSTRUCTION_OP_ADD and oper = INSTRUCTION_OP_ADDI,
      OF demo_hart_simps(1,3) _ _ this]
  obtain r h' w' where st: "hart_step rom_bus demo_hart (\<lambda>_. asm_i 0xFFF 1 0 5 0x13) = Some ((r, h'), w')"
    by (auto simp: retires_to_def)
  with hart_step_retire [OF demo_hart_simps(1) st] show ?thesis by blast
qed

end
