(* ===== verification/Rve_Memory.thy ===== *)
theory Rve_Memory
  imports Rve_Bus
begin

unbundle bit_operations_syntax

text \<open>
  The flat RAM device: include/rve/peripherals/memory.h and src/memory.c. The backing block
  is a function from offsets to bytes of which the first \<open>size\<close> are allocated; every
  \<open>memcpy\<close> and \<open>memset\<close> checks that it stays inside, so an access outside the block is
  undefined behaviour (\<open>None\<close>) and not a default value. A \<open>memory_t *\<close> argument is a
  \<open>memory_t option\<close>, \<open>None\<close> being NULL. Whether malloc and calloc succeed is an argument.

  The contract a RAM gives its clients is the locale \<open>ram\<close>; the device satisfies it here and
  the bus in front of the device satisfies it in Rve_Devices.
\<close>

section \<open>State\<close>

record memory_t =
  raw_memory :: "(nat \<Rightarrow> u8) option"
  size_m :: u64
  base_addr :: u32

text \<open>\<open>memcpy\<close> out of and into a block of \<open>n\<close> bytes.\<close>

definition mem_get :: "(nat \<Rightarrow> u8) \<Rightarrow> nat \<Rightarrow> nat \<Rightarrow> nat \<Rightarrow> u8 list option" where
  "mem_get blk n off len = (if off + len \<le> n then Some (map (\<lambda>i. blk (off + i)) [0..<len]) else None)"

definition store_bytes :: "(nat \<Rightarrow> u8) \<Rightarrow> nat \<Rightarrow> u8 list \<Rightarrow> nat \<Rightarrow> u8" where
  "store_bytes blk off bs = (\<lambda>i. if off \<le> i \<and> i < off + length bs then bs ! (i - off) else blk i)"

definition mem_put :: "(nat \<Rightarrow> u8) \<Rightarrow> nat \<Rightarrow> nat \<Rightarrow> u8 list \<Rightarrow> (nat \<Rightarrow> u8) option" where
  "mem_put blk n off bs = (if off + length bs \<le> n then Some (store_bytes blk off bs) else None)"

section \<open>Operations (src/memory.c)\<close>

definition memory_create_ctx :: "bool \<Rightarrow> u32 \<Rightarrow> u64 \<Rightarrow> memory_t option" where
  "memory_create_ctx malloc_ok base sz =
    (if malloc_ok then Some \<lparr>raw_memory = None, size_m = sz, base_addr = base\<rparr> else None)"

definition memory_init :: "bool \<Rightarrow> memory_t option \<Rightarrow> bool \<times> memory_t option" where
  "memory_init calloc_ok m =
    (case m of
       None \<Rightarrow> (False, m)
     | Some mem \<Rightarrow>
         (calloc_ok, Some (mem\<lparr>raw_memory := (if calloc_ok then Some (\<lambda>_. 0) else None)\<rparr>)))"

definition memory_deinit :: "memory_t option \<Rightarrow> bool \<times> memory_t option" where
  "memory_deinit m =
    (case m of
       None \<Rightarrow> (True, m)
     | Some mem \<Rightarrow> (True, Some (mem\<lparr>raw_memory := None\<rparr>)))"

text \<open>
  \<open>memory_load_file\<close> returns 0 or -1. The range check adds two \<open>size_t\<close>, so it wraps;
  \<open>memcpy\<close> reads \<open>program_size\<close> bytes from the buffer \<open>program_data\<close>.
\<close>

definition memory_load_file ::
    "memory_t option \<Rightarrow> u32 \<Rightarrow> u8 list \<Rightarrow> u64 \<Rightarrow> (int \<times> memory_t option) option" where
  "memory_load_file m addr program_data program_size =
    (case m of
       None \<Rightarrow> Some (-1, m)
     | Some mem \<Rightarrow>
         (case raw_memory mem of
            None \<Rightarrow> Some (-1, m)
          | Some raw \<Rightarrow>
              if addr < base_addr mem then Some (-1, m)
              else let offset = ucast (addr - base_addr mem) :: u64
                   in if size_m mem < offset + program_size then Some (-1, m)
                      else if length program_data < unat program_size then None
                      else do {
                        raw' \<leftarrow> mem_put raw (unat (size_m mem)) (unat offset)
                                  (take (unat program_size) program_data);
                        Some (0, Some (mem\<lparr>raw_memory := Some raw'\<rparr>))
                      }))"

definition memory_load_instruction ::
    "memory_t option \<Rightarrow> u32 \<Rightarrow> u32 \<Rightarrow> memory_t option option" where
  "memory_load_instruction m addr instruction =
    (case m of
       None \<Rightarrow> Some m
     | Some mem \<Rightarrow>
         (case raw_memory mem of
            None \<Rightarrow> Some m
          | Some raw \<Rightarrow>
              if addr < base_addr mem then Some m
              else let offset = ucast (addr - base_addr mem) :: u64
                   in if size_m mem < offset + 4 then Some m
                      else do {
                        raw' \<leftarrow> mem_put raw (unat (size_m mem)) (unat offset) (le_bytes 4 instruction);
                        Some (Some (mem\<lparr>raw_memory := Some raw'\<rparr>))
                      }))"

text \<open>
  The bus callbacks. A width of 40 to 64 bits passes the code's guard and then copies more
  than the four bytes \<open>result\<close> and \<open>data\<close> have.
\<close>

definition memory_read :: "memory_t option \<Rightarrow> u32 \<Rightarrow> u8 \<Rightarrow> u32 option option" where
  "memory_read m addr size_bits =
    (case m of
       None \<Rightarrow> Some None
     | Some mem \<Rightarrow>
         (let bytes = size_bits div 8
          in if bytes = 0 \<or> 8 < bytes then Some None
             else if addr < base_addr mem then Some None
             else let offset = ucast (addr - base_addr mem) :: u64
                  in if size_m mem < offset + ucast bytes then Some None
                     else if 4 < bytes then None
                     else do {
                       raw \<leftarrow> raw_memory mem;
                       bs \<leftarrow> mem_get raw (unat (size_m mem)) (unat offset) (unat bytes);
                       Some (Some (le_word bs))
                     }))"

definition memory_write ::
    "memory_t option \<Rightarrow> u32 \<Rightarrow> u32 \<Rightarrow> u8 \<Rightarrow> (bool \<times> memory_t option) option" where
  "memory_write m addr data size_bits =
    (case m of
       None \<Rightarrow> Some (False, m)
     | Some mem \<Rightarrow>
         (let bytes = size_bits div 8
          in if bytes = 0 \<or> 8 < bytes then Some (False, m)
             else if addr < base_addr mem then Some (False, m)
             else let offset = ucast (addr - base_addr mem) :: u64
                  in if size_m mem < offset + ucast bytes then Some (False, m)
                     else if 4 < bytes then None
                     else do {
                       raw \<leftarrow> raw_memory mem;
                       raw' \<leftarrow> mem_put raw (unat (size_m mem)) (unat offset) (le_bytes (unat bytes) data);
                       Some (True, Some (mem\<lparr>raw_memory := Some raw'\<rparr>))
                     }))"

definition memory_flush :: "memory_t option \<Rightarrow> memory_t option" where
  "memory_flush m =
    (case m of
       None \<Rightarrow> m
     | Some mem \<Rightarrow>
         (case raw_memory mem of
            None \<Rightarrow> m
          | Some raw \<Rightarrow> Some (mem\<lparr>raw_memory :=
              Some (\<lambda>i. if i < unat (size_m mem) then 0 else raw i)\<rparr>)))"

section \<open>Addresses inside the device\<close>

definition in_memory :: "memory_t \<Rightarrow> u32 \<Rightarrow> nat \<Rightarrow> bool" where
  "in_memory mem addr n \<longleftrightarrow> base_addr mem \<le> addr
     \<and> unat addr - unat (base_addr mem) + n \<le> unat (size_m mem)"

lemma unat_offset: "base_addr mem \<le> addr \<Longrightarrow>
    unat (ucast (addr - base_addr mem) :: u64) = unat addr - unat (base_addr mem)"
  by (simp add: unat_sub unat_u64_of_u32)

lemma offset_check:
  assumes "base_addr mem \<le> addr" "unat n \<le> 8"
  shows "size_m mem < ucast (addr - base_addr mem) + n \<longleftrightarrow> \<not> in_memory mem addr (unat n)"
proof -
  have "unat addr - unat (base_addr mem) < 4294967296"
    using unat_less32 [of addr] by simp
  with assms have "unat (ucast (addr - base_addr mem) + n)
      = unat addr - unat (base_addr mem) + unat n"
    by (subst unat_add_small) (simp_all add: unat_offset)
  with assms(1) show ?thesis by (auto simp: word_less_nat_alt in_memory_def)
qed

lemma access_bytes:
  assumes "access_size sz"
  shows "sz div 8 \<noteq> 0" "\<not> 8 < sz div 8" "\<not> 4 < sz div 8"
    "unat (sz div 8) = unat sz div 8" "unat sz div 8 \<in> {1, 2, 4}" "8 * (unat sz div 8) = unat sz"
    "unat (ucast (sz div 8) :: u64) = unat sz div 8"
  using assms by (auto simp: access_size_def)

lemma access_offset_check:
  assumes "access_size sz" "base_addr mem \<le> addr"
  shows "size_m mem < ucast (addr - base_addr mem) + ucast (sz div 8)
    \<longleftrightarrow> \<not> in_memory mem addr (unat sz div 8)"
proof -
  have "unat sz div 8 \<le> 8" using access_bytes(5) [OF assms(1)] by auto
  then show ?thesis
    using offset_check [OF assms(2), of "ucast (sz div 8)"] access_bytes(7) [OF assms(1)] by simp
qed

text \<open>The two bus callbacks at the widths the hart uses.\<close>

lemma memory_read_eq:
  assumes "access_size sz" "raw_memory mem = Some raw"
  shows "memory_read (Some mem) addr sz =
    Some (if in_memory mem addr (unat sz div 8)
          then Some (le_word (map (\<lambda>i. raw (unat addr - unat (base_addr mem) + i)) [0..<unat sz div 8]))
          else None)"
proof (cases "base_addr mem \<le> addr")
  case True
  then show ?thesis
    using access_bytes [OF assms(1)] access_offset_check [OF assms(1) True] assms(2)
    by (simp add: memory_read_def unat_offset mem_get_def in_memory_def Let_def not_less)
next
  case False
  then show ?thesis
    using access_bytes [OF assms(1)] by (simp add: memory_read_def in_memory_def not_le Let_def not_less)
qed

lemma memory_write_eq:
  assumes "access_size sz" "raw_memory mem = Some raw"
  shows "memory_write (Some mem) addr data sz =
    Some (if in_memory mem addr (unat sz div 8)
          then (True, Some (mem\<lparr>raw_memory :=
             Some (store_bytes raw (unat addr - unat (base_addr mem)) (le_bytes (unat sz div 8) data))\<rparr>))
          else (False, Some mem))"
proof (cases "base_addr mem \<le> addr")
  case True
  then show ?thesis
    using access_bytes [OF assms(1)] access_offset_check [OF assms(1) True] assms(2)
    by (simp add: memory_write_def unat_offset mem_put_def in_memory_def Let_def not_less)
next
  case False
  then show ?thesis
    using access_bytes [OF assms(1)] by (simp add: memory_write_def in_memory_def not_le Let_def not_less)
qed

lemma map_store_bytes_same:
  "map (\<lambda>i. store_bytes raw off bs (off + i)) [0..<length bs] = bs"
  by (auto simp: store_bytes_def intro: nth_equalityI)

lemma map_store_bytes_other:
  assumes "off + length bs \<le> k \<or> k + n \<le> off"
  shows "map (\<lambda>i. store_bytes raw off bs (k + i)) [0..<n] = map (\<lambda>i. raw (k + i)) [0..<n]"
  using assms by (auto simp: store_bytes_def)

section \<open>The contract of a RAM\<close>

text \<open>
  \<open>inside a sz\<close> says that the access of \<open>sz\<close> bits at \<open>a\<close> lies in the RAM. Accesses there
  succeed; a read returns what was last written to the same place, and a write changes
  nothing that lies apart from it.
\<close>

definition apart :: "u32 \<Rightarrow> u8 \<Rightarrow> u32 \<Rightarrow> u8 \<Rightarrow> bool" where
  "apart a sz b sz' \<longleftrightarrow> unat a + unat sz div 8 \<le> unat b \<or> unat b + unat sz' div 8 \<le> unat a"

lemma apart_sym: "apart a sz b sz' \<Longrightarrow> apart b sz' a sz"
  by (auto simp: apart_def)

locale ram =
  fixes ram_ok :: "'s \<Rightarrow> bool"
    and inside :: "u32 \<Rightarrow> u8 \<Rightarrow> bool"
    and rd :: "u32 \<Rightarrow> u8 \<Rightarrow> 's \<Rightarrow> (u32 option \<times> 's) option"
    and wr :: "u32 \<Rightarrow> u32 \<Rightarrow> u8 \<Rightarrow> 's \<Rightarrow> (bool \<times> 's) option"
  assumes rd_inside: "ram_ok s \<Longrightarrow> inside a sz \<Longrightarrow> \<exists>v. rd a sz s = Some (Some v, s)"
    and wr_inside: "ram_ok s \<Longrightarrow> inside a sz \<Longrightarrow> \<exists>s'. wr a v sz s = Some (True, s') \<and> ram_ok s'"
    and rd_wr_same: "ram_ok s \<Longrightarrow> inside a sz \<Longrightarrow> wr a v sz s = Some (True, s') \<Longrightarrow>
      rd a sz s' = Some (Some (take_bit (unat sz) v), s')"
    and rd_wr_apart: "ram_ok s \<Longrightarrow> inside a sz \<Longrightarrow> inside b sz' \<Longrightarrow> apart a sz b sz' \<Longrightarrow>
      wr a v sz s = Some (True, s') \<Longrightarrow> rd b sz' s = Some (Some u, s) \<Longrightarrow>
      rd b sz' s' = Some (Some u, s')"
begin

text \<open>A write followed by a read of the same place, as one computation.\<close>

lemma write_then_read:
  assumes "ram_ok s" "inside a sz"
  shows "\<exists>s'. ram_ok s' \<and> wr a v sz s = Some (True, s')
    \<and> rd a sz s' = Some (Some (take_bit (unat sz) v), s')"
  using wr_inside [OF assms] rd_wr_same [OF assms] by blast

text \<open>A value survives a later write elsewhere, and is replaced by a later write in place.\<close>

lemma write_survives:
  assumes "ram_ok s" "inside a sz" "inside b sz'" "apart a sz b sz'"
    and "wr a v sz s = Some (True, s1)" "wr b u sz' s1 = Some (True, s2)"
  shows "rd a sz s2 = Some (Some (take_bit (unat sz) v), s2)
    \<and> rd b sz' s2 = Some (Some (take_bit (unat sz') u), s2)"
proof -
  have ok1: "ram_ok s1" using wr_inside [OF assms(1,2), of v] assms(5) by auto
  have "rd a sz s1 = Some (Some (take_bit (unat sz) v), s1)"
    using rd_wr_same [OF assms(1,2,5)] .
  from rd_wr_apart [OF ok1 assms(3,2) apart_sym [OF assms(4)] assms(6) this]
    rd_wr_same [OF ok1 assms(3,6)]
  show ?thesis by simp
qed

lemma last_write_wins:
  assumes "ram_ok s" "inside a sz"
    and "wr a v sz s = Some (True, s1)" "wr a u sz s1 = Some (True, s2)"
  shows "rd a sz s2 = Some (Some (take_bit (unat sz) u), s2)"
proof -
  have "ram_ok s1" using wr_inside [OF assms(1,2), of v] assms(3) by auto
  from rd_wr_same [OF this assms(2,4)] show ?thesis .
qed

end

section \<open>The device satisfies the contract\<close>

definition mem_ok :: "memory_t \<Rightarrow> memory_t \<Rightarrow> bool" where
  "mem_ok m0 m \<longleftrightarrow> raw_memory m \<noteq> None \<and> size_m m = size_m m0 \<and> base_addr m = base_addr m0"

definition mem_rd :: "u32 \<Rightarrow> u8 \<Rightarrow> memory_t \<Rightarrow> (u32 option \<times> memory_t) option" where
  "mem_rd a sz m = map_option (\<lambda>r. (r, m)) (memory_read (Some m) a sz)"

definition mem_wr :: "u32 \<Rightarrow> u32 \<Rightarrow> u8 \<Rightarrow> memory_t \<Rightarrow> (bool \<times> memory_t) option" where
  "mem_wr a v sz m = map_option (\<lambda>(b, m'). (b, the m')) (memory_write (Some m) a v sz)"

definition mem_inside :: "memory_t \<Rightarrow> u32 \<Rightarrow> u8 \<Rightarrow> bool" where
  "mem_inside m0 a sz \<longleftrightarrow> access_size sz \<and> in_memory m0 a (unat sz div 8)"

lemma in_memory_cong: "mem_ok m0 m \<Longrightarrow> in_memory m a n = in_memory m0 a n"
  by (simp add: mem_ok_def in_memory_def)

lemma mem_rd_eq:
  assumes "mem_ok m0 m" "mem_inside m0 a sz" "raw_memory m = Some raw"
  shows "mem_rd a sz m = Some (Some (le_word (map (\<lambda>i. raw (unat a - unat (base_addr m) + i))
    [0..<unat sz div 8])), m)"
  using assms by (simp add: mem_rd_def memory_read_eq mem_inside_def in_memory_cong)

lemma mem_wr_eq:
  assumes "mem_ok m0 m" "mem_inside m0 a sz" "raw_memory m = Some raw"
  shows "mem_wr a v sz m = Some (True, m\<lparr>raw_memory :=
    Some (store_bytes raw (unat a - unat (base_addr m)) (le_bytes (unat sz div 8) v))\<rparr>)"
  using assms by (simp add: mem_wr_def memory_write_eq mem_inside_def in_memory_cong)

interpretation mem: ram "mem_ok m0" "mem_inside m0" mem_rd mem_wr for m0
proof unfold_locales
  fix s a sz assume ok: "mem_ok m0 s" and ins: "mem_inside m0 a sz"
  then obtain raw where raw: "raw_memory s = Some raw" by (auto simp: mem_ok_def)
  show "\<exists>v. mem_rd a sz s = Some (Some v, s)" by (simp add: mem_rd_eq [OF ok ins raw])
  fix v
  show "\<exists>s'. mem_wr a v sz s = Some (True, s') \<and> mem_ok m0 s'"
    using ok by (simp add: mem_wr_eq [OF ok ins raw] mem_ok_def)
  fix s' assume w: "mem_wr a v sz s = Some (True, s')"
  then have s': "s' = s\<lparr>raw_memory :=
    Some (store_bytes raw (unat a - unat (base_addr s)) (le_bytes (unat sz div 8) v))\<rparr>"
    by (simp add: mem_wr_eq [OF ok ins raw])
  with ok have ok': "mem_ok m0 s'" by (simp add: mem_ok_def)
  note raw' = mem_rd_eq [OF ok', unfolded s', simplified, OF _ refl]
  show "mem_rd a sz s' = Some (Some (take_bit (unat sz) v), s')"
    using raw' [OF ins] access_bytes(6) [of sz] ins
      map_store_bytes_same [of raw _ "le_bytes (unat sz div 8) v"]
    by (simp add: s' le_word_le_bytes mem_inside_def)
  fix b sz' u
  assume b: "mem_inside m0 b sz'" and ap: "apart a sz b sz'"
    and r: "mem_rd b sz' s = Some (Some u, s)"
  have "base_addr s \<le> a" "base_addr s \<le> b"
    using ok ins b by (simp_all add: mem_ok_def mem_inside_def in_memory_def)
  with ap have "unat a - unat (base_addr s) + length (le_bytes (unat sz div 8) v)
        \<le> unat b - unat (base_addr s)
      \<or> unat b - unat (base_addr s) + unat sz' div 8 \<le> unat a - unat (base_addr s)"
    by (auto simp: apart_def word_le_nat_alt)
  note other = map_store_bytes_other [OF this, of raw]
  from r show "mem_rd b sz' s' = Some (Some u, s')"
    using raw' [OF b] mem_rd_eq [OF ok b raw] by (simp only: s' other option.inject prod.inject)
qed

section \<open>Properties of the memory device\<close>

text \<open>
  Read over write. A write of 8, 16 or 32 bits that lies inside the device
  succeeds; reading the same place then gives the written value cut to that width, and every
  read that lies apart from it, of whatever width and inside the device or not, gives what it
  gave before.
\<close>

theorem memory_read_over_write:
  assumes "raw_memory m \<noteq> None" "access_size sz" "in_memory m a (unat sz div 8)"
  shows "\<exists>m'. memory_write (Some m) a v sz = Some (True, Some m')
    \<and> memory_read (Some m') a sz = Some (Some (take_bit (unat sz) v))
    \<and> (\<forall>b sz'. access_size sz' \<and> apart a sz b sz' \<longrightarrow>
         memory_read (Some m') b sz' = memory_read (Some m) b sz')"
proof -
  have ok: "mem_ok m m" and ins: "mem_inside m a sz"
    using assms by (simp_all add: mem_ok_def mem_inside_def)
  from mem.write_then_read [OF ok ins, of v] obtain m' where m': "mem_ok m m'"
    "mem_wr a v sz m = Some (True, m')" "mem_rd a sz m' = Some (Some (take_bit (unat sz) v), m')"
    by blast
  have "memory_write (Some m) a v sz = Some (True, Some m')"
    using assms m'(2) by (auto simp: mem_wr_def memory_write_eq)
  moreover have "memory_read (Some m') a sz = Some (Some (take_bit (unat sz) v))"
    using m'(3) by (auto simp: mem_rd_def)
  moreover have "memory_read (Some m') b sz' = memory_read (Some m) b sz'"
    if "access_size sz'" "apart a sz b sz'" for b sz'
  proof (cases "mem_inside m b sz'")
    case True
    from mem.rd_inside [OF ok True] obtain u where u: "mem_rd b sz' m = Some (Some u, m)" by blast
    from mem.rd_wr_apart [OF ok ins True that(2) m'(2) u] u show ?thesis
      by (auto simp: mem_rd_def)
  next
    case False
    with that(1) ok m'(1) show ?thesis
      by (auto simp: mem_ok_def mem_inside_def memory_read_eq in_memory_def)
  qed
  ultimately show ?thesis by blast
qed

lemma memory_read_over_write_witness:
  "\<exists>m'. memory_write (Some \<lparr>raw_memory = Some (\<lambda>_. 0), size_m = 16, base_addr = 0x80000000\<rparr>)
       0x80000004 0x12345678 16 = Some (True, Some m')
     \<and> memory_read (Some m') 0x80000004 16 = Some (Some 0x5678)"
proof -
  have "take_bit (unat (16 :: u8)) (0x12345678 :: u32) = 0x5678" by code_simp
  then show ?thesis
    using memory_read_over_write [of "\<lparr>raw_memory = Some (\<lambda>_. 0), size_m = 16, base_addr = 0x80000000\<rparr>"
        16 "0x80000004" "0x12345678"]
    by (auto simp: access_size_def in_memory_def)
qed

text \<open>
  The device is little-endian. The byte at address \<open>a + k\<close> is byte \<open>k\<close>, counted
  from the least significant, of the 32-bit word read at \<open>a\<close>.
\<close>

theorem memory_little_endian:
  assumes "raw_memory m = Some raw" "in_memory m a 4" "k < 4" "unat a + 4 \<le> 2 ^ 32"
  shows "\<exists>v. memory_read (Some m) a 32 = Some (Some v)
    \<and> memory_read (Some m) (a + of_nat k) 8 = Some (Some (take_bit 8 (drop_bit (8 * k) v)))"
proof -
  have k: "unat (a + of_nat k) = unat a + k"
    using assms(3,4) by (subst unat_add_small) (simp_all add: unat_of_nat_small)
  with assms have ink: "in_memory m (a + of_nat k) 1"
    by (auto simp: in_memory_def word_le_nat_alt)
  have sz: "access_size 8" "access_size 32" by (simp_all add: access_size_def)
  define bs where "bs = map (\<lambda>i. raw (unat a - unat (base_addr m) + i)) [0..<4]"
  have "bs ! k = ucast (drop_bit (8 * k) (le_word bs))"
    using le_bytes_le_word [of bs] nth_le_bytes [of k 4 "le_word bs"] assms(3) by (simp add: bs_def)
  moreover have "(ucast (ucast w :: u8) :: u32) = take_bit 8 w" for w :: u32
    by (rule bit_word_eqI) (auto simp: bit_simps)
  ultimately have byte: "ucast (bs ! k) = take_bit 8 (drop_bit (8 * k) (le_word bs))" by simp
  have "bs ! k = raw (unat (a + of_nat k) - unat (base_addr m))"
    using assms(2,3) k by (auto simp: bs_def in_memory_def word_le_nat_alt intro!: arg_cong [of _ _ raw])
  with byte show ?thesis
    using assms(1,2) ink sz by (simp add: memory_read_eq flip: bs_def)
qed

lemma memory_little_endian_witness:
  "\<exists>v. memory_read (Some \<lparr>raw_memory = Some (\<lambda>i. of_nat i), size_m = 16, base_addr = 0x80000000\<rparr>)
         0x80000004 32 = Some (Some v)
     \<and> memory_read (Some \<lparr>raw_memory = Some (\<lambda>i. of_nat i), size_m = 16, base_addr = 0x80000000\<rparr>)
         0x80000006 8 = Some (Some (take_bit 8 (drop_bit 16 v)))"
  using memory_little_endian [of "\<lparr>raw_memory = Some (\<lambda>i. of_nat i), size_m = 16, base_addr = 0x80000000\<rparr>"
      "\<lambda>i. of_nat i" "0x80000004" 2]
  by (simp add: in_memory_def)

lemma memory_load_file_spec_lemma:
  assumes "length data < 2 ^ 63"
  shows "memory_load_file (Some m) addr data (of_nat (length data)) =
    Some (case raw_memory m of
            None \<Rightarrow> (-1, Some m)
          | Some raw \<Rightarrow>
              if in_memory m addr (length data)
              then (0, Some (m\<lparr>raw_memory :=
                      Some (store_bytes raw (unat addr - unat (base_addr m)) data)\<rparr>))
              else (-1, Some m))"
proof (cases "raw_memory m = None \<or> \<not> base_addr m \<le> addr")
  case True
  then show ?thesis
    by (auto simp: memory_load_file_def in_memory_def not_le not_less split: option.splits)
next
  case False
  then obtain raw where raw: "raw_memory m = Some raw" and le: "base_addr m \<le> addr" by auto
  have n: "unat (of_nat (length data) :: u64) = length data"
    using assms by (simp add: unat_of_nat_small)
  have "unat (ucast (addr - base_addr m) + (of_nat (length data) :: u64))
      = unat addr - unat (base_addr m) + length data"
    using assms unat_less32 [of addr] n
    by (subst unat_add_small) (simp_all add: unat_offset [OF le])
  with raw le n show ?thesis
    using le [unfolded word_le_nat_alt]
    by (simp add: memory_load_file_def Let_def word_less_nat_alt in_memory_def mem_put_def
        unat_offset not_less)
qed

text \<open>
  Loading a program. A buffer shorter than 2 ^ 63 bytes is copied, byte by byte,
  when the whole of it fits in the initialised device, and nothing else changes; otherwise the
  function returns -1 and changes nothing. No access leaves the block in either case.
\<close>

theorem memory_load_file_spec:
  assumes "length data < 2 ^ 63"
  shows "memory_load_file (Some m) addr data (of_nat (length data)) =
    Some (case raw_memory m of
            None \<Rightarrow> (-1, Some m)
          | Some raw \<Rightarrow>
              if in_memory m addr (length data)
              then (0, Some (m\<lparr>raw_memory :=
                      Some (store_bytes raw (unat addr - unat (base_addr m)) data)\<rparr>))
              else (-1, Some m))"
  using assms by (rule memory_load_file_spec_lemma)

lemma memory_load_file_spec_witness:
  "\<exists>m'. memory_load_file (Some \<lparr>raw_memory = Some (\<lambda>_. 0), size_m = 16, base_addr = 0x80000000\<rparr>)
     0x8000000C [1, 2, 3, 4] 4 = Some (0, m')"
  using memory_load_file_spec [of "[1, 2, 3, 4]" "\<lparr>raw_memory = Some (\<lambda>_. 0), size_m = 16, base_addr = 0x80000000\<rparr>"
      "0x8000000C"]
  by (simp add: in_memory_def)

text \<open>
  C34 (safety): when a read is undefined behaviour, exactly: it passes every guard of the code
  (its width is 8 to 71 bits and it lies inside the device) although it is wider than the four
  bytes of \<open>*result\<close> or the block was never allocated. The widths 8, 16 and 32 on an initialised
  device are therefore always defined.
\<close>

theorem memory_read_undefined_iff:
  "memory_read (Some m) addr sz = None \<longleftrightarrow>
     8 \<le> sz \<and> sz < 72 \<and> in_memory m addr (unat sz div 8) \<and> (40 \<le> sz \<or> raw_memory m = None)"
proof -
  have "sz div 8 = 0 \<longleftrightarrow> unat (sz div 8) = unat (0 :: u8)" by (rule word_unat_eq_iff)
  then have bytes: "sz div 8 = 0 \<longleftrightarrow> \<not> 8 \<le> sz" "8 < sz div 8 \<longleftrightarrow> \<not> sz < 72" "4 < sz div 8 \<longleftrightarrow> 40 \<le> sz"
    "unat (sz div 8) = unat sz div 8" "unat (ucast (sz div 8) :: u64) = unat sz div 8"
    by (simp_all add: word_less_nat_alt word_le_nat_alt unat_div unat_u64_of_u8 div_eq_0_iff, linarith+)
  show ?thesis
  proof (cases "8 \<le> sz \<and> sz < 72 \<and> base_addr m \<le> addr")
    case True
    then have "unat sz < 72" by (simp add: word_less_nat_alt)
    then have "unat sz div 8 \<le> 8" by linarith
    with bytes(5) have "unat (ucast (sz div 8) :: u64) \<le> 8" by simp
    from offset_check [OF _ this, of m addr] True bytes show ?thesis
      by (auto simp: memory_read_def Let_def not_less in_memory_def mem_get_def unat_offset
          split: Option.bind_splits)
  next
    case False
    with bytes show ?thesis
      by (auto simp: memory_read_def Let_def not_less in_memory_def not_le)
  qed
qed

end
