(* ===== verification/Rve_Text.thy ===== *)
theory Rve_Text
  imports Rve_Prelude
begin

text \<open>
  The text functions of the C library the sources use: \<open>printf\<close> conversions of numbers, padding,
  \<open>snprintf\<close> and \<open>strtoul\<close>; and how to read a text back, as tokens and as numbers.
\<close>

section \<open>Numbers to text\<close>

definition lower_digit :: "nat \<Rightarrow> char" where
  "lower_digit n = (if n < 10 then char_of (48 + n) else char_of (87 + n))"

definition upper_digit :: "nat \<Rightarrow> char" where
  "upper_digit n = (if n < 10 then char_of (48 + n) else char_of (55 + n))"

fun radix_string :: "(nat \<Rightarrow> char) \<Rightarrow> nat \<Rightarrow> nat \<Rightarrow> string" where
  "radix_string dig b n =
    (if b < 2 \<or> n < b then [dig n] else radix_string dig b (n div b) @ [dig (n mod b)])"

declare radix_string.simps [simp del]

text \<open>\<open>%u\<close>, \<open>%d\<close>, \<open>%x\<close>, \<open>%X\<close>, and the two ways to fill up to a width.\<close>

definition dec_string :: "nat \<Rightarrow> string" where
  "dec_string n = radix_string lower_digit 10 n"

definition int_string :: "int \<Rightarrow> string" where
  "int_string i = (if i < 0 then CHR ''-'' # dec_string (nat (- i)) else dec_string (nat i))"

definition hex_string :: "nat \<Rightarrow> string" where
  "hex_string n = radix_string lower_digit 16 n"

definition HEX_string :: "nat \<Rightarrow> string" where
  "HEX_string n = radix_string upper_digit 16 n"

definition pad_left :: "char \<Rightarrow> nat \<Rightarrow> string \<Rightarrow> string" where
  "pad_left c n s = replicate (n - length s) c @ s"

definition pad_right :: "nat \<Rightarrow> string \<Rightarrow> string" where
  "pad_right n s = s @ replicate (n - length s) (CHR '' '')"

text \<open>\<open>%08X\<close> of a word.\<close>

definition word_text :: "u32 \<Rightarrow> string" where
  "word_text w = pad_left (CHR ''0'') 8 (HEX_string (unat w))"

text \<open>
  \<open>snprintf\<close>: the length of the whole text, and what is in the buffer before the terminating NUL.
\<close>

definition snprintf :: "u64 \<Rightarrow> string \<Rightarrow> int \<times> string" where
  "snprintf n s = (int (length s), take (unat n - 1) s)"

text \<open>Single digits, for the evaluation of texts.\<close>

lemma digit_chars:
  "lower_digit (Suc 0) = CHR ''1''" "lower_digit 0 = CHR ''0''" "lower_digit 1 = CHR ''1''" "lower_digit 2 = CHR ''2''"
  "lower_digit 3 = CHR ''3''" "lower_digit 4 = CHR ''4''" "lower_digit 5 = CHR ''5''" "lower_digit 6 = CHR ''6''"
  "lower_digit 7 = CHR ''7''" "lower_digit 8 = CHR ''8''" "lower_digit 9 = CHR ''9''"
  "upper_digit (Suc 0) = CHR ''1''" "upper_digit 0 = CHR ''0''" "upper_digit 1 = CHR ''1''" "upper_digit 2 = CHR ''2''"
  "upper_digit 3 = CHR ''3''" "upper_digit 4 = CHR ''4''" "upper_digit 5 = CHR ''5''" "upper_digit 6 = CHR ''6''"
  "upper_digit 7 = CHR ''7''" "upper_digit 8 = CHR ''8''" "upper_digit 9 = CHR ''9''" "upper_digit 10 = CHR ''A''"
  "upper_digit 11 = CHR ''B''" "upper_digit 12 = CHR ''C''" "upper_digit 13 = CHR ''D''" "upper_digit 14 = CHR ''E''"
  "upper_digit 15 = CHR ''F''"
  by code_simp+

lemma replicate_digits:
  "replicate 2 x = [x, x]" "replicate 3 x = [x, x, x]" "replicate 4 x = [x, x, x, x]"
  "replicate 5 x = [x, x, x, x, x]" "replicate 6 x = [x, x, x, x, x, x]" "replicate 7 x = [x, x, x, x, x, x, x]"
  by (simp_all add: numeral_eq_Suc)

section \<open>Text to numbers\<close>

definition digit_value :: "char \<Rightarrow> nat option" where
  "digit_value c =
    (let k = of_char c :: nat
     in if 48 \<le> k \<and> k \<le> 57 then Some (k - 48)
        else if 97 \<le> k \<and> k \<le> 122 then Some (k - 87)
        else if 65 \<le> k \<and> k \<le> 90 then Some (k - 55)
        else None)"

fun read_digits :: "nat \<Rightarrow> string \<Rightarrow> nat \<Rightarrow> nat" where
  "read_digits b [] acc = acc"
| "read_digits b (c # cs) acc =
    (case digit_value c of
       None \<Rightarrow> acc
     | Some d \<Rightarrow> if d < b then read_digits b cs (acc * b + d) else acc)"

definition is_space :: "char \<Rightarrow> bool" where
  "is_space c = (let k = of_char c :: nat in k = 32 \<or> 9 \<le> k \<and> k \<le> 13)"

text \<open>The optional \<open>0x\<close> of base 16, which counts only before a hexadecimal digit.\<close>

fun strip_0x :: "string \<Rightarrow> string" where
  "strip_0x (z # x # c # cs) =
    (if z = CHR ''0'' \<and> (x = CHR ''x'' \<or> x = CHR ''X'')
        \<and> (case digit_value c of None \<Rightarrow> False | Some d \<Rightarrow> d < 16)
     then c # cs else z # x # c # cs)"
| "strip_0x s = s"

text \<open>
  \<open>strtoul\<close> and \<open>strtoull\<close> on a platform whose \<open>unsigned long\<close> has 64 bits: leading space, a sign,
  digits up to the first other character, saturation.
\<close>

definition strtoul :: "string \<Rightarrow> nat \<Rightarrow> u64" where
  "strtoul s b =
    (let s1 = dropWhile is_space s;
         (neg, s2) = (case s1 of
                        [] \<Rightarrow> (False, [])
                      | c # cs \<Rightarrow> if c = CHR ''-'' then (True, cs)
                                  else if c = CHR ''+'' then (False, cs) else (False, s1));
         v = read_digits b (if b = 16 then strip_0x s2 else s2) 0
     in if 2 ^ 64 \<le> v then -1 else if neg then - of_nat v else of_nat v)"

section \<open>Reading back what was printed\<close>

definition digits_ok :: "(nat \<Rightarrow> char) \<Rightarrow> bool" where
  "digits_ok dig \<longleftrightarrow> (\<forall>n < 16. digit_value (dig n) = Some n)"

lemma digits_ok [simp]: "digits_ok lower_digit" "digits_ok upper_digit"
  by (simp_all add: digits_ok_def digit_value_def lower_digit_def upper_digit_def of_char_of
      take_bit_eq_mod)

lemma read_radix:
  assumes "digits_ok dig" "2 \<le> b" "b \<le> 16"
  shows "read_digits b (radix_string dig b n @ rest) acc
    = read_digits b rest (acc * b ^ length (radix_string dig b n) + n)"
  using assms
proof (induction dig b n arbitrary: acc rest rule: radix_string.induct)
  case (1 dig b n)
  then have dig: "m < b \<Longrightarrow> digit_value (dig m) = Some m" for m
    by (simp add: digits_ok_def)
  show ?case
  proof (cases "n < b")
    case True
    with dig show ?thesis by (simp add: radix_string.simps [of _ _ n])
  next
    case False
    have lt: "n mod b < b" using 1 by simp
    have "radix_string dig b n = radix_string dig b (n div b) @ [dig (n mod b)]"
      using False 1 by (simp add: radix_string.simps [of _ _ n])
    moreover have "(acc * b ^ k + n div b) * b + n mod b = acc * b ^ Suc k + n" for k
      by (simp add: algebra_simps)
    ultimately show ?thesis
      using False 1 dig [OF lt] lt by simp
  qed
qed

lemma read_dec: "read_digits 10 (dec_string n) 0 = n"
  using read_radix [of lower_digit 10 n "[]" 0] by (simp add: dec_string_def)

lemma read_hex: "read_digits 16 (hex_string n) 0 = n" "read_digits 16 (HEX_string n) 0 = n"
  using read_radix [of lower_digit 16 n "[]" 0] read_radix [of upper_digit 16 n "[]" 0]
  by (simp_all add: hex_string_def HEX_string_def)

lemma dec_string_inject [simp]: "dec_string m = dec_string n \<longleftrightarrow> m = n"
  by (metis read_dec)

lemma hex_string_inject [simp]: "hex_string m = hex_string n \<longleftrightarrow> m = n"
  by (metis read_hex(1))

text \<open>Printed digits are neither separators nor signs, and a number has at least one.\<close>

lemma radix_string_set: "0 < b \<Longrightarrow> set (radix_string dig b n) \<subseteq> dig ` (if b < 2 then {n} else {0..<b})"
  by (induction dig b n rule: radix_string.induct)
    (subst radix_string.simps, auto split: if_splits)

lemma radix_string_ne [simp]: "radix_string dig b n \<noteq> []"
  by (subst radix_string.simps) simp

lemma radix_string_length:
  "2 \<le> b \<Longrightarrow> 0 < k \<Longrightarrow> n < b ^ k \<Longrightarrow> length (radix_string dig b n) \<le> k"
proof (induction dig b n arbitrary: k rule: radix_string.induct)
  case (1 dig b n)
  show ?case
  proof (cases "n < b")
    case True
    with 1 show ?thesis by (simp add: radix_string.simps [of _ _ n])
  next
    case False
    with 1 obtain j where j: "k = Suc j" "0 < j"
      by (metis One_nat_def Suc_pred power_one_right gr0I less_nat_zero_code)
    with 1 False have "n div b < b ^ j"
      by (simp add: less_mult_imp_div_less mult.commute)
    with 1 False j show ?thesis by (simp add: radix_string.simps [of _ _ n])
  qed
qed

lemma radix_string_digits:
  assumes "c \<in> set (radix_string dig b n)" "2 \<le> b"
  shows "\<exists>k < b. c = dig k"
  using radix_string_set [of b dig n] assms by fastforce

lemma radix_string_value:
  assumes "c \<in> set (radix_string lower_digit b n)" "2 \<le> b" "b \<le> 16"
  shows "digit_value c \<noteq> None"
proof -
  from radix_string_digits [OF assms(1,2)] obtain k where "k < b" "c = lower_digit k" by blast
  with assms(3) digits_ok(1) show ?thesis by (simp add: digits_ok_def del: digits_ok)
qed

lemma not_digits: "digit_value (CHR ''-'') = None" "digit_value (CHR '' '') = None"
  "digit_value (CHR '','') = None" "digit_value (CHR ''('') = None" "digit_value (CHR '')'') = None"
  by code_simp+

lemma word_text_length: "length (word_text w) = 8"
proof -
  have "unat w < 16 ^ 8" using unat_less32 [of w] by simp
  then have "length (HEX_string (unat w)) \<le> 8"
    unfolding HEX_string_def by (intro radix_string_length) simp_all
  then show ?thesis by (simp add: word_text_def pad_left_def)
qed

lemma int_string_inject [simp]: "int_string i = int_string j \<longleftrightarrow> i = j"
proof -
  have "CHR ''-'' \<notin> set (dec_string n)" for n
    by (auto simp: dec_string_def not_digits dest!: radix_string_value)
  then have "dec_string n \<noteq> CHR ''-'' # s" for n s by (metis list.set_intros(1))
  then show ?thesis by (auto simp: int_string_def dest: sym)
qed

section \<open>Tokens\<close>

definition is_sep :: "char \<Rightarrow> bool" where
  "is_sep c \<longleftrightarrow> c \<in> {CHR '' '', CHR '','', CHR ''('', CHR '')''}"

text \<open>The maximal runs of other characters; \<open>w\<close> is the run being read.\<close>

fun tokens :: "string \<Rightarrow> string \<Rightarrow> string list" where
  "tokens w [] = (if w = [] then [] else [w])"
| "tokens w (c # cs) =
    (if is_sep c then (if w = [] then tokens [] cs else w # tokens [] cs) else tokens (w @ [c]) cs)"

definition word_ok :: "string \<Rightarrow> bool" where
  "word_ok s \<longleftrightarrow> s \<noteq> [] \<and> list_all (\<lambda>c. \<not> is_sep c) s"

lemma tokens_append: "list_all (\<lambda>c. \<not> is_sep c) s \<Longrightarrow> tokens w (s @ rest) = tokens (w @ s) rest"
  by (induction s arbitrary: w) simp_all

lemma tokens_word:
  "word_ok s \<Longrightarrow> tokens [] (s @ rest) = tokens s rest"
  "word_ok s \<Longrightarrow> tokens [] s = [s]"
  using tokens_append [of s "[]"] tokens_append [of s "[]" "[]"] by (auto simp: word_ok_def)

lemma tokens_spaces: "tokens [] (replicate n (CHR '' '') @ rest) = tokens [] rest"
  by (induction n) (simp_all add: is_sep_def)

lemma tokens_pad_right:
  "word_ok s \<Longrightarrow> tokens [] (pad_right n s @ CHR '' '' # rest) = s # tokens [] rest"
  "word_ok s \<Longrightarrow> tokens [] (pad_right n s) = [s]"
proof -
  assume ok: "word_ok s"
  then have ne: "s \<noteq> []" by (simp add: word_ok_def)
  have sp: "is_sep (CHR '' '')" by (simp add: is_sep_def)
  show "tokens [] (pad_right n s @ CHR '' '' # rest) = s # tokens [] rest"
  proof (cases "n - length s")
    case 0
    with ok ne sp show ?thesis by (simp add: pad_right_def tokens_word)
  next
    case (Suc k)
    with ok ne sp show ?thesis
      by (simp add: pad_right_def tokens_word tokens_spaces)
  qed
  show "tokens [] (pad_right n s) = [s]"
  proof (cases "n - length s")
    case 0
    with ok ne sp show ?thesis by (simp add: pad_right_def tokens_word)
  next
    case (Suc k)
    with ok ne sp show ?thesis
      using tokens_spaces [of k "[]"] by (simp add: pad_right_def tokens_word)
  qed
qed

lemma word_ok_radix: "dig = lower_digit \<Longrightarrow> 2 \<le> b \<Longrightarrow> b \<le> 16 \<Longrightarrow> word_ok (radix_string dig b n)"
  by (auto simp: word_ok_def list_all_iff is_sep_def not_digits dest!: radix_string_value)

lemma word_ok_numbers [simp]: "word_ok (dec_string n)" "word_ok (hex_string n)" "word_ok (int_string i)"
  using word_ok_radix [of lower_digit 10 n] word_ok_radix [of lower_digit 16 n]
    word_ok_radix [of lower_digit 10 "nat i"] word_ok_radix [of lower_digit 10 "nat (- i)"]
  by (simp_all add: dec_string_def hex_string_def int_string_def word_ok_def is_sep_def)

end
