(* ===== verification/Rve_Devices.thy ===== *)
theory Rve_Devices
  imports Rve_Memory Rve_Text
begin

unbundle bit_operations_syntax

text \<open>
  The devices on the bus and the host they run on: src/uart.c, src/tohost.c, the bus callbacks
  of src/memory.c, and the C heap and streams they use. \<open>world_t\<close> is everything an operation of
  a device can change: the heap that holds the devices' contexts, the streams, and the two
  fields of \<open>emulator_t\<close> that the TOHOST device points into.

  The file interprets the two contracts of the library: \<open>bus_world\<close> (accesses of the devices
  are defined and keep the heap well formed) and \<open>ram\<close> (the bus in front of a memory device
  behaves as a RAM).
\<close>

section \<open>The host\<close>

text \<open>\<open>FILE *\<close>; an input stream is the bytes still to be read, an output stream those written.\<close>

datatype host_file = Stdout | Stderr | Other_File nat

record uart_ns16550a_t =
  tx_file :: "host_file option"
  rx_file :: "host_file option"
  ier :: u8
  lcr :: u8
  mcr :: u8
  scr :: u8
  dll :: u8
  dlh :: u8
  rx_ready :: bool
  rx_byte :: u8

text \<open>The two fields of the emulator a TOHOST context can point to; \<open>None\<close> is NULL.\<close>

datatype emulator_field = Field_halted | Field_exit_code

record peripheral_tohost_t =
  halt_flag :: "emulator_field option"
  exit_code_p :: "emulator_field option"

datatype dev_obj =
    Memory_Obj memory_t
  | Uart_Obj uart_ns16550a_t
  | Tohost_Obj peripheral_tohost_t

text \<open>
  \<open>host_vars\<close> holds the variables of the calling program whose addresses are handed to callbacks as
  user data. \<open>alloc_ok n\<close> says whether the \<open>n\<close>-th allocation succeeds and \<open>allocs\<close> counts them; an
  object that is allocated lives at the address its allocation had the number of.
\<close>

record world_t =
  heap :: "nat \<Rightarrow> dev_obj option"
  allocs :: nat
  alloc_ok :: "nat \<Rightarrow> bool"
  in_stream :: "host_file \<Rightarrow> u8 list"
  out_stream :: "host_file \<Rightarrow> u8 list"
  halted :: bool
  exit_code :: int
  host_vars :: "nat \<Rightarrow> u64"

definition fputc :: "u8 \<Rightarrow> host_file \<Rightarrow> world_t \<Rightarrow> world_t" where
  "fputc c f w = w\<lparr>out_stream := (out_stream w)(f := out_stream w f @ [c])\<rparr>"

definition fgetc :: "host_file \<Rightarrow> world_t \<Rightarrow> u8 option \<times> world_t" where
  "fgetc f w =
    (case in_stream w f of
       [] \<Rightarrow> (None, w)
     | c # cs \<Rightarrow> (Some c, w\<lparr>in_stream := (in_stream w)(f := cs)\<rparr>))"

definition printf_stdout :: "string \<Rightarrow> world_t \<Rightarrow> world_t" where
  "printf_stdout s w = w\<lparr>out_stream :=
     (out_stream w)(Stdout := out_stream w Stdout @ map of_char s)\<rparr>"

section \<open>Contexts\<close>

text \<open>
  Dereferencing a context pointer as the type its device expects: \<open>None\<close> (undefined) when the
  address holds no live object of that type. Only the memory callbacks test for NULL.
\<close>

definition get_memory :: "world_t \<Rightarrow> ctx_ptr \<Rightarrow> memory_t option option" where
  "get_memory w cx =
    (case cx of
       None \<Rightarrow> Some None
     | Some l \<Rightarrow> (case heap w l of Some (Memory_Obj m) \<Rightarrow> Some (Some m) | _ \<Rightarrow> None))"

definition put_memory :: "world_t \<Rightarrow> ctx_ptr \<Rightarrow> memory_t option \<Rightarrow> world_t" where
  "put_memory w cx m =
    (case (cx, m) of (Some l, Some mem) \<Rightarrow> w\<lparr>heap := (heap w)(l \<mapsto> Memory_Obj mem)\<rparr> | _ \<Rightarrow> w)"

definition get_uart :: "world_t \<Rightarrow> ctx_ptr \<Rightarrow> uart_ns16550a_t option" where
  "get_uart w cx =
    (case cx of
       None \<Rightarrow> None
     | Some l \<Rightarrow> (case heap w l of Some (Uart_Obj u) \<Rightarrow> Some u | _ \<Rightarrow> None))"

definition put_uart :: "world_t \<Rightarrow> ctx_ptr \<Rightarrow> uart_ns16550a_t \<Rightarrow> world_t" where
  "put_uart w cx u = (case cx of None \<Rightarrow> w | Some l \<Rightarrow> w\<lparr>heap := (heap w)(l \<mapsto> Uart_Obj u)\<rparr>)"

definition get_tohost :: "world_t \<Rightarrow> ctx_ptr \<Rightarrow> peripheral_tohost_t option" where
  "get_tohost w cx =
    (case cx of
       None \<Rightarrow> None
     | Some l \<Rightarrow> (case heap w l of Some (Tohost_Obj t) \<Rightarrow> Some t | _ \<Rightarrow> None))"

section \<open>The memory callbacks (src/memory.c)\<close>

definition memory_init_cb :: "ctx_ptr \<Rightarrow> world_t \<Rightarrow> (bool \<times> world_t) option" where
  "memory_init_cb cx w =
    do {
      m \<leftarrow> get_memory w cx;
      let (b, m') = memory_init (alloc_ok w (allocs w)) m;
      Some (b, (put_memory w cx m')\<lparr>allocs := (if m = None then allocs w else allocs w + 1)\<rparr>)
    }"

definition memory_deinit_cb :: "ctx_ptr \<Rightarrow> world_t \<Rightarrow> (bool \<times> world_t) option" where
  "memory_deinit_cb cx w =
    do {
      m \<leftarrow> get_memory w cx;
      let (b, m') = memory_deinit m;
      Some (b, put_memory w cx m')
    }"

definition memory_read_cb :: "ctx_ptr \<Rightarrow> u32 \<Rightarrow> u8 \<Rightarrow> world_t \<Rightarrow> (u32 option \<times> world_t) option" where
  "memory_read_cb cx addr size_bits w =
    do {
      m \<leftarrow> get_memory w cx;
      r \<leftarrow> memory_read m addr size_bits;
      Some (r, w)
    }"

definition memory_write_cb ::
    "ctx_ptr \<Rightarrow> u32 \<Rightarrow> u32 \<Rightarrow> u8 \<Rightarrow> world_t \<Rightarrow> (bool \<times> world_t) option" where
  "memory_write_cb cx addr data size_bits w =
    do {
      m \<leftarrow> get_memory w cx;
      (b, m') \<leftarrow> memory_write m addr data size_bits;
      Some (b, put_memory w cx m')
    }"

definition memory_ops :: "world_t peripheral_ops_t" where
  "memory_ops = \<lparr>init_fn = Some memory_init_cb, deinit_fn = Some memory_deinit_cb,
     read_fn = Some memory_read_cb, write_fn = Some memory_write_cb, tick_fn = None\<rparr>"

section \<open>The UART (src/uart.c)\<close>

abbreviation (input) UART_LSR_DR :: u8 where "UART_LSR_DR \<equiv> 0x01"
abbreviation (input) UART_LSR_THRE :: u8 where "UART_LSR_THRE \<equiv> 0x20"
abbreviation (input) UART_LSR_TEMT :: u8 where "UART_LSR_TEMT \<equiv> 0x40"

definition dlab :: "uart_ns16550a_t \<Rightarrow> bool" where
  "dlab u \<longleftrightarrow> lcr u AND 0x80 \<noteq> 0"

definition uart_reset :: "uart_ns16550a_t \<Rightarrow> uart_ns16550a_t" where
  "uart_reset u = u\<lparr>ier := 0, lcr := 0, mcr := 0, scr := 0, dll := 1, dlh := 0,
     rx_ready := False, rx_byte := 0\<rparr>"

definition uart_init :: "ctx_ptr \<Rightarrow> world_t \<Rightarrow> (bool \<times> world_t) option" where
  "uart_init cx w = do { u \<leftarrow> get_uart w cx; Some (True, put_uart w cx (uart_reset u)) }"

text \<open>Fetching the next received byte into the one-byte buffer, if there is a stream and a byte.\<close>

definition rx_prefetch :: "uart_ns16550a_t \<Rightarrow> world_t \<Rightarrow> uart_ns16550a_t \<times> world_t" where
  "rx_prefetch u w =
    (case rx_file u of
       None \<Rightarrow> (u, w)
     | Some f \<Rightarrow>
         (case fgetc f w of
            (None, w') \<Rightarrow> (u, w')
          | (Some c, w') \<Rightarrow> (u\<lparr>rx_byte := c, rx_ready := True\<rparr>, w')))"

text \<open>The body of \<open>uart_read\<close> on the dereferenced context: the value, the context, the world.\<close>

definition uart_read_reg :: "uart_ns16550a_t \<Rightarrow> u8 \<Rightarrow> world_t \<Rightarrow> u8 \<times> uart_ns16550a_t \<times> world_t" where
  "uart_read_reg u offset w =
    (if offset = 0 then
       (if dlab u then (dll u, u, w)
        else if rx_ready u then (rx_byte u, rx_prefetch (u\<lparr>rx_ready := False\<rparr>) w)
        else (0, u, w))
     else if offset = 1 then ((if dlab u then dlh u else ier u), u, w)
     else if offset = 2 then (1, u, w)
     else if offset = 3 then (lcr u, u, w)
     else if offset = 4 then (mcr u, u, w)
     else if offset = 5 then
       ((UART_LSR_THRE OR UART_LSR_TEMT) OR (if rx_ready u then UART_LSR_DR else 0), u, w)
     else if offset = 6 then (0, u, w)
     else if offset = 7 then (scr u, u, w)
     else (0, u, w))"

definition uart_read :: "ctx_ptr \<Rightarrow> u32 \<Rightarrow> u8 \<Rightarrow> world_t \<Rightarrow> (u32 option \<times> world_t) option" where
  "uart_read cx addr size_bits w =
    do {
      u \<leftarrow> get_uart w cx;
      let (val, u', w') = uart_read_reg u (ucast (addr AND 0x7)) w;
      Some (Some (ucast val), put_uart w' cx u')
    }"

definition uart_write_reg :: "uart_ns16550a_t \<Rightarrow> u8 \<Rightarrow> u8 \<Rightarrow> world_t \<Rightarrow> uart_ns16550a_t \<times> world_t" where
  "uart_write_reg u offset val w =
    (if offset = 0 then
       (if dlab u then (u\<lparr>dll := val\<rparr>, w)
        else (u, fputc val (case tx_file u of None \<Rightarrow> Stdout | Some f \<Rightarrow> f) w))
     else if offset = 1 then ((if dlab u then u\<lparr>dlh := val\<rparr> else u\<lparr>ier := val\<rparr>), w)
     else if offset = 2 then (u, w)
     else if offset = 3 then (u\<lparr>lcr := val\<rparr>, w)
     else if offset = 4 then (u\<lparr>mcr := val\<rparr>, w)
     else if offset = 7 then (u\<lparr>scr := val\<rparr>, w)
     else (u, w))"

definition uart_write :: "ctx_ptr \<Rightarrow> u32 \<Rightarrow> u32 \<Rightarrow> u8 \<Rightarrow> world_t \<Rightarrow> (bool \<times> world_t) option" where
  "uart_write cx addr data size_bits w =
    do {
      u \<leftarrow> get_uart w cx;
      let (u', w') = uart_write_reg u (ucast (addr AND 0x7)) (ucast (data AND 0xFF)) w;
      Some (True, put_uart w' cx u')
    }"

definition uart_ns16550a_ops :: "world_t peripheral_ops_t" where
  "uart_ns16550a_ops = \<lparr>init_fn = Some uart_init, deinit_fn = None,
     read_fn = Some uart_read, write_fn = Some uart_write, tick_fn = None\<rparr>"

text \<open>\<open>calloc\<close>, then \<open>uart_init\<close>, then the first byte of the stream; NULL when out of memory.\<close>

definition uart_ns16550a_create :: "host_file option \<Rightarrow> host_file option \<Rightarrow> world_t \<Rightarrow> ctx_ptr \<times> world_t" where
  "uart_ns16550a_create tx rx w =
    (let l = allocs w; w1 = w\<lparr>allocs := l + 1\<rparr>
     in if \<not> alloc_ok w l then (None, w1)
        else let u = uart_reset \<lparr>tx_file = Some (case tx of None \<Rightarrow> Stdout | Some f \<Rightarrow> f),
                       rx_file = rx, ier = 0, lcr = 0, mcr = 0, scr = 0, dll = 0, dlh = 0,
                       rx_ready = False, rx_byte = 0\<rparr>;
                 (u', w2) = rx_prefetch u w1
             in (Some l, put_uart w2 (Some l) u'))"

section \<open>TOHOST (src/tohost.c)\<close>

text \<open>Storing through the two pointers of the context.\<close>

definition set_exit_code :: "emulator_field option \<Rightarrow> int \<Rightarrow> world_t \<Rightarrow> world_t option" where
  "set_exit_code p v w = (if p = Some Field_exit_code then Some (w\<lparr>exit_code := v\<rparr>) else None)"

definition set_halted :: "emulator_field option \<Rightarrow> world_t \<Rightarrow> world_t option" where
  "set_halted p w = (if p = Some Field_halted then Some (w\<lparr>halted := True\<rparr>) else None)"

abbreviation (input) newline :: char where "newline \<equiv> CHR 0x0A"

definition tohost_write :: "ctx_ptr \<Rightarrow> u32 \<Rightarrow> u32 \<Rightarrow> u8 \<Rightarrow> world_t \<Rightarrow> (bool \<times> world_t) option" where
  "tohost_write cx addr data size_bits w =
    do {
      t \<leftarrow> get_tohost w cx;
      w1 \<leftarrow> (if data = 1 then
               set_exit_code (exit_code_p t) 0
                 (printf_stdout (newline # ''[TOHOST] Test Passed'' @ [newline]) w)
             else
               set_exit_code (exit_code_p t) (uint (drop_bit 1 data))
                 (printf_stdout (newline # ''[TOHOST] Test Failed at case ''
                    @ dec_string (unat (drop_bit 1 data)) @ [newline]) w));
      w2 \<leftarrow> set_halted (halt_flag t) w1;
      Some (True, w2)
    }"

definition peripheral_tohost_ops :: "world_t peripheral_ops_t" where
  "peripheral_tohost_ops = \<lparr>init_fn = None, deinit_fn = None, read_fn = None,
     write_fn = Some tohost_write, tick_fn = None\<rparr>"

section \<open>Well-formed slots\<close>

text \<open>
  What can change in a well-formed heap is the contents of the objects, not which object
  lives where: \<open>shape\<close> is the part of an object that no operation of a device changes.
\<close>

datatype dev_shape = Memory_Shape bool u64 u32 | Uart_Shape | Tohost_Shape peripheral_tohost_t

fun shape :: "dev_obj \<Rightarrow> dev_shape" where
  "shape (Memory_Obj m) = Memory_Shape (raw_memory m \<noteq> None) (size_m m) (base_addr m)"
| "shape (Uart_Obj u) = Uart_Shape"
| "shape (Tohost_Obj t) = Tohost_Shape t"

definition same_shape :: "world_t \<Rightarrow> world_t \<Rightarrow> bool" where
  "same_shape w w' \<longleftrightarrow> (\<forall>l. map_option shape (heap w' l) = map_option shape (heap w l))"

definition tohost_ok :: "peripheral_tohost_t \<Rightarrow> bool" where
  "tohost_ok t \<longleftrightarrow> halt_flag t = Some Field_halted \<and> exit_code_p t = Some Field_exit_code"

text \<open>A slot the bus may dispatch to: its context is a live object of the type of its operations.\<close>

definition slot_ok :: "world_t \<Rightarrow> world_t peripheral_t \<Rightarrow> bool" where
  "slot_ok w p \<longleftrightarrow> (\<exists>l obj. ctx p = Some l \<and> heap w l = Some obj \<and>
     (ops p = Some memory_ops \<and> (\<exists>n b. shape obj = Memory_Shape True n b)
      \<or> ops p = Some uart_ns16550a_ops \<and> shape obj = Uart_Shape
      \<or> ops p = Some peripheral_tohost_ops \<and> (\<exists>t. tohost_ok t \<and> shape obj = Tohost_Shape t)))"

lemma shape_simps [simp]:
  "shape obj = Memory_Shape True n b \<longleftrightarrow>
     (\<exists>m. obj = Memory_Obj m \<and> raw_memory m \<noteq> None \<and> size_m m = n \<and> base_addr m = b)"
  "shape obj = Uart_Shape \<longleftrightarrow> (\<exists>u. obj = Uart_Obj u)"
  "shape obj = Tohost_Shape t \<longleftrightarrow> obj = Tohost_Obj t"
  by (cases obj; auto)+

lemma same_shape_refl [simp]: "same_shape w w"
  by (simp add: same_shape_def)

lemma same_shape_trans: "same_shape w w' \<Longrightarrow> same_shape w' w'' \<Longrightarrow> same_shape w w''"
  by (simp add: same_shape_def)

lemma same_shape_heap: "heap w' = heap w \<Longrightarrow> same_shape w w'"
  by (simp add: same_shape_def)

lemma same_shape_upd:
  "heap w l = Some obj \<Longrightarrow> shape obj' = shape obj \<Longrightarrow> heap w' = (heap w)(l \<mapsto> obj') \<Longrightarrow> same_shape w w'"
  by (simp add: same_shape_def)

lemma slot_ok_same_shape: "same_shape w w' \<Longrightarrow> slot_ok w p \<Longrightarrow> slot_ok w' p"
proof -
  assume same: "same_shape w w'" and "slot_ok w p"
  then obtain l obj where l: "ctx p = Some l" "heap w l = Some obj"
    and kind: "ops p = Some memory_ops \<and> (\<exists>n b. shape obj = Memory_Shape True n b)
      \<or> ops p = Some uart_ns16550a_ops \<and> shape obj = Uart_Shape
      \<or> ops p = Some peripheral_tohost_ops \<and> (\<exists>t. tohost_ok t \<and> shape obj = Tohost_Shape t)"
    unfolding slot_ok_def by blast
  from same l(2) have "map_option shape (heap w' l) = Some (shape obj)"
    by (simp add: same_shape_def)
  then obtain obj' where "heap w' l = Some obj'" "shape obj' = shape obj" by auto
  with l(1) kind show ?thesis unfolding slot_ok_def by metis
qed

lemma slot_ok_cases [consumes 1, case_names memory uart tohost]:
  assumes "slot_ok w p"
  obtains l m raw where "ctx p = Some l" "ops p = Some memory_ops" "heap w l = Some (Memory_Obj m)"
      "raw_memory m = Some raw"
  | l u where "ctx p = Some l" "ops p = Some uart_ns16550a_ops" "heap w l = Some (Uart_Obj u)"
  | l t where "ctx p = Some l" "ops p = Some peripheral_tohost_ops" "heap w l = Some (Tohost_Obj t)"
      "tohost_ok t"
  using assms unfolding slot_ok_def by auto

text \<open>What the operations do to the world, seen from outside.\<close>

lemmas device_defs =
  memory_ops_def uart_ns16550a_ops_def peripheral_tohost_ops_def
  memory_read_cb_def memory_write_cb_def uart_read_def uart_write_def tohost_write_def
  get_memory_def get_uart_def get_tohost_def

lemma heap_streams [simp]:
  "heap (fputc c f w) = heap w" "heap (snd (fgetc f w)) = heap w" "heap (printf_stdout s w) = heap w"
  "allocs (fputc c f w) = allocs w" "allocs (printf_stdout s w) = allocs w"
  by (simp_all add: fputc_def fgetc_def printf_stdout_def split: list.split)

lemma heap_fgetc: "fgetc f w = (c, w') \<Longrightarrow> heap w' = heap w"
  using heap_streams(2) [of f w] by simp

lemma heap_rx_prefetch: "rx_prefetch u w = (u', w') \<Longrightarrow> heap w' = heap w"
  by (auto simp: rx_prefetch_def split: option.splits prod.splits dest: heap_fgetc)

lemma heap_uart_read_reg: "uart_read_reg u off w = (v, u', w') \<Longrightarrow> heap w' = heap w"
  by (auto simp: uart_read_reg_def split: if_splits dest: heap_rx_prefetch)

lemma heap_uart_write_reg: "uart_write_reg u off v w = (u', w') \<Longrightarrow> heap w' = heap w"
  by (auto simp: uart_write_reg_def split: if_splits)

lemma same_shape_put_uart:
  "heap w l = Some (Uart_Obj u) \<Longrightarrow> heap w' = heap w \<Longrightarrow> same_shape w (put_uart w' (Some l) u')"
  by (rule same_shape_upd [of w l "Uart_Obj u" "Uart_Obj u'"]) (simp_all add: put_uart_def)

lemma memory_write_shape:
  assumes "memory_write (Some m) a v sz = Some (b, m')"
  shows "\<exists>mem. m' = Some mem \<and> shape (Memory_Obj mem) = shape (Memory_Obj m)"
  using assms
  by (auto simp: memory_write_def Let_def split: if_splits Option.bind_splits)

lemma same_shape_put_memory:
  "heap w l = Some (Memory_Obj m) \<Longrightarrow> shape (Memory_Obj mem) = shape (Memory_Obj m) \<Longrightarrow>
   same_shape w (put_memory w (Some l) (Some mem))"
  by (rule same_shape_upd [of w l "Memory_Obj m" "Memory_Obj mem"]) (simp_all add: put_memory_def)

lemma device_read_shape:
  assumes "slot_ok w p" "ops p = Some tab" "read_fn tab = Some f" "f (ctx p) addr sz w = Some (r, w')"
  shows "same_shape w w'"
  using assms(1)
proof (cases rule: slot_ok_cases)
  case (uart l u)
  with assms show ?thesis
    by (auto simp: device_defs split: prod.splits
        intro!: same_shape_put_uart dest: heap_uart_read_reg)
qed (use assms in \<open>auto simp: device_defs split: Option.bind_splits\<close>)

lemma device_write_shape:
  assumes "slot_ok w p" "ops p = Some tab" "write_fn tab = Some g"
    "g (ctx p) addr data sz w = Some (b, w')"
  shows "same_shape w w'"
  using assms(1)
proof (cases rule: slot_ok_cases)
  case (memory l m raw)
  with assms show ?thesis
    by (auto simp: device_defs split: Option.bind_splits
        dest!: memory_write_shape intro!: same_shape_put_memory)
next
  case (uart l u)
  with assms show ?thesis
    by (auto simp: device_defs split: prod.splits
        intro!: same_shape_put_uart dest: heap_uart_write_reg)
next
  case (tohost l t)
  with assms show ?thesis
    by (auto simp: device_defs tohost_ok_def set_exit_code_def set_halted_def
        split: if_splits intro!: same_shape_heap)
qed

section \<open>The devices satisfy the contract of the bus\<close>

interpretation devices: bus_world slot_ok
proof unfold_locales
  fix w p assume ok: "slot_ok w p"
  then show "\<exists>tab. ops p = Some tab" by (cases rule: slot_ok_cases) auto
  fix tab assume tab: "ops p = Some tab"
  show "\<exists>r w'. f (ctx p) addr sz w = Some (r, w')"
    if "read_fn tab = Some f" "access_size sz" for f addr sz
    using ok
  proof (cases rule: slot_ok_cases)
    case (memory l m raw)
    with that tab show ?thesis by (auto simp: device_defs memory_read_eq)
  qed (use that tab in \<open>auto simp: device_defs split: prod.splits\<close>)
  show "\<exists>b w'. g (ctx p) addr data sz w = Some (b, w')"
    if "write_fn tab = Some g" "access_size sz" for g addr data sz
    using ok
  proof (cases rule: slot_ok_cases)
    case (memory l m raw)
    with that tab show ?thesis by (auto simp: device_defs memory_write_eq)
  qed (use that tab in \<open>auto simp: device_defs tohost_ok_def set_exit_code_def set_halted_def
        split: prod.splits\<close>)
  show "slot_ok w' q"
    if "read_fn tab = Some f" "f (ctx p) addr sz w = Some (r, w')" "slot_ok w q" for f addr sz r w' q
    using device_read_shape [OF ok tab that(1,2)] that(3) by (rule slot_ok_same_shape)
  show "slot_ok w' q"
    if "write_fn tab = Some g" "g (ctx p) addr data sz w = Some (b, w')" "slot_ok w q"
    for g addr data sz b w' q
    using device_write_shape [OF ok tab that(1,2)] that(3) by (rule slot_ok_same_shape)
qed

section \<open>The bus in front of a memory device is a RAM\<close>

text \<open>
  Slot \<open>k\<close> holds a memory device like \<open>m0\<close> at address \<open>l\<close>, and the bus picks it for \<open>a\<close>.
\<close>

definition ram_at :: "nat \<Rightarrow> memory_t \<Rightarrow> world_t \<Rightarrow> bool" where
  "ram_at l m0 w \<longleftrightarrow> (\<exists>m. heap w l = Some (Memory_Obj m) \<and> mem_ok m0 m)"

definition ram_inside :: "world_t bus_t \<Rightarrow> nat \<Rightarrow> memory_t \<Rightarrow> u32 \<Rightarrow> u8 \<Rightarrow> bool" where
  "ram_inside bus l m0 a sz \<longleftrightarrow> mem_inside m0 a sz \<and>
     (\<exists>k. bus_get_peripheral bus a = Some k \<and> ops (peripherals bus ! k) = Some memory_ops
        \<and> ctx (peripherals bus ! k) = Some l)"

lemma bus_read_ram:
  assumes "ram_inside bus l m0 a sz" "heap w l = Some (Memory_Obj m)"
  shows "bus_read bus a sz w = map_option (\<lambda>(r, _). (r, w)) (mem_rd a sz m)"
  using assms
  by (auto simp: ram_inside_def bus_read_def memory_ops_def memory_read_cb_def get_memory_def
      mem_rd_def split: Option.bind_splits)

lemma bus_write_ram:
  assumes "ram_inside bus l m0 a sz" "heap w l = Some (Memory_Obj m)"
  shows "bus_write bus a v sz w =
    map_option (\<lambda>(b, m'). (b, w\<lparr>heap := (heap w)(l \<mapsto> Memory_Obj m')\<rparr>)) (mem_wr a v sz m)"
  using assms
  by (auto simp: ram_inside_def bus_write_def memory_ops_def memory_write_cb_def get_memory_def
      mem_wr_def put_memory_def split: Option.bind_splits dest!: memory_write_shape)

interpretation bus_ram: ram "ram_at l m0" "ram_inside bus l m0" "bus_read bus" "bus_write bus"
  for bus l m0
proof unfold_locales
  fix w a sz assume "ram_at l m0 w" and ins: "ram_inside bus l m0 a sz"
  then obtain m where m: "heap w l = Some (Memory_Obj m)" and ok: "mem_ok m0 m"
    by (auto simp: ram_at_def)
  from ins have mins: "mem_inside m0 a sz" by (simp add: ram_inside_def)
  from mem.rd_inside [OF ok mins] show "\<exists>v. bus_read bus a sz w = Some (Some v, w)"
    by (auto simp: bus_read_ram [OF ins m])
  fix v
  from mem.write_then_read [OF ok mins, of v] obtain m' where m': "mem_ok m0 m'"
    "mem_wr a v sz m = Some (True, m')" "mem_rd a sz m' = Some (Some (take_bit (unat sz) v), m')"
    by blast
  then show "\<exists>w'. bus_write bus a v sz w = Some (True, w') \<and> ram_at l m0 w'"
    by (auto simp: bus_write_ram [OF ins m] ram_at_def)
  fix w' assume "bus_write bus a v sz w = Some (True, w')"
  with m' have w': "w' = w\<lparr>heap := (heap w)(l \<mapsto> Memory_Obj m')\<rparr>"
    by (simp add: bus_write_ram [OF ins m])
  then have hw': "heap w' l = Some (Memory_Obj m')" by simp
  from m' show "bus_read bus a sz w' = Some (Some (take_bit (unat sz) v), w')"
    by (simp add: bus_read_ram [OF ins hw'])
  fix b sz' u
  assume insb: "ram_inside bus l m0 b sz'" and ap: "apart a sz b sz'"
    and r: "bus_read bus b sz' w = Some (Some u, w)"
  from insb have minsb: "mem_inside m0 b sz'" by (simp add: ram_inside_def)
  from mem.rd_inside [OF ok minsb] r have "mem_rd b sz' m = Some (Some u, m)"
    by (auto simp: bus_read_ram [OF insb m])
  from mem.rd_wr_apart [OF ok mins minsb ap m'(2) this]
  show "bus_read bus b sz' w' = Some (Some u, w')"
    by (simp add: bus_read_ram [OF insb hw'])
qed

section \<open>Properties of the devices\<close>

lemma dlab_lcr:
  "dlab (u\<lparr>ier := v\<rparr>) = dlab u" "dlab (u\<lparr>mcr := v\<rparr>) = dlab u" "dlab (u\<lparr>scr := v\<rparr>) = dlab u"
  "dlab (u\<lparr>dll := v\<rparr>) = dlab u" "dlab (u\<lparr>dlh := v\<rparr>) = dlab u"
  by (simp_all add: dlab_def)

text \<open>Reading the receive register \<open>n\<close> times in a row.\<close>

fun uart_reads :: "nat \<Rightarrow> uart_ns16550a_t \<Rightarrow> world_t \<Rightarrow> u8 list" where
  "uart_reads 0 u w = []"
| "uart_reads (Suc n) u w =
    (let (v, u', w') = uart_read_reg u 0 w in v # uart_reads n u' w')"

lemma uart_reads_empty:
  "\<not> dlab u \<Longrightarrow> \<not> rx_ready u \<Longrightarrow> uart_reads n u w = replicate n 0"
  by (induction n) (simp_all add: uart_read_reg_def)

lemma take_Cons_replicate: "take n (x # replicate n x) = replicate n x"
  by (simp add: take_replicate flip: replicate_Suc)

lemma uart_reads_buffered:
  assumes "\<not> dlab u" "rx_file u = Some f" "rx_ready u"
  shows "uart_reads n u w = take n (rx_byte u # in_stream w f @ replicate n 0)"
  using assms
proof (induction n arbitrary: u w)
  case (Suc n)
  show ?case
  proof (cases "in_stream w f")
    case Nil
    with Suc.prems show ?thesis
      by (simp add: uart_read_reg_def rx_prefetch_def fgetc_def uart_reads_empty dlab_def take_Cons_replicate)
  next
    case (Cons c cs)
    let ?u = "u\<lparr>rx_ready := True, rx_byte := c\<rparr>" and ?w = "w\<lparr>in_stream := (in_stream w)(f := cs)\<rparr>"
    from Suc.prems Cons have "uart_read_reg u 0 w = (rx_byte u, ?u, ?w)"
      by (simp add: uart_read_reg_def rx_prefetch_def fgetc_def dlab_def)
    moreover have "uart_reads n ?u ?w = take n (c # cs @ replicate n 0)"
      using Suc.IH [of ?u ?w] Suc.prems by (simp add: dlab_def)
    ultimately show ?thesis
      using Cons by (simp add: take_Cons' replicate_append_same [symmetric] flip: append_assoc)
  qed
qed simp

text \<open>
  C33 (functional): the receive buffer hands the input stream to the program byte by byte and in
  order. A UART created on a stream \<open>f\<close> reads, at offset 0 with the divisor latch closed, the bytes
  of the stream one after the other, and 0 for ever once they are used up.
\<close>

theorem uart_receives_stream_in_order:
  assumes "alloc_ok w (allocs w)"
  shows "\<exists>u w'. uart_ns16550a_create tx (Some f) w = (Some (allocs w), w')
    \<and> heap w' (allocs w) = Some (Uart_Obj u)
    \<and> uart_reads n u w' = take n (in_stream w f @ replicate n 0)"
proof (cases "in_stream w f")
  case Nil
  with assms show ?thesis
    by (simp add: uart_ns16550a_create_def uart_reset_def rx_prefetch_def fgetc_def put_uart_def
        uart_reads_empty dlab_def Let_def)
next
  case (Cons c cs)
  with assms show ?thesis
    by (simp add: uart_ns16550a_create_def uart_reset_def rx_prefetch_def fgetc_def put_uart_def
        uart_reads_buffered dlab_def Let_def)
qed

lemma uart_receives_stream_in_order_witness:
  "\<exists>u w'. uart_ns16550a_create None (Some (Other_File 1))
       \<lparr>heap = (\<lambda>_. None), allocs = 4, alloc_ok = (\<lambda>_. True), in_stream = (\<lambda>_. [104, 105]),
        out_stream = (\<lambda>_. []), halted = False, exit_code = 0, host_vars = (\<lambda>_. 0)\<rparr> = (Some 4, w')
     \<and> uart_reads 3 u w' = [104, 105, 0]"
  using uart_receives_stream_in_order [of "\<lparr>heap = (\<lambda>_. None), allocs = 4, alloc_ok = (\<lambda>_. True),
    in_stream = (\<lambda>_. [104, 105]), out_stream = (\<lambda>_. []), halted = False, exit_code = 0, host_vars = (\<lambda>_. 0)\<rparr>"
    None "Other_File 1" 3]
  by (auto simp: numeral_3_eq_3)

text \<open>
  Transmitting. A bus write to the first UART address with the divisor latch
  closed appends the low byte of the data to the stream the UART writes to (stdout when it has
  none), whatever the width of the access, and changes nothing else.
\<close>

theorem uart_transmits_low_byte:
  assumes "get_uart w cx = Some u" "\<not> dlab u" "addr AND 7 = 0"
  shows "uart_write cx addr data sz w =
    Some (True, fputc (ucast data) (case tx_file u of None \<Rightarrow> Stdout | Some f \<Rightarrow> f) w)"
proof -
  from assms(1) obtain l where l: "cx = Some l" "heap w l = Some (Uart_Obj u)"
    by (auto simp: get_uart_def split: option.splits dev_obj.splits)
  have same: "put_uart (fputc c f w) (Some l) u = fputc c f w" for c f
    using l(2) by (simp add: put_uart_def fputc_def fun_upd_idem)
  have "(ucast (data AND 0xFF) :: u8) = ucast data"
    by (rule bit_word_eqI) (auto simp: bit_simps mask_and_eq_take_bit)
  with assms show ?thesis
    by (simp add: uart_write_def uart_write_reg_def l(1) same)
qed

lemma uart_transmits_low_byte_witness:
  "let w = \<lparr>heap = [3 \<mapsto> Uart_Obj (uart_reset undefined\<lparr>tx_file := None\<rparr>)], allocs = 4,
        alloc_ok = (\<lambda>_. True), in_stream = (\<lambda>_. []), out_stream = (\<lambda>_. []), halted = False,
        exit_code = 0, host_vars = (\<lambda>_. 0)\<rparr>
   in uart_write (Some 3) 0x10000000 0x141 8 w = Some (True, fputc 0x41 Stdout w)"
proof -
  have byte: "(321 :: u8) = 65" by simp
  show ?thesis
  using uart_transmits_low_byte [of "\<lparr>heap = [3 \<mapsto> Uart_Obj (uart_reset undefined\<lparr>tx_file := None\<rparr>)],
    allocs = 4, alloc_ok = (\<lambda>_. True), in_stream = (\<lambda>_. []), out_stream = (\<lambda>_. []), halted = False,
    exit_code = 0, host_vars = (\<lambda>_. 0)\<rparr>" "Some 3" "uart_reset undefined\<lparr>tx_file := None\<rparr>" "0x10000000" "0x141" 8]
  by (simp add: get_uart_def dlab_def uart_reset_def Let_def byte)
qed

text \<open>
  The readable and writable UART registers keep what is written to them: IER, LCR,
  MCR, SCR, and the two divisor bytes while the latch is open. Opening and closing the latch
  switches offsets 0 and 1 to other storage without losing either value.
\<close>

theorem uart_registers_keep_values:
  assumes "off \<in> {1, 3, 4, 7} \<or> off = 0 \<and> dlab u" "uart_write_reg u off v w = (u', w')"
  shows "uart_read_reg u' off w' = (v, u', w') \<and> w' = w
    \<and> (off \<noteq> 3 \<longrightarrow> dlab u' = dlab u)
    \<and> (dlab u \<longrightarrow> ier u' = ier u) \<and> (\<not> dlab u \<longrightarrow> dll u' = dll u \<and> dlh u' = dlh u)"
proof -
  from assms(1) consider "off = 1" | "off = 3" | "off = 4" | "off = 7" | "off = 0" "dlab u" by auto
  then show ?thesis
    using assms(2)
    by cases (auto simp: uart_write_reg_def uart_read_reg_def dlab_lcr split: if_splits)
qed

lemma uart_registers_keep_values_witness:
  "let w = \<lparr>heap = (\<lambda>_. None), allocs = 0, alloc_ok = (\<lambda>_. True), in_stream = (\<lambda>_. []),
        out_stream = (\<lambda>_. []), halted = False, exit_code = 0, host_vars = (\<lambda>_. 0)\<rparr>
   in \<exists>u'. uart_read_reg u' 7 w = (0x5A, u', w)"
  using uart_registers_keep_values [of 7 "uart_reset undefined" "0x5A"
      "\<lparr>heap = (\<lambda>_. None), allocs = 0, alloc_ok = (\<lambda>_. True), in_stream = (\<lambda>_. []),
        out_stream = (\<lambda>_. []), halted = False, exit_code = 0, host_vars = (\<lambda>_. 0)\<rparr>"
      "(uart_reset undefined)\<lparr>scr := 0x5A\<rparr>"
      "\<lparr>heap = (\<lambda>_. None), allocs = 0, alloc_ok = (\<lambda>_. True), in_stream = (\<lambda>_. []),
        out_stream = (\<lambda>_. []), halted = False, exit_code = 0, host_vars = (\<lambda>_. 0)\<rparr>"]
  by (auto simp: uart_write_reg_def Let_def)

lemma tohost_write_halts_lemma:
  assumes "get_tohost w cx = Some t" "tohost_ok t"
  shows "\<exists>w' line. tohost_write cx addr data sz w = Some (True, w')
    \<and> halted w' \<and> exit_code w' = (if data = 1 then 0 else uint data div 2)
    \<and> heap w' = heap w \<and> out_stream w' = (out_stream w)(Stdout := out_stream w Stdout @ line)"
  using assms
  by (auto simp: tohost_write_def tohost_ok_def set_exit_code_def set_halted_def printf_stdout_def
      drop_bit_eq_div uint_div_distrib)

text \<open>
  A write to TOHOST halts the emulator. The exit code is 0 for the value 1 and the
  case number, the value shifted right by one, otherwise; the heap is untouched and one line of
  output is appended to stdout. The value 0, which the riscv-tests convention does not use, halts as
  well, with the exit code of success.
\<close>

theorem tohost_write_halts:
  assumes "get_tohost w cx = Some t" "tohost_ok t"
  shows "\<exists>w' line. tohost_write cx addr data sz w = Some (True, w')
    \<and> halted w' \<and> exit_code w' = (if data = 1 then 0 else uint data div 2)
    \<and> heap w' = heap w \<and> out_stream w' = (out_stream w)(Stdout := out_stream w Stdout @ line)"
  using assms by (rule tohost_write_halts_lemma)

lemma tohost_write_halts_witness:
  "\<exists>w'. tohost_write (Some 0) 0x80001000 7 32
      \<lparr>heap = [0 \<mapsto> Tohost_Obj \<lparr>halt_flag = Some Field_halted, exit_code_p = Some Field_exit_code\<rparr>],
       allocs = 1, alloc_ok = (\<lambda>_. True), in_stream = (\<lambda>_. []), out_stream = (\<lambda>_. []),
       halted = False, exit_code = 0, host_vars = (\<lambda>_. 0)\<rparr> = Some (True, w') \<and> halted w' \<and> exit_code w' = 3"
  using tohost_write_halts [of "\<lparr>heap = [0 \<mapsto> Tohost_Obj \<lparr>halt_flag = Some Field_halted,
      exit_code_p = Some Field_exit_code\<rparr>], allocs = 1, alloc_ok = (\<lambda>_. True), in_stream = (\<lambda>_. []),
      out_stream = (\<lambda>_. []), halted = False, exit_code = 0, host_vars = (\<lambda>_. 0)\<rparr>" "Some 0"
      "\<lparr>halt_flag = Some Field_halted, exit_code_p = Some Field_exit_code\<rparr>" "0x80001000" 7 32]
  by (auto simp: get_tohost_def tohost_ok_def)

end
