(* ===== verification/Rve_Isa_System.thy ===== *)
theory Rve_Isa_System
  imports Rve_Isa Rve_Devices
begin

unbundle bit_operations_syntax

text \<open>
  The instructions that reach beyond the register file: loads and stores, the CSR instructions,
  the traps and the return from them. As in Rve_Isa, each theorem is about one call of
  \<open>hart_step\<close> on the encoding of an instruction.
\<close>

section \<open>Loads and stores\<close>

fun rv_load :: "instruction_op_t \<Rightarrow> (u8 \<times> bool) option" where
  "rv_load INSTRUCTION_OP_LB = Some (8, True)"
| "rv_load INSTRUCTION_OP_LH = Some (16, True)"
| "rv_load INSTRUCTION_OP_LW = Some (32, True)"
| "rv_load INSTRUCTION_OP_LBU = Some (8, False)"
| "rv_load INSTRUCTION_OP_LHU = Some (16, False)"
| "rv_load oper = None"

fun rv_store :: "instruction_op_t \<Rightarrow> u8 option" where
  "rv_store INSTRUCTION_OP_SB = Some 8"
| "rv_store INSTRUCTION_OP_SH = Some 16"
| "rv_store INSTRUCTION_OP_SW = Some 32"
| "rv_store oper = None"

definition load_value :: "u8 \<Rightarrow> bool \<Rightarrow> u32 \<Rightarrow> u32" where
  "load_value sz sg v = (if sg then sx (unat sz) v else v)"

lemma execute_load:
  assumes "rv_load oper = Some (sz, sg)"
  shows "execute bus di oper s w = exec_load bus di sz sg s w"
  using assms by (cases oper; simp)

lemma execute_store:
  assumes "rv_store oper = Some sz"
  shows "execute bus di oper s w = exec_store bus di sz (mask (unat sz)) s w"
  using assms by (cases oper; simp add: mask_eq_exp_minus_1)

lemma load_facts:
  "rv_load oper = Some (sz, sg) \<Longrightarrow> rv32_format oper = INSTRUCTION_FORMAT_I \<and> oper \<notin> rv32_system
     \<and> rv32_imm oper im = sx 12 im \<and> access_size sz"
  by (cases oper; auto simp: rv32_format_def rv32_system_def rv32_imm_def access_size_def)

lemma store_facts:
  "rv_store oper = Some sz \<Longrightarrow> rv32_format oper = INSTRUCTION_FORMAT_S \<and> oper \<notin> rv32_system
     \<and> rv32_imm oper im = sx 12 im \<and> access_size sz"
  by (cases oper; auto simp: rv32_format_def rv32_system_def rv32_imm_def access_size_def)

lemma sext_access: "access_size sz \<Longrightarrow> sext v (unat sz) = sx (unat sz) v"
  by (auto simp: access_size_def sext_eq_sx)

lemma step_load_lemma:
  assumes "hart_ok h" "fetches bus h w i w1" "rv32_encode oper d s1 s2 im = Some i"
    and "rv_load oper = Some (sz, sg)" "bus_read bus (xreg h s1 + sx 12 im) sz w1 = Some (res, w2)"
  shows "case res of
      None \<Rightarrow> retires_to (hart_step bus h w) TRAP_LOAD_ACCESS_FAULT
                (hart_take_trap h TRAP_LOAD_ACCESS_FAULT 0) w2
    | Some v \<Rightarrow> retires_to (hart_step bus h w) TRAP_NONE
                ((set_xreg h d (load_value sz sg v))\<lparr>pc := pc h + 4\<rparr>) w2"
proof -
  let ?di = "rve_decode_instruction i" and ?s = "exec_at h i"
  from load_facts [OF assms(4), of im] encoded_fields [OF assms(3)]
  have f: "op ?di = oper" "rd ?di = take_bit 5 d" "rs1 ?di = take_bit 5 s1" "imm ?di = sx 12 im"
    "access_size sz"
    by (simp_all add: rv32_reg_def)
  have addr: "gpr h ! unat (rs1 ?di) + sext (imm ?di) 12 = xreg h s1 + sx 12 im"
    by (simp add: f xreg_def)
  note run = step_encoded [OF assms(2,3)] run_decoded_def f(1) execute_load [OF assms(4)] exec_load_def
  show ?thesis
  proof (cases res)
    case None
    then show ?thesis
      using commit_trapped [OF assms(1), of "?s\<lparr>pending_trap := TRAP_LOAD_ACCESS_FAULT\<rparr>" ?di] assms(1,5)
      by (auto simp: run addr retires_to_def trap_tval_def Let_def)
  next
    case (Some v)
    define s2 where "s2 = ?s\<lparr>hart_s := h\<lparr>gpr := (gpr h)[unat (rd ?di) := load_value sz sg v]\<rparr>,
      ret_s := (ret_s ?s)\<lparr>mem_read := True, mem_read_addr := xreg h s1 + sx 12 im,
        mem_read_value := load_value sz sg v, mem_read_size := sz\<rparr>,
      mem_addr := xreg h s1 + sx 12 im, pending_trap := TRAP_NONE\<rparr>"
    have "exec_load bus ?di sz sg ?s w1 = Some (s2, w2)"
      using assms(1,5) Some
      by (simp add: exec_load_def addr Let_def s2_def load_value_def sext_access [OF f(5)] hart_ok_def)
    then show ?thesis
      using commit_written [OF assms(1) di_ok_decode, of s2 i "load_value sz sg v"] Some f(2)
      by (auto simp: step_encoded [OF assms(2,3)] run_decoded_def f(1) execute_load [OF assms(4)]
          retires_to_def set_xreg_def s2_def)
  qed
qed

lemma step_store_lemma:
  assumes "hart_ok h" "fetches bus h w i w1" "rv32_encode oper d s1 s2 im = Some i"
    and "rv_store oper = Some sz"
    and "bus_write bus (xreg h s1 + sx 12 im) (take_bit (unat sz) (xreg h s2)) sz w1 = Some (b, w2)"
  shows "if b then retires_to (hart_step bus h w) TRAP_NONE (h\<lparr>pc := pc h + 4\<rparr>) w2
    else retires_to (hart_step bus h w) TRAP_STORE_ACCESS_FAULT
           (hart_take_trap h TRAP_STORE_ACCESS_FAULT 0) w2"
proof -
  let ?di = "rve_decode_instruction i" and ?s = "exec_at h i"
  from store_facts [OF assms(4), of im] encoded_fields [OF assms(3)]
  have f: "op ?di = oper" "rs2 ?di = take_bit 5 s2" "rs1 ?di = take_bit 5 s1" "imm ?di = sx 12 im"
    by (simp_all add: rv32_reg_def)
  have addr: "gpr h ! unat (rs1 ?di) + sext (imm ?di) 12 = xreg h s1 + sx 12 im"
    "gpr h ! unat (rs2 ?di) AND mask (unat sz) = take_bit (unat sz) (xreg h s2)"
    by (simp_all add: f xreg_def take_bit_eq_mask)
  show ?thesis
  proof (cases b)
    case False
    have "exec_store bus ?di sz (mask (unat sz)) ?s w1 = Some (?s\<lparr>pending_trap := TRAP_STORE_ACCESS_FAULT\<rparr>, w2)"
      using assms(1,5) False by (simp add: exec_store_def addr Let_def)
    then show ?thesis
      using commit_trapped [OF assms(1), of "?s\<lparr>pending_trap := TRAP_STORE_ACCESS_FAULT\<rparr>" ?di] False
      by (auto simp: step_encoded [OF assms(2,3)] run_decoded_def f(1) execute_store [OF assms(4)]
          retires_to_def trap_tval_def)
  next
    case True
    define t2 where "t2 = ?s\<lparr>ret_s := (ret_s ?s)\<lparr>mem_write := True,
        mem_write_addr := xreg h s1 + sx 12 im, mem_write_value := take_bit (unat sz) (xreg h s2),
        mem_write_size := sz\<rparr>,
      mem_addr := xreg h s1 + sx 12 im, pending_trap := TRAP_NONE\<rparr>"
    have "exec_store bus ?di sz (mask (unat sz)) ?s w1 = Some (t2, w2)"
      using assms(1,5) True by (simp add: exec_store_def addr Let_def t2_def)
    then show ?thesis
      using commit_unwritten [OF assms(1) di_ok_decode, of t2 i] True
      by (auto simp: step_encoded [OF assms(2,3)] run_decoded_def f(1) execute_store [OF assms(4)]
          retires_to_def t2_def)
  qed
qed

text \<open>
  A load reads the bus at the base register plus the sign-extended offset, at the
  width of the instruction, and writes the value, sign-extended for LB and LH, to d. When the bus
  reports a failure the step is a load access fault that changes no register; its mtval is 0, not
  the faulting address, because the address reaches the trap logic only on success.
\<close>

theorem step_load:
  assumes "hart_ok h" "fetches bus h w i w1" "rv32_encode oper d s1 s2 im = Some i"
    and "rv_load oper = Some (sz, sg)" "bus_read bus (xreg h s1 + sx 12 im) sz w1 = Some (res, w2)"
  shows "case res of
      None \<Rightarrow> retires_to (hart_step bus h w) TRAP_LOAD_ACCESS_FAULT
                (hart_take_trap h TRAP_LOAD_ACCESS_FAULT 0) w2
    | Some v \<Rightarrow> retires_to (hart_step bus h w) TRAP_NONE
                ((set_xreg h d (load_value sz sg v))\<lparr>pc := pc h + 4\<rparr>) w2"
  using assms by (rule step_load_lemma)

lemma step_load_witness:
  "retires_to (hart_step rom_bus demo_hart (\<lambda>_. asm_i 1 1 0 5 0x03)) TRAP_NONE
     ((set_xreg demo_hart 5 (sx 8 (asm_i 1 1 0 5 0x03)))\<lparr>pc := 0x104\<rparr>) (\<lambda>_. asm_i 1 1 0 5 0x03)
   \<and> retires_to (hart_step rom_bus demo_hart (\<lambda>_. asm_i 1 3 0 5 0x03)) TRAP_LOAD_ACCESS_FAULT
       (hart_take_trap demo_hart TRAP_LOAD_ACCESS_FAULT 0) (\<lambda>_. asm_i 1 3 0 5 0x03)"
proof -
  have a: "xreg demo_hart 1 + sx 12 1 = 8" "xreg demo_hart 3 + sx 12 1 = 0x80000001"
    by code_simp+
  from step_load [where i = "asm_i 1 1 0 5 0x03" and d = 5 and im = 1 and ?s1.0 = 1 and ?s2.0 = 0
      and sg = True and res = "Some (asm_i 1 1 0 5 0x03)", OF demo_hart_simps(1,3), of INSTRUCTION_OP_LB]
    step_load [where i = "asm_i 1 3 0 5 0x03" and d = 5 and im = 1 and ?s1.0 = 3 and ?s2.0 = 0
      and sg = True and res = None, OF demo_hart_simps(1,3), of INSTRUCTION_OP_LB]
  show ?thesis by (simp add: a load_value_def)
qed

text \<open>
  A store writes the low bits of a register to the bus, at the base register plus
  the sign-extended offset, and changes no register. When the bus reports a failure the step is a
  store access fault with mtval 0.
\<close>

theorem step_store:
  assumes "hart_ok h" "fetches bus h w i w1" "rv32_encode oper d s1 s2 im = Some i"
    and "rv_store oper = Some sz"
    and "bus_write bus (xreg h s1 + sx 12 im) (take_bit (unat sz) (xreg h s2)) sz w1 = Some (b, w2)"
  shows "if b then retires_to (hart_step bus h w) TRAP_NONE (h\<lparr>pc := pc h + 4\<rparr>) w2
    else retires_to (hart_step bus h w) TRAP_STORE_ACCESS_FAULT
           (hart_take_trap h TRAP_STORE_ACCESS_FAULT 0) w2"
  using assms by (rule step_store_lemma)

lemma step_store_witness:
  "retires_to (hart_step rom_bus demo_hart (\<lambda>_. asm_s 1 2 1 0 0x23)) TRAP_NONE
     (demo_hart\<lparr>pc := 0x104\<rparr>) ((\<lambda>_. asm_s 1 2 1 0 0x23)(8 := 0xFE))"
proof -
  have a: "xreg demo_hart 1 + sx 12 1 = 8" "take_bit 8 (xreg demo_hart 2) = 0xFE"
    by code_simp+
  from step_store [where i = "asm_s 1 2 1 0 0x23" and d = 0 and im = 1 and ?s1.0 = 1 and ?s2.0 = 2,
      OF demo_hart_simps(1,3), of INSTRUCTION_OP_SB]
  show ?thesis by (simp add: a)
qed

section \<open>A store followed by a load\<close>

lemma aligned_iff: "p AND 3 = 0 \<longleftrightarrow> unat p mod 4 = 0" for p :: u32
proof -
  have "p AND 3 = 0 \<longleftrightarrow> unat (take_bit 2 p) = unat (0 :: u32)"
    by (simp only: mask_and_eq_take_bit word_unat_eq_iff)
  also have "unat (take_bit 2 p) = unat p mod 4"
    by (simp add: unat_mod_distrib take_bit_eq_mod)
  finally show ?thesis by simp
qed

lemma aligned_add_4: "p AND 3 = 0 \<Longrightarrow> (p + 4) AND 3 = 0" for p :: u32
  by (simp add: aligned_iff unat_word_ariths mod_mod_cancel mod_add_self2)

text \<open>
  C24 (roundtrip): two steps through memory. When the hart, its code and the addressed cell are in
  the RAM behind the bus, and the store does not overwrite the instruction after it, then a store
  followed by a load of the same width at the same base and offset loads the stored register back:
  cut to that width and zero- or sign-extended as the load says. Everything else is as after two
  ordinary instructions.
\<close>

theorem store_then_load:
  assumes "hart_ok h" "ram_at l m0 w" "pc h AND 3 = 0"
    and "ram_inside bus l m0 (pc h + 4) 32"
    and "bus_read bus (pc h) 32 w = Some (Some i1, w)"
    and "bus_read bus (pc h + 4) 32 w = Some (Some i2, w)"
    and "rv32_encode st d1 s1 s2 im = Some i1" "rv_store st = Some sz"
    and "rv32_encode ld d s1 d2 im = Some i2" "rv_load ld = Some (sz, sg)"
    and "ram_inside bus l m0 (xreg h s1 + sx 12 im) sz"
    and "apart (xreg h s1 + sx 12 im) sz (pc h + 4) 32"
  shows "\<exists>w'. retires_to (hart_step bus h w) TRAP_NONE (h\<lparr>pc := pc h + 4\<rparr>) w'
    \<and> retires_to (hart_step bus (h\<lparr>pc := pc h + 4\<rparr>) w') TRAP_NONE
        ((set_xreg h d (load_value sz sg (take_bit (unat sz) (xreg h s2))))\<lparr>pc := pc h + 8\<rparr>) w'"
proof -
  let ?ea = "xreg h s1 + sx 12 im" and ?v = "take_bit (unat sz) (xreg h s2)" and ?h1 = "h\<lparr>pc := pc h + 4\<rparr>"
  from bus_ram.write_then_read [OF assms(2,11), of ?v] obtain w' where w':
    "bus_write bus ?ea ?v sz w = Some (True, w')" "bus_read bus ?ea sz w' = Some (Some ?v, w')"
    by auto
  have fetch1: "fetches bus h w i1 w" using assms(3,5) by (simp add: fetches_def)
  have first: "retires_to (hart_step bus h w) TRAP_NONE ?h1 w'"
    using step_store_lemma [OF assms(1) fetch1 assms(7,8) w'(1)] by simp
  have "bus_read bus (pc h + 4) 32 w' = Some (Some i2, w')"
    by (rule bus_ram.rd_wr_apart [OF assms(2,11,4,12) w'(1) assms(6)])
  then have fetch2: "fetches bus ?h1 w' i2 w'"
    using aligned_add_4 [OF assms(3)] by (simp add: fetches_def)
  have "hart_ok ?h1" "xreg ?h1 s1 = xreg h s1"
    using assms(1) by (simp_all add: hart_ok_def xreg_def)
  with step_load_lemma [OF _ fetch2 assms(9,10), of "Some ?v" w'] w'(2)
  have "retires_to (hart_step bus ?h1 w') TRAP_NONE
      ((set_xreg ?h1 d (load_value sz sg ?v))\<lparr>pc := pc ?h1 + 4\<rparr>) w'"
    by simp
  moreover have "(set_xreg ?h1 d u)\<lparr>pc := pc ?h1 + 4\<rparr> = (set_xreg h d u)\<lparr>pc := pc h + 8\<rparr>" for u
    by (simp add: set_xreg_def)
  ultimately show ?thesis using first by auto
qed

text \<open>A bus with one memory device, and a world whose memory holds two instructions.\<close>

definition ram_demo_bus :: "world_t bus_t" where
  "ram_demo_bus = \<lparr>peripherals = [\<lparr>active = True, name = ''RAM'', addr_start = 0, addr_end = 0x1000,
     ctx = Some 0, ops = Some memory_ops, config = None\<rparr>], count = 1\<rparr>"

definition ram_demo_memory :: "u32 \<Rightarrow> u32 \<Rightarrow> memory_t" where
  "ram_demo_memory i1 i2 = \<lparr>raw_memory = Some (store_bytes (store_bytes (\<lambda>_. 0) 0x100 (le_bytes 4 i1))
     0x104 (le_bytes 4 i2)), size_m = 0x1000, base_addr = 0\<rparr>"

definition ram_demo_world :: "u32 \<Rightarrow> u32 \<Rightarrow> world_t" where
  "ram_demo_world i1 i2 = \<lparr>heap = [0 \<mapsto> Memory_Obj (ram_demo_memory i1 i2)], allocs = 1,
     alloc_ok = (\<lambda>_. True), in_stream = (\<lambda>_. []), out_stream = (\<lambda>_. []), halted = False, exit_code = 0, host_vars = (\<lambda>_. 0)\<rparr>"

lemma ram_demo_get: "a < 0x1000 \<Longrightarrow> bus_get_peripheral ram_demo_bus a = Some 0"
  by (simp add: bus_get_peripheral_def ram_demo_bus_def covers_def)

lemma ram_demo_inside:
  "a < 0x1000 \<Longrightarrow> access_size sz \<Longrightarrow> unat a + unat sz div 8 \<le> 0x1000 \<Longrightarrow>
   ram_inside ram_demo_bus 0 (ram_demo_memory i1 i2) a sz"
  by (simp add: ram_inside_def ram_demo_get mem_inside_def in_memory_def ram_demo_memory_def)
    (simp add: ram_demo_bus_def)

lemma ram_demo_fetch:
  "bus_read ram_demo_bus 0x100 32 (ram_demo_world i1 i2) = Some (Some i1, ram_demo_world i1 i2)"
  "bus_read ram_demo_bus 0x104 32 (ram_demo_world i1 i2) = Some (Some i2, ram_demo_world i1 i2)"
proof -
  have sz: "access_size 32" by (simp add: access_size_def)
  have m: "memory_read (Some (ram_demo_memory i1 i2)) 0x100 32 = Some (Some i1)"
    "memory_read (Some (ram_demo_memory i1 i2)) 0x104 32 = Some (Some i2)"
    using map_store_bytes_same [where raw = "store_bytes (\<lambda>_. 0) 0x100 (le_bytes 4 i1)" and off = "0x104"
        and bs = "le_bytes 4 i2"]
      map_store_bytes_same [where raw = "\<lambda>_. 0" and off = "0x100" and bs = "le_bytes 4 i1"]
      map_store_bytes_other [where raw = "store_bytes (\<lambda>_. 0) 0x100 (le_bytes 4 i1)" and off = "0x104"
        and bs = "le_bytes 4 i2" and k = "0x100" and n = 4]
    by (simp_all add: memory_read_eq [OF sz] ram_demo_memory_def in_memory_def le_word_le_bytes
        take_bit_word_eq_self)
  show "bus_read ram_demo_bus 0x100 32 (ram_demo_world i1 i2) = Some (Some i1, ram_demo_world i1 i2)"
    "bus_read ram_demo_bus 0x104 32 (ram_demo_world i1 i2) = Some (Some i2, ram_demo_world i1 i2)"
    using m by (simp_all add: bus_read_def ram_demo_get)
      (simp_all add: ram_demo_bus_def memory_ops_def memory_read_cb_def get_memory_def ram_demo_world_def)
qed

lemma store_then_load_witness:
  "\<exists>w'. retires_to (hart_step ram_demo_bus demo_hart
         (ram_demo_world (asm_s 0x20 2 1 1 0x23) (asm_i 0x20 1 5 9 0x03))) TRAP_NONE
       (demo_hart\<lparr>pc := 0x104\<rparr>) w'
    \<and> retires_to (hart_step ram_demo_bus (demo_hart\<lparr>pc := 0x104\<rparr>) w') TRAP_NONE
       ((set_xreg demo_hart 9 0xFFFE)\<lparr>pc := 0x108\<rparr>) w'"
proof -
  let ?i1 = "asm_s 0x20 2 1 1 0x23" and ?i2 = "asm_i 0x20 1 5 9 0x03"
  have a: "xreg demo_hart 1 + sx 12 0x20 = 0x27" "take_bit 16 (xreg demo_hart 2) = 0xFFFE"
    by code_simp+
  have "ram_at 0 (ram_demo_memory ?i1 ?i2) (ram_demo_world ?i1 ?i2)"
    by (simp add: ram_at_def ram_demo_world_def mem_ok_def) (simp add: ram_demo_memory_def)
  from store_then_load [where h = demo_hart and ?i1.0 = ?i1 and ?i2.0 = ?i2 and bus = ram_demo_bus
      and st = INSTRUCTION_OP_SH and ld = INSTRUCTION_OP_LHU and ?d1.0 = 0 and ?d2.0 = 0 and d = 9
      and ?s1.0 = 1 and ?s2.0 = 2 and im = "0x20" and sz = 16 and sg = False,
      OF demo_hart_simps(1) this]
  show ?thesis
    by (simp add: a ram_demo_fetch ram_demo_inside access_size_def apart_def load_value_def)
qed

section \<open>CSR instructions\<close>

fun rv_csr :: "instruction_op_t \<Rightarrow> (csr_op_t \<times> bool) option" where
  "rv_csr INSTRUCTION_OP_CSRRW = Some (CSR_RW, False)"
| "rv_csr INSTRUCTION_OP_CSRRS = Some (CSR_RS, False)"
| "rv_csr INSTRUCTION_OP_CSRRC = Some (CSR_RC, False)"
| "rv_csr INSTRUCTION_OP_CSRRWI = Some (CSR_RW, True)"
| "rv_csr INSTRUCTION_OP_CSRRSI = Some (CSR_RS, True)"
| "rv_csr INSTRUCTION_OP_CSRRCI = Some (CSR_RC, True)"
| "rv_csr oper = None"

text \<open>The CSRs that hold a value, by address.\<close>

definition rv_csr_field :: "u32 \<Rightarrow> csr_field option" where
  "rv_csr_field a =
    (if a = 0x300 then Some F_mstatus else if a = 0x305 then Some F_mtvec
     else if a = 0x340 then Some F_mscratch else if a = 0x341 then Some F_mepc
     else if a = 0x342 then Some F_mcause else if a = 0x343 then Some F_mtval else None)"

fun rv_csr_new :: "csr_op_t \<Rightarrow> u32 \<Rightarrow> u32 \<Rightarrow> u32" where
  "rv_csr_new CSR_RW old operand = operand"
| "rv_csr_new CSR_RS old operand = old OR operand"
| "rv_csr_new CSR_RC old operand = old AND NOT operand"

lemma csr_facts:
  "rv_csr oper = Some (f, u) \<Longrightarrow> rv32_format oper = INSTRUCTION_FORMAT_I \<and> oper \<notin> rv32_system
     \<and> (\<exists>f3. \<forall>d s1 s2 im. rv32_encode oper d s1 s2 im = Some (asm_i im s1 f3 d 0x73))"
  by (cases oper; auto simp: rv32_format_def rv32_system_def)

lemma execute_csr:
  "rv_csr oper = Some (f, u) \<Longrightarrow> execute bus di oper s w = pure_case (exec_csr di f u s) w"
  by (cases oper; auto)

lemma original_instruction_decode: "original_instruction (rve_decode_instruction i) = i"
  by (cases i rule: opcode_cases)
    (simp_all add: decode_dispatch decode_unknown_opcode decode_format_defs)

lemma csr_address: "drop_bit 20 (asm_i im s1 f3 d opc) = take_bit 12 im"
  by (rule bit_eq32I) (simp add: asm_i_def asm_r_def bit_simps)

lemma csr_load_store [simp]: "csr_load (csr_store c f v) f' = (if f = f' then v else csr_load c f')"
  by (cases f; cases f') simp_all

lemma step_csr_lemma:
  assumes "hart_ok h" "fetches bus h w i w1" "rv32_encode oper d s1 s2 im = Some i"
    and "rv_csr oper = Some (f, uimm)" "rv_csr_field (take_bit 12 im) = Some fld"
  shows "let old = csr_load (csr h) fld;
             operand = (if uimm then ucast (take_bit 5 s1) else xreg h s1);
             c' = (if take_bit 5 s1 = 0 then csr h else csr_store (csr h) fld (rv_csr_new f old operand))
         in retires_to (hart_step bus h w) TRAP_NONE
              ((set_xreg h d old)\<lparr>csr := c', pc := pc h + 4\<rparr>) w1"
proof -
  let ?di = "rve_decode_instruction i" and ?s = "exec_at h i"
  define old where "old = csr_load (csr h) fld"
  define operand where "operand = (if uimm then ucast (take_bit 5 s1) else xreg h s1)"
  define c' where "c' = (if take_bit 5 s1 = 0 then csr h else csr_store (csr h) fld (rv_csr_new f old operand))"
  define h1 where "h1 = (set_xreg h d old)\<lparr>csr := c'\<rparr>"
  from csr_facts [OF assms(4)] encoded_fields [OF assms(3)]
  have fmt: "op ?di = oper" "rd ?di = take_bit 5 d" "rs1 ?di = take_bit 5 s1"
    "format ?di = INSTRUCTION_FORMAT_I" and fi: "rv32_format oper = INSTRUCTION_FORMAT_I"
    by (simp_all add: rv32_reg_def)
  from csr_facts [OF assms(4)] assms(3) obtain f3 where "i = asm_i im s1 f3 d 0x73" by auto
  then have addr: "drop_bit 20 (original_instruction ?di) = take_bit 12 im"
    by (simp add: original_instruction_decode csr_address)
  have new: "(case f of CSR_RW \<Rightarrow> y | CSR_RS \<Rightarrow> x OR y | CSR_RC \<Rightarrow> x AND NOT y) = rv_csr_new f x y"
    for x y
    by (cases f) simp_all
  have "csr_dispatch h ?di f uimm = csr_access h ?di fld f uimm"
    using assms(5) by (auto simp: csr_dispatch_def addr rv_csr_field_def split: if_splits)
  also have "\<dots> = Some (TRAP_NONE, h1)"
    using assms(1)
    by (simp add: csr_access_def fmt new Let_def h1_def c'_def set_xreg_def operand_def xreg_def
        flip: old_def)
  finally have ex: "execute bus ?di (op ?di) ?s w1 = Some (?s\<lparr>hart_s := h1, pending_trap := TRAP_NONE\<rparr>, w1)"
    by (simp add: fmt(1) execute_csr [OF assms(4)] pure_case_def exec_csr_def)
  have x0: "(gpr h1)[0 := 0] = gpr h1" and rok: "regs_ok h1"
    using assms(1) x0_stays [OF assms(1)]
    by (auto simp: h1_def set_xreg_def hart_ok_def regs_ok_def list_update_swap unat_eq_zero)
  from rok have "\<exists>r. hart_commit ?di (?s\<lparr>hart_s := h1, pending_trap := TRAP_NONE\<rparr>) =
      Some (r, h1\<lparr>pc := pc h + 4\<rparr>) \<and> r_trap r = TRAP_NONE"
    by (subst hart_commit_clean) (simp_all add: x0)
  then show ?thesis
    using ex by (auto simp: step_encoded [OF assms(2,3)] run_decoded_def retires_to_def Let_def h1_def
        c'_def old_def operand_def)
qed

text \<open>
  The CSR instructions on the six CSRs the hart stores. The old value goes to d and
  the new one, the operand, the union or the difference with it, to the CSR, in one step; the
  operand is the source register read before d is written, or the 5-bit immediate. As the code has
  it, every one of the six instructions leaves the CSR alone when its source field is 0, CSRRW and
  CSRRWI included, where the manual demands a write.
\<close>

theorem step_csr:
  assumes "hart_ok h" "fetches bus h w i w1" "rv32_encode oper d s1 s2 im = Some i"
    and "rv_csr oper = Some (f, uimm)" "rv_csr_field (take_bit 12 im) = Some fld"
  shows "let old = csr_load (csr h) fld;
             operand = (if uimm then ucast (take_bit 5 s1) else xreg h s1);
             c' = (if take_bit 5 s1 = 0 then csr h else csr_store (csr h) fld (rv_csr_new f old operand))
         in retires_to (hart_step bus h w) TRAP_NONE
              ((set_xreg h d old)\<lparr>csr := c', pc := pc h + 4\<rparr>) w1"
  using assms by (rule step_csr_lemma)

lemma step_csr_witness:
  "retires_to (hart_step rom_bus demo_hart (\<lambda>_. asm_i 0x340 2 1 5 0x73)) TRAP_NONE
     ((set_xreg demo_hart 5 0)\<lparr>csr := zero_csr\<lparr>mscratch := 0xFFFFFFFE\<rparr>, pc := 0x104\<rparr>)
     (\<lambda>_. asm_i 0x340 2 1 5 0x73)"
proof -
  have a: "take_bit 12 (0x340 :: u32) = 0x340" "take_bit 5 (2 :: u8) = 2" "xreg demo_hart 2 = 0xFFFFFFFE"
    by code_simp+
  have c: "csr demo_hart = zero_csr" by (simp add: demo_hart_def hart_init_def)
  from step_csr [where i = "asm_i 0x340 2 1 5 0x73" and d = 5 and im = "0x340" and ?s1.0 = 2 and ?s2.0 = 0,
      OF demo_hart_simps(1,3), of INSTRUCTION_OP_CSRRW CSR_RW False F_mscratch]
  show ?thesis by (simp add: a c rv_csr_field_def Let_def zero_csr_def)
qed

section \<open>Traps\<close>

text \<open>The commit of a trap, bit by bit.\<close>

lemma commit_trap_csr:
  "gpr (hart_take_trap h c t) = gpr h"
  "mepc (csr (hart_take_trap h c t)) = pc h"
  "mtval (csr (hart_take_trap h c t)) = t"
  "mtvec (csr (hart_take_trap h c t)) = mtvec (csr h)"
  "mscratch (csr (hart_take_trap h c t)) = mscratch (csr h)"
  "mcause (csr (hart_take_trap h c t)) =
     (if TRAP_IS_INTERRUPT c then 0x80000000 OR word_of_int c else word_of_int c)"
  by (simp_all add: hart_take_trap_def commit_trap_def Let_def)

lemma commit_trap_mstatus:
  "bit (mstatus (csr (hart_take_trap h c t))) k \<longleftrightarrow>
     (if k = 3 then False else if k = 7 then bit (mstatus (csr h)) 3
      else if k = 11 \<or> k = 12 then True else bit (mstatus (csr h)) k)"
proof (cases "k < 32")
  case True
  show ?thesis
    by (rule all_below_32 [OF _ True])
      (simp add: hart_take_trap_def commit_trap_def Let_def bit_simps)
next
  case False
  then show ?thesis by (auto dest: bit_imp_le_length)
qed

lemma commit_trap_pc:
  "pc (hart_take_trap h c t) =
     (let base = mtvec (csr h) AND NOT 3
      in if mtvec (csr h) AND 3 = 1 \<and> TRAP_IS_INTERRUPT c then base + 4 * word_of_int c else base)"
  by (auto simp: hart_take_trap_def commit_trap_def Let_def TRAP_IS_INTERRUPT_def)

text \<open>
  Entering a trap. The program counter goes to mepc, the given value to mtval, the
  cause with bit 31 for an interrupt to mcause; MIE moves to MPIE and is cleared, MPP becomes machine
  mode, and no other bit of mstatus, no register and neither of the other two CSRs changes. Execution
  goes on at the base of mtvec, or at base + 4 * cause for an interrupt in vectored mode.
\<close>

theorem trap_entry:
  "let h' = hart_take_trap h c t; base = mtvec (csr h) AND NOT 3
   in gpr h' = gpr h \<and> mepc (csr h') = pc h \<and> mtval (csr h') = t
    \<and> mcause (csr h') = (if TRAP_IS_INTERRUPT c then 0x80000000 OR word_of_int c else word_of_int c)
    \<and> (\<forall>k. bit (mstatus (csr h')) k =
          (if k = 3 then False else if k = 7 then bit (mstatus (csr h)) 3
           else if k = 11 \<or> k = 12 then True else bit (mstatus (csr h)) k))
    \<and> mtvec (csr h') = mtvec (csr h) \<and> mscratch (csr h') = mscratch (csr h)
    \<and> pc h' = (if mtvec (csr h) AND 3 = 1 \<and> TRAP_IS_INTERRUPT c then base + 4 * word_of_int c else base)"
  by (simp only: commit_trap_csr commit_trap_mstatus commit_trap_pc Let_def) simp

lemma mret_encoded: "rv32_encode INSTRUCTION_OP_MRET 0 0 0 0 = Some 0x30200073"
  by code_simp

definition mret_csr :: "csr_file_t \<Rightarrow> csr_file_t" where
  "mret_csr c = c\<lparr>mstatus := ((mstatus c AND NOT 0x8) OR push_bit 3 (drop_bit 7 (mstatus c) AND 1)) OR 0x80\<rparr>"

lemma step_mret_lemma:
  assumes "hart_ok h" "fetches bus h w 0x30200073 w1"
  shows "retires_to (hart_step bus h w) TRAP_NONE (h\<lparr>csr := mret_csr (csr h), pc := mepc (csr h)\<rparr>) w1"
proof -
  let ?di = "rve_decode_instruction 0x30200073" and ?s = "exec_at h 0x30200073"
  from encoded_fields [OF mret_encoded] have f: "op ?di = INSTRUCTION_OP_MRET" by simp
  have "execute bus ?di (op ?di) ?s w1 = Some (exec_mret ?s, w1)" by (simp add: f)
  moreover have "\<exists>r. hart_commit ?di (exec_mret ?s) =
      Some (r, h\<lparr>csr := mret_csr (csr h), pc := mepc (csr h)\<rparr>) \<and> r_trap r = TRAP_NONE"
    using commit_unwritten [OF assms(1) di_ok_decode, of "exec_mret ?s" "0x30200073"]
    by (simp add: exec_mret_def Let_def mret_csr_def)
  ultimately show ?thesis
    by (auto simp: step_encoded [OF assms(2) mret_encoded] run_decoded_def retires_to_def)
qed

lemma mret_mstatus:
  "bit (mstatus (mret_csr c)) k \<longleftrightarrow>
     (if k = 3 then bit (mstatus c) 7 else if k = 7 then True else bit (mstatus c) k)"
proof (cases "k < 32")
  case True
  show ?thesis
    by (rule all_below_32 [OF _ True]) (simp add: mret_csr_def bit_simps)
next
  case False
  then show ?thesis by (auto dest: bit_imp_le_length)
qed

text \<open>
  C15 (roundtrip): MRET undoes a trap. Whatever the cause, executing MRET right after the trap was
  taken resumes at the interrupted instruction with the interrupt-enable bit it had; all registers
  and the other CSRs are as the trap left them, and MPIE is set.
\<close>

theorem trap_then_mret:
  assumes "hart_ok h" "fetches bus (hart_take_trap h c t) w 0x30200073 w1"
  shows "\<exists>h'. retires_to (hart_step bus (hart_take_trap h c t) w) TRAP_NONE h' w1
    \<and> pc h' = pc h \<and> gpr h' = gpr h
    \<and> bit (mstatus (csr h')) 3 = bit (mstatus (csr h)) 3 \<and> bit (mstatus (csr h')) 7
    \<and> (\<forall>k. k \<notin> {3, 7, 11, 12} \<longrightarrow> bit (mstatus (csr h')) k = bit (mstatus (csr h)) k)"
proof -
  let ?h1 = "hart_take_trap h c t"
  have ok: "hart_ok ?h1" using assms(1) by (simp add: hart_ok_def commit_trap_csr)
  from step_mret_lemma [OF ok assms(2)] show ?thesis
    by (intro exI [of _ "?h1\<lparr>csr := mret_csr (csr ?h1), pc := mepc (csr ?h1)\<rparr>"])
      (simp add: mret_mstatus commit_trap_mstatus commit_trap_csr)
qed

lemma trap_then_mret_witness:
  "\<exists>h'. retires_to (hart_step rom_bus (hart_take_trap demo_hart TRAP_INT_TIMER 0) (\<lambda>_. 0x30200073))
     TRAP_NONE h' (\<lambda>_. 0x30200073) \<and> pc h' = 0x100"
proof -
  have "fetches rom_bus (hart_take_trap demo_hart TRAP_INT_TIMER 0) (\<lambda>_. 0x30200073) 0x30200073 (\<lambda>_. 0x30200073)"
    by (simp add: fetches_def hart_take_trap_def commit_trap_def demo_hart_def hart_init_def zero_csr_def Let_def)
  from trap_then_mret [OF demo_hart_simps(1) this] show ?thesis by auto
qed

text \<open>
  C31 (error): a store that the bus refuses is taken as an interrupt. TRAP_STORE_ACCESS_FAULT and
  TRAP_INT_TIMER are the same enumerator value 7, so the fault sets bit 31 of mcause and, in vectored
  mode, enters the timer vector at base + 28; only a direct mtvec hides the difference.
\<close>

theorem store_fault_is_taken_as_timer_interrupt:
  assumes "hart_ok h" "fetches bus h w i w1" "rv32_encode oper d s1 s2 im = Some i"
    and "rv_store oper = Some sz"
    and "bus_write bus (xreg h s1 + sx 12 im) (take_bit (unat sz) (xreg h s2)) sz w1 = Some (False, w2)"
  shows "\<exists>h'. retires_to (hart_step bus h w) TRAP_STORE_ACCESS_FAULT h' w2
    \<and> mcause (csr h') = 0x80000007 \<and> mepc (csr h') = pc h \<and> mtval (csr h') = 0
    \<and> (mtvec (csr h) AND 3 = 1 \<longrightarrow> pc h' = (mtvec (csr h) AND NOT 3) + 28)"
  using step_store_lemma [OF assms]
  by (intro exI [of _ "hart_take_trap h TRAP_STORE_ACCESS_FAULT 0"])
    (simp add: commit_trap_csr commit_trap_pc TRAP_IS_INTERRUPT_def Let_def)

lemma store_fault_is_taken_as_timer_interrupt_witness:
  "\<exists>h'. retires_to (hart_step rom_bus demo_hart (\<lambda>_. asm_s 1 2 3 0 0x23)) TRAP_STORE_ACCESS_FAULT h'
     (\<lambda>_. asm_s 1 2 3 0 0x23) \<and> mcause (csr h') = 0x80000007"
proof -
  have a: "xreg demo_hart 3 + sx 12 1 = 0x80000001" by code_simp
  from store_fault_is_taken_as_timer_interrupt [where i = "asm_s 1 2 3 0 0x23" and d = 0 and im = 1
      and ?s1.0 = 3 and ?s2.0 = 2, OF demo_hart_simps(1,3), of INSTRUCTION_OP_SB 8]
  show ?thesis by (auto simp: a)
qed

lemma step_ecall_lemma:
  assumes "hart_ok h" "fetches bus h w 0x00000073 w1"
  shows "retires_to (hart_step bus h w) TRAP_ECALL_M (h\<lparr>pc := pc h + 4\<rparr>) w1"
proof -
  have enc: "rv32_encode INSTRUCTION_OP_ECALL 0 0 0 0 = Some 0x00000073" by code_simp
  let ?di = "rve_decode_instruction 0x00000073" and ?s = "exec_at h 0x00000073"
  from encoded_fields [OF enc] have f: "op ?di = INSTRUCTION_OP_ECALL" by simp
  have "reg_write h 0 0 = Some h"
    using assms(1) x0_stays [OF assms(1)] by simp
  then show ?thesis
    by (simp add: step_encoded [OF assms(2) enc] run_decoded_def f pure_case_def exec_ecall_def
        Let_def hart_commit_ecall retires_to_def)
qed

text \<open>
  An environment call is handed to the caller and not taken as a trap: the step
  reports the ECALL cause, advances the program counter past the instruction and leaves every
  register and every CSR as it was.
\<close>

theorem step_ecall:
  assumes "hart_ok h" "fetches bus h w 0x00000073 w1"
  shows "retires_to (hart_step bus h w) TRAP_ECALL_M (h\<lparr>pc := pc h + 4\<rparr>) w1"
  using assms by (rule step_ecall_lemma)

lemma step_ecall_witness:
  "retires_to (hart_step rom_bus demo_hart (\<lambda>_. 0x73)) TRAP_ECALL_M (demo_hart\<lparr>pc := 0x104\<rparr>) (\<lambda>_. 0x73)"
  using step_ecall [OF demo_hart_simps(1), of rom_bus "\<lambda>_. 0x73" "\<lambda>_. 0x73"] by simp

lemma step_illegal_lemma:
  assumes "hart_ok h" "fetches bus h w i w1"
    and "(\<nexists>oper d s1 s2 im. rv32_encode oper d s1 s2 im = Some i) \<or> i = 0x00100073"
  shows "retires_to (hart_step bus h w) TRAP_ILLEGAL_INSTR (hart_take_trap h TRAP_ILLEGAL_INSTR i) w1"
proof -
  let ?di = "rve_decode_instruction i" and ?s = "(exec_at h i)\<lparr>pending_trap := TRAP_ILLEGAL_INSTR\<rparr>"
  have "op ?di = INSTRUCTION_OP_UNKNOWN \<or> op ?di = INSTRUCTION_OP_EBREAK"
  proof (cases "i = 0x00100073")
    case True
    have "rv32_encode INSTRUCTION_OP_EBREAK 0 0 0 0 = Some 0x00100073" by code_simp
    from encoded_fields(2) [OF this] True show ?thesis by simp
  next
    case False
    with assms(3) show ?thesis using recognised_lemma [of i] by blast
  qed
  then have "valid ?di \<Longrightarrow> execute bus ?di (op ?di) (exec_at h i) w1 = Some (?s, w1)" by auto
  moreover obtain r where "hart_commit ?di ?s = Some (r, hart_take_trap h TRAP_ILLEGAL_INSTR i)"
    "r_trap r = TRAP_ILLEGAL_INSTR"
    using commit_trapped [OF assms(1), of ?s ?di] by (auto simp: trap_tval_def)
  ultimately show ?thesis
    by (auto simp: step_fetched [OF assms(2)] run_decoded_def retires_to_def Let_def)
qed

text \<open>
  The words that are no instruction. A fetched word that the reference table does not
  contain, and EBREAK, end in an illegal-instruction trap with the word in mtval; no register changes
  and no memory is touched after the fetch. It does not matter whether the decoder marked the word
  valid.
\<close>

theorem step_illegal:
  assumes "hart_ok h" "fetches bus h w i w1"
    and "(\<nexists>oper d s1 s2 im. rv32_encode oper d s1 s2 im = Some i) \<or> i = 0x00100073"
  shows "retires_to (hart_step bus h w) TRAP_ILLEGAL_INSTR (hart_take_trap h TRAP_ILLEGAL_INSTR i) w1"
  using assms by (rule step_illegal_lemma)

lemma step_illegal_witness:
  "retires_to (hart_step rom_bus demo_hart (\<lambda>_. 0x00100073)) TRAP_ILLEGAL_INSTR
     (hart_take_trap demo_hart TRAP_ILLEGAL_INSTR 0x00100073) (\<lambda>_. 0x00100073)"
  using step_illegal [OF demo_hart_simps(1,3)] by simp

lemma step_fetch_fault_lemma:
  assumes "hart_ok h"
    and "pc h AND 3 = 0 \<longrightarrow> bus_read bus (pc h) 32 w = Some (None, w1)" "pc h AND 3 \<noteq> 0 \<longrightarrow> w1 = w"
  shows "let c = (if pc h AND 3 \<noteq> 0 then TRAP_INSTR_MISALIGNED else TRAP_INSTR_ACCESS_FAULT)
    in retires_to (hart_step bus h w) c (hart_take_trap h c (pc h)) w1"
  using assms commit_trapped [OF assms(1), of "(exec_init h)\<lparr>bad_pc := pc h, pending_trap := TRAP_INSTR_MISALIGNED\<rparr>"
      zero_decoded]
    commit_trapped [OF assms(1), of "(exec_init h)\<lparr>bad_pc := pc h, pending_trap := TRAP_INSTR_ACCESS_FAULT\<rparr>"
      zero_decoded]
  by (auto simp: hart_step_def Let_def retires_to_def exec_init_def trap_tval_def)

text \<open>
  A step that cannot fetch. With a program counter that is not a multiple of 4 nothing is
  read and the misaligned-address trap is taken; when the bus refuses the fetch, the access-fault
  trap. Both put the program counter into mtval and into mepc.
\<close>

theorem step_fetch_fault:
  assumes "hart_ok h"
    and "pc h AND 3 = 0 \<longrightarrow> bus_read bus (pc h) 32 w = Some (None, w1)" "pc h AND 3 \<noteq> 0 \<longrightarrow> w1 = w"
  shows "let c = (if pc h AND 3 \<noteq> 0 then TRAP_INSTR_MISALIGNED else TRAP_INSTR_ACCESS_FAULT)
    in retires_to (hart_step bus h w) c (hart_take_trap h c (pc h)) w1"
  using assms by (rule step_fetch_fault_lemma)

lemma step_fetch_fault_witness:
  "retires_to (hart_step rom_bus (hart_init 0x2000) (\<lambda>_. 0)) TRAP_INSTR_ACCESS_FAULT
     (hart_take_trap (hart_init 0x2000) TRAP_INSTR_ACCESS_FAULT 0x2000) (\<lambda>_. 0)"
  using step_fetch_fault [of "hart_init 0x2000" rom_bus "\<lambda>_. 0" "\<lambda>_. 0"]
  by (simp add: hart_init_def hart_ok_def XLEN_def)

end
