(* ===== verification/Rve_Soc.thy ===== *)
theory Rve_Soc
  imports Rve_Isa_System
begin

unbundle bit_operations_syntax

text \<open>
  The system on chip: include/rve/soc.h and src/soc.c. It owns the hart and the bus; the
  devices' contexts live in the heap of \<open>world_t\<close>, which every function is passed and returns.
  A null pointer or a context of the wrong type is undefined behaviour (\<open>None\<close>).
\<close>

section \<open>State and operations\<close>

record soc_t =
  soc_hart :: hart_t
  soc_bus :: "world_t bus_t"

text \<open>\<open>memset(soc, 0, sizeof *soc)\<close>: ten zeroed slots.\<close>

definition zero_peripheral :: "world_t peripheral_t" where
  "zero_peripheral = \<lparr>active = False, name = [], addr_start = 0, addr_end = 0, ctx = None,
     ops = None, config = None\<rparr>"

definition zero_bus :: "world_t bus_t" where
  "zero_bus = \<lparr>peripherals = replicate BUS_MAX_PERIPHERALS zero_peripheral, count = 0\<rparr>"

definition soc_init :: "u32 \<Rightarrow> soc_t" where
  "soc_init reset_pc = \<lparr>soc_hart = hart_init reset_pc, soc_bus = bus_init zero_bus\<rparr>"

definition soc_add_peripheral ::
    "soc_t \<Rightarrow> u32 \<Rightarrow> u32 \<Rightarrow> ctx_ptr \<Rightarrow> world_t peripheral_ops_t option \<Rightarrow> string \<Rightarrow> bool \<times> soc_t" where
  "soc_add_peripheral soc start_a end_a cx tab nm =
    (let (r, b) = bus_add_peripheral (soc_bus soc) start_a end_a cx tab nm
     in (r, soc\<lparr>soc_bus := b\<rparr>))"

text \<open>\<open>free\<close> of a context.\<close>

definition free_obj :: "ctx_ptr \<Rightarrow> world_t \<Rightarrow> world_t" where
  "free_obj cx w = (case cx of None \<Rightarrow> w | Some l \<Rightarrow> w\<lparr>heap := (heap w)(l := None)\<rparr>)"

definition soc_add_memory ::
    "soc_t \<Rightarrow> u32 \<Rightarrow> u64 \<Rightarrow> world_t \<Rightarrow> ((bool \<times> soc_t) \<times> world_t) option" where
  "soc_add_memory soc start_a sz w =
    (let l = allocs w; w1 = w\<lparr>allocs := l + 1\<rparr>
     in case memory_create_ctx (alloc_ok w l) start_a sz of
          None \<Rightarrow> Some ((False, soc), w1)
        | Some m \<Rightarrow>
            (let mem = Some l; w2 = w1\<lparr>heap := (heap w1)(l \<mapsto> Memory_Obj m)\<rparr>
             in do {
                  (inited, w3) \<leftarrow> memory_init_cb mem w2;
                  if \<not> inited then Some ((False, soc), free_obj mem w3)
                  else let (r, b) = bus_add_peripheral (soc_bus soc) start_a (start_a + ucast sz) mem
                                      (Some memory_ops) ''RAM''
                       in if \<not> r then
                            do {
                              (_, w4) \<leftarrow> memory_deinit_cb mem w3;
                              Some ((False, soc), free_obj mem w4)
                            }
                          else Some ((True, soc\<lparr>soc_bus := b\<rparr>), w3)
                }))"

text \<open>
  The context of whatever device covers the load address is cast to \<open>memory_t *\<close>: for a device
  that is not a memory, reading its fields through that type is undefined.
\<close>

definition soc_load_binary ::
    "soc_t \<Rightarrow> u8 list \<Rightarrow> u64 \<Rightarrow> u32 \<Rightarrow> world_t \<Rightarrow> (int \<times> world_t) option" where
  "soc_load_binary soc data size_v load_addr w =
    (case bus_get_peripheral (soc_bus soc) load_addr of
       None \<Rightarrow> Some (-1, w)
     | Some k \<Rightarrow>
         (let cx = ctx (peripherals (soc_bus soc) ! k)
          in do {
               mem \<leftarrow> get_memory w cx;
               (rc, mem') \<leftarrow> memory_load_file mem load_addr data size_v;
               Some (rc, put_memory w cx mem')
             }))"

definition soc_step :: "soc_t \<Rightarrow> world_t \<Rightarrow> ((hart_retire_t \<times> soc_t) \<times> world_t) option" where
  "soc_step soc w =
    do {
      ((r, h), w') \<leftarrow> hart_step (soc_bus soc) (soc_hart soc) w;
      Some ((r, soc\<lparr>soc_hart := h\<rparr>), w')
    }"

definition soc_raise_interrupt :: "soc_t \<Rightarrow> trap_t \<Rightarrow> soc_t" where
  "soc_raise_interrupt soc interrupt =
    (if \<not> TRAP_IS_INTERRUPT interrupt then soc
     else soc\<lparr>soc_hart := hart_take_trap (soc_hart soc) interrupt 0\<rparr>)"

section \<open>Well-formed systems\<close>

definition soc_ok :: "soc_t \<Rightarrow> world_t \<Rightarrow> bool" where
  "soc_ok soc w \<longleftrightarrow> hart_ok (soc_hart soc) \<and> bus_ok slot_ok (soc_bus soc) w"

lemma hart_init_ok [simp]: "hart_ok (hart_init p)"
  by (simp add: hart_ok_def hart_init_def XLEN_def)

lemma soc_init_ok: "soc_ok (soc_init p) w"
  by (simp add: soc_ok_def soc_init_def devices.bus_init_ok)

lemma soc_ok_same_shape: "soc_ok soc w \<Longrightarrow> same_shape w w' \<Longrightarrow> soc_ok soc w'"
  by (auto simp: soc_ok_def bus_ok_def intro: slot_ok_same_shape)

lemma hart_take_trap_ok [simp]: "hart_ok (hart_take_trap h c t) \<longleftrightarrow> hart_ok h"
  by (simp add: hart_ok_def commit_trap_csr)

interpretation board: hart_bus "bus_ok slot_ok b" b for b
  by unfold_locales (simp_all add: devices.bus_read_ok devices.bus_write_ok)

lemma soc_step_lemma:
  assumes "soc_ok soc w"
  shows "\<exists>r soc' w'. soc_step soc w = Some ((r, soc'), w') \<and> soc_ok soc' w'
    \<and> soc_bus soc' = soc_bus soc"
proof -
  from board.step_ok [of "soc_hart soc" "soc_bus soc" w] assms obtain r h' w' where
    "hart_step (soc_bus soc) (soc_hart soc) w = Some ((r, h'), w')" "hart_ok h'"
    "bus_ok slot_ok (soc_bus soc) w'"
    by (auto simp: soc_ok_def)
  then show ?thesis by (simp add: soc_step_def soc_ok_def)
qed

lemma soc_raise_interrupt_ok: "soc_ok soc w \<Longrightarrow> soc_ok (soc_raise_interrupt soc c) w"
  by (simp add: soc_raise_interrupt_def soc_ok_def)

end
