(* ===== verification/Rve_Emulator.thy ===== *)
theory Rve_Emulator
  imports Rve_Soc
begin

unbundle bit_operations_syntax

text \<open>
  The emulator harness: include/rve/emulator.h and src/emulator.c. The fields \<open>halted\<close> and
  \<open>exit_code\<close> of \<open>emulator_t\<close> are in \<open>world_t\<close>, because the TOHOST device writes them through
  pointers. Callbacks are functions of the record; NULL is \<open>None\<close>. \<open>emulator_run\<close> may run for
  ever, so it is a \<open>partial_function\<close>: \<open>None\<close> means that it does not return, \<open>Some None\<close> that
  it reaches undefined behaviour, and \<open>Some (Some x)\<close> that it returns \<open>x\<close>.
\<close>

section \<open>State\<close>

type_synonym userdata_t = "nat option"

type_synonym syscall_handler_t =
  "soc_t \<Rightarrow> hart_retire_t \<Rightarrow> userdata_t \<Rightarrow> world_t \<Rightarrow> ((bool \<times> soc_t) \<times> world_t) option"

type_synonym trace_fn_t = "hart_retire_t \<Rightarrow> userdata_t \<Rightarrow> world_t \<Rightarrow> world_t option"

record emulator_t =
  soc :: soc_t
  syscall_handler :: "syscall_handler_t option"
  syscall_userdata :: userdata_t
  trace_fn :: "trace_fn_t option"
  trace_userdata :: userdata_t
  cycle_count :: u64

section \<open>The built-in system calls\<close>

text \<open>
  The loop of \<open>write\<close>: \<open>n\<close> bytes are left, the next one is at \<open>addr\<close>, and \<open>written\<close> bytes have been
  sent. It stops early when the bus refuses a byte.
\<close>

fun write_loop ::
    "world_t bus_t \<Rightarrow> host_file \<Rightarrow> nat \<Rightarrow> u32 \<Rightarrow> u32 \<Rightarrow> world_t \<Rightarrow> (u32 \<times> world_t) option" where
  "write_loop b f 0 addr written w = Some (written, w)"
| "write_loop b f (Suc n) addr written w =
    do {
      (byte_val, w1) \<leftarrow> bus_read b addr 8 w;
      case byte_val of
        None \<Rightarrow> Some (written, w1)
      | Some v \<Rightarrow> write_loop b f n (addr + 1) (written + 1) (fputc (ucast (v AND 0xFF)) f w1)
    }"

definition set_a0 :: "soc_t \<Rightarrow> u32 \<Rightarrow> soc_t option" where
  "set_a0 s v = do { h \<leftarrow> reg_write (soc_hart s) 10 v; Some (s\<lparr>soc_hart := h\<rparr>) }"

definition default_syscall_handler :: syscall_handler_t where
  "default_syscall_handler s retire ud w =
    do {
      a7 \<leftarrow> reg_read (soc_hart s) 17;
      a0 \<leftarrow> reg_read (soc_hart s) 10;
      a1 \<leftarrow> reg_read (soc_hart s) 11;
      a2 \<leftarrow> reg_read (soc_hart s) 12;
      if a7 = 93 then do { s' \<leftarrow> set_a0 s a0; Some ((False, s'), w) }
      else if a7 = 64 then
        (case (if a0 = 1 then Some Stdout else if a0 = 2 then Some Stderr else None) of
           None \<Rightarrow> do { s' \<leftarrow> set_a0 s (-1); Some ((True, s'), w) }
         | Some f \<Rightarrow>
             do {
               (written, w') \<leftarrow> write_loop (soc_bus s) f (unat a2) a1 0 w;
               s' \<leftarrow> set_a0 s written;
               Some ((True, s'), w')
             })
      else Some ((False, s), w)
    }"

section \<open>Initialisation and loading\<close>

text \<open>
  \<open>emulator_init\<close> does not test the allocation of the TOHOST context before writing to it, and
  ignores what the registrations return.
\<close>

definition emulator_init :: "u32 \<Rightarrow> world_t \<Rightarrow> (emulator_t \<times> world_t) option" where
  "emulator_init reset_pc w0 =
    (let w1 = w0\<lparr>halted := False, exit_code := 0\<rparr>;
         s1 = soc_init reset_pc;
         l = allocs w1
     in if \<not> alloc_ok w1 l then None
        else let w2 = w1\<lparr>allocs := l + 1,
                    heap := (heap w1)(l \<mapsto> Tohost_Obj \<lparr>halt_flag = Some Field_halted,
                                                      exit_code_p = Some Field_exit_code\<rparr>)\<rparr>;
                 (_, s2) = soc_add_peripheral s1 0x80001000 0x80001008 (Some l)
                             (Some peripheral_tohost_ops) ''TOHOST''
             in do {
                  ((_, s3), w3) \<leftarrow> soc_add_memory s2 0x00000000 (4 * 1024 * 1024) w2;
                  ((_, s4), w4) \<leftarrow> soc_add_memory s3 0x80000000 (16 * 1024 * 1024) w3;
                  let (uart, w5) = uart_ns16550a_create (Some Stdout) None w4;
                  let (_, s5) = soc_add_peripheral s4 0x10000000 0x10000008 uart
                                  (Some uart_ns16550a_ops) ''UART0'';
                  Some (\<lparr>soc = s5, syscall_handler = Some default_syscall_handler,
                          syscall_userdata = None, trace_fn = None, trace_userdata = None,
                          cycle_count = 0\<rparr>,
                        w5\<lparr>halted := False, exit_code := 0\<rparr>)
                })"

text \<open>
  \<open>emulator_load_binary\<close>: \<open>file\<close> is the contents of the file, \<open>None\<close> when it cannot be opened;
  \<open>read_ok\<close> says whether \<open>fread\<close> delivers all of it.
\<close>

definition emulator_load_binary ::
    "emulator_t \<Rightarrow> u8 list option \<Rightarrow> bool \<Rightarrow> u32 \<Rightarrow> world_t \<Rightarrow> (int \<times> world_t) option" where
  "emulator_load_binary e contents read_ok load_addr w =
    (case contents of
       None \<Rightarrow> Some (-1, w)
     | Some bytes \<Rightarrow>
         if length bytes = 0 then Some (-1, w)
         else let w1 = w\<lparr>allocs := allocs w + 1\<rparr>
              in if \<not> alloc_ok w (allocs w) then Some (-1, w1)
                 else if \<not> read_ok then Some (-1, w1)
                 else soc_load_binary (soc e) bytes (of_nat (length bytes)) load_addr w1)"

definition emulator_set_syscall_handler ::
    "emulator_t \<Rightarrow> syscall_handler_t option \<Rightarrow> userdata_t \<Rightarrow> emulator_t" where
  "emulator_set_syscall_handler e fn ud = e\<lparr>syscall_handler := fn, syscall_userdata := ud\<rparr>"

definition emulator_set_trace :: "emulator_t \<Rightarrow> trace_fn_t option \<Rightarrow> userdata_t \<Rightarrow> emulator_t" where
  "emulator_set_trace e fn ud = e\<lparr>trace_fn := fn, trace_userdata := ud\<rparr>"

section \<open>Stepping and running\<close>

definition emulator_step ::
    "emulator_t \<Rightarrow> world_t \<Rightarrow> ((hart_retire_t \<times> emulator_t) \<times> world_t) option" where
  "emulator_step e w =
    (if halted w then Some ((zero_retire\<lparr>r_trap := TRAP_ILLEGAL_INSTR\<rparr>, e), w)
     else do {
       ((r, s1), w1) \<leftarrow> soc_step (soc e) w;
       let e1 = e\<lparr>soc := s1, cycle_count := cycle_count e + 1\<rparr>;
       w2 \<leftarrow> (case trace_fn e1 of None \<Rightarrow> Some w1 | Some f \<Rightarrow> f r (trace_userdata e1) w1);
       if r_trap r = TRAP_ECALL_M then
         do {
           ((handled, s2), w3) \<leftarrow>
             (case syscall_handler e1 of
                None \<Rightarrow> Some ((False, soc e1), w2)
              | Some f \<Rightarrow> f (soc e1) r (syscall_userdata e1) w2);
           let e2 = e1\<lparr>soc := s2\<rparr>;
           if \<not> handled then
             do {
               a0 \<leftarrow> reg_read (soc_hart s2) 10;
               Some ((r, e2), w3\<lparr>halted := True, exit_code := sint a0\<rparr>)
             }
           else Some ((r\<lparr>r_trap := TRAP_NONE\<rparr>, e2), w3)
         }
       else Some ((r, e1), w2)
     })"

partial_function (option) emulator_run ::
    "emulator_t \<Rightarrow> u64 \<Rightarrow> world_t \<Rightarrow> (int \<times> emulator_t \<times> world_t) option option" where
  "emulator_run e max_steps w =
    (if halted w then Some (Some (exit_code w, e, w))
     else case emulator_step e w of
            None \<Rightarrow> Some None
          | Some ((r, e1), w1) \<Rightarrow>
              if max_steps \<noteq> 0 \<and> max_steps \<le> cycle_count e1
              then Some (Some (1, e1, w1\<lparr>halted := True, exit_code := 1\<rparr>))
              else emulator_run e1 max_steps w1)"

end
