(* ===== verification/Rve_Run.thy ===== *)
theory Rve_Run
  imports Rve_Emulator
begin

unbundle bit_operations_syntax

text \<open>
  The emulator at work: no undefined behaviour whatever program runs, as long as the two callbacks
  keep their contract (the locale \<open>callbacks\<close>, interpreted on the built-in system call handler); the
  machine \<open>emulator_init\<close> builds; the system calls; and when a run ends.
\<close>

section \<open>The built-in handler keeps the system well formed\<close>

lemma soc_ok_fputc: "soc_ok s w \<Longrightarrow> soc_ok s (fputc c f w)"
  by (erule soc_ok_same_shape) (simp add: same_shape_heap)

lemma soc_ok_halt: "soc_ok s w \<Longrightarrow> soc_ok s (w\<lparr>halted := b, exit_code := c\<rparr>)"
  by (erule soc_ok_same_shape) (simp add: same_shape_heap)

lemma write_loop_lemma:
  "soc_ok s w \<Longrightarrow> \<exists>n' w'. write_loop (soc_bus s) f n addr written w = Some (n', w') \<and> soc_ok s w'"
proof (induction n arbitrary: addr written w)
  case (Suc n)
  have "access_size 8" by (simp add: access_size_def)
  with Suc.prems devices.bus_read_ok [of "soc_bus s" w 8 addr] obtain v w1 where
    v: "bus_read (soc_bus s) addr 8 w = Some (v, w1)" "soc_ok s w1"
    by (auto simp: soc_ok_def)
  show ?case
  proof (cases v)
    case None
    with v show ?thesis by simp
  next
    case (Some b)
    with v Suc.IH [OF soc_ok_fputc [OF v(2)]] show ?thesis by simp
  qed
qed auto

lemma set_a0_ok: "soc_ok s w \<Longrightarrow> \<exists>s'. set_a0 s v = Some s' \<and> soc_ok s' w \<and> soc_bus s' = soc_bus s"
  by (auto simp: set_a0_def soc_ok_def hart_ok_def reg_write_def)

lemma default_handler_ok:
  assumes "soc_ok s w"
  shows "\<exists>b s' w'. default_syscall_handler s r ud w = Some ((b, s'), w') \<and> soc_ok s' w'"
proof -
  have regs: "reg_read (soc_hart s) 17 = Some (gpr (soc_hart s) ! 17)"
    "reg_read (soc_hart s) 10 = Some (gpr (soc_hart s) ! 10)"
    "reg_read (soc_hart s) 11 = Some (gpr (soc_hart s) ! 11)"
    "reg_read (soc_hart s) 12 = Some (gpr (soc_hart s) ! 12)"
    using assms by (simp_all add: soc_ok_def)
  let ?a0 = "gpr (soc_hart s) ! 10" and ?a1 = "gpr (soc_hart s) ! 11" and ?a2 = "gpr (soc_hart s) ! 12"
  show ?thesis
  proof (cases "gpr (soc_hart s) ! 17 = 64 \<and> ?a0 \<in> {1, 2}")
    case True
    define f where "f = (if ?a0 = 1 then Stdout else Stderr)"
    from write_loop_lemma [OF assms, of f "unat ?a2" ?a1 0] obtain n' w' where
      wl: "write_loop (soc_bus s) f (unat ?a2) ?a1 0 w = Some (n', w')" "soc_ok s w'" by blast
    from set_a0_ok [OF wl(2), of n'] wl True show ?thesis
      by (auto simp: default_syscall_handler_def regs f_def)
  next
    case False
    with set_a0_ok [OF assms, of ?a0] set_a0_ok [OF assms, of "-1"] assms show ?thesis
      by (auto simp: default_syscall_handler_def regs)
  qed
qed

section \<open>Callbacks\<close>

text \<open>
  The emulator calls back into two functions its user installs. The contract: they are defined on a
  well-formed system and leave it well formed, the tracer when it is given the pointer \<open>tud\<close> it was
  installed with. \<open>emu_ok\<close> is the invariant of an emulator whose
  callbacks, where set, are these two.
\<close>

definition emu_ok :: "syscall_handler_t \<Rightarrow> trace_fn_t \<Rightarrow> userdata_t \<Rightarrow> emulator_t \<Rightarrow> world_t \<Rightarrow> bool" where
  "emu_ok handler trace tud e w \<longleftrightarrow> soc_ok (soc e) w
     \<and> (syscall_handler e = None \<or> syscall_handler e = Some handler)
     \<and> (trace_fn e = None \<or> trace_fn e = Some trace \<and> trace_userdata e = tud)"

locale callbacks =
  fixes handler :: syscall_handler_t and trace :: trace_fn_t and tud :: userdata_t
  assumes handler_ok: "soc_ok s w \<Longrightarrow> \<exists>b s' w'. handler s r ud w = Some ((b, s'), w') \<and> soc_ok s' w'"
    and trace_ok: "soc_ok s w \<Longrightarrow> \<exists>w'. trace r tud w = Some w' \<and> soc_ok s w'"
begin

lemma emu_step_ok:
  assumes "emu_ok handler trace tud e w"
  shows "\<exists>r e' w'. emulator_step e w = Some ((r, e'), w') \<and> emu_ok handler trace tud e' w'
    \<and> cycle_count e' = (if halted w then cycle_count e else cycle_count e + 1)"
proof (cases "halted w")
  case True
  with assms show ?thesis by (simp add: emulator_step_def)
next
  case False
  from assms have sok: "soc_ok (soc e) w" by (simp add: emu_ok_def)
  from soc_step_lemma [OF this] obtain r s1 w1 where
    st: "soc_step (soc e) w = Some ((r, s1), w1)" "soc_ok s1 w1" by blast
  let ?e1 = "e\<lparr>soc := s1, cycle_count := cycle_count e + 1\<rparr>"
  obtain w2 where tr: "(case trace_fn ?e1 of None \<Rightarrow> Some w1 | Some f \<Rightarrow> f r (trace_userdata ?e1) w1) = Some w2"
    "soc_ok s1 w2"
    using assms trace_ok [OF st(2), of r] st(2)
    by (auto simp: emu_ok_def)
  have "\<exists>handled s2 w3. (case syscall_handler ?e1 of None \<Rightarrow> Some ((False, soc ?e1), w2)
       | Some f \<Rightarrow> f (soc ?e1) r (syscall_userdata ?e1) w2) = Some ((handled, s2), w3) \<and> soc_ok s2 w3"
  proof (cases "syscall_handler e")
    case None
    with tr(2) show ?thesis by (auto intro: exI [of _ False])
  next
    case (Some f)
    with assms have "f = handler" by (simp add: emu_ok_def)
    with Some handler_ok [OF tr(2), of r "syscall_userdata e"] show ?thesis by simp
  qed
  then obtain handled s2 w3 where h:
    "(case syscall_handler ?e1 of None \<Rightarrow> Some ((False, soc ?e1), w2)
       | Some f \<Rightarrow> f (soc ?e1) r (syscall_userdata ?e1) w2) = Some ((handled, s2), w3)" "soc_ok s2 w3"
    by blast
  have a0: "reg_read (soc_hart s2) 10 = Some (gpr (soc_hart s2) ! 10)"
    using h(2) by (simp add: soc_ok_def)
  show ?thesis
    using False st tr h assms soc_ok_halt [OF h(2)]
    by (simp add: emulator_step_def emu_ok_def a0 Let_def del: fun_upd_apply)
qed

text \<open>A run with a step limit ends, halted, within the limit, and without undefined behaviour.\<close>

lemma emu_run_bounded:
  assumes "emu_ok handler trace tud e w" "cycle_count e < max_steps"
  shows "\<exists>code e' w'. emulator_run e max_steps w = Some (Some (code, e', w'))
    \<and> emu_ok handler trace tud e' w' \<and> halted w' \<and> exit_code w' = code \<and> cycle_count e' \<le> max_steps
    \<and> (cycle_count e' = max_steps \<longrightarrow> code = 1)"
  using assms
proof (induction "unat max_steps - unat (cycle_count e)" arbitrary: e w rule: less_induct)
  case less
  show ?case
  proof (cases "halted w")
    case True
    with less.prems show ?thesis by (subst emulator_run.simps) auto
  next
    case False
    from emu_step_ok [OF less.prems(1)] False obtain r e1 w1 where
      st: "emulator_step e w = Some ((r, e1), w1)" "emu_ok handler trace tud e1 w1"
        "cycle_count e1 = cycle_count e + 1"
      by auto
    have nz: "max_steps \<noteq> 0" using less.prems(2) by auto
    have cc: "unat (cycle_count e1) = unat (cycle_count e) + 1"
      using less.prems(2) st(3) unsigned_less [where w=max_steps and 'a=nat]
      by (simp add: unat_word_ariths word_less_nat_alt)
    show ?thesis
    proof (cases "max_steps \<le> cycle_count e1")
      case True
      have "emu_ok handler trace tud e1 (w1\<lparr>halted := True, exit_code := 1\<rparr>)"
        using st(2) by (auto simp: emu_ok_def soc_ok_halt)
      moreover have "cycle_count e1 \<le> max_steps"
        using less.prems(2) cc by (simp add: word_less_nat_alt word_le_nat_alt)
      ultimately show ?thesis
        using False st True nz by (subst emulator_run.simps) simp
    next
      case more: False
      have "unat max_steps - unat (cycle_count e1) < unat max_steps - unat (cycle_count e)"
        using less.prems(2) cc by (simp add: word_less_nat_alt)
      from less.hyps [OF this st(2)] more show ?thesis
        using False st nz by (subst emulator_run.simps) simp
    qed
  qed
qed

end

text \<open>The callbacks \<open>emulator_init\<close> installs: the built-in handler, and no tracing.\<close>

definition no_trace :: trace_fn_t where
  "no_trace r ud w = Some w"

interpretation builtin: callbacks default_syscall_handler no_trace None
  by unfold_locales (simp_all add: default_handler_ok no_trace_def)

end
