(* ===== verification/Rve_Board.thy ===== *)
theory Rve_Board
  imports Rve_Run
begin

unbundle bit_operations_syntax

text \<open>
  The board: the machine \<open>emulator_init\<close> of src/emulator.c builds, written out, with its memory map;
  loading a program into it; its safety and the end of its runs.
\<close>

section \<open>The machine \<open>emulator_init\<close> builds\<close>

text \<open>
  Written out: the bus after the four registrations, when the TOHOST context is object \<open>l\<close>. The two
  memories take two allocations each, their contexts being \<open>l + 1\<close> and \<open>l + 3\<close>.
\<close>

definition board_slot :: "string \<Rightarrow> u32 \<Rightarrow> u32 \<Rightarrow> nat \<Rightarrow> world_t peripheral_ops_t \<Rightarrow> world_t peripheral_t" where
  "board_slot nm a b l tab = \<lparr>active = True, name = nm, addr_start = a, addr_end = b, ctx = Some l,
     ops = Some tab, config = None\<rparr>"

definition board_bus :: "nat \<Rightarrow> world_t bus_t" where
  "board_bus l = \<lparr>peripherals =
     [board_slot ''TOHOST'' 0x80001000 0x80001008 l peripheral_tohost_ops,
      board_slot ''RAM'' 0 0x400000 (l + 1) memory_ops,
      board_slot ''RAM'' 0x80000000 0x81000000 (l + 3) memory_ops,
      board_slot ''UART0'' 0x10000000 0x10000008 (l + 5) uart_ns16550a_ops]
     @ replicate 6 zero_peripheral, count = 4\<rparr>"

definition fresh_memory :: "u32 \<Rightarrow> u64 \<Rightarrow> memory_t" where
  "fresh_memory base sz = \<lparr>raw_memory = Some (\<lambda>_. 0), size_m = sz, base_addr = base\<rparr>"

definition fresh_uart :: uart_ns16550a_t where
  "fresh_uart = \<lparr>tx_file = Some Stdout, rx_file = None, ier = 0, lcr = 0, mcr = 0, scr = 0,
     dll = 1, dlh = 0, rx_ready = False, rx_byte = 0\<rparr>"

definition board_world :: "nat \<Rightarrow> world_t \<Rightarrow> world_t" where
  "board_world l w = w\<lparr>allocs := l + 6, halted := False, exit_code := 0,
     heap := (heap w)
       (l \<mapsto> Tohost_Obj \<lparr>halt_flag = Some Field_halted, exit_code_p = Some Field_exit_code\<rparr>,
        l + 1 \<mapsto> Memory_Obj (fresh_memory 0 0x400000),
        l + 3 \<mapsto> Memory_Obj (fresh_memory 0x80000000 0x1000000),
        l + 5 \<mapsto> Uart_Obj fresh_uart)\<rparr>"

definition board_emulator :: "nat \<Rightarrow> u32 \<Rightarrow> emulator_t" where
  "board_emulator l reset_pc = \<lparr>soc = \<lparr>soc_hart = hart_init reset_pc, soc_bus = board_bus l\<rparr>,
     syscall_handler = Some default_syscall_handler, syscall_userdata = None,
     trace_fn = None, trace_userdata = None, cycle_count = 0\<rparr>"

lemma soc_add_memory_eq:
  assumes "alloc_ok w (allocs w)" "alloc_ok w (allocs w + 1)"
    and "bus_add_peripheral (soc_bus s) a (a + ucast sz) (Some (allocs w)) (Some memory_ops) ''RAM''
      = (True, b)"
  shows "soc_add_memory s a sz w = Some ((True, s\<lparr>soc_bus := b\<rparr>),
    w\<lparr>allocs := allocs w + 2, heap := (heap w)(allocs w \<mapsto> Memory_Obj (fresh_memory a sz))\<rparr>)"
  using assms
  by (simp add: soc_add_memory_def memory_create_ctx_def memory_init_cb_def memory_init_def
      get_memory_def put_memory_def fresh_memory_def Let_def)

text \<open>The bus after the first \<open>n\<close> of the four registrations.\<close>

definition board_slots :: "nat \<Rightarrow> world_t peripheral_t list" where
  "board_slots l =
     [board_slot ''TOHOST'' 0x80001000 0x80001008 l peripheral_tohost_ops,
      board_slot ''RAM'' 0 0x400000 (l + 1) memory_ops,
      board_slot ''RAM'' 0x80000000 0x81000000 (l + 3) memory_ops,
      board_slot ''UART0'' 0x10000000 0x10000008 (l + 5) uart_ns16550a_ops]"

definition partial_bus :: "nat \<Rightarrow> nat \<Rightarrow> world_t bus_t" where
  "partial_bus l n = \<lparr>peripherals = take n (board_slots l) @ replicate (10 - n) zero_peripheral,
     count = of_nat n\<rparr>"

lemma zero_slots:
  "replicate 10 zero_peripheral = zero_peripheral # replicate 9 zero_peripheral"
  "replicate 9 zero_peripheral = zero_peripheral # replicate 8 zero_peripheral"
  "replicate 8 zero_peripheral = zero_peripheral # replicate 7 zero_peripheral"
  "replicate 7 zero_peripheral = zero_peripheral # replicate 6 zero_peripheral"
  by (simp_all add: numeral_eq_Suc)

lemma partial_bus_ends:
  "soc_init p = \<lparr>soc_hart = hart_init p, soc_bus = partial_bus l 0\<rparr>"
  "partial_bus l 4 = board_bus l"
  by (simp_all add: soc_init_def bus_init_def zero_bus_def zero_peripheral_def BUS_MAX_PERIPHERALS_def
      partial_bus_def board_slots_def board_bus_def)

lemma partial_bus_add:
  "bus_add_peripheral (partial_bus l 0) 0x80001000 0x80001008 (Some l) (Some peripheral_tohost_ops)
     ''TOHOST'' = (True, partial_bus l 1)"
  "bus_add_peripheral (partial_bus l 1) 0 (0 + ucast (4 * 1024 * 1024 :: u64)) (Some (l + 1))
     (Some memory_ops) ''RAM'' = (True, partial_bus l 2)"
  "bus_add_peripheral (partial_bus l 2) 0x80000000 (0x80000000 + ucast (16 * 1024 * 1024 :: u64))
     (Some (l + 3)) (Some memory_ops) ''RAM'' = (True, partial_bus l 3)"
  "bus_add_peripheral (partial_bus l 3) 0x10000000 0x10000008 (Some (l + 5)) (Some uart_ns16550a_ops)
     ''UART0'' = (True, partial_bus l 4)"
  by (simp_all add: partial_bus_def board_slots_def zero_slots,
      simp_all add: PERIPHERAL_NAME_MAX_def bus_add_peripheral_def bus_find_slot_def board_slot_def
        zero_peripheral_def Let_def)

lemma emulator_init_eq:
  assumes "\<And>i. i < 6 \<Longrightarrow> alloc_ok w (allocs w + i)"
  shows "emulator_init p w = Some (board_emulator (allocs w) p, board_world (allocs w) w)"
proof -
  define l where "l = allocs w"
  from assms [of 0] assms [of 1] assms [of 2] assms [of 3] assms [of 4] assms [of 5]
  have ok: "alloc_ok w l" "alloc_ok w (l + 1)" "alloc_ok w (l + 2)" "alloc_ok w (l + 3)"
    "alloc_ok w (l + 4)" "alloc_ok w (l + 5)" "allocs w = l" by (simp_all add: l_def)
  let ?tohost = "Tohost_Obj \<lparr>halt_flag = Some Field_halted, exit_code_p = Some Field_exit_code\<rparr>"
  define w2 where "w2 = w\<lparr>halted := False, exit_code := 0, allocs := l + 1, heap := (heap w)(l \<mapsto> ?tohost)\<rparr>"
  define w3 where "w3 = w2\<lparr>allocs := l + 3, heap := (heap w2)(l + 1 \<mapsto> Memory_Obj (fresh_memory 0 0x400000))\<rparr>"
  define w4 where "w4 = w3\<lparr>allocs := l + 5, heap := (heap w3)(l + 3 \<mapsto> Memory_Obj (fresh_memory 0x80000000 0x1000000))\<rparr>"
  let ?s = "\<lambda>n. \<lparr>soc_hart = hart_init p, soc_bus = partial_bus l n\<rparr>"
  have m1: "soc_add_memory (?s 1) 0 (4 * 1024 * 1024) w2 = Some ((True, ?s 2), w3)"
    using soc_add_memory_eq [of w2 "?s 1" 0 "4 * 1024 * 1024" "partial_bus l 2"] ok
      partial_bus_add(2) [of l]
    by (simp add: w2_def w3_def)
  have m2: "soc_add_memory (?s 2) 0x80000000 (16 * 1024 * 1024) w3 = Some ((True, ?s 3), w4)"
    using soc_add_memory_eq [of w3 "?s 2" "0x80000000" "16 * 1024 * 1024" "partial_bus l 3"] ok
      partial_bus_add(3) [of l]
    by (simp add: w2_def w3_def w4_def add.commute [of l])
  have u: "uart_ns16550a_create (Some Stdout) None w4 = (Some (l + 5),
      w4\<lparr>allocs := l + 6, heap := (heap w4)(l + 5 \<mapsto> Uart_Obj fresh_uart)\<rparr>)"
    using ok by (simp add: uart_ns16550a_create_def uart_reset_def rx_prefetch_def fresh_uart_def
        put_uart_def w2_def w3_def w4_def Let_def)
  have e: "board_world l w = w4\<lparr>allocs := l + 6, heap := (heap w4)(l + 5 \<mapsto> Uart_Obj fresh_uart),
      halted := False, exit_code := 0\<rparr>"
    by (simp add: board_world_def w2_def w3_def w4_def)
  have w2: "w\<lparr>halted := False, exit_code := 0, allocs := Suc l, heap := (heap w)(l \<mapsto> ?tohost)\<rparr> = w2"
    by (simp add: w2_def)
  show ?thesis
    unfolding l_def [symmetric] e
    using ok m1 m2 u partial_bus_add(1,4) [of l] w2
    by (simp add: emulator_init_def soc_add_peripheral_def board_emulator_def Let_def
        partial_bus_ends(1) [of p l] partial_bus_ends(2))
qed

lemma board_ok: "emu_ok default_syscall_handler no_trace None (board_emulator l p) (board_world l w)"
  by (simp add: emu_ok_def board_emulator_def board_world_def soc_ok_def bus_ok_def board_bus_def
      board_slot_def zero_peripheral_def slot_ok_def fresh_memory_def tohost_ok_def)

text \<open>Which slot serves an address.\<close>

lemma best_from_unused: "best_from (replicate n zero_peripheral) i a b s = b"
  by (induction n arbitrary: i) (simp_all add: covers_def zero_peripheral_def)

lemma board_dispatch:
  "bus_get_peripheral (board_bus l) a =
    (if 0x80001000 \<le> a \<and> a < 0x80001008 then Some 0
     else if a < 0x400000 then Some 1
     else if 0x80000000 \<le> a \<and> a < 0x81000000 then Some 2
     else if 0x10000000 \<le> a \<and> a < 0x10000008 then Some 3
     else None)"
  unfolding bus_get_peripheral_def board_bus_def
  by (auto simp: covers_def addr_range_def board_slot_def best_from_unused
      word_less_nat_alt word_le_nat_alt)

section \<open>Programs in the low RAM\<close>

text \<open>
  For concrete runs: the world of a board whose low RAM starts with \<open>bytes\<close>, and the emulator about
  to execute at \<open>p\<close> with the registers \<open>regs\<close>.
\<close>

definition blank_world :: world_t where
  "blank_world = \<lparr>heap = (\<lambda>_. None), allocs = 0, alloc_ok = (\<lambda>_. True), in_stream = (\<lambda>_. []),
     out_stream = (\<lambda>_. []), halted = False, exit_code = 0, host_vars = (\<lambda>_. 0)\<rparr>"

definition low_ram :: "u8 list \<Rightarrow> memory_t" where
  "low_ram bytes = (fresh_memory 0 0x400000)\<lparr>raw_memory := Some (store_bytes (\<lambda>_. 0) 0 bytes)\<rparr>"

lemma low_ram_simps [simp]:
  "raw_memory (low_ram bytes) = Some (store_bytes (\<lambda>_. 0) 0 bytes)"
  "size_m (low_ram bytes) = 0x400000" "base_addr (low_ram bytes) = 0"
  by (simp_all add: low_ram_def fresh_memory_def)

definition low_program :: "u8 list \<Rightarrow> world_t" where
  "low_program bytes = (board_world 0 blank_world)
     \<lparr>heap := (heap (board_world 0 blank_world))(1 \<mapsto> Memory_Obj (low_ram bytes))\<rparr>"

definition boot :: "u32 list \<Rightarrow> u32 \<Rightarrow> emulator_t" where
  "boot regs p = (board_emulator 0 p)\<lparr>soc := \<lparr>soc_hart = (hart_init p)\<lparr>gpr := regs\<rparr>, soc_bus = board_bus 0\<rparr>\<rparr>"

lemma board_low_ram:
  assumes "access_size sz" "unat a + unat sz div 8 \<le> 0x400000" "size_m m = 0x400000" "base_addr m = 0"
  shows "ram_inside (board_bus l) (l + 1) m a sz"
proof -
  have "unat sz div 8 > 0" using assms(1) by (auto simp: access_size_def)
  then have "unat a < 0x400000" using assms(2) by simp
  then have "bus_get_peripheral (board_bus l) a = Some 1"
    by (auto simp: board_dispatch word_less_nat_alt word_le_nat_alt)
  with assms show ?thesis
    by (simp add: ram_inside_def mem_inside_def in_memory_def board_bus_def board_slot_def)
qed

lemma ram_fetch:
  assumes "ram_inside b l m (pc h) 32" "heap w l = Some (Memory_Obj m)" "raw_memory m = Some raw"
    and "pc h AND 3 = 0"
  shows "fetches b h w (le_word (map (\<lambda>i. raw (unat (pc h) - unat (base_addr m) + i)) [0..<4])) w"
proof -
  have ok: "mem_ok m m" using assms(3) by (simp add: mem_ok_def)
  from assms(1) have "mem_inside m (pc h) 32" by (simp add: ram_inside_def)
  from mem_rd_eq [OF ok this assms(3)] bus_read_ram [OF assms(1,2)] assms(4)
  show ?thesis by (simp add: fetches_def)
qed

lemma bus_read_byte:
  assumes "ram_inside b l m a 8" "heap w l = Some (Memory_Obj m)" "raw_memory m = Some raw"
  shows "bus_read b a 8 w = Some (Some (ucast (raw (unat a - unat (base_addr m)))), w)"
proof -
  have ok: "mem_ok m m" using assms(3) by (simp add: mem_ok_def)
  from assms(1) have "mem_inside m a 8" by (simp add: ram_inside_def)
  from mem_rd_eq [OF ok this assms(3)] bus_read_ram [OF assms(1,2)] show ?thesis by simp
qed

lemma low_program_fetch:
  assumes "unat (pc h) + 4 \<le> length bytes" "length bytes \<le> 0x400000" "pc h AND 3 = 0"
  shows "fetches (board_bus 0) h (low_program bytes)
    (le_word (take 4 (drop (unat (pc h)) bytes))) (low_program bytes)"
proof -
  have ins: "ram_inside (board_bus 0) (0 + 1) (low_ram bytes) (pc h) 32"
    using assms by (intro board_low_ram) (simp_all add: low_ram_def fresh_memory_def access_size_def)
  have "map (\<lambda>i. store_bytes (\<lambda>_. 0) 0 bytes (unat (pc h) + i)) [0..<4] = take 4 (drop (unat (pc h)) bytes)"
    using assms(1) by (auto simp: store_bytes_def intro!: nth_equalityI)
  with ram_fetch [OF ins, of "low_program bytes"] assms(3) show ?thesis
    by (simp add: low_ram_def fresh_memory_def low_program_def)
qed

lemma low_program_ok:
  assumes "length regs = 32" "regs ! 0 = 0"
  shows "emu_ok default_syscall_handler no_trace None (boot regs p) (low_program bytes)"
proof -
  have "soc_ok (soc (board_emulator 0 p)) (board_world 0 blank_world)"
    using board_ok [of 0 p blank_world] by (simp add: emu_ok_def)
  moreover have "same_shape (board_world 0 blank_world) (low_program bytes)"
    by (rule same_shape_upd [of _ 1 "Memory_Obj (fresh_memory 0 0x400000)" "Memory_Obj (low_ram bytes)"])
      (simp_all add: board_world_def low_program_def low_ram_def fresh_memory_def)
  ultimately have "soc_ok (soc (board_emulator 0 p)) (low_program bytes)"
    by (rule soc_ok_same_shape)
  then show ?thesis
    using assms by (simp add: emu_ok_def boot_def board_emulator_def soc_ok_def hart_ok_def hart_init_def)
qed

lemma boot_simps [simp]:
  "soc_bus (soc (boot regs p)) = board_bus 0" "pc (soc_hart (soc (boot regs p))) = p"
  "gpr (soc_hart (soc (boot regs p))) = regs" "trace_fn (boot regs p) = None"
  "syscall_handler (boot regs p) = Some default_syscall_handler" "cycle_count (boot regs p) = 0"
  "soc_hart (soc (boot regs p)) = (hart_init p)\<lparr>gpr := regs\<rparr>"
  "\<not> halted (low_program bytes)" "out_stream (low_program bytes) f = []"
  "heap (low_program bytes) (Suc 0) = Some (Memory_Obj (low_ram bytes))"
  by (simp_all add: boot_def board_emulator_def low_program_def board_world_def blank_world_def hart_init_def)

lemma boot_ok:
  "length regs = 32 \<Longrightarrow> regs ! 0 = 0 \<Longrightarrow> soc_ok (soc (boot regs p)) (low_program bytes)"
  using low_program_ok by (simp add: emu_ok_def del: boot_simps)

lemma boot_fetch:
  assumes "le_word (take 4 (drop (unat p) bytes)) = i" "unat p + 4 \<le> length bytes"
    "length bytes \<le> 0x400000" "p AND 3 = 0"
  shows "fetches (soc_bus (soc (boot regs p))) (soc_hart (soc (boot regs p))) (low_program bytes) i
    (low_program bytes)"
proof -
  let ?h = "soc_hart (soc (boot regs p))"
  have "pc ?h = p" by (simp add: boot_def hart_init_def)
  with low_program_fetch [of ?h bytes] assms show ?thesis by (simp only: boot_simps)
qed

section \<open>Properties of the board\<close>

text \<open>
  C21 (functional): \<open>emulator_init\<close>, when no allocation fails, builds a well-formed machine that is
  not halted, has executed nothing, starts at the reset address with all registers zero, and has
  exactly this memory map: 4 MiB of RAM at 0, 16 MiB at 0x80000000, the UART in the eight bytes at
  0x10000000 and TOHOST in the eight bytes at 0x80001000, which it takes from the RAM around it.
\<close>

theorem emulator_init_board:
  assumes "\<And>i. i < 6 \<Longrightarrow> alloc_ok w (allocs w + i)"
  shows "\<exists>e w'. emulator_init reset_pc w = Some (e, w') \<and> emu_ok default_syscall_handler no_trace None e w'
    \<and> \<not> halted w' \<and> cycle_count e = 0
    \<and> pc (soc_hart (soc e)) = reset_pc \<and> gpr (soc_hart (soc e)) = replicate 32 0
    \<and> map (\<lambda>p. (name p, ops p)) (take 4 (peripherals (soc_bus (soc e)))) =
        [(''TOHOST'', Some peripheral_tohost_ops), (''RAM'', Some memory_ops),
         (''RAM'', Some memory_ops), (''UART0'', Some uart_ns16550a_ops)]
    \<and> (\<forall>a. bus_get_peripheral (soc_bus (soc e)) a =
         (if 0x80001000 \<le> a \<and> a < 0x80001008 then Some 0
          else if a < 0x400000 then Some 1
          else if 0x80000000 \<le> a \<and> a < 0x81000000 then Some 2
          else if 0x10000000 \<le> a \<and> a < 0x10000008 then Some 3
          else None))"
proof -
  have "soc_bus (soc (board_emulator (allocs w) reset_pc)) = board_bus (allocs w)"
    by (simp add: board_emulator_def)
  with emulator_init_eq [OF assms] board_ok [of "allocs w" reset_pc w] board_dispatch [of "allocs w"]
  show ?thesis
    by (simp add: board_emulator_def board_world_def board_bus_def board_slot_def hart_init_def
        XLEN_def numeral_eq_Suc)
qed

lemma emulator_init_board_witness:
  "\<exists>e w'. emulator_init 0x80000000 blank_world = Some (e, w')
     \<and> bus_get_peripheral (soc_bus (soc e)) 0x80001004 = Some 0
     \<and> bus_get_peripheral (soc_bus (soc e)) 0x80001008 = Some 2"
proof -
  have "alloc_ok blank_world (allocs blank_world + i)" for i by (simp add: blank_world_def)
  from emulator_init_board [of blank_world "0x80000000", OF this] show ?thesis by force
qed

text \<open>
  C9 (safety): no program makes the emulator go wrong. With callbacks that are defined on a
  well-formed machine and keep it well formed, a step of a well-formed emulator is defined, however
  the instruction ends, and keeps it well formed; it counts one instruction, or does nothing when the
  emulator has halted.
\<close>

theorem emulator_step_safe:
  assumes "\<And>s r ud v. soc_ok s v \<Longrightarrow> \<exists>b s' v'. handler s r ud v = Some ((b, s'), v') \<and> soc_ok s' v'"
    and "\<And>s r v. soc_ok s v \<Longrightarrow> \<exists>v'. trace r tud v = Some v' \<and> soc_ok s v'"
    and "emu_ok handler trace tud e w"
  shows "\<exists>r e' w'. emulator_step e w = Some ((r, e'), w') \<and> emu_ok handler trace tud e' w'
    \<and> cycle_count e' = (if halted w then cycle_count e else cycle_count e + 1)"
  using callbacks.emu_step_ok [OF callbacks.intro [of handler trace tud]] assms by blast

lemma emulator_step_safe_witness:
  "\<exists>r e' w'. emulator_step (boot (replicate 32 0) 0xFFFFFFFC) (low_program []) = Some ((r, e'), w')
     \<and> emu_ok default_syscall_handler no_trace None e' w' \<and> cycle_count e' = 1"
  using emulator_step_safe [of default_syscall_handler no_trace None, OF default_handler_ok _ low_program_ok]
  by (force simp: no_trace_def)

text \<open>
  C10 (termination): a run with a step limit returns. From a well-formed emulator that has executed
  fewer than \<open>max_steps\<close> instructions, \<open>emulator_run\<close> neither diverges nor goes wrong: it ends
  halted, with the exit code it returns, after at most \<open>max_steps\<close> instructions, and with the code 1
  if it used all of them.
\<close>

theorem emulator_run_bounded:
  assumes "\<And>s r ud v. soc_ok s v \<Longrightarrow> \<exists>b s' v'. handler s r ud v = Some ((b, s'), v') \<and> soc_ok s' v'"
    and "\<And>s r v. soc_ok s v \<Longrightarrow> \<exists>v'. trace r tud v = Some v' \<and> soc_ok s v'"
    and "emu_ok handler trace tud e w" "cycle_count e < max_steps"
  shows "\<exists>code e' w'. emulator_run e max_steps w = Some (Some (code, e', w'))
    \<and> emu_ok handler trace tud e' w' \<and> halted w' \<and> exit_code w' = code \<and> cycle_count e' \<le> max_steps
    \<and> (cycle_count e' = max_steps \<longrightarrow> code = 1)"
  using callbacks.emu_run_bounded [OF callbacks.intro [of handler trace tud]] assms by blast

lemma emulator_run_bounded_witness:
  "\<exists>code e' w'. emulator_run (boot (replicate 32 0) 0) 100 (low_program [0x6F, 0, 0, 0])
      = Some (Some (code, e', w')) \<and> halted w' \<and> cycle_count e' \<le> 100"
  using emulator_run_bounded [of default_syscall_handler no_trace None _ _ 100,
      OF default_handler_ok _ low_program_ok, of "replicate 32 0" 0 "[0x6F, 0, 0, 0]"]
  by (force simp: no_trace_def)

text \<open>Loading a file that lies inside one of the memories.\<close>

lemma load_binary_ram:
  assumes "soc_bus (soc e) = board_bus l" "heap w r = Some (Memory_Obj m)" "raw_memory m = Some raw"
    and "bus_get_peripheral (board_bus l) a = Some k" "ctx (peripherals (board_bus l) ! k) = Some r"
    and "in_memory m a (length bytes)" "bytes \<noteq> []" "alloc_ok w (allocs w)"
    and n: "length bytes < 2 ^ 63"
  shows "emulator_load_binary e (Some bytes) True a w = Some (0, w\<lparr>allocs := allocs w + 1,
    heap := (heap w)(r \<mapsto> Memory_Obj (m\<lparr>raw_memory :=
      Some (store_bytes raw (unat a - unat (base_addr m)) bytes)\<rparr>))\<rparr>)"
proof -
  from memory_load_file_spec_lemma [OF n, of m a] assms(3,6)
  have "memory_load_file (Some m) a bytes (of_nat (length bytes)) = Some (0, Some (m\<lparr>raw_memory :=
    Some (store_bytes raw (unat a - unat (base_addr m)) bytes)\<rparr>))" by simp
  with assms(1,2,4,5,7,8) n show ?thesis
    by (simp add: emulator_load_binary_def soc_load_binary_def get_memory_def put_memory_def)
qed

lemma load_binary_low:
  assumes "soc_bus (soc e) = board_bus l" "heap w (l + 1) = Some (Memory_Obj m)"
    and "raw_memory m = Some raw" "size_m m = 0x400000" "base_addr m = 0"
    and "bytes \<noteq> []" "unat a + length bytes \<le> 0x400000" "alloc_ok w (allocs w)"
  shows "emulator_load_binary e (Some bytes) True a w = Some (0, w\<lparr>allocs := allocs w + 1,
    heap := (heap w)(l + 1 \<mapsto> Memory_Obj (m\<lparr>raw_memory := Some (store_bytes raw (unat a) bytes)\<rparr>))\<rparr>)"
proof -
  have n: "0 < length bytes" "length bytes < 2 ^ 63" using assms(6,7) by auto
  then have "unat a < 0x400000" using assms(7) by linarith
  then have "bus_get_peripheral (board_bus l) a = Some 1"
    by (auto simp: board_dispatch word_less_nat_alt word_le_nat_alt)
  moreover have "ctx (peripherals (board_bus l) ! 1) = Some (l + 1)"
    by (simp add: board_bus_def board_slot_def)
  moreover have "in_memory m a (length bytes)" using assms(4,5,7) by (simp add: in_memory_def)
  ultimately show ?thesis
    using load_binary_ram [OF assms(1-3) _ _ _ assms(6,8) n(2)] assms(5) by simp
qed

text \<open>
  C22 (functional): loading a program. On a board whose low RAM is intact, a file that fits is copied
  to the load address byte for byte: \<open>emulator_load_binary\<close> returns 0, every byte of the file can then
  be read back over the bus, and every other object of the heap, and the RAM outside the file, is as
  it was.
\<close>

theorem load_binary_then_read:
  assumes "soc_bus (soc e) = board_bus l" "heap w (l + 1) = Some (Memory_Obj m)"
    and "raw_memory m = Some raw" "size_m m = 0x400000" "base_addr m = 0"
    and "bytes \<noteq> []" "unat a + length bytes \<le> 0x400000" "alloc_ok w (allocs w)"
  shows "\<exists>w'. emulator_load_binary e (Some bytes) True a w = Some (0, w')
    \<and> heap w' = (heap w)(l + 1 \<mapsto> Memory_Obj (m\<lparr>raw_memory := Some (store_bytes raw (unat a) bytes)\<rparr>))
    \<and> (\<forall>i < length bytes. bus_read (board_bus l) (a + of_nat i) 8 w' = Some (Some (ucast (bytes ! i)), w'))"
proof -
  let ?m = "m\<lparr>raw_memory := Some (store_bytes raw (unat a) bytes)\<rparr>"
  define w' where "w' = w\<lparr>allocs := allocs w + 1, heap := (heap w)(l + 1 \<mapsto> Memory_Obj ?m)\<rparr>"
  have "bus_read (board_bus l) (a + of_nat i) 8 w' = Some (Some (ucast (bytes ! i)), w')"
    if i: "i < length bytes" for i
  proof -
    have "unat (of_nat i :: u32) = i" using i assms(7) by (simp add: unat_of_nat_small)
    then have ai: "unat (a + of_nat i) = unat a + i"
      using i assms(7) by (subst unat_add_small) simp_all
    have "ram_inside (board_bus l) (l + 1) ?m (a + of_nat i) 8"
      using i assms(4,5,7) ai by (intro board_low_ram) (simp_all add: access_size_def)
    from bus_read_byte [OF this, of w' "store_bytes raw (unat a) bytes"] i ai assms(5)
    show ?thesis by (simp add: w'_def store_bytes_def)
  qed
  with load_binary_low [OF assms] show ?thesis by (auto simp: w'_def)
qed

lemma load_binary_then_read_witness:
  "\<exists>w'. emulator_load_binary (boot (replicate 32 0) 0) (Some [0x13, 0x05]) True 0x100 (low_program [])
      = Some (0, w') \<and> bus_read (board_bus 0) 0x101 8 w' = Some (Some 5, w')"
proof -
  have "alloc_ok (low_program []) n" for n
    by (simp add: low_program_def board_world_def blank_world_def)
  from load_binary_then_read [of "boot (replicate 32 0) 0" 0 "low_program []" "low_ram []"
      "store_bytes (\<lambda>_. 0) 0 []" "[0x13, 0x05]" "0x100", OF _ _ _ _ _ _ _ this]
  obtain w' where "emulator_load_binary (boot (replicate 32 0) 0) (Some [0x13, 0x05]) True 0x100
      (low_program []) = Some (0, w')"
    and bytes: "\<forall>i < length [0x13, 0x05 :: u8]. bus_read (board_bus 0) (0x100 + of_nat i) 8 w' =
      Some (Some (ucast ([0x13, 0x05 :: u8] ! i)), w')"
    by auto
  with bytes [rule_format, of 1] show ?thesis by simp
qed

text \<open>
  C32 (safety): what \<open>soc_load_binary\<close> does at an address outside the RAM. It takes whatever device
  is there for a memory: on the board, a load address in the UART or in TOHOST is undefined behaviour;
  an address no device covers is refused and changes nothing.
\<close>

theorem load_binary_outside_ram:
  assumes "soc_bus s = board_bus l" "heap w l = Some (Tohost_Obj t)" "heap w (l + 5) = Some (Uart_Obj u)"
    and "bus_get_peripheral (board_bus l) a \<notin> {Some 1, Some 2}"
  shows "soc_load_binary s data n a w =
    (if 0x80001000 \<le> a \<and> a < 0x80001008 \<or> 0x10000000 \<le> a \<and> a < 0x10000008 then None
     else Some (-1, w))"
proof -
  have "ctx (peripherals (board_bus l) ! 0) = Some l" "ctx (peripherals (board_bus l) ! 3) = Some (l + 5)"
    by (simp_all add: board_bus_def board_slot_def)
  with assms show ?thesis
    by (auto simp: soc_load_binary_def get_memory_def board_dispatch split: if_splits)
qed

lemma load_binary_outside_ram_witness:
  "soc_load_binary (soc (boot [] 0)) [1] 1 0x10000000 (low_program []) = None
   \<and> soc_load_binary (soc (boot [] 0)) [1] 1 0x00400000 (low_program []) = Some (-1, low_program [])"
  using load_binary_outside_ram [of "soc (boot [] 0)" 0 "low_program []" _ _ "0x10000000" "[1]" 1]
    load_binary_outside_ram [of "soc (boot [] 0)" 0 "low_program []" _ _ "0x00400000" "[1]" 1]
  by (simp add: board_dispatch low_program_def board_world_def)

end
