(* ===== verification/Rve_Syscalls.thy ===== *)
theory Rve_Syscalls
  imports Rve_Board
begin

unbundle bit_operations_syntax

text \<open>
  The two system calls of the built-in handler of src/emulator.c, each seen as one step of the
  emulator, and the two ways a program ends its run: the exit call and a store to TOHOST.
\<close>

section \<open>System calls\<close>

text \<open>An \<open>ecall\<close> with the built-in handler and no tracing, as one emulator step.\<close>

lemma emulator_step_ecall:
  assumes "soc_ok (soc e) w" "\<not> halted w" "trace_fn e = None"
    and "syscall_handler e = Some default_syscall_handler"
    and "fetches (soc_bus (soc e)) (soc_hart (soc e)) w 0x00000073 w1"
    and "\<And>r ud. default_syscall_handler
        ((soc e)\<lparr>soc_hart := (soc_hart (soc e))\<lparr>pc := pc (soc_hart (soc e)) + 4\<rparr>\<rparr>) r ud w1
      = Some ((b, s2), w2)"
    and "length (gpr (soc_hart s2)) = 32"
  shows "\<exists>r. emulator_step e w = Some ((r, e\<lparr>soc := s2, cycle_count := cycle_count e + 1\<rparr>),
      if b then w2 else w2\<lparr>halted := True, exit_code := sint (gpr (soc_hart s2) ! 10)\<rparr>)
    \<and> r_trap r = (if b then TRAP_NONE else TRAP_ECALL_M)"
proof -
  from assms(1) have "hart_ok (soc_hart (soc e))" by (simp add: soc_ok_def)
  from step_ecall_lemma [OF this assms(5)] obtain r where r:
    "hart_step (soc_bus (soc e)) (soc_hart (soc e)) w =
       Some ((r, (soc_hart (soc e))\<lparr>pc := pc (soc_hart (soc e)) + 4\<rparr>), w1)" "r_trap r = TRAP_ECALL_M"
    by (auto simp: retires_to_def)
  have a0: "reg_read (soc_hart s2) 10 = Some (gpr (soc_hart s2) ! 10)"
    using assms(7) by (simp add: reg_read_def)
  show ?thesis
    using assms(2,3,4,6) r by (cases b) (simp_all add: emulator_step_def soc_step_def a0 Let_def)
qed

text \<open>
  C18 (liveness): the exit system call ends the run. When the next instruction is an \<open>ecall\<close> and a7
  holds 93, \<open>emulator_run\<close> returns after this one step, halted, with the signed value of a0. The
  exception is a step limit that this very step reaches: the run then reports 1 whatever a0 holds.
\<close>

theorem exit_syscall_ends_run:
  assumes "soc_ok (soc e) w" "\<not> halted w" "trace_fn e = None"
    and "syscall_handler e = Some default_syscall_handler"
    and "fetches (soc_bus (soc e)) (soc_hart (soc e)) w 0x00000073 w1"
    and "gpr (soc_hart (soc e)) ! 17 = 93"
  shows "\<exists>code e' w'. emulator_run e max_steps w = Some (Some (code, e', w'))
    \<and> code = (if max_steps \<noteq> 0 \<and> max_steps \<le> cycle_count e + 1 then 1
              else sint (gpr (soc_hart (soc e)) ! 10))
    \<and> w' = w1\<lparr>halted := True, exit_code := code\<rparr>
    \<and> gpr (soc_hart (soc e')) = gpr (soc_hart (soc e)) \<and> cycle_count e' = cycle_count e + 1"
proof -
  let ?h = "soc_hart (soc e)"
  let ?s = "(soc e)\<lparr>soc_hart := ?h\<lparr>pc := pc ?h + 4\<rparr>\<rparr>"
  from assms(1) have len: "length (gpr ?h) = 32" by (simp add: soc_ok_def hart_ok_def)
  have "default_syscall_handler ?s r ud w1 = Some ((False, ?s), w1)" for r ud
    using assms(6) len by (simp add: default_syscall_handler_def reg_read_def set_a0_def reg_write_def)
  from emulator_step_ecall [OF assms(1-5) this] len obtain r where
    "emulator_step e w = Some ((r, e\<lparr>soc := ?s, cycle_count := cycle_count e + 1\<rparr>),
      w1\<lparr>halted := True, exit_code := sint (gpr ?h ! 10)\<rparr>)" by auto
  with assms(2) show ?thesis
    by (subst emulator_run.simps) (simp add: emulator_run.simps)
qed

lemma exit_syscall_ends_run_witness:
  "\<exists>e' w'. emulator_run (boot ((replicate 32 0)[17 := 93, 10 := 0xFFFFFFFE]) 0) 0
      (low_program [0x73, 0, 0, 0]) = Some (Some (-2, e', w'))"
proof -
  let ?regs = "(replicate 32 0)[17 := 93, 10 := 0xFFFFFFFE :: u32]" and ?bytes = "[0x73, 0, 0, 0 :: u8]"
  have fetch: "fetches (soc_bus (soc (boot ?regs 0))) (soc_hart (soc (boot ?regs 0)))
      (low_program ?bytes) 0x73 (low_program ?bytes)"
    by (rule boot_fetch) (code_simp, simp_all)
  have regs: "?regs ! 17 = 93" "sint (?regs ! 10) = -2" by code_simp+
  from exit_syscall_ends_run [OF boot_ok _ _ _ fetch, of 0] regs show ?thesis by auto
qed

text \<open>The \<open>write\<close> loop over bytes of RAM.\<close>

lemma ucast_byte_mask: "(ucast ((ucast c :: u32) AND 0xFF) :: u8) = c" for c :: u8
  by (rule bit_word_eqI) (auto simp: bit_simps mask_and_eq_take_bit)

lemma write_loop_ram:
  assumes "\<And>i. i < n \<Longrightarrow> ram_inside b l m (a + of_nat i) 8"
    and "heap w l = Some (Memory_Obj m)" "raw_memory m = Some raw"
  shows "write_loop b f (n + k) a wr w = write_loop b f k (a + of_nat n) (wr + of_nat n)
    (w\<lparr>out_stream := (out_stream w)(f := out_stream w f @
        map (\<lambda>i. raw (unat (a + of_nat i) - unat (base_addr m))) [0..<n])\<rparr>)"
  using assms(1,2)
proof (induction n arbitrary: a wr w)
  case (Suc n)
  let ?c = "raw (unat a - unat (base_addr m))"
  have in0: "ram_inside b l m a 8" using Suc.prems(1) [of 0] by simp
  have "ram_inside b l m (a + 1 + of_nat i) 8" if "i < n" for i
    using Suc.prems(1) [of "Suc i"] that by (simp add: add.assoc)
  from Suc.IH [OF this, of "fputc ?c f w" "wr + 1"] Suc.prems(2)
  show ?case
    by (simp add: bus_read_byte [OF in0 Suc.prems(2) assms(3)] ucast_byte_mask fputc_def
        upt_conv_Cons map_Suc_upt [symmetric] add.assoc o_def
        del: upt_Suc cong: if_cong)
qed simp

text \<open>
  The write system call. Let \<open>n\<close> be the bytes asked for (a2), or fewer if the byte
  after them is at an address no device covers. If \<open>n\<close> bytes from the address in a1 lie in a RAM, one
  emulator step on the \<open>ecall\<close> appends exactly these bytes, in order, to stdout (a0 = 1) or stderr
  (a0 = 2), puts \<open>n\<close> in a0, continues after the instruction, and changes nothing else.
\<close>

theorem write_syscall_outputs_ram:
  assumes "soc_ok (soc e) w" "\<not> halted w" "trace_fn e = None"
    and "syscall_handler e = Some default_syscall_handler"
    and "fetches (soc_bus (soc e)) (soc_hart (soc e)) w 0x00000073 w1"
    and "gpr (soc_hart (soc e)) ! 17 = 64"
    and "gpr (soc_hart (soc e)) ! 10 = 1 \<and> f = Stdout \<or> gpr (soc_hart (soc e)) ! 10 = 2 \<and> f = Stderr"
    and "heap w1 l = Some (Memory_Obj m)" "raw_memory m = Some raw"
    and "gpr (soc_hart (soc e)) ! 11 = a" "n \<le> unat (gpr (soc_hart (soc e)) ! 12)"
    and "\<And>i. i < n \<Longrightarrow> ram_inside (soc_bus (soc e)) l m (a + of_nat i) 8"
    and "n = unat (gpr (soc_hart (soc e)) ! 12) \<or> bus_get_peripheral (soc_bus (soc e)) (a + of_nat n) = None"
  shows "\<exists>r. emulator_step e w = Some ((r,
      e\<lparr>soc := (soc e)\<lparr>soc_hart := (soc_hart (soc e))
          \<lparr>gpr := (gpr (soc_hart (soc e)))[10 := of_nat n], pc := pc (soc_hart (soc e)) + 4\<rparr>\<rparr>,
        cycle_count := cycle_count e + 1\<rparr>),
      w1\<lparr>out_stream := (out_stream w1)(f := out_stream w1 f @
        map (\<lambda>i. raw (unat (a + of_nat i) - unat (base_addr m))) [0..<n])\<rparr>)
    \<and> r_trap r = TRAP_NONE"
proof -
  let ?h = "soc_hart (soc e)"
  let ?s = "(soc e)\<lparr>soc_hart := ?h\<lparr>pc := pc ?h + 4\<rparr>\<rparr>"
  let ?s2 = "(soc e)\<lparr>soc_hart := ?h\<lparr>gpr := (gpr ?h)[10 := of_nat n], pc := pc ?h + 4\<rparr>\<rparr>"
  let ?w2 = "w1\<lparr>out_stream := (out_stream w1)(f := out_stream w1 f @
        map (\<lambda>i. raw (unat (a + of_nat i) - unat (base_addr m))) [0..<n])\<rparr>"
  from assms(1) have len: "length (gpr ?h) = 32" by (simp add: soc_ok_def hart_ok_def)
  obtain k where k: "unat (gpr ?h ! 12) = n + k" using assms(11) by (metis le_Suc_ex)
  have "write_loop (soc_bus (soc e)) f (n + k) a 0 w1 = Some (of_nat n, ?w2)"
  proof (cases k)
    case 0
    with write_loop_ram [OF assms(12,8,9), where k = 0 and f = f and wr = 0] show ?thesis by simp
  next
    case (Suc k')
    with assms(13) k have "bus_get_peripheral (soc_bus (soc e)) (a + of_nat n) = None" by simp
    then have "bus_read (soc_bus (soc e)) (a + of_nat n) 8 v = Some (None, v)" for v
      by (simp add: bus_read_def)
    with Suc write_loop_ram [OF assms(12,8,9), where k = k and f = f and wr = 0] show ?thesis by simp
  qed
  with assms(6,7,10) len k have "default_syscall_handler ?s r ud w1 = Some ((True, ?s2), ?w2)" for r ud
    by (auto simp: default_syscall_handler_def reg_read_def set_a0_def reg_write_def)
  from emulator_step_ecall [OF assms(1-5) this] len show ?thesis by simp
qed

lemma write_syscall_outputs_ram_witness:
  "\<exists>r e'. emulator_step (boot ((replicate 32 0)[17 := 64, 10 := 1, 11 := 4, 12 := 2]) 0)
      (low_program [0x73, 0, 0, 0, 104, 105])
    = Some ((r, e'), (low_program [0x73, 0, 0, 0, 104, 105])
        \<lparr>out_stream := (out_stream (low_program [0x73, 0, 0, 0, 104, 105]))(Stdout := [104, 105])\<rparr>)"
proof -
  let ?regs = "(replicate 32 0)[17 := 64, 10 := 1, 11 := 4, 12 := 2 :: u32]"
  let ?bytes = "[0x73, 0, 0, 0, 104, 105 :: u8]"
  have fetch: "fetches (soc_bus (soc (boot ?regs 0))) (soc_hart (soc (boot ?regs 0)))
      (low_program ?bytes) 0x73 (low_program ?bytes)"
    by (rule boot_fetch) (code_simp, simp_all)
  have ram: "ram_inside (soc_bus (soc (boot ?regs 0))) 1 (low_ram ?bytes) (4 + of_nat i) 8" if "i < 2" for i
    using that board_low_ram [of 8 "4 + of_nat i" "low_ram ?bytes" 0]
    by (auto simp: access_size_def less_2_cases_iff)
  have regs: "?regs ! 17 = 64" "?regs ! 10 = 1" "?regs ! 11 = 4" "unat (?regs ! 12) = 2"
    "map (\<lambda>i. store_bytes (\<lambda>_. 0) 0 ?bytes (unat (4 + of_nat i :: u32) - 0)) [0..<2] = [104, 105]"
    by code_simp+
  note out = write_syscall_outputs_ram [OF boot_ok _ _ _ fetch, where f = Stdout and l = 1
      and m = "low_ram ?bytes" and raw = "store_bytes (\<lambda>_. 0) 0 ?bytes" and a = 4 and n = 2]
  show ?thesis
    using out regs ram by (simp only: boot_simps low_ram_simps) (auto simp: regs)
qed

section \<open>The TOHOST device ends the run\<close>

text \<open>
  C19 (liveness): storing a word to TOHOST ends the run. When the next instruction is SW and the bus
  sends its address to a TOHOST device, \<open>emulator_run\<close> returns after this step, halted: with 0 for
  the value 1, and with the value shifted right by one otherwise. Here too a step limit that the step
  reaches makes the result 1.
\<close>

theorem store_to_tohost_ends_run:
  assumes "soc_ok (soc e) w" "\<not> halted w" "trace_fn e = None"
    and "fetches (soc_bus (soc e)) (soc_hart (soc e)) w i w1"
    and "rv32_encode INSTRUCTION_OP_SW d s1 s2 im = Some i"
    and "bus_get_peripheral (soc_bus (soc e)) (xreg (soc_hart (soc e)) s1 + sx 12 im) = Some k"
    and "ops (peripherals (soc_bus (soc e)) ! k) = Some peripheral_tohost_ops"
  shows "\<exists>code e' w'. emulator_run e max_steps w = Some (Some (code, e', w'))
    \<and> code = (if max_steps \<noteq> 0 \<and> max_steps \<le> cycle_count e + 1 then 1
              else if xreg (soc_hart (soc e)) s2 = 1 then 0
              else uint (xreg (soc_hart (soc e)) s2) div 2)
    \<and> halted w' \<and> exit_code w' = code \<and> cycle_count e' = cycle_count e + 1"
proof -
  let ?h = "soc_hart (soc e)" and ?b = "soc_bus (soc e)"
  let ?v = "xreg ?h s2" and ?p = "peripherals ?b ! k"
  from assms(1) have hok: "hart_ok ?h" and bok: "bus_ok slot_ok ?b w" by (simp_all add: soc_ok_def)
  have "access_size 32" by (simp add: access_size_def)
  with devices.bus_read_ok [OF bok, of 32 "pc ?h"] assms(4) have "bus_ok slot_ok ?b w1"
    by (auto simp: fetches_def)
  from devices.bus_ok_selected [OF this assms(6)] have "slot_ok w1 ?p" .
  then obtain l t where t: "ctx ?p = Some l" "heap w1 l = Some (Tohost_Obj t)" "tohost_ok t"
    using assms(7) by (cases rule: slot_ok_cases)
      (auto simp: peripheral_tohost_ops_def memory_ops_def uart_ns16550a_ops_def)
  have full: "take_bit 32 ?v = ?v" by (simp add: take_bit_word_eq_self)
  have "get_tohost w1 (ctx ?p) = Some t" using t by (simp add: get_tohost_def)
  from tohost_write_halts_lemma [OF this t(3), of "xreg ?h s1 + sx 12 im" ?v 32]
  obtain w2 where w2: "bus_write ?b (xreg ?h s1 + sx 12 im) ?v 32 w1 = Some (True, w2)" "halted w2"
    "exit_code w2 = (if ?v = 1 then 0 else uint ?v div 2)"
    using assms(6,7) by (auto simp: bus_write_def peripheral_tohost_ops_def)
  from step_store_lemma [OF hok assms(4,5), of 32 True w2] w2(1) full obtain r where
    "hart_step ?b ?h w = Some ((r, ?h\<lparr>pc := pc ?h + 4\<rparr>), w2)" "r_trap r = TRAP_NONE"
    by (auto simp: retires_to_def)
  with assms(2,3) have "emulator_step e w = Some ((r, e\<lparr>soc := (soc e)\<lparr>soc_hart := ?h\<lparr>pc := pc ?h + 4\<rparr>\<rparr>,
      cycle_count := cycle_count e + 1\<rparr>), w2)"
    by (simp add: emulator_step_def soc_step_def Let_def)
  with assms(2) w2(2,3) show ?thesis
    by (subst emulator_run.simps) (simp add: emulator_run.simps)
qed

lemma store_to_tohost_ends_run_witness:
  "\<exists>e' w'. emulator_run (boot ((replicate 32 0)[5 := 0x80001000, 6 := 7]) 0) 0
      (low_program (le_bytes 4 (asm_s 0 6 5 2 0x23))) = Some (Some (3, e', w'))"
proof -
  let ?regs = "(replicate 32 0)[5 := 0x80001000, 6 := 7 :: u32]" and ?i = "asm_s 0 6 5 2 0x23"
  let ?bytes = "le_bytes 4 ?i"
  let ?h = "soc_hart (soc (boot ?regs 0))"
  have fetch: "fetches (soc_bus (soc (boot ?regs 0))) ?h (low_program ?bytes) ?i (low_program ?bytes)"
    by (rule boot_fetch) (code_simp, simp_all)
  have enc: "rv32_encode INSTRUCTION_OP_SW 0 5 6 0 = Some ?i" by code_simp
  have r: "?regs ! 5 = 0x80001000" "?regs ! 6 = 7" by code_simp+
  have regs: "xreg ?h 5 + sx 12 0 = 0x80001000" "xreg ?h 6 = 7"
    using r by (simp_all add: xreg_def sx_def)
  have slot: "bus_get_peripheral (soc_bus (soc (boot ?regs 0))) 0x80001000 = Some 0"
    "ops (peripherals (soc_bus (soc (boot ?regs 0))) ! 0) = Some peripheral_tohost_ops"
    by (simp add: board_dispatch) (simp add: board_bus_def board_slot_def)
  from store_to_tohost_ends_run [OF boot_ok _ _ fetch enc, of 0 0, unfolded regs, OF _ _ _ _ slot]
  show ?thesis by simp blast
qed

end
