(* ===== verification/Rve_Runs.thy ===== *)
theory Rve_Runs
  imports Rve_Syscalls
begin

text \<open>
  The loop of \<open>emulator_run\<close> (src/emulator.c) as a relation: the runs that return, by an inductive
  definition with one rule per way round the loop, its agreement with the function, and how to show
  that a program never ends.
\<close>

section \<open>Runs as a relation\<close>

text \<open>
  The runs of the emulator as an inductive relation, one rule per way the loop of \<open>emulator_run\<close> goes
  on: it is halted already; the step makes the count reach the limit; the step is taken and the run
  continues.
\<close>

definition limit_reached :: "u64 \<Rightarrow> emulator_t \<Rightarrow> bool" where
  "limit_reached max_steps e \<longleftrightarrow> max_steps \<noteq> 0 \<and> max_steps \<le> cycle_count e"

inductive runs :: "u64 \<Rightarrow> emulator_t \<times> world_t \<Rightarrow> int \<times> emulator_t \<times> world_t \<Rightarrow> bool" for max_steps where
  runs_halted: "halted w \<Longrightarrow> runs max_steps (e, w) (exit_code w, e, w)"
| runs_limit: "\<not> halted w \<Longrightarrow> emulator_step e w = Some ((r, e1), w1) \<Longrightarrow> limit_reached max_steps e1 \<Longrightarrow>
    runs max_steps (e, w) (1, e1, w1\<lparr>halted := True, exit_code := 1\<rparr>)"
| runs_step: "\<not> halted w \<Longrightarrow> emulator_step e w = Some ((r, e1), w1) \<Longrightarrow> \<not> limit_reached max_steps e1 \<Longrightarrow>
    runs max_steps (e1, w1) out \<Longrightarrow> runs max_steps (e, w) out"

inductive_cases runsE: "runs max_steps (e, w) out"

text \<open>The states the loop passes through without ending.\<close>

inductive continues :: "u64 \<Rightarrow> emulator_t \<times> world_t \<Rightarrow> emulator_t \<times> world_t \<Rightarrow> bool" for max_steps where
  "\<not> halted w \<Longrightarrow> emulator_step e w = Some ((r, e1), w1) \<Longrightarrow> \<not> limit_reached max_steps e1 \<Longrightarrow>
    continues max_steps (e, w) (e1, w1)"

inductive_simps continues_simps: "continues max_steps (e, w) (e1, w1)"

lemma run_unfold:
  "emulator_run e m w =
    (if halted w then Some (Some (exit_code w, e, w))
     else case emulator_step e w of
            None \<Rightarrow> Some None
          | Some ((r, e1), w1) \<Rightarrow>
              if limit_reached m e1 then Some (Some (1, e1, w1\<lparr>halted := True, exit_code := 1\<rparr>))
              else emulator_run e1 m w1)"
  by (subst emulator_run.simps) (simp add: limit_reached_def cong: if_cong option.case_cong prod.case_cong)

lemma runs_emulator_run: "runs m (e, w) out \<Longrightarrow> emulator_run e m w = Some (Some out)"
  by (induction "(e, w)" out arbitrary: e w rule: runs.induct) (subst run_unfold; simp)+

lemma emulator_run_runs:
  assumes "emulator_run e m w = Some (Some out)"
  shows "runs m (e, w) out"
proof -
  have "\<forall>out. res = Some out \<longrightarrow> runs m (e, w) out" if "emulator_run e m w = Some res" for res
  proof (rule emulator_run.raw_induct [OF _ that], intro allI impI)
    fix run e m w res out
    assume ih: "\<And>e m w y. run e m w = Some y \<Longrightarrow> \<forall>out. y = Some out \<longrightarrow> runs m (e, w) out"
      and body: "(if halted w then Some (Some (exit_code w, e, w))
        else case emulator_step e w of None \<Rightarrow> Some None
          | Some ((r, e1), w1) \<Rightarrow>
              if m \<noteq> 0 \<and> m \<le> cycle_count e1
              then Some (Some (1, e1, w1\<lparr>halted := True, exit_code := 1\<rparr>))
              else run e1 m w1) = Some res"
      and res: "res = Some out"
    show "runs m (e, w) out"
      using body res
      unfolding limit_reached_def [symmetric]
      by (auto split: if_splits option.splits dest!: ih intro: runs_halted)
        (erule (2) runs_limit, erule (3) runs_step)
  qed
  with assms show ?thesis by blast
qed

text \<open>
  The recursive loop and the relation agree: \<open>emulator_run\<close> returns a result exactly
  when the relation has it.
\<close>

theorem emulator_run_iff_runs:
  "emulator_run e max_steps w = Some (Some out) \<longleftrightarrow> runs max_steps (e, w) out"
  using emulator_run_runs runs_emulator_run by blast

text \<open>
  A run that stays in a set of states from which every step continues never ends. The set is given as
  a predicate that every state of it passes on to its successor.
\<close>

lemma runs_never:
  assumes "\<And>e w. good e w \<Longrightarrow> \<exists>e1 w1. continues m (e, w) (e1, w1) \<and> good e1 w1" "good e w"
  shows "\<not> runs m (e, w) out"
proof
  assume "runs m (e, w) out"
  then show False
    using assms(2)
  proof (induction "(e, w)" out arbitrary: e w rule: runs.induct)
    case (runs_halted w e)
    then show ?case using assms(1) by (auto simp: continues_simps)
  next
    case (runs_limit w e r e1 w1)
    then show ?case using assms(1) [of e w] by (auto simp: continues_simps)
  next
    case (runs_step w e r e1 w1 out)
    then show ?case using assms(1) [of e w] by (auto simp: continues_simps)
  qed
qed

text \<open>And it does not go wrong either, so the loop has no value at all.\<close>

lemma emulator_run_diverges:
  assumes "\<And>e w. good e w \<Longrightarrow> \<exists>e1 w1. continues m (e, w) (e1, w1) \<and> good e1 w1" "good e w"
  shows "emulator_run e m w = None"
proof (rule ccontr)
  assume "emulator_run e m w \<noteq> None"
  then obtain res where res: "emulator_run e m w = Some res" by auto
  have "m = m \<longrightarrow> \<not> good e w"
  proof (rule emulator_run.raw_induct [where P = "\<lambda>e k w res. k = m \<longrightarrow> \<not> good e w", OF _ res],
      intro impI notI)
    fix run e k w res
    assume ih: "\<And>e k w y. run e k w = Some y \<Longrightarrow> k = m \<longrightarrow> \<not> good e w"
      and body: "(if halted w then Some (Some (exit_code w, e, w))
        else case emulator_step e w of None \<Rightarrow> Some None
          | Some ((r, e1), w1) \<Rightarrow>
              if k \<noteq> 0 \<and> k \<le> cycle_count e1
              then Some (Some (1, e1, w1\<lparr>halted := True, exit_code := 1\<rparr>))
              else run e1 k w1) = Some res"
      and k: "k = m" and g: "good e w"
    from assms(1) [OF g] obtain e1 w1 where "continues m (e, w) (e1, w1)" "good e1 w1" by blast
    with body k show False by (auto simp: continues_simps limit_reached_def dest: ih)
  qed
  with assms(2) show False by blast
qed

end
