(* ===== verification/Rve_Machine.thy ===== *)
theory Rve_Machine
  imports Rve_Isa_System
begin

unbundle bit_operations_syntax

text \<open>
  An abstract machine for the hart: registers, a program counter and a map of CSRs, with one rule for
  every way an instruction can go, over any memory. The step of src/hart.c is proved to be exactly
  this machine, seen through \<open>isa_view\<close>. The rules follow the manual; where the program departs from
  it (CSRRW with a source field of 0, the value in mtval after a data fault, the cause 7 taken as an
  interrupt) they say what the program does.
\<close>

section \<open>States\<close>

record isa_t =
  regs :: "u8 \<Rightarrow> u32"
  at :: u32
  csrs :: "u32 \<Rightarrow> u32 option"

definition xr :: "isa_t \<Rightarrow> u8 \<Rightarrow> u32" where
  "xr s k = regs s (take_bit 5 k)"

definition put :: "isa_t \<Rightarrow> u8 \<Rightarrow> u32 \<Rightarrow> isa_t" where
  "put s k v = (if take_bit 5 k = 0 then s else s\<lparr>regs := (regs s)(take_bit 5 k := v)\<rparr>)"

definition goto :: "isa_t \<Rightarrow> u32 \<Rightarrow> isa_t" where
  "goto s a = s\<lparr>at := a\<rparr>"

definition csr_get :: "isa_t \<Rightarrow> u32 \<Rightarrow> u32" where
  "csr_get s a = (case csrs s a of None \<Rightarrow> 0 | Some v \<Rightarrow> v)"

text \<open>The bits MIE (3), MPIE (7) and MPP (11 and 12) of mstatus on the way into a trap and out of it.\<close>

definition enter_mstatus :: "u32 \<Rightarrow> u32" where
  "enter_mstatus m =
    set_bit 12 (set_bit 11 (unset_bit 3 (if bit m 3 then set_bit 7 m else unset_bit 7 m)))"

definition leave_mstatus :: "u32 \<Rightarrow> u32" where
  "leave_mstatus m = set_bit 7 (if bit m 7 then set_bit 3 m else unset_bit 3 m)"

text \<open>A trap with cause \<open>c\<close>; the causes 3, 7 and 11 count as interrupts.\<close>

definition enter_trap :: "isa_t \<Rightarrow> trap_t \<Rightarrow> u32 \<Rightarrow> isa_t" where
  "enter_trap s c tv =
    (let int = c \<in> {3, 7, 11}; tvec = csr_get s 0x305; base = tvec AND NOT 3
     in s\<lparr>at := (if int \<and> take_bit 2 tvec = 1 then base + 4 * word_of_int c else base),
          csrs := (csrs s)(0x341 \<mapsto> at s, 0x343 \<mapsto> tv,
            0x342 \<mapsto> word_of_int (if int then 2 ^ 31 + c else c),
            0x300 \<mapsto> enter_mstatus (csr_get s 0x300))\<rparr>)"

definition return_trap :: "isa_t \<Rightarrow> isa_t" where
  "return_trap s = s\<lparr>at := csr_get s 0x341, csrs := (csrs s)(0x300 \<mapsto> leave_mstatus (csr_get s 0x300))\<rparr>"

section \<open>Steps\<close>

type_synonym 'w load_fn = "u32 \<Rightarrow> u8 \<Rightarrow> 'w \<Rightarrow> (u32 option \<times> 'w) option"
type_synonym 'w store_fn = "u32 \<Rightarrow> u32 \<Rightarrow> u8 \<Rightarrow> 'w \<Rightarrow> (bool \<times> 'w) option"

text \<open>The machine fetches \<open>i\<close>, the encoding of \<open>oper\<close> with these operands.\<close>

definition isa_fetch ::
    "'w load_fn \<Rightarrow> isa_t \<Rightarrow> 'w \<Rightarrow> instruction_op_t \<Rightarrow> u8 \<Rightarrow> u8 \<Rightarrow> u8 \<Rightarrow> u32 \<Rightarrow> u32 \<Rightarrow> 'w \<Rightarrow> bool" where
  "isa_fetch ld s w oper d s1 s2 im i w1 \<longleftrightarrow>
     4 dvd unat (at s) \<and> ld (at s) 32 w = Some (Some i, w1) \<and> rv32_encode oper d s1 s2 im = Some i"

definition csr_stored :: "u32 set" where
  "csr_stored = {0x300, 0x305, 0x340, 0x341, 0x342, 0x343}"

inductive isa_step ::
    "'w load_fn \<Rightarrow> 'w store_fn \<Rightarrow> isa_t \<times> 'w \<Rightarrow> trap_t \<Rightarrow> isa_t \<times> 'w \<Rightarrow> bool"
  for ld :: "'w load_fn" and st :: "'w store_fn" where
  Misaligned_fetch:
    "\<not> 4 dvd unat (at s) \<Longrightarrow>
     isa_step ld st (s, w) TRAP_INSTR_MISALIGNED (enter_trap s TRAP_INSTR_MISALIGNED (at s), w)"
| Fetch_fault:
    "4 dvd unat (at s) \<Longrightarrow> ld (at s) 32 w = Some (None, w1) \<Longrightarrow>
     isa_step ld st (s, w) TRAP_INSTR_ACCESS_FAULT (enter_trap s TRAP_INSTR_ACCESS_FAULT (at s), w1)"
| Illegal:
    "4 dvd unat (at s) \<Longrightarrow> ld (at s) 32 w = Some (Some i, w1) \<Longrightarrow>
     (\<nexists>oper d s1 s2 im. rv32_encode oper d s1 s2 im = Some i) \<Longrightarrow>
     isa_step ld st (s, w) TRAP_ILLEGAL_INSTR (enter_trap s TRAP_ILLEGAL_INSTR i, w1)"
| Ebreak:
    "isa_fetch ld s w INSTRUCTION_OP_EBREAK d s1 s2 im i w1 \<Longrightarrow>
     isa_step ld st (s, w) TRAP_ILLEGAL_INSTR (enter_trap s TRAP_ILLEGAL_INSTR i, w1)"
| Register:
    "isa_fetch ld s w oper d s1 s2 im i w1 \<Longrightarrow> rv_alu oper (xr s s1) (xr s s2) = Some v \<Longrightarrow>
     isa_step ld st (s, w) TRAP_NONE (goto (put s d v) (at s + 4), w1)"
| Immediate:
    "isa_fetch ld s w oper d s1 s2 im i w1 \<Longrightarrow> rv_imm_op oper = Some base \<Longrightarrow>
     rv_alu base (xr s s1) (rv32_imm oper im) = Some v \<Longrightarrow>
     isa_step ld st (s, w) TRAP_NONE (goto (put s d v) (at s + 4), w1)"
| Lui:
    "isa_fetch ld s w INSTRUCTION_OP_LUI d s1 s2 im i w1 \<Longrightarrow>
     isa_step ld st (s, w) TRAP_NONE (goto (put s d (im AND NOT (mask 12))) (at s + 4), w1)"
| Auipc:
    "isa_fetch ld s w INSTRUCTION_OP_AUIPC d s1 s2 im i w1 \<Longrightarrow>
     isa_step ld st (s, w) TRAP_NONE (goto (put s d (at s + (im AND NOT (mask 12)))) (at s + 4), w1)"
| Jump:
    "isa_fetch ld s w oper d s1 s2 im i w1 \<Longrightarrow> rv_jump_target oper (at s) (xr s s1) im = Some t \<Longrightarrow>
     4 dvd unat t \<Longrightarrow> isa_step ld st (s, w) TRAP_NONE (goto (put s d (at s + 4)) t, w1)"
| Jump_misaligned:
    "isa_fetch ld s w oper d s1 s2 im i w1 \<Longrightarrow> rv_jump_target oper (at s) (xr s s1) im = Some t \<Longrightarrow>
     \<not> 4 dvd unat t \<Longrightarrow>
     isa_step ld st (s, w) TRAP_INSTR_MISALIGNED (enter_trap s TRAP_INSTR_MISALIGNED t, w1)"
| Branch_not_taken:
    "isa_fetch ld s w oper d s1 s2 im i w1 \<Longrightarrow> rv_branch_cond oper (xr s s1) (xr s s2) = Some False \<Longrightarrow>
     isa_step ld st (s, w) TRAP_NONE (goto s (at s + 4), w1)"
| Branch_taken:
    "isa_fetch ld s w oper d s1 s2 im i w1 \<Longrightarrow> rv_branch_cond oper (xr s s1) (xr s s2) = Some True \<Longrightarrow>
     t = at s + sx 13 (im AND NOT 1) \<Longrightarrow> 4 dvd unat t \<Longrightarrow>
     isa_step ld st (s, w) TRAP_NONE (goto s t, w1)"
| Branch_misaligned:
    "isa_fetch ld s w oper d s1 s2 im i w1 \<Longrightarrow> rv_branch_cond oper (xr s s1) (xr s s2) = Some True \<Longrightarrow>
     t = at s + sx 13 (im AND NOT 1) \<Longrightarrow> \<not> 4 dvd unat t \<Longrightarrow>
     isa_step ld st (s, w) TRAP_INSTR_MISALIGNED (enter_trap s TRAP_INSTR_MISALIGNED t, w1)"
| Load:
    "isa_fetch ld s w oper d s1 s2 im i w1 \<Longrightarrow> rv_load oper = Some (sz, sg) \<Longrightarrow>
     ld (xr s s1 + sx 12 im) sz w1 = Some (Some v, w2) \<Longrightarrow>
     isa_step ld st (s, w) TRAP_NONE (goto (put s d (load_value sz sg v)) (at s + 4), w2)"
| Load_fault:
    "isa_fetch ld s w oper d s1 s2 im i w1 \<Longrightarrow> rv_load oper = Some (sz, sg) \<Longrightarrow>
     ld (xr s s1 + sx 12 im) sz w1 = Some (None, w2) \<Longrightarrow>
     isa_step ld st (s, w) TRAP_LOAD_ACCESS_FAULT (enter_trap s TRAP_LOAD_ACCESS_FAULT 0, w2)"
| Store:
    "isa_fetch ld s w oper d s1 s2 im i w1 \<Longrightarrow> rv_store oper = Some sz \<Longrightarrow>
     st (xr s s1 + sx 12 im) (take_bit (unat sz) (xr s s2)) sz w1 = Some (True, w2) \<Longrightarrow>
     isa_step ld st (s, w) TRAP_NONE (goto s (at s + 4), w2)"
| Store_fault:
    "isa_fetch ld s w oper d s1 s2 im i w1 \<Longrightarrow> rv_store oper = Some sz \<Longrightarrow>
     st (xr s s1 + sx 12 im) (take_bit (unat sz) (xr s s2)) sz w1 = Some (False, w2) \<Longrightarrow>
     isa_step ld st (s, w) TRAP_STORE_ACCESS_FAULT (enter_trap s TRAP_STORE_ACCESS_FAULT 0, w2)"
| Fence:
    "isa_fetch ld s w oper d s1 s2 im i w1 \<Longrightarrow> oper \<in> {INSTRUCTION_OP_FENCE, INSTRUCTION_OP_FENCE_I} \<Longrightarrow>
     isa_step ld st (s, w) TRAP_NONE (goto s (at s + 4), w1)"
| Csr_access:
    "isa_fetch ld s w oper d s1 s2 im i w1 \<Longrightarrow> rv_csr oper = Some (f, uimm) \<Longrightarrow>
     csrs s (take_bit 12 im) = Some old \<Longrightarrow>
     operand = (if uimm then ucast (take_bit 5 s1) else xr s s1) \<Longrightarrow>
     c' = (if take_bit 5 s1 \<noteq> 0 \<and> take_bit 12 im \<in> csr_stored
           then (csrs s)(take_bit 12 im \<mapsto> rv_csr_new f old operand) else csrs s) \<Longrightarrow>
     isa_step ld st (s, w) TRAP_NONE (goto ((put s d old)\<lparr>csrs := c'\<rparr>) (at s + 4), w1)"
| Csr_unknown:
    "isa_fetch ld s w oper d s1 s2 im i w1 \<Longrightarrow> rv_csr oper = Some (f, uimm) \<Longrightarrow>
     csrs s (take_bit 12 im) = None \<Longrightarrow>
     isa_step ld st (s, w) TRAP_ILLEGAL_INSTR (enter_trap s TRAP_ILLEGAL_INSTR i, w1)"
| Ecall:
    "isa_fetch ld s w INSTRUCTION_OP_ECALL d s1 s2 im i w1 \<Longrightarrow>
     isa_step ld st (s, w) TRAP_ECALL_M (goto s (at s + 4), w1)"
| Mret:
    "isa_fetch ld s w INSTRUCTION_OP_MRET d s1 s2 im i w1 \<Longrightarrow>
     isa_step ld st (s, w) TRAP_NONE (return_trap s, w1)"

section \<open>The hart seen as the machine\<close>

text \<open>The CSRs the hart answers for: the six it stores, and those that read as constants.\<close>

definition csr_view :: "csr_file_t \<Rightarrow> u32 \<Rightarrow> u32 option" where
  "csr_view c a =
    (case rv_csr_field a of
       Some f \<Rightarrow> Some (csr_load c f)
     | None \<Rightarrow>
         if a = 0x301 then Some 0x40001100
         else if a \<in> {0xF11, 0xF12, 0xF13, 0xF14, 0x302, 0x303, 0x304, 0x344, 0x180, 0x744, 0x747,
                      0x3A0, 0x3A1, 0x3A2, 0x3A3, 0x3B0, 0x3B1, 0x3B2, 0x3B3} then Some 0
         else None)"

definition reg_view :: "u32 list \<Rightarrow> u8 \<Rightarrow> u32" where
  "reg_view xs k = (if unat k < 32 then xs ! unat k else 0)"

definition isa_view :: "hart_t \<Rightarrow> isa_t" where
  "isa_view h = \<lparr>regs = reg_view (gpr h), at = pc h, csrs = csr_view (csr h)\<rparr>"

lemma isa_view_simps [simp]:
  "at (isa_view h) = pc h" "csrs (isa_view h) = csr_view (csr h)" "xr (isa_view h) k = xreg h k"
  "goto (isa_view h) p = isa_view (h\<lparr>pc := p\<rparr>)"
  by (simp_all add: isa_view_def xr_def xreg_def goto_def reg_view_def)

lemma csr_view_simps [simp]:
  "csr_view c 0x300 = Some (mstatus c)" "csr_view c 0x305 = Some (mtvec c)"
  "csr_view c 0x341 = Some (mepc c)" "csr_get (isa_view h) 0x300 = mstatus (csr h)"
  "csr_get (isa_view h) 0x305 = mtvec (csr h)" "csr_get (isa_view h) 0x341 = mepc (csr h)"
  by (simp_all add: csr_view_def rv_csr_field_def csr_get_def)

lemma reg_view_update:
  assumes "length xs = 32" "unat j < 32"
  shows "reg_view (xs[unat j := v]) = (reg_view xs)(j := v)"
proof
  fix k
  show "reg_view (xs[unat j := v]) k = ((reg_view xs)(j := v)) k"
    using assms by (cases "k = j") (simp_all add: reg_view_def word_unat_eq_iff)
qed

lemma view_put: "hart_ok h \<Longrightarrow> put (isa_view h) k v = isa_view (set_xreg h k v)"
  by (simp add: put_def isa_view_def set_xreg_def reg_view_update hart_ok_def)

lemma csr_view_store:
  "rv_csr_field a = Some f \<Longrightarrow> csr_view (csr_store c f v) = (csr_view c)(a \<mapsto> v)"
  by (auto simp: csr_view_def rv_csr_field_def fun_eq_iff split: if_splits)

lemma rv_csr_field_iff: "a \<in> csr_stored \<longleftrightarrow> (\<exists>f. rv_csr_field a = Some f)"
  by (simp add: csr_stored_def rv_csr_field_def)

lemma aligned_dvd: "p AND 3 = 0 \<longleftrightarrow> 4 dvd unat p" for p :: u32
  by (simp add: aligned_iff dvd_eq_mod_eq_0)

lemma view_csr_upd: "goto ((isa_view h)\<lparr>csrs := csr_view c\<rparr>) p = isa_view (h\<lparr>csr := c, pc := p\<rparr>)"
  by (simp add: isa_view_def goto_def)

lemma csr_set_xreg [simp]: "csr (set_xreg h k v) = csr h" "pc (set_xreg h k v) = pc h"
  by (simp_all add: set_xreg_def)

text \<open>Entering and leaving a trap.\<close>

lemma enter_mstatus_eq: "mstatus (csr (hart_take_trap h c t)) = enter_mstatus (mstatus (csr h))"
  by (rule bit_word_eqI)
    (auto simp: commit_trap_mstatus enter_mstatus_def bit_simps)

lemma leave_mstatus_eq: "mstatus (mret_csr c) = leave_mstatus (mstatus c)"
  by (rule bit_word_eqI) (auto simp: mret_mstatus leave_mstatus_def bit_simps)

lemma interrupt_iff: "TRAP_IS_INTERRUPT c \<longleftrightarrow> c \<in> {3, 7, 11}"
  by (auto simp: TRAP_IS_INTERRUPT_def)

lemma cause_word: "c \<in> {3, 7, 11} \<Longrightarrow> 0x80000000 OR word_of_int c = (word_of_int (2 ^ 31 + c) :: u32)"
  by auto

lemma csr_file_eqI:
  "mstatus c = mstatus c' \<Longrightarrow> mtvec c = mtvec c' \<Longrightarrow> mepc c = mepc c' \<Longrightarrow> mcause c = mcause c' \<Longrightarrow>
   mtval c = mtval c' \<Longrightarrow> mscratch c = mscratch c' \<Longrightarrow> c = (c' :: csr_file_t)"
  by simp

lemma view_trap: "enter_trap (isa_view h) c t = isa_view (hart_take_trap h c t)"
proof -
  have "csr (hart_take_trap h c t) = (csr h)\<lparr>mepc := pc h, mtval := t,
      mcause := word_of_int (if c \<in> {3, 7, 11} then 2 ^ 31 + c else c),
      mstatus := enter_mstatus (mstatus (csr h))\<rparr>"
    by (rule csr_file_eqI) (auto simp: commit_trap_csr enter_mstatus_eq interrupt_iff cause_word)
  moreover have "csr_view ((csr h)\<lparr>mepc := e, mtval := u, mcause := x, mstatus := m\<rparr>) =
      (csr_view (csr h))(0x341 \<mapsto> e, 0x343 \<mapsto> u, 0x342 \<mapsto> x, 0x300 \<mapsto> m)" for e u x m
    by (auto simp: csr_view_def rv_csr_field_def fun_eq_iff)
  moreover have "take_bit 2 v = 1 \<longleftrightarrow> v AND 3 = 1" for v :: u32
    by (simp add: mask_and_eq_take_bit)
  ultimately show ?thesis
    by (auto simp add: enter_trap_def isa_view_def commit_trap_csr commit_trap_pc interrupt_iff Let_def
        csr_get_def)
qed

lemma view_return: "return_trap (isa_view h) = isa_view (h\<lparr>csr := mret_csr (csr h), pc := mepc (csr h)\<rparr>)"
proof -
  have "mret_csr c = c\<lparr>mstatus := leave_mstatus (mstatus c)\<rparr>" for c
    by (rule csr_file_eqI) (simp_all add: leave_mstatus_eq, simp_all add: mret_csr_def)
  moreover have "csr_view (c\<lparr>mstatus := m\<rparr>) = (csr_view c)(0x300 \<mapsto> m)" for c m
    by (auto simp: csr_view_def rv_csr_field_def fun_eq_iff)
  ultimately show ?thesis by (simp add: return_trap_def isa_view_def csr_get_def)
qed

section \<open>The instructions that have no step lemma yet\<close>

lemma step_fence_lemma:
  assumes "hart_ok h" "fetches bus h w i w1" "rv32_encode oper d s1 s2 im = Some i"
    and "oper \<in> {INSTRUCTION_OP_FENCE, INSTRUCTION_OP_FENCE_I}"
  shows "retires_to (hart_step bus h w) TRAP_NONE (h\<lparr>pc := pc h + 4\<rparr>) w1"
proof -
  let ?di = "rve_decode_instruction i"
  have "execute bus ?di (op ?di) (exec_at h i) w1 = Some (exec_at h i, w1)"
    using assms(4) encoded_fields(2) [OF assms(3)] by auto
  then show ?thesis
    using commit_unwritten [OF assms(1) di_ok_decode, of "exec_at h i" i]
    by (auto simp: step_encoded [OF assms(2,3)] run_decoded_def retires_to_def)
qed

lemma csr_encoded:
  assumes "rv32_encode oper d s1 s2 im = Some i" "rv_csr oper = Some (f, uimm)"
  shows "op (rve_decode_instruction i) = oper" "rd (rve_decode_instruction i) = take_bit 5 d"
    and "drop_bit 20 (original_instruction (rve_decode_instruction i)) = take_bit 12 im"
proof -
  from csr_facts [OF assms(2)] encoded_fields [OF assms(1)]
  show "op (rve_decode_instruction i) = oper" "rd (rve_decode_instruction i) = take_bit 5 d"
    by (simp_all add: rv32_reg_def)
  from csr_facts [OF assms(2)] assms(1) obtain f3 where "i = asm_i im s1 f3 d 0x73" by auto
  then show "drop_bit 20 (original_instruction (rve_decode_instruction i)) = take_bit 12 im"
    by (simp add: original_instruction_decode csr_address)
qed

lemma step_csr_constant_lemma:
  assumes "hart_ok h" "fetches bus h w i w1" "rv32_encode oper d s1 s2 im = Some i"
    and "rv_csr oper = Some (f, uimm)" "rv_csr_field (take_bit 12 im) = None"
    and "csr_view (csr h) (take_bit 12 im) = Some v"
  shows "retires_to (hart_step bus h w) TRAP_NONE ((set_xreg h d v)\<lparr>pc := pc h + 4\<rparr>) w1"
proof -
  let ?di = "rve_decode_instruction i" and ?s = "exec_at h i"
  note fields = csr_encoded [OF assms(3,4)]
  have "csr_dispatch h ?di f uimm = csr_constant h ?di v"
    using assms(5,6) by (auto simp: csr_dispatch_def fields csr_view_def split: if_splits)
  also have "\<dots> = Some (TRAP_NONE, set_xreg h d v)"
    using assms(1) by (simp add: csr_constant_def set_xreg_def fields)
  finally have ex: "execute bus ?di (op ?di) ?s w1 = Some (?s\<lparr>hart_s := set_xreg h d v\<rparr>, w1)"
    by (simp add: fields(1) execute_csr [OF assms(4)] exec_csr_def)
  have "regs_ok (set_xreg h d v)" "(gpr (set_xreg h d v))[0 := 0] = gpr (set_xreg h d v)"
    using assms(1) x0_stays [OF assms(1)]
    by (auto simp: set_xreg_def regs_ok_def hart_ok_def list_update_swap unat_eq_zero)
  then have "\<exists>r. hart_commit ?di (?s\<lparr>hart_s := set_xreg h d v\<rparr>) =
      Some (r, (set_xreg h d v)\<lparr>pc := pc h + 4\<rparr>) \<and> r_trap r = TRAP_NONE"
    by (subst hart_commit_clean) simp_all
  then show ?thesis
    using ex by (auto simp: step_encoded [OF assms(2,3)] run_decoded_def retires_to_def)
qed

lemma step_csr_unknown_lemma:
  assumes "hart_ok h" "fetches bus h w i w1" "rv32_encode oper d s1 s2 im = Some i"
    and "rv_csr oper = Some (f, uimm)" "csr_view (csr h) (take_bit 12 im) = None"
  shows "retires_to (hart_step bus h w) TRAP_ILLEGAL_INSTR (hart_take_trap h TRAP_ILLEGAL_INSTR i) w1"
proof -
  let ?di = "rve_decode_instruction i" and ?s = "exec_at h i"
  note fields = csr_encoded [OF assms(3,4)]
  have "csr_dispatch h ?di f uimm = Some (TRAP_ILLEGAL_INSTR, h)"
    using assms(5) by (auto simp: csr_dispatch_def fields csr_view_def rv_csr_field_def split: if_splits)
  then have "execute bus ?di (op ?di) ?s w1 = Some (?s\<lparr>pending_trap := TRAP_ILLEGAL_INSTR\<rparr>, w1)"
    by (simp add: fields(1) execute_csr [OF assms(4)] exec_csr_def)
  then show ?thesis
    using commit_trapped [OF assms(1), of "?s\<lparr>pending_trap := TRAP_ILLEGAL_INSTR\<rparr>" ?di]
    by (auto simp: step_encoded [OF assms(2,3)] run_decoded_def retires_to_def trap_tval_def)
qed

section \<open>Every step of the machine is a step of the hart\<close>

text \<open>A step of the hart, seen on the states of the machine.\<close>

definition hart_sees :: "'w bus_t \<Rightarrow> hart_t \<Rightarrow> 'w \<Rightarrow> trap_t \<Rightarrow> isa_t \<times> 'w \<Rightarrow> bool" where
  "hart_sees bus h w t out \<longleftrightarrow>
     (\<exists>h'. retires_to (hart_step bus h w) t h' (snd out) \<and> isa_view h' = fst out)"

lemma hart_seesI: "retires_to (hart_step bus h w) t h' w' \<Longrightarrow> isa_view h' = s' \<Longrightarrow> hart_sees bus h w t (s', w')"
  by (auto simp: hart_sees_def)

lemma isa_fetch_view:
  "isa_fetch (bus_read bus) (isa_view h) w oper d s1 s2 im i w1 \<longleftrightarrow>
     fetches bus h w i w1 \<and> rv32_encode oper d s1 s2 im = Some i"
  by (auto simp: isa_fetch_def fetches_def aligned_dvd)

lemma encode_ignores:
  "rv32_encode INSTRUCTION_OP_ECALL d s1 s2 im = Some i \<longleftrightarrow> i = 0x73"
  "rv32_encode INSTRUCTION_OP_EBREAK d s1 s2 im = Some i \<longleftrightarrow> i = 0x100073"
  "rv32_encode INSTRUCTION_OP_MRET d s1 s2 im = Some i \<longleftrightarrow> i = 0x30200073"
proof -
  have "asm_i 0 0 0 0 0x73 = 0x73" "asm_i 1 0 0 0 0x73 = 0x100073" "asm_i 0x302 0 0 0 0x73 = 0x30200073"
    by code_simp+
  then show "rv32_encode INSTRUCTION_OP_ECALL d s1 s2 im = Some i \<longleftrightarrow> i = 0x73"
    "rv32_encode INSTRUCTION_OP_EBREAK d s1 s2 im = Some i \<longleftrightarrow> i = 0x100073"
    "rv32_encode INSTRUCTION_OP_MRET d s1 s2 im = Some i \<longleftrightarrow> i = 0x30200073"
    by auto
qed

lemma put_pc: "hart_ok h \<Longrightarrow> goto (put (isa_view h) d v) p = isa_view ((set_xreg h d v)\<lparr>pc := p\<rparr>)"
  by (simp add: view_put)

lemma machine_csr:
  assumes "hart_ok h" "fetches bus h w i w1" "rv32_encode oper d s1 s2 im = Some i"
    and "rv_csr oper = Some (f, uimm)" "csr_view (csr h) (take_bit 12 im) = Some old"
    and "operand = (if uimm then ucast (take_bit 5 s1) else xreg h s1)"
    and "c' = (if take_bit 5 s1 \<noteq> 0 \<and> take_bit 12 im \<in> csr_stored
           then (csr_view (csr h))(take_bit 12 im \<mapsto> rv_csr_new f old operand) else csr_view (csr h))"
  shows "hart_sees bus h w TRAP_NONE (goto ((put (isa_view h) d old)\<lparr>csrs := c'\<rparr>) (pc h + 4), w1)"
proof (cases "rv_csr_field (take_bit 12 im)")
  case None
  then have "c' = csr_view (csr h)" by (simp add: assms(7) rv_csr_field_iff)
  moreover have "(set_xreg h d old)\<lparr>csr := csr h, pc := pc h + 4\<rparr> = (set_xreg h d old)\<lparr>pc := pc h + 4\<rparr>"
    by simp
  ultimately show ?thesis
    by (intro hart_seesI [OF step_csr_constant_lemma [OF assms(1-4) None assms(5)]])
      (simp only: view_put [OF assms(1)] view_csr_upd)
next
  case (Some fld)
  define cf where "cf = (if take_bit 5 s1 = 0 then csr h
    else csr_store (csr h) fld (rv_csr_new f old operand))"
  from Some assms(5) have old: "old = csr_load (csr h) fld" by (simp add: csr_view_def)
  have "c' = csr_view cf" by (simp add: assms(7) cf_def rv_csr_field_iff Some csr_view_store [OF Some])
  moreover from step_csr_lemma [OF assms(1-4) Some]
  have "retires_to (hart_step bus h w) TRAP_NONE ((set_xreg h d old)\<lparr>csr := cf, pc := pc h + 4\<rparr>) w1"
    by (simp only: Let_def cf_def old assms(6))
  ultimately show ?thesis
    by (intro hart_seesI) (simp_all only: view_put [OF assms(1)] view_csr_upd)
qed

text \<open>Each rule of the machine, one after the other, is a lemma about the hart.\<close>

lemma machine_step:
  assumes "isa_step (bus_read bus) (bus_write bus) (isa_view h, w) t out" "hart_ok h"
  shows "hart_sees bus h w t out"
  using assms(1)
proof cases
  case Misaligned_fetch
  then show ?thesis
    using step_fetch_fault_lemma [OF assms(2), of bus w w]
    by (auto simp: aligned_dvd view_trap Let_def intro!: hart_seesI)
next
  case (Fetch_fault w1)
  then show ?thesis
    using step_fetch_fault_lemma [OF assms(2), of bus w w1]
    by (auto simp: aligned_dvd view_trap Let_def intro!: hart_seesI)
next
  case (Illegal i w1)
  then have "fetches bus h w i w1" by (simp add: fetches_def aligned_dvd)
  from step_illegal_lemma [OF assms(2) this] Illegal show ?thesis
    by (auto simp: view_trap intro!: hart_seesI)
next
  case (Ebreak d s1 s2 im i w1)
  then have f: "fetches bus h w i w1" "i = 0x100073" by (auto simp only: isa_fetch_view encode_ignores)
  from step_illegal_lemma [OF assms(2) f(1)] f(2) Ebreak show ?thesis
    by (auto simp: view_trap intro!: hart_seesI)
next
  case (Register oper d s1 s2 im i w1 v)
  with step_register_instruction_lemma [OF assms(2)] show ?thesis
    by (auto simp: isa_fetch_view put_pc [OF assms(2)] intro!: hart_seesI)
next
  case (Immediate oper d s1 s2 im i w1 base v)
  with step_immediate_instruction_lemma [OF assms(2)] show ?thesis
    by (auto simp: isa_fetch_view put_pc [OF assms(2)] intro!: hart_seesI)
next
  case (Lui d s1 s2 im i w1)
  with step_upper_immediate_lemma [OF assms(2), of bus w i w1 INSTRUCTION_OP_LUI d s1 s2 im] show ?thesis
    by (auto simp: isa_fetch_view put_pc [OF assms(2)] intro!: hart_seesI)
next
  case (Auipc d s1 s2 im i w1)
  with step_upper_immediate_lemma [OF assms(2), of bus w i w1 INSTRUCTION_OP_AUIPC d s1 s2 im] show ?thesis
    by (auto simp: isa_fetch_view put_pc [OF assms(2)] add.commute intro!: hart_seesI)
next
  case (Jump oper d s1 s2 im i w1 t)
  with step_jump_lemma [OF assms(2), of bus w i w1 oper d s1 s2 im t] show ?thesis
    by (auto simp: isa_fetch_view put_pc [OF assms(2)] aligned_dvd intro!: hart_seesI)
next
  case (Jump_misaligned oper d s1 s2 im i w1 t)
  with step_jump_lemma [OF assms(2), of bus w i w1 oper d s1 s2 im t] show ?thesis
    by (auto simp: isa_fetch_view view_trap aligned_dvd intro!: hart_seesI)
next
  case (Branch_not_taken oper d s1 s2 im i w1)
  with step_branch_lemma [OF assms(2), of bus w i w1 oper d s1 s2 im] show ?thesis
    by (auto simp: isa_fetch_view Let_def intro!: hart_seesI)
next
  case (Branch_taken oper d s1 s2 im i w1 t)
  with step_branch_lemma [OF assms(2), of bus w i w1 oper d s1 s2 im] show ?thesis
    by (auto simp: isa_fetch_view Let_def aligned_dvd intro!: hart_seesI)
next
  case (Branch_misaligned oper d s1 s2 im i w1 t)
  with step_branch_lemma [OF assms(2), of bus w i w1 oper d s1 s2 im] show ?thesis
    by (auto simp: isa_fetch_view Let_def aligned_dvd view_trap intro!: hart_seesI)
next
  case (Load oper d s1 s2 im i w1 sz sg v w2)
  with step_load_lemma [OF assms(2), of bus w i w1 oper d s1 s2 im sz sg "Some v" w2] show ?thesis
    by (auto simp: isa_fetch_view put_pc [OF assms(2)] intro!: hart_seesI)
next
  case (Load_fault oper d s1 s2 im i w1 sz sg w2)
  with step_load_lemma [OF assms(2), of bus w i w1 oper d s1 s2 im sz sg None w2] show ?thesis
    by (auto simp: isa_fetch_view view_trap intro!: hart_seesI)
next
  case (Store oper d s1 s2 im i w1 sz w2)
  with step_store_lemma [OF assms(2), of bus w i w1 oper d s1 s2 im sz True w2] show ?thesis
    by (auto simp: isa_fetch_view intro!: hart_seesI)
next
  case (Store_fault oper d s1 s2 im i w1 sz w2)
  with step_store_lemma [OF assms(2), of bus w i w1 oper d s1 s2 im sz False w2] show ?thesis
    by (auto simp: isa_fetch_view view_trap intro!: hart_seesI)
next
  case (Fence oper d s1 s2 im i w1)
  with step_fence_lemma [OF assms(2), of bus w i w1 oper d s1 s2 im] show ?thesis
    by (auto simp: isa_fetch_view intro!: hart_seesI)
next
  case (Csr_access oper d s1 s2 im i w1 f uimm old operand c')
  then have f: "fetches bus h w i w1" "rv32_encode oper d s1 s2 im = Some i"
    by (simp_all only: isa_fetch_view)
  show ?thesis
    unfolding Csr_access(1,2) isa_view_simps
    by (rule machine_csr [OF assms(2) f Csr_access(4-7) [unfolded isa_view_simps]])
next
  case (Csr_unknown oper d s1 s2 im i w1 f uimm)
  with step_csr_unknown_lemma [OF assms(2)] show ?thesis
    by (auto simp: isa_fetch_view view_trap intro!: hart_seesI)
next
  case (Ecall d s1 s2 im i w1)
  then have "fetches bus h w 0x73 w1" by (auto simp only: isa_fetch_view encode_ignores)
  from step_ecall_lemma [OF assms(2) this] Ecall show ?thesis
    by (auto intro!: hart_seesI)
next
  case (Mret d s1 s2 im i w1)
  then have "fetches bus h w 0x30200073 w1" by (auto simp only: isa_fetch_view encode_ignores)
  from step_mret_lemma [OF assms(2) this] Mret show ?thesis
    by (auto simp: view_return intro!: hart_seesI)
qed

section \<open>Every step of the hart is a step of the machine\<close>

text \<open>The rules leave no operation out, whatever the operands hold.\<close>

lemma operation_groups:
  assumes "rv32_encode oper d s1 s2 im = Some i"
  obtains (register) v where "rv_alu oper a b = Some v"
  | (immediate) base v where "rv_imm_op oper = Some base" "rv_alu base a c = Some v"
  | (upper) "oper = INSTRUCTION_OP_LUI \<or> oper = INSTRUCTION_OP_AUIPC"
  | (jump) t where "rv_jump_target oper p a im = Some t"
  | (branch) taken where "rv_branch_cond oper a b = Some taken"
  | (load) sz sg where "rv_load oper = Some (sz, sg)"
  | (store) sz where "rv_store oper = Some sz"
  | (fence) "oper \<in> {INSTRUCTION_OP_FENCE, INSTRUCTION_OP_FENCE_I}"
  | (csr) f uimm where "rv_csr oper = Some (f, uimm)"
  | (system) "oper \<in> rv32_system"
  using assms by (cases oper) (auto simp: rv32_system_def)

definition can_step :: "'w load_fn \<Rightarrow> 'w store_fn \<Rightarrow> isa_t \<times> 'w \<Rightarrow> bool" where
  "can_step ld st x \<longleftrightarrow> (\<exists>t out. isa_step ld st x t out)"

lemma can_stepI: "isa_step ld st x t out \<Longrightarrow> can_step ld st x"
  unfolding can_step_def by blast

lemma isa_step_encoded:
  assumes f: "isa_fetch ld s w oper d s1 s2 im i w1"
    and ld: "\<And>sz sg. rv_load oper = Some (sz, sg) \<Longrightarrow> \<exists>res w2. ld (xr s s1 + sx 12 im) sz w1 = Some (res, w2)"
    and st: "\<And>sz. rv_store oper = Some sz \<Longrightarrow>
      \<exists>b w2. st (xr s s1 + sx 12 im) (take_bit (unat sz) (xr s s2)) sz w1 = Some (b, w2)"
  shows "can_step ld st (s, w)"
proof -
  note rules = isa_step.intros [where ld = ld and st = st and s = s and w = w, THEN can_stepI]
  from f have "rv32_encode oper d s1 s2 im = Some i" by (simp add: isa_fetch_def)
  then show ?thesis
  proof (cases rule: operation_groups [where a = "xr s s1" and b = "xr s s2" and p = "at s"
        and c = "rv32_imm oper im"])
    case register
    then show ?thesis using rules(5) f by blast
  next
    case immediate
    then show ?thesis using rules(6) f by blast
  next
    case upper
    then show ?thesis using rules(7,8) f by blast
  next
    case (jump t)
    then show ?thesis using rules(9,10) [OF f] by blast
  next
    case (branch taken)
    then show ?thesis using rules(11-13) [OF f] by (cases taken) auto
  next
    case (load sz sg)
    from ld [OF load] obtain res w2 where "ld (xr s s1 + sx 12 im) sz w1 = Some (res, w2)" by blast
    then show ?thesis using rules(14,15) [OF f load] by (cases res) auto
  next
    case (store sz)
    from st [OF store] obtain b w2 where
      "st (xr s s1 + sx 12 im) (take_bit (unat sz) (xr s s2)) sz w1 = Some (b, w2)" by blast
    then show ?thesis using rules(16,17) [OF f store] by (cases b) auto
  next
    case fence
    then show ?thesis using rules(18) [OF f] by blast
  next
    case (csr g uimm)
    then show ?thesis using rules(19,20) [OF f csr] by (cases "csrs s (take_bit 12 im)") auto
  next
    case system
    with f rules(4,21,22) show ?thesis by (auto simp: rv32_system_def)
  qed
qed

lemma isa_step_fetched:
  assumes "4 dvd unat (at s) \<Longrightarrow> \<exists>res w1. ld (at s) 32 w = Some (res, w1)"
    and "\<And>oper d s1 s2 im i w1. isa_fetch ld s w oper d s1 s2 im i w1 \<Longrightarrow> can_step ld st (s, w)"
  shows "can_step ld st (s, w)"
proof (cases "4 dvd unat (at s)")
  case False
  then show ?thesis by (intro can_stepI [OF isa_step.Misaligned_fetch])
next
  case True
  with assms(1) obtain res w1 where rd: "ld (at s) 32 w = Some (res, w1)" by blast
  show ?thesis
  proof (cases res)
    case None
    with True rd show ?thesis by (intro can_stepI [OF isa_step.Fetch_fault]) simp_all
  next
    case (Some i)
    show ?thesis
    proof (cases "\<exists>oper d s1 s2 im. rv32_encode oper d s1 s2 im = Some i")
      case False
      with True rd Some show ?thesis by (intro can_stepI [OF isa_step.Illegal]) simp_all
    qed (use True rd Some assms(2) in \<open>auto simp: isa_fetch_def\<close>)
  qed
qed

text \<open>With a memory that answers every access, the machine always has a step.\<close>

lemma isa_step_total:
  assumes "\<And>a sz m. access_size sz \<Longrightarrow> ld a sz m \<noteq> None" "\<And>a v sz m. access_size sz \<Longrightarrow> st a v sz m \<noteq> None"
  shows "can_step ld st (s, w)"
proof (rule isa_step_fetched)
  show "\<exists>res w1. ld (at s) 32 w = Some (res, w1)"
    using assms(1) [of 32 "at s" w] by (auto simp: access_size_def)
  fix oper d s1 s2 im i w1
  assume "isa_fetch ld s w oper d s1 s2 im i w1"
  then show "can_step ld st (s, w)"
  proof (rule isa_step_encoded)
    show "\<exists>res w2. ld (xr s s1 + sx 12 im) sz w1 = Some (res, w2)" if "rv_load oper = Some (sz, sg)" for sz sg
      using assms(1) [of sz "xr s s1 + sx 12 im" w1] load_facts [OF that] by auto
    show "\<exists>b w2. st (xr s s1 + sx 12 im) (take_bit (unat sz) (xr s s2)) sz w1 = Some (b, w2)"
      if "rv_store oper = Some sz" for sz
      using assms(2) [of sz "xr s s1 + sx 12 im" "take_bit (unat sz) (xr s s2)" w1] store_facts [OF that] by auto
  qed
qed

lemma step_reads_memory:
  assumes "hart_step bus h w \<noteq> None" "fetches bus h w i w1" "rv32_encode oper d s1 s2 im = Some i"
    "hart_ok h"
  shows "rv_load oper = Some (sz, sg) \<Longrightarrow> \<exists>res w2. bus_read bus (xreg h s1 + sx 12 im) sz w1 = Some (res, w2)"
    and "rv_store oper = Some sz \<Longrightarrow>
      \<exists>b w2. bus_write bus (xreg h s1 + sx 12 im) (take_bit (unat sz) (xreg h s2)) sz w1 = Some (b, w2)"
proof -
  let ?di = "rve_decode_instruction i"
  have ex: "execute bus ?di oper (exec_at h i) w1 \<noteq> None"
    using assms(1) encoded_fields(2) [OF assms(3)]
    by (auto simp: step_encoded [OF assms(2,3)] run_decoded_def split: Option.bind_splits)
  {
    assume ld: "rv_load oper = Some (sz, sg)"
    with load_facts [OF ld, of im] encoded_fields [OF assms(3)]
    have "rs1 ?di = take_bit 5 s1" "imm ?di = sx 12 im" by (simp_all add: rv32_reg_def)
    with ex assms(4) show "\<exists>res w2. bus_read bus (xreg h s1 + sx 12 im) sz w1 = Some (res, w2)"
      by (cases "bus_read bus (xreg h s1 + sx 12 im) sz w1")
        (auto simp: execute_load [OF ld] exec_load_def xreg_def Let_def)
  }
  {
    assume st: "rv_store oper = Some sz"
    with store_facts [OF st, of im] encoded_fields [OF assms(3)]
    have f: "rs1 ?di = take_bit 5 s1" "rs2 ?di = take_bit 5 s2" "imm ?di = sx 12 im"
      by (simp_all add: rv32_reg_def)
    have val: "xreg h s2 AND mask (unat sz) = take_bit (unat sz) (xreg h s2)"
      by (simp add: take_bit_eq_mask)
    from f ex assms(4)
    show "\<exists>b w2. bus_write bus (xreg h s1 + sx 12 im) (take_bit (unat sz) (xreg h s2)) sz w1 = Some (b, w2)"
      by (cases "bus_write bus (xreg h s1 + sx 12 im) (take_bit (unat sz) (xreg h s2)) sz w1")
        (auto simp: execute_store [OF st] exec_store_def val Let_def simp flip: xreg_def)
  }
qed

lemma machine_moves:
  assumes "hart_step bus h w \<noteq> None" "hart_ok h"
  shows "can_step (bus_read bus) (bus_write bus) (isa_view h, w)"
proof (rule isa_step_fetched)
  assume "4 dvd unat (at (isa_view h))"
  then show "\<exists>res w1. bus_read bus (at (isa_view h)) 32 w = Some (res, w1)"
    using assms(1) by (cases "bus_read bus (pc h) 32 w") (auto simp: hart_step_def aligned_dvd Let_def)
next
  fix oper d s1 s2 im i w1
  assume "isa_fetch (bus_read bus) (isa_view h) w oper d s1 s2 im i w1"
  then show "can_step (bus_read bus) (bus_write bus) (isa_view h, w)"
    by (rule isa_step_encoded)
      (use \<open>isa_fetch (bus_read bus) (isa_view h) w oper d s1 s2 im i w1\<close> in
        \<open>auto simp: isa_fetch_view dest: step_reads_memory [OF assms(1) _ _ assms(2)]\<close>)
qed

text \<open>
  C1 (refinement): the hart is the abstract machine. On a well-formed hart, a call of hart_step ends
  with the trap t in the hart h' and the world w' if and only if the machine, on the same bus, has a
  step with that trap from the view of the hart to the view of some such h'. So the machine's rules
  say everything hart_step does, error cases included; hart_step follows none other, and where no
  rule applies (a bus access that is undefined) hart_step is undefined too.
\<close>

theorem hart_step_is_machine_step:
  assumes "hart_ok h"
  shows "isa_step (bus_read bus) (bus_write bus) (isa_view h, w) t (s', w') \<longleftrightarrow>
    (\<exists>h'. retires_to (hart_step bus h w) t h' w' \<and> isa_view h' = s')"
proof
  assume "isa_step (bus_read bus) (bus_write bus) (isa_view h, w) t (s', w')"
  from machine_step [OF this assms]
  show "\<exists>h'. retires_to (hart_step bus h w) t h' w' \<and> isa_view h' = s'" by (simp add: hart_sees_def)
next
  assume "\<exists>h'. retires_to (hart_step bus h w) t h' w' \<and> isa_view h' = s'"
  then obtain h' where h': "retires_to (hart_step bus h w) t h' w'" "isa_view h' = s'" by blast
  then have "hart_step bus h w \<noteq> None" by (auto simp: retires_to_def)
  from machine_moves [OF this assms] obtain t2 out where
    step: "isa_step (bus_read bus) (bus_write bus) (isa_view h, w) t2 out" by (auto simp: can_step_def)
  from machine_step [OF this assms] h' have "t2 = t" "out = (s', w')"
    by (auto simp: hart_sees_def retires_to_def)
  with step show "isa_step (bus_read bus) (bus_write bus) (isa_view h, w) t (s', w')" by simp
qed

lemma hart_step_is_machine_step_witness:
  "isa_step (bus_read rom_bus) (bus_write rom_bus) (isa_view demo_hart, \<lambda>_. 0x73) TRAP_ECALL_M
     (isa_view (demo_hart\<lparr>pc := 0x104\<rparr>), \<lambda>_. 0x73)"
  using hart_step_is_machine_step [OF demo_hart_simps(1), of rom_bus "\<lambda>_. 0x73"]
    step_ecall_lemma [OF demo_hart_simps(1), of rom_bus "\<lambda>_. 0x73" "\<lambda>_. 0x73"]
  by auto

end
