(* ===== verification/Rve_Flat.thy ===== *)
theory Rve_Flat
  imports Rve_Runs Rve_Machine
begin

unbundle bit_operations_syntax

text \<open>
  The board's memory as a flat map from addresses to bytes, and the machine of Rve_Machine on it: as
  long as no access starts in a device, the hart on the board's bus does what the machine does on the
  map. The locale \<open>memory_refinement\<close> is the interface between the machine and its memory.
\<close>

section \<open>One memory seen through another\<close>

locale memory_refinement =
  fixes ok :: "'c \<Rightarrow> bool" and view :: "'c \<Rightarrow> 'a"
    and ld_a :: "'a load_fn" and st_a :: "'a store_fn"
    and ld_c :: "'c load_fn" and st_c :: "'c store_fn"
  assumes load: "ok c \<Longrightarrow> access_size sz \<Longrightarrow> ld_a a sz (view c) = Some (r, m') \<Longrightarrow>
      \<exists>c'. ld_c a sz c = Some (r, c') \<and> ok c' \<and> view c' = m'"
    and store: "ok c \<Longrightarrow> access_size sz \<Longrightarrow> st_a a v sz (view c) = Some (b, m') \<Longrightarrow>
      \<exists>c'. st_c a v sz c = Some (b, c') \<and> ok c' \<and> view c' = m'"
begin

text \<open>What the machine does on the abstract memory, it does on the concrete one.\<close>

lemma fetch:
  assumes "isa_fetch ld_a s (view c) oper d s1 s2 im i m1" "ok c"
  shows "\<exists>c1. isa_fetch ld_c s c oper d s1 s2 im i c1 \<and> ok c1 \<and> view c1 = m1"
  using assms load [OF assms(2), of 32 "at s"] by (auto simp: isa_fetch_def access_size_def)

lemma load_on:
  "ld_a a sz m1 = Some (r, m2) \<Longrightarrow> ok c1 \<Longrightarrow> view c1 = m1 \<Longrightarrow> access_size sz \<Longrightarrow>
   \<exists>c2. ld_c a sz c1 = Some (r, c2) \<and> ok c2 \<and> view c2 = m2"
  using load by blast

lemma store_on:
  "st_a a v sz m1 = Some (b, m2) \<Longrightarrow> ok c1 \<Longrightarrow> view c1 = m1 \<Longrightarrow> access_size sz \<Longrightarrow>
   \<exists>c2. st_c a v sz c1 = Some (b, c2) \<and> ok c2 \<and> view c2 = m2"
  using store by blast

definition follows :: "isa_t \<times> 'c \<Rightarrow> trap_t \<Rightarrow> isa_t \<times> 'a \<Rightarrow> bool" where
  "follows x t out \<longleftrightarrow> (\<exists>c'. isa_step ld_c st_c x t (fst out, c') \<and> ok c' \<and> view c' = snd out)"

lemma followsI: "isa_step ld_c st_c x t (s', c') \<Longrightarrow> ok c' \<Longrightarrow> view c' = m' \<Longrightarrow> follows x t (s', m')"
  by (auto simp: follows_def)

lemma step:
  assumes "isa_step ld_a st_a (s, view c) t out" "ok c"
  shows "follows (s, c) t out"
  using assms(1)
proof cases
  case Misaligned_fetch
  with assms(2) show ?thesis by (auto intro: followsI isa_step.intros)
next
  case (Fetch_fault m1)
  with load [OF assms(2), of 32 "at s" None m1] show ?thesis
    by (auto simp: access_size_def intro: followsI isa_step.intros)
next
  case (Illegal i m1)
  with load [OF assms(2), of 32 "at s" "Some i" m1] obtain c1 where
    "ld_c (at s) 32 c = Some (Some i, c1)" "ok c1" "view c1 = m1" by (auto simp: access_size_def)
  with Illegal show ?thesis
    by (simp only:) (intro followsI [OF isa_step.Illegal]; assumption)
next
  case (Load oper d s1 s2 im i m1 sz sg v m2)
  from fetch [OF Load(3) assms(2)] obtain c1 where c1: "isa_fetch ld_c s c oper d s1 s2 im i c1" "ok c1"
    "view c1 = m1" by blast
  from load_on [OF Load(5) c1(2,3)] load_facts [OF Load(4)] obtain c2 where
    "ld_c (xr s s1 + sx 12 im) sz c1 = Some (Some v, c2)" "ok c2" "view c2 = m2" by auto
  with isa_step.Load [OF c1(1) Load(4)] Load(1,2) show ?thesis by (auto intro: followsI)
next
  case (Load_fault oper d s1 s2 im i m1 sz sg m2)
  from fetch [OF Load_fault(3) assms(2)] obtain c1 where c1: "isa_fetch ld_c s c oper d s1 s2 im i c1"
    "ok c1" "view c1 = m1" by blast
  from load_on [OF Load_fault(5) c1(2,3)] load_facts [OF Load_fault(4)] obtain c2 where
    "ld_c (xr s s1 + sx 12 im) sz c1 = Some (None, c2)" "ok c2" "view c2 = m2" by auto
  with isa_step.Load_fault [OF c1(1) Load_fault(4)] Load_fault(1,2) show ?thesis by (auto intro: followsI)
next
  case (Store oper d s1 s2 im i m1 sz m2)
  from fetch [OF Store(3) assms(2)] obtain c1 where c1: "isa_fetch ld_c s c oper d s1 s2 im i c1"
    "ok c1" "view c1 = m1" by blast
  from store_on [OF Store(5) c1(2,3)] store_facts [OF Store(4)] obtain c2 where
    "st_c (xr s s1 + sx 12 im) (take_bit (unat sz) (xr s s2)) sz c1 = Some (True, c2)" "ok c2"
    "view c2 = m2" by auto
  with isa_step.Store [OF c1(1) Store(4)] Store(1,2) show ?thesis by (auto intro: followsI)
next
  case (Store_fault oper d s1 s2 im i m1 sz m2)
  from fetch [OF Store_fault(3) assms(2)] obtain c1 where c1: "isa_fetch ld_c s c oper d s1 s2 im i c1"
    "ok c1" "view c1 = m1" by blast
  from store_on [OF Store_fault(5) c1(2,3)] store_facts [OF Store_fault(4)] obtain c2 where
    "st_c (xr s s1 + sx 12 im) (take_bit (unat sz) (xr s s2)) sz c1 = Some (False, c2)" "ok c2"
    "view c2 = m2" by auto
  with isa_step.Store_fault [OF c1(1) Store_fault(4)] Store_fault(1,2) show ?thesis
    by (auto intro: followsI)
qed (use fetch [OF _ assms(2)] in \<open>blast intro: followsI isa_step.intros\<close>)+

end

section \<open>The flat memory\<close>

type_synonym flat = "u32 \<Rightarrow> u8 option"

text \<open>An access that starts here goes to a device, the UART or TOHOST.\<close>

definition device_at :: "u32 \<Rightarrow> bool" where
  "device_at a \<longleftrightarrow> 0x10000000 \<le> a \<and> a < 0x10000008 \<or> 0x80001000 \<le> a \<and> a < 0x80001008"

definition flat_bytes :: "flat \<Rightarrow> u32 \<Rightarrow> nat \<Rightarrow> u8 list option" where
  "flat_bytes m a n =
    (let bs = map (\<lambda>i. m (a + of_nat i)) [0..<n]
     in if None \<in> set bs then None else Some (map the bs))"

definition flat_load :: "flat load_fn" where
  "flat_load a sz m =
    (if device_at a then None else Some (map_option le_word (flat_bytes m a (unat sz div 8)), m))"

definition flat_update :: "flat \<Rightarrow> u32 \<Rightarrow> u8 list \<Rightarrow> flat" where
  "flat_update m a bs = (\<lambda>x. if unat (x - a) < length bs then Some (bs ! unat (x - a)) else m x)"

definition flat_store :: "flat store_fn" where
  "flat_store a v sz m =
    (if device_at a then None
     else if flat_bytes m a (unat sz div 8) = None then Some (False, m)
     else Some (True, flat_update m a (le_bytes (unat sz div 8) v)))"

section \<open>The board's memory is flat\<close>

definition ram_byte :: "world_t \<Rightarrow> nat \<Rightarrow> u32 \<Rightarrow> u8" where
  "ram_byte w l a =
    (case heap w l of
       Some (Memory_Obj m) \<Rightarrow>
         (case raw_memory m of Some raw \<Rightarrow> raw (unat a - unat (base_addr m)) | None \<Rightarrow> 0)
     | _ \<Rightarrow> 0)"

definition flat_view :: "nat \<Rightarrow> world_t \<Rightarrow> flat" where
  "flat_view l w a =
    (if unat a < 0x400000 then Some (ram_byte w (l + 1) a)
     else if 0x80000000 \<le> unat a \<and> unat a < 0x81000000 then Some (ram_byte w (l + 3) a)
     else None)"

definition board_rams :: "nat \<Rightarrow> world_t \<Rightarrow> bool" where
  "board_rams l w \<longleftrightarrow> ram_at (l + 1) (fresh_memory 0 0x400000) w
     \<and> ram_at (l + 3) (fresh_memory 0x80000000 0x1000000) w"

text \<open>Between \<open>w0\<close> and \<open>w\<close> only the contents of the two memories may have changed.\<close>

definition board_at :: "nat \<Rightarrow> world_t \<Rightarrow> world_t \<Rightarrow> bool" where
  "board_at l w0 w \<longleftrightarrow> board_rams l w \<and> w\<lparr>heap := heap w0\<rparr> = w0
     \<and> (\<forall>k. k \<noteq> l + 1 \<and> k \<noteq> l + 3 \<longrightarrow> heap w k = heap w0 k)"

lemma heap_only:
  assumes "w'\<lparr>heap := x\<rparr> = w"
  shows "out_stream w' = out_stream w" "halted w' = halted w" "exit_code w' = exit_code w"
  using arg_cong [OF assms, of out_stream] arg_cong [OF assms, of halted] arg_cong [OF assms, of exit_code]
  by simp_all

text \<open>
  One of the two memories: it serves \<open>a\<close>, and the bytes from \<open>a\<close> on are its own as far as it reaches.
\<close>

definition serves :: "nat \<Rightarrow> world_t \<Rightarrow> u32 \<Rightarrow> nat \<Rightarrow> memory_t \<Rightarrow> (nat \<Rightarrow> u8) \<Rightarrow> bool" where
  "serves l w a r m raw \<longleftrightarrow> heap w r = Some (Memory_Obj m) \<and> raw_memory m = Some raw
    \<and> base_addr m \<le> a \<and> unat a + 4 < 2 ^ 32
    \<and> (\<exists>k. bus_get_peripheral (board_bus l) a = Some k
         \<and> ops (peripherals (board_bus l) ! k) = Some memory_ops
         \<and> ctx (peripherals (board_bus l) ! k) = Some r)
    \<and> (\<forall>i<4. flat_view l w (a + of_nat i) =
         (if unat a - unat (base_addr m) + i < unat (size_m m)
          then Some (raw (unat a - unat (base_addr m) + i)) else None))"

definition ram_region :: "nat \<Rightarrow> nat \<Rightarrow> memory_t \<Rightarrow> bool" where
  "ram_region l r m \<longleftrightarrow> r = l + 1 \<and> base_addr m = 0 \<and> size_m m = 0x400000
     \<or> r = l + 3 \<and> base_addr m = 0x80000000 \<and> size_m m = 0x1000000"

lemma flat_view_cong: "heap w' = heap w \<Longrightarrow> flat_view l w' = flat_view l w"
  by (simp add: flat_view_def ram_byte_def fun_eq_iff)

lemma unat_add_below: "unat a + i < 2 ^ 32 \<Longrightarrow> unat (a + of_nat i) = unat a + i" for a :: u32
  by (simp add: unat_word_ariths unat_of_nat)

lemma board_ram_slots:
  "unat a < 0x400000 \<Longrightarrow> bus_get_peripheral (board_bus l) a = Some 1"
  "0x80000000 \<le> unat a \<Longrightarrow> unat a < 0x81000000 \<Longrightarrow> \<not> device_at a \<Longrightarrow>
   bus_get_peripheral (board_bus l) a = Some 2"
  "ops (peripherals (board_bus l) ! 1) = Some memory_ops"
  "ops (peripherals (board_bus l) ! 2) = Some memory_ops"
  "ctx (peripherals (board_bus l) ! 1) = Some (l + 1)"
  "ctx (peripherals (board_bus l) ! 2) = Some (l + 3)"
proof -
  show "unat a < 0x400000 \<Longrightarrow> bus_get_peripheral (board_bus l) a = Some 1"
    by (simp add: board_dispatch word_less_nat_alt word_le_nat_alt)
  show "0x80000000 \<le> unat a \<Longrightarrow> unat a < 0x81000000 \<Longrightarrow> \<not> device_at a \<Longrightarrow>
      bus_get_peripheral (board_bus l) a = Some 2"
    by (simp add: board_dispatch device_at_def word_less_nat_alt word_le_nat_alt)
qed (simp_all add: board_bus_def board_slot_def)

lemma board_serves:
  assumes "board_rams l w" "\<not> device_at a"
  obtains r m raw where "serves l w a r m raw" "ram_region l r m"
  | "bus_get_peripheral (board_bus l) a = None" "flat_view l w a = None"
proof -
  from assms(1) obtain m1 m3 raw1 raw3 where
    m1: "heap w (l + 1) = Some (Memory_Obj m1)" "raw_memory m1 = Some raw1" "size_m m1 = 0x400000" "base_addr m1 = 0"
    and m3: "heap w (l + 3) = Some (Memory_Obj m3)" "raw_memory m3 = Some raw3" "size_m m3 = 0x1000000"
      "base_addr m3 = 0x80000000"
    by (auto simp: board_rams_def ram_at_def mem_ok_def fresh_memory_def)
  consider "unat a < 0x400000" | "0x80000000 \<le> unat a" "unat a < 0x81000000"
    | "\<not> unat a < 0x400000" "\<not> (0x80000000 \<le> unat a \<and> unat a < 0x81000000)" by blast
  then show thesis
  proof cases
    case 1
    have "serves l w a (l + 1) m1 raw1"
      unfolding serves_def
    proof (intro conjI allI impI)
      fix i :: nat assume "i < 4"
      with 1 show "flat_view l w (a + of_nat i) =
         (if unat a - unat (base_addr m1) + i < unat (size_m m1)
          then Some (raw1 (unat a - unat (base_addr m1) + i)) else None)"
        using unat_add_below [of a i] m1 by (simp add: flat_view_def ram_byte_def)
    qed (use 1 m1 board_ram_slots(1) [of a l] board_ram_slots(3,5) [of l] in \<open>simp_all\<close>)
    then show thesis using m1 by (intro that(1)) (auto simp: ram_region_def)
  next
    case 2
    have "serves l w a (l + 3) m3 raw3"
      unfolding serves_def
    proof (intro conjI allI impI)
      fix i :: nat assume "i < 4"
      with 2 show "flat_view l w (a + of_nat i) =
         (if unat a - unat (base_addr m3) + i < unat (size_m m3)
          then Some (raw3 (unat a - unat (base_addr m3) + i)) else None)"
        using unat_add_below [of a i] m3 by (simp add: flat_view_def ram_byte_def) arith
    qed (use 2 m3 board_ram_slots(2) [of a l] board_ram_slots(4,6) [of l] assms(2) in
        \<open>simp_all add: word_le_nat_alt\<close>)
    then show thesis using m3 by (intro that(1)) (auto simp: ram_region_def)
  next
    case 3
    with assms(2) show thesis
      by (intro that(2)) (auto simp: board_dispatch flat_view_def device_at_def word_less_nat_alt word_le_nat_alt)
  qed
qed

lemma serves_bytes:
  assumes "serves l w a r m raw" "n \<in> {1, 2, 4}"
  shows "flat_bytes (flat_view l w) a n =
    (if in_memory m a n then Some (map (\<lambda>i. raw (unat a - unat (base_addr m) + i)) [0..<n]) else None)"
proof -
  let ?o = "unat a - unat (base_addr m)"
  have n: "0 < n" "n \<le> 4" using assms(2) by auto
  then have bs: "map (\<lambda>i. flat_view l w (a + of_nat i)) [0..<n] =
      map (\<lambda>i. if ?o + i < unat (size_m m) then Some (raw (?o + i)) else None) [0..<n]"
    using assms(1) by (auto simp: serves_def)
  have base: "base_addr m \<le> a" using assms(1) by (simp add: serves_def)
  show ?thesis
  proof (cases "?o + n \<le> unat (size_m m)")
    case True
    with n show ?thesis
      by (auto simp: flat_bytes_def bs in_memory_def base)
  next
    case False
    with n have "?o + (n - 1) \<ge> unat (size_m m)" "n - 1 \<in> {0..<n}" by auto
    then have "None \<in> set (map (\<lambda>i. flat_view l w (a + of_nat i)) [0..<n])"
      unfolding bs by (force simp: image_iff)
    with False show ?thesis by (simp add: flat_bytes_def in_memory_def Let_def del: set_map)
  qed
qed

lemma serves_read:
  assumes "serves l w a r m raw" "access_size sz"
  shows "bus_read (board_bus l) a sz w = Some (map_option le_word (flat_bytes (flat_view l w) a (unat sz div 8)), w)"
proof -
  from assms(1) have raw: "raw_memory m = Some raw" by (simp add: serves_def)
  show ?thesis
    using assms access_bytes(5) [OF assms(2)]
    by (auto simp: serves_def bus_read_def memory_ops_def memory_read_cb_def get_memory_def
        memory_read_eq [OF assms(2) raw] serves_bytes [OF assms(1)])
qed

text \<open>A store changes the map where it writes and nowhere else.\<close>

lemma unat_between: "unat a + n \<le> 2 ^ 32 \<Longrightarrow> unat (x - a) < n \<longleftrightarrow> unat a \<le> unat x \<and> unat x < unat a + n"
  for a x :: u32
  using unat_less32 [of x] by (auto simp: unat_sub_if_size word_size)

lemma flat_view_store:
  assumes "heap w r = Some (Memory_Obj m)" "raw_memory m = Some raw" "ram_region l r m"
    and "in_memory m a (length bs)"
  shows "flat_view l (w\<lparr>heap := (heap w)(r \<mapsto> Memory_Obj (m\<lparr>raw_memory := Some (store_bytes raw
      (unat a - unat (base_addr m)) bs)\<rparr>))\<rparr>) = flat_update (flat_view l w) a bs"
proof
  fix x
  have le: "base_addr m \<le> a" "unat a + length bs \<le> unat (base_addr m) + unat (size_m m)"
    using assms(4) by (auto simp: in_memory_def word_le_nat_alt)
  with assms(3) have "unat a + length bs \<le> 2 ^ 32" by (auto simp: ram_region_def)
  note between = unat_between [OF this]
  have other: "ram_byte (w\<lparr>heap := (heap w)(r \<mapsto> obj)\<rparr>) r' x = ram_byte w r' x" if "r' \<noteq> r" for r' obj
    using that by (simp add: ram_byte_def)
  have same: "ram_byte (w\<lparr>heap := (heap w)(r \<mapsto> Memory_Obj (m\<lparr>raw_memory := Some (store_bytes raw
      (unat a - unat (base_addr m)) bs)\<rparr>))\<rparr>) r x =
      (if unat a \<le> unat x \<and> unat x < unat a + length bs then bs ! (unat x - unat a) else ram_byte w r x)"
    if "base_addr m \<le> x"
    using that le(1) assms(1,2) by (auto simp: ram_byte_def store_bytes_def word_le_nat_alt)
  from assms(3) show "flat_view l (w\<lparr>heap := (heap w)(r \<mapsto> Memory_Obj (m\<lparr>raw_memory := Some (store_bytes raw
      (unat a - unat (base_addr m)) bs)\<rparr>))\<rparr>) x = flat_update (flat_view l w) a bs x"
    using le other same between [of x]
    by (auto simp: ram_region_def flat_view_def flat_update_def word_le_nat_alt unat_sub_if_size word_size)
qed

lemma serves_write:
  assumes "serves l w a r m raw" "ram_region l r m" "access_size sz" "board_rams l w"
  shows "\<exists>b w'. bus_write (board_bus l) a v sz w = Some (b, w') \<and> board_at l w w'
    \<and> (if flat_bytes (flat_view l w) a (unat sz div 8) = None then \<not> b \<and> flat_view l w' = flat_view l w
       else b \<and> flat_view l w' = flat_update (flat_view l w) a (le_bytes (unat sz div 8) v))"
proof -
  from assms(1) have m: "heap w r = Some (Memory_Obj m)" "raw_memory m = Some raw" by (simp_all add: serves_def)
  have wr: "bus_write (board_bus l) a v sz w =
      Some (if in_memory m a (unat sz div 8)
            then (True, w\<lparr>heap := (heap w)(r \<mapsto> Memory_Obj (m\<lparr>raw_memory := Some (store_bytes raw
              (unat a - unat (base_addr m)) (le_bytes (unat sz div 8) v))\<rparr>))\<rparr>)
            else (False, w))"
    using assms(1) by (auto simp: serves_def bus_write_def memory_ops_def memory_write_cb_def get_memory_def
        put_memory_def memory_write_eq [OF assms(3) m(2)] fun_upd_idem)
  show ?thesis
  proof (cases "in_memory m a (unat sz div 8)")
    case False
    with assms(4) show ?thesis
      using access_bytes(5) [OF assms(3)] by (auto simp add: wr board_at_def serves_bytes [OF assms(1)])
  next
    case True
    let ?w = "w\<lparr>heap := (heap w)(r \<mapsto> Memory_Obj (m\<lparr>raw_memory := Some (store_bytes raw
              (unat a - unat (base_addr m)) (le_bytes (unat sz div 8) v))\<rparr>))\<rparr>"
    have "board_at l w ?w"
      using assms(2,4) m by (auto simp: board_at_def board_rams_def ram_at_def mem_ok_def ram_region_def)
    moreover have "flat_view l ?w = flat_update (flat_view l w) a (le_bytes (unat sz div 8) v)"
      using True by (intro flat_view_store [OF m assms(2)]) simp
    ultimately show ?thesis
      using True access_bytes(5) [OF assms(3)] by (auto simp: wr serves_bytes [OF assms(1)])
  qed
qed

lemma flat_bytes_unmapped:
  assumes "m a = None" "0 < n"
  shows "flat_bytes m a n = None"
proof -
  have "None \<in> (\<lambda>i. m (a + of_nat i)) ` {0..<n}" using assms by (intro image_eqI [of _ _ 0]) auto
  then show ?thesis by (simp add: flat_bytes_def Let_def)
qed

lemma board_bus_load:
  assumes "board_rams l w" "access_size sz" "\<not> device_at a"
  shows "bus_read (board_bus l) a sz w = Some (map_option le_word (flat_bytes (flat_view l w) a (unat sz div 8)), w)"
  using assms(1,3)
proof (cases rule: board_serves)
  case 1
  from serves_read [OF 1(1) assms(2)] show ?thesis .
next
  case 2
  moreover from access_bytes(5) [OF assms(2)]
  have "flat_bytes (flat_view l w) a (unat sz div 8) = None"
    by (intro flat_bytes_unmapped) (use 2(2) in auto)
  ultimately show ?thesis by (simp add: bus_read_def)
qed

lemma board_bus_store:
  assumes "board_rams l w" "access_size sz" "\<not> device_at a"
  shows "\<exists>b w'. bus_write (board_bus l) a v sz w = Some (b, w') \<and> board_at l w w'
    \<and> flat_store a v sz (flat_view l w) = Some (b, flat_view l w')"
  using assms(1,3)
proof (cases rule: board_serves)
  case (1 r m raw)
  from serves_write [OF 1 assms(2,1), of v] assms(3) show ?thesis
    by (auto simp: flat_store_def split: if_splits)
next
  case 2
  moreover from access_bytes(5) [OF assms(2)]
  have "flat_bytes (flat_view l w) a (unat sz div 8) = None"
    by (intro flat_bytes_unmapped) (use 2(2) in auto)
  ultimately show ?thesis
    using assms(1,3) by (auto simp: bus_write_def flat_store_def board_at_def)
qed

interpretation board_memory: memory_refinement "board_at l w0" "flat_view l" flat_load flat_store
  "bus_read (board_bus l)" "bus_write (board_bus l)" for l w0
proof unfold_locales
  fix w a sz r m'
  assume ok: "board_at l w0 w" and sz: "access_size sz" and ld: "flat_load a sz (flat_view l w) = Some (r, m')"
  from ok board_bus_load [OF _ sz, of l w a] ld show "\<exists>c'. bus_read (board_bus l) a sz w = Some (r, c')
      \<and> board_at l w0 c' \<and> flat_view l c' = m'"
    by (auto simp: board_at_def flat_load_def split: if_splits)
next
  fix w a v sz b m'
  assume ok: "board_at l w0 w" and sz: "access_size sz" and st: "flat_store a v sz (flat_view l w) = Some (b, m')"
  then have "\<not> device_at a" "board_rams l w" by (auto simp: flat_store_def board_at_def split: if_splits)
  from board_bus_store [OF this(2) sz this(1), of v] obtain w' where w': "bus_write (board_bus l) a v sz w = Some (b, w')"
    "board_at l w w'" "flat_view l w' = m'" using st by auto
  moreover have "w'\<lparr>heap := heap w0\<rparr> = w0"
  proof -
    have "w'\<lparr>heap := heap w0\<rparr> = (w'\<lparr>heap := heap w\<rparr>)\<lparr>heap := heap w0\<rparr>" by simp
    also have "\<dots> = w0" using w'(2) ok by (simp only: board_at_def)
    finally show ?thesis .
  qed
  ultimately show "\<exists>c'. bus_write (board_bus l) a v sz w = Some (b, c') \<and> board_at l w0 c' \<and> flat_view l c' = m'"
    using ok by (auto simp: board_at_def)
qed

text \<open>
  C6 (refinement): the board as a computer with a flat memory. Whatever the machine does in one step
  on the map of bytes, fetching and accessing RAM or addresses where nothing is, the hart does on
  the board's bus of two RAMs, UART and TOHOST: the same trap or none, the same registers, program
  counter and CSRs, and the same bytes of RAM afterwards. Nothing else in the world changes, no
  output and no halt. The machine has no step on the map when an access starts in a device.
\<close>

theorem board_is_flat_memory:
  assumes "isa_step flat_load flat_store (isa_view h, flat_view l w) t (s', m')"
    and "hart_ok h" "board_rams l w"
  shows "\<exists>h' w'. retires_to (hart_step (board_bus l) h w) t h' w' \<and> isa_view h' = s'
    \<and> flat_view l w' = m' \<and> board_rams l w' \<and> w'\<lparr>heap := heap w\<rparr> = w"
proof -
  have "board_at l w w" using assms(3) by (simp add: board_at_def)
  from board_memory.step [OF assms(1) this] obtain w' where
    "isa_step (bus_read (board_bus l)) (bus_write (board_bus l)) (isa_view h, w) t (s', w')"
    "board_at l w w'" "flat_view l w' = m'" by (auto simp: board_memory.follows_def)
  with machine_step [OF this(1) assms(2)] show ?thesis
    by (auto simp: hart_sees_def board_at_def)
qed

text \<open>Reading the map where the hart fetches.\<close>

lemma flat_fetch:
  assumes "fetches (board_bus l) h w i w1" "board_rams l w" "\<not> device_at (pc h)"
    and "rv32_encode oper d s1 s2 im = Some i"
  shows "isa_fetch flat_load (isa_view h) (flat_view l w) oper d s1 s2 im i (flat_view l w)"
  using assms board_bus_load [OF assms(2), of 32 "pc h"]
  by (auto simp: isa_fetch_def fetches_def flat_load_def access_size_def aligned_dvd)

lemma low_program_rams [simp]: "board_rams 0 (low_program bytes)"
  by (simp add: board_rams_def ram_at_def mem_ok_def low_program_def board_world_def low_ram_def fresh_memory_def)

lemma board_is_flat_memory_witness:
  "\<exists>h' w'. retires_to (hart_step (board_bus 0) ((hart_init 0)\<lparr>gpr := (replicate 32 0)[1 := 0x100, 2 := 0xAB]\<rparr>)
       (low_program (le_bytes 4 (asm_s 1 2 1 0 0x23)))) TRAP_NONE h' w'
     \<and> flat_view 0 w' 0x101 = Some 0xAB"
proof -
  let ?i = "asm_s 1 2 1 0 0x23" and ?h = "(hart_init 0)\<lparr>gpr := (replicate 32 0)[1 := 0x100, 2 := 0xAB]\<rparr>"
  let ?w = "low_program (le_bytes 4 ?i)"
  have enc: "rv32_encode INSTRUCTION_OP_SB 0 1 2 1 = Some ?i" by simp
  have "le_word (take 4 (drop (unat (pc ?h)) (le_bytes 4 ?i))) = ?i"
    by (simp add: hart_init_def le_word_le_bytes take_bit_word_eq_self)
  with low_program_fetch [of ?h "le_bytes 4 ?i"]
  have "fetches (board_bus 0) ?h ?w ?i ?w" by (simp add: hart_init_def)
  from flat_fetch [OF this low_program_rams _ enc]
  have f: "isa_fetch flat_load (isa_view ?h) (flat_view 0 ?w) INSTRUCTION_OP_SB 0 1 2 1 ?i (flat_view 0 ?w)"
    by (simp add: device_at_def hart_init_def)
  have a: "xreg ?h 1 + sx 12 1 = 0x101" "take_bit 8 (xreg ?h 2) = 0xAB" "le_bytes 1 (0xAB :: u32) = [0xAB]"
    by code_simp+
  have "flat_bytes (flat_view 0 ?w) 0x101 1 \<noteq> None"
    by (simp add: flat_bytes_def flat_view_def)
  with isa_step.Store [OF f, of 8 flat_store] a
  have st: "isa_step flat_load flat_store (isa_view ?h, flat_view 0 ?w) TRAP_NONE
      (goto (isa_view ?h) 4, flat_update (flat_view 0 ?w) 0x101 [0xAB])"
    by (simp add: flat_store_def device_at_def hart_init_def)
  have "hart_ok ?h" by (simp add: hart_ok_def)
  from board_is_flat_memory [OF st this low_program_rams] obtain h' w' where
    r: "retires_to (hart_step (board_bus 0) ?h ?w) TRAP_NONE h' w'"
      "flat_view 0 w' = flat_update (flat_view 0 ?w) 0x101 [0xAB]" by blast
  have "flat_view 0 w' 0x101 = Some 0xAB" by (simp add: r(2) flat_update_def)
  with r(1) show ?thesis by blast
qed

end
