(* ===== verification/Rve_Process.thy ===== *)
theory Rve_Process
  imports Rve_Flat "HOL-Library.Sublist"
begin

unbundle bit_operations_syntax

text \<open>
  The emulator as its programs see it: a process is the machine's state, the bytes of the memory, the
  registers of the serial port, what has been printed, and the code it has ended with. It runs
  instructions, prints through the port or the write call, and ends through a call or TOHOST. Every
  process ends or runs on for ever, and the run of the emulator (src/emulator.c) on the board does the
  same, to the same exit code.
\<close>

section \<open>The memory of a process\<close>

text \<open>
  The serial port: a register per name, selected by the offset of the address and the divisor latch bit
  of LCR. The receiver never has a byte on this board, and the transmitter is always ready.
\<close>

datatype port_register = Port_IER | Port_LCR | Port_MCR | Port_SCR | Port_DLL | Port_DLM

fun port_select :: "bool \<Rightarrow> u32 \<Rightarrow> port_register option" where
  "port_select latch a =
    (if latch \<and> a = 0x10000000 then Some Port_DLL
     else if a = 0x10000001 then Some (if latch then Port_DLM else Port_IER)
     else if a = 0x10000003 then Some Port_LCR
     else if a = 0x10000004 then Some Port_MCR
     else if a = 0x10000007 then Some Port_SCR
     else None)"

type_synonym port = "port_register \<Rightarrow> u8"

definition port_at :: "port \<Rightarrow> u32 \<Rightarrow> port_register option" where
  "port_at p = port_select (bit (p Port_LCR) 7)"

definition port_load :: "port \<Rightarrow> u32 \<Rightarrow> u8" where
  "port_load p a =
    (case port_at p a of
       Some r \<Rightarrow> p r
     | None \<Rightarrow> if a = 0x10000002 then 1 else if a = 0x10000005 then 0x60 else 0)"

record proc_mem =
  ram_bytes :: flat
  port :: port
  printed :: "host_file \<Rightarrow> u8 list"
  ended :: "int option"

text \<open>
  Flat memory with the devices: the registers of the serial port, whose transmitter prints, and TOHOST,
  which ends the process and reads as a fault. Every access is described.
\<close>

definition tohost_line :: "u32 \<Rightarrow> string" where
  "tohost_line v =
    (if v = 1 then newline # ''[TOHOST] Test Passed'' @ [newline]
     else newline # ''[TOHOST] Test Failed at case '' @ dec_string (unat v div 2) @ [newline])"

definition port_window :: "u32 \<Rightarrow> bool" where
  "port_window a \<longleftrightarrow> 0x10000000 \<le> a \<and> a < 0x10000008"

definition tohost_window :: "u32 \<Rightarrow> bool" where
  "tohost_window a \<longleftrightarrow> 0x80001000 \<le> a \<and> a < 0x80001008"

definition say :: "host_file \<Rightarrow> u8 list \<Rightarrow> proc_mem \<Rightarrow> proc_mem" where
  "say f bs m = m\<lparr>printed := (printed m)(f := printed m f @ bs)\<rparr>"

definition io_load :: "proc_mem load_fn" where
  "io_load a sz m =
    (if port_window a then Some (Some (ucast (port_load (port m) a)), m)
     else if tohost_window a then Some (None, m)
     else case flat_load a sz (ram_bytes m) of
            None \<Rightarrow> None
          | Some (r, _) \<Rightarrow> Some (r, m))"

definition port_store :: "u32 \<Rightarrow> u8 \<Rightarrow> proc_mem \<Rightarrow> proc_mem" where
  "port_store a v m =
    (case port_at (port m) a of
       Some r \<Rightarrow> m\<lparr>port := (port m)(r := v)\<rparr>
     | None \<Rightarrow> if a = 0x10000000 then say Stdout [v] m else m)"

definition io_store :: "proc_mem store_fn" where
  "io_store a v sz m =
    (if port_window a then Some (True, port_store a (ucast v) m)
     else if tohost_window a then
       Some (True, (say Stdout (map of_char (tohost_line v)) m)\<lparr>ended := Some (if v = 1 then 0 else uint v div 2)\<rparr>)
     else case flat_store a v sz (ram_bytes m) of
            None \<Rightarrow> None
          | Some (b, r) \<Rightarrow> Some (b, m\<lparr>ram_bytes := r\<rparr>))"

lemma device_windows: "device_at a \<longleftrightarrow> port_window a \<or> tohost_window a"
  by (simp add: device_at_def port_window_def tohost_window_def)

lemma io_total: "io_load a sz m \<noteq> None" "io_store a v sz m \<noteq> None"
  by (auto simp: io_load_def io_store_def flat_load_def flat_store_def device_windows)

section \<open>The board's memory and devices are the memory of a process\<close>

definition port_view :: "nat \<Rightarrow> world_t \<Rightarrow> port" where
  "port_view l w r =
    (case heap w (l + 5) of
       Some (Uart_Obj u) \<Rightarrow>
         (case r of Port_IER \<Rightarrow> ier u | Port_LCR \<Rightarrow> lcr u | Port_MCR \<Rightarrow> mcr u | Port_SCR \<Rightarrow> scr u
          | Port_DLL \<Rightarrow> dll u | Port_DLM \<Rightarrow> dlh u)
     | _ \<Rightarrow> 0)"

definition mem_view :: "nat \<Rightarrow> world_t \<Rightarrow> proc_mem" where
  "mem_view l w = \<lparr>ram_bytes = flat_view l w, port = port_view l w, printed = out_stream w,
     ended = (if halted w then Some (exit_code w) else None)\<rparr>"

lemma mem_view_simps [simp]:
  "ram_bytes (mem_view l w) = flat_view l w" "port (mem_view l w) = port_view l w"
  by (simp_all add: mem_view_def)

lemma port_view_cong: "heap w' (l + 5) = heap w (l + 5) \<Longrightarrow> port_view l w' = port_view l w"
  by (simp add: port_view_def fun_eq_iff)

text \<open>The devices of the board are in place; the serial port sends to stdout and receives from nowhere.\<close>

definition live :: "nat \<Rightarrow> world_t \<Rightarrow> bool" where
  "live l w \<longleftrightarrow> board_rams l w
     \<and> (\<exists>t. heap w l = Some (Tohost_Obj t) \<and> tohost_ok t)
     \<and> (\<exists>u. heap w (l + 5) = Some (Uart_Obj u) \<and> rx_file u = None \<and> \<not> rx_ready u \<and> tx_file u = Some Stdout)"

lemma live_heap: "heap w' = heap w \<Longrightarrow> live l w' \<longleftrightarrow> live l w"
  by (simp add: live_def board_rams_def ram_at_def)

lemma live_ram: "board_at l w w' \<Longrightarrow> live l w \<Longrightarrow> live l w'"
  by (simp add: live_def board_at_def)

lemma board_device_slots:
  "ops (peripherals (board_bus l) ! 0) = Some peripheral_tohost_ops"
  "ops (peripherals (board_bus l) ! 3) = Some uart_ns16550a_ops"
  "ctx (peripherals (board_bus l) ! 0) = Some l" "ctx (peripherals (board_bus l) ! 3) = Some (l + 5)"
  by (simp_all add: board_bus_def board_slot_def numeral_3_eq_3)

lemma port_cases:
  assumes "port_window a"
  obtains "a = 0x10000000" | "a = 0x10000001" | "a = 0x10000002" | "a = 0x10000003" | "a = 0x10000004"
    | "a = 0x10000005" | "a = 0x10000006" | "a = 0x10000007"
proof -
  define k where "k = unat a - 0x10000000"
  from assms have "k < 8" "unat a = 0x10000000 + k"
    by (auto simp: port_window_def k_def word_le_nat_alt word_less_nat_alt)
  then have "a = 0x10000000 + of_nat k" "k \<in> {0, 1, 2, 3, 4, 5, 6, 7}"
    by (auto simp: word_unat_eq_iff unat_word_ariths unat_of_nat)
  then show thesis using that by auto
qed

text \<open>Printing and ending change what they should of the view, and leave the board live.\<close>

lemma out_fputc: "fputc c f w = w\<lparr>out_stream := (out_stream w)(f := out_stream w f @ [c])\<rparr>"
  by (simp add: fputc_def)

lemma live_out: "live l (w\<lparr>out_stream := x\<rparr>) \<longleftrightarrow> live l w"
  by (rule live_heap) simp

lemma view_out: "mem_view l (w\<lparr>out_stream := (out_stream w)(f := out_stream w f @ bs)\<rparr>) = say f bs (mem_view l w)"
  using flat_view_cong [of "w\<lparr>out_stream := (out_stream w)(f := out_stream w f @ bs)\<rparr>" w]
    port_view_cong [of "w\<lparr>out_stream := (out_stream w)(f := out_stream w f @ bs)\<rparr>" l w]
  by (simp add: mem_view_def say_def)

lemma live_end: "live l (w\<lparr>exit_code := c, halted := True\<rparr>) \<longleftrightarrow> live l w"
  by (rule live_heap) simp

lemma view_end: "mem_view l (w\<lparr>exit_code := c, halted := True\<rparr>) = (mem_view l w)\<lparr>ended := Some c\<rparr>"
  using flat_view_cong [of "w\<lparr>exit_code := c, halted := True\<rparr>" w]
    port_view_cong [of "w\<lparr>exit_code := c, halted := True\<rparr>" l w] by (simp add: mem_view_def)

lemma out_printf: "printf_stdout x w =
    w\<lparr>out_stream := (out_stream w)(Stdout := out_stream w Stdout @ map of_char x)\<rparr>"
  by (simp add: printf_stdout_def)

lemma dlab_bit: "dlab u \<longleftrightarrow> bit (lcr u) 7"
  using and_exp_eq_0_iff_not_bit [of "lcr u" 7] by (simp add: dlab_def)

lemma port_reads:
  assumes "port_window a" "heap w (l + 5) = Some (Uart_Obj u)" "\<not> rx_ready u"
  shows "uart_read_reg u (ucast (a AND 7)) w = (port_load (port_view l w) a, u, w)"
  using assms(1)
  by (cases rule: port_cases)
    (simp_all add: uart_read_reg_def port_load_def port_at_def port_view_def assms(2,3) dlab_bit)

text \<open>The serial port after a write to it, as an update of the world.\<close>

definition put_port :: "nat \<Rightarrow> uart_ns16550a_t \<Rightarrow> world_t \<Rightarrow> world_t" where
  "put_port l u w = w\<lparr>heap := (heap w)(l + 5 \<mapsto> Uart_Obj u)\<rparr>"

lemma put_port_same: "heap w (l + 5) = Some (Uart_Obj u) \<Longrightarrow> put_port l u w = w"
  by (simp add: put_port_def fun_upd_idem)

lemma put_port_live:
  assumes "live l w" "rx_file u = None" "\<not> rx_ready u" "tx_file u = Some Stdout"
  shows "live l (put_port l u w)"
  using assms by (simp add: live_def put_port_def board_rams_def ram_at_def)

lemma put_port_view:
  "mem_view l (put_port l u w) = (mem_view l w)\<lparr>port := port_view l (put_port l u w)\<rparr>"
  by (simp add: mem_view_def put_port_def flat_view_def ram_byte_def fun_eq_iff)

lemma put_port_registers:
  assumes "heap w (l + 5) = Some (Uart_Obj u)"
  shows "port_view l (put_port l (u\<lparr>ier := v\<rparr>) w) = (port_view l w)(Port_IER := v)"
    "port_view l (put_port l (u\<lparr>lcr := v\<rparr>) w) = (port_view l w)(Port_LCR := v)"
    "port_view l (put_port l (u\<lparr>mcr := v\<rparr>) w) = (port_view l w)(Port_MCR := v)"
    "port_view l (put_port l (u\<lparr>scr := v\<rparr>) w) = (port_view l w)(Port_SCR := v)"
    "port_view l (put_port l (u\<lparr>dll := v\<rparr>) w) = (port_view l w)(Port_DLL := v)"
    "port_view l (put_port l (u\<lparr>dlh := v\<rparr>) w) = (port_view l w)(Port_DLM := v)"
  by (auto simp: port_view_def put_port_def assms fun_eq_iff split: port_register.splits)

lemma port_view_out:
  "port_view l (w\<lparr>out_stream := x\<rparr>) = port_view l w"
  "(say f bs (mem_view l w))\<lparr>port := port_view l w\<rparr> = say f bs (mem_view l w)"
  by (rule port_view_cong, simp) (simp add: say_def mem_view_def)

lemma port_writes:
  assumes "port_window a" "heap w (l + 5) = Some (Uart_Obj u)" "live l w"
  obtains u' w' where "uart_write_reg u (ucast (a AND 7)) v w = (u', w')" "live l (put_port l u' w')"
    "mem_view l (put_port l u' w') = port_store a v (mem_view l w)"
proof -
  have u: "rx_file u = None" "\<not> rx_ready u" "tx_file u = Some Stdout" using assms(2,3) by (auto simp: live_def)
  note latch = dlab_bit [of u]
  have lcr: "port_view l w Port_LCR = lcr u" by (simp add: port_view_def assms(2))
  let ?out = "w\<lparr>out_stream := (out_stream w)(Stdout := out_stream w Stdout @ [v])\<rparr>"
  have out: "put_port l u ?out = ?out" by (rule put_port_same) (simp add: assms(2))
  note facts = uart_write_reg_def port_store_def port_at_def latch lcr u put_port_live [OF assms(3)]
    put_port_same [OF assms(2)] put_port_view put_port_registers [OF assms(2)] out_fputc out live_out view_out port_view_out assms(3)
  have "case uart_write_reg u (ucast (a AND 7)) v w of (u', w') \<Rightarrow>
      live l (put_port l u' w') \<and> mem_view l (put_port l u' w') = port_store a v (mem_view l w)"
    using assms(1) by (cases rule: port_cases; cases "dlab u") (simp_all add: facts)
  with that show thesis by (auto split: prod.splits)
qed

lemma uart_access:
  assumes "live l w" "port_window a"
  shows "bus_read (board_bus l) a sz w = Some (Some (ucast (port_load (port_view l w) a)), w)"
    and "\<exists>w'. bus_write (board_bus l) a v sz w = Some (True, w') \<and> live l w' \<and>
      mem_view l w' = port_store a (ucast v) (mem_view l w)"
proof -
  from assms(1) obtain u where u: "heap w (l + 5) = Some (Uart_Obj u)" "\<not> rx_ready u" by (auto simp: live_def)
  have slot: "bus_get_peripheral (board_bus l) a = Some 3"
    using assms(2) by (cases rule: port_cases) (simp_all add: board_dispatch)
  have byte: "(ucast (v AND 0xFF) :: u8) = ucast v"
    by (rule bit_word_eqI) (auto simp: bit_simps mask_and_eq_take_bit)
  show "bus_read (board_bus l) a sz w = Some (Some (ucast (port_load (port_view l w) a)), w)"
    using slot u by (simp add: bus_read_def board_device_slots uart_ns16550a_ops_def uart_read_def get_uart_def
        put_uart_def port_reads [OF assms(2) u] fun_upd_idem)
  from port_writes [OF assms(2) u(1) assms(1)] obtain u' w' where
    w': "uart_write_reg u (ucast (a AND 7)) (ucast v) w = (u', w')" "live l (put_port l u' w')"
    "mem_view l (put_port l u' w') = port_store a (ucast v) (mem_view l w)" by blast
  then show "\<exists>w'. bus_write (board_bus l) a v sz w = Some (True, w') \<and> live l w' \<and>
      mem_view l w' = port_store a (ucast v) (mem_view l w)"
    using slot u by (simp add: bus_write_def board_device_slots uart_ns16550a_ops_def uart_write_def get_uart_def
        put_uart_def put_port_def byte)
qed

lemma tohost_access:
  assumes "live l w" "tohost_window a"
  shows "bus_read (board_bus l) a sz w = Some (None, w)"
    and "bus_write (board_bus l) a v sz w =
      Some (True, (printf_stdout (tohost_line v) w)
        \<lparr>exit_code := (if v = 1 then 0 else uint v div 2), halted := True\<rparr>)"
proof -
  from assms(1) obtain t where t: "heap w l = Some (Tohost_Obj t)" "tohost_ok t" by (auto simp: live_def)
  have slot: "bus_get_peripheral (board_bus l) a = Some 0"
    using assms(2) by (simp add: board_dispatch tohost_window_def)
  show "bus_read (board_bus l) a sz w = Some (None, w)"
    using slot by (simp add: bus_read_def board_device_slots peripheral_tohost_ops_def)
  show "bus_write (board_bus l) a v sz w =
      Some (True, (printf_stdout (tohost_line v) w)
        \<lparr>exit_code := (if v = 1 then 0 else uint v div 2), halted := True\<rparr>)"
    using slot t
    by (auto simp: bus_write_def board_device_slots peripheral_tohost_ops_def tohost_write_def get_tohost_def
        tohost_ok_def set_exit_code_def set_halted_def tohost_line_def o_def drop_bit_eq_div uint_div_distrib
        unat_div_distrib)
qed

lemma live_load:
  assumes "live l w" "access_size sz" "io_load a sz (mem_view l w) = Some (r, m')"
  shows "bus_read (board_bus l) a sz w = Some (r, w) \<and> mem_view l w = m'"
proof -
  from assms(1) have rams: "board_rams l w" by (simp add: live_def)
  from assms(3) consider "port_window a" "r = Some (ucast (port_load (port_view l w) a))" "m' = mem_view l w"
    | "tohost_window a" "r = None" "m' = mem_view l w"
    | "\<not> device_at a" "r = map_option le_word (flat_bytes (flat_view l w) a (unat sz div 8))" "m' = mem_view l w"
    by (auto simp: io_load_def flat_load_def split: if_splits option.splits)
  then show ?thesis
    using uart_access(1) [OF assms(1)] tohost_access(1) [OF assms(1)] board_bus_load [OF rams assms(2)]
    by cases simp_all
qed

lemma live_store:
  assumes "live l w" "access_size sz" and st: "io_store a v sz (mem_view l w) = Some (b, m')"
  shows "\<exists>w'. bus_write (board_bus l) a v sz w = Some (b, w') \<and> live l w' \<and> mem_view l w' = m'"
proof -
  from assms(1) have rams: "board_rams l w" by (simp add: live_def)
  consider (uart) "port_window a" | (tohost) "\<not> port_window a" "tohost_window a"
    | (flat) "\<not> port_window a" "\<not> tohost_window a" by blast
  then show ?thesis
  proof cases
    case uart
    then show ?thesis
      using st uart_access(2) [OF assms(1) uart, of v sz] by (auto simp: io_store_def)
  next
    case tohost
    then show ?thesis
      using st tohost_access(2) [OF assms(1)] assms(1)
      by (simp add: io_store_def out_printf live_out view_out live_end view_end)
  next
    case flat
    with st obtain r where r: "flat_store a v sz (flat_view l w) = Some (b, r)" "m' = (mem_view l w)\<lparr>ram_bytes := r\<rparr>"
      by (cases "flat_store a v sz (flat_view l w)") (auto simp: io_store_def)
    then have "\<not> device_at a" by (auto simp: flat_store_def)
    from board_bus_store [OF rams assms(2) this, of v] r(1) obtain w' where
      w': "bus_write (board_bus l) a v sz w = Some (b, w')" "board_at l w w'" "flat_view l w' = r" by auto
    from w'(2) have same: "w'\<lparr>heap := heap w\<rparr> = w" "heap w' (l + 5) = heap w (l + 5)"
      by (simp_all add: board_at_def)
    from heap_only [OF same(1)] port_view_cong [OF same(2)] w' r(2) live_ram [OF w'(2) assms(1)] show ?thesis
      by (simp add: mem_view_def)
  qed
qed

interpretation board_io: memory_refinement "live l" "mem_view l" io_load io_store
  "bus_read (board_bus l)" "bus_write (board_bus l)" for l
  by unfold_locales (use live_load live_store in blast)+

section \<open>Processes\<close>

record proc =
  cpu :: isa_t
  mem :: proc_mem

text \<open>What \<open>write\<close> sends: the bytes from \<open>a\<close> on, \<open>n\<close> of them or up to the first load that faults.\<close>

fun io_out :: "nat \<Rightarrow> u32 \<Rightarrow> proc_mem \<Rightarrow> u8 list" where
  "io_out 0 a m = []"
| "io_out (Suc n) a m =
    (case io_load a 8 m of
       Some (Some v, _) \<Rightarrow> ucast v # io_out n (a + 1) m
     | _ \<Rightarrow> [])"

text \<open>
  One instruction after which the process goes on; a0, a1, a2 and a7 are the registers 10, 11, 12 and
  17.
\<close>

inductive proc_step :: "proc \<Rightarrow> proc \<Rightarrow> bool" where
  Run:
    "isa_step io_load io_store (cpu p, mem p) t (s', m') \<Longrightarrow> t \<noteq> TRAP_ECALL_M \<Longrightarrow> ended m' = None \<Longrightarrow>
     proc_step p \<lparr>cpu = s', mem = m'\<rparr>"
| Write:
    "isa_step io_load io_store (cpu p, mem p) TRAP_ECALL_M (s', m') \<Longrightarrow> xr s' 17 = 64 \<Longrightarrow>
     xr s' 10 = 1 \<and> f = Stdout \<or> xr s' 10 = 2 \<and> f = Stderr \<Longrightarrow>
     bs = io_out (unat (xr s' 12)) (xr s' 11) m' \<Longrightarrow>
     proc_step p \<lparr>cpu = put s' 10 (of_nat (length bs)), mem = say f bs m'\<rparr>"
| Write_elsewhere:
    "isa_step io_load io_store (cpu p, mem p) TRAP_ECALL_M (s', m') \<Longrightarrow> xr s' 17 = 64 \<Longrightarrow>
     xr s' 10 \<notin> {1, 2} \<Longrightarrow> proc_step p \<lparr>cpu = put s' 10 (-1), mem = m'\<rparr>"

text \<open>The process ends, after \<open>n\<close> instructions, with the code \<open>c\<close>: through TOHOST or a system call.\<close>

inductive proc_exits :: "nat \<Rightarrow> proc \<Rightarrow> int \<Rightarrow> proc \<Rightarrow> bool" where
  Tohost:
    "isa_step io_load io_store (cpu p, mem p) t (s', m') \<Longrightarrow> t \<noteq> TRAP_ECALL_M \<Longrightarrow> ended m' = Some c \<Longrightarrow>
     proc_exits 1 p c \<lparr>cpu = s', mem = m'\<rparr>"
| Exit:
    "isa_step io_load io_store (cpu p, mem p) TRAP_ECALL_M (s', m') \<Longrightarrow> xr s' 17 \<noteq> 64 \<Longrightarrow>
     c = sint (xr s' 10) \<Longrightarrow> proc_exits 1 p c \<lparr>cpu = s', mem = m'\<lparr>ended := Some c\<rparr>\<rparr>"
| Continue: "proc_step p p' \<Longrightarrow> proc_exits n p' c q \<Longrightarrow> proc_exits (Suc n) p c q"

inductive_cases ecallE: "isa_step ld st (s, m) TRAP_ECALL_M (s', m')"

lemma ecall_keeps_memory: "isa_step io_load io_store (s, m) TRAP_ECALL_M (s', m') \<Longrightarrow> m' = m"
  by (erule ecallE) (auto simp: isa_fetch_def io_load_def split: if_splits option.splits)

text \<open>No step of a process leaves it ended and goes on.\<close>

lemma proc_step_running: "proc_step p p' \<Longrightarrow> ended (mem p) = None \<Longrightarrow> ended (mem p') = None"
  by (induction rule: proc_step.induct) (auto simp: say_def dest: ecall_keeps_memory)

section \<open>The emulator runs the process\<close>

definition proc_view :: "nat \<Rightarrow> emulator_t \<Rightarrow> world_t \<Rightarrow> proc" where
  "proc_view l e w = \<lparr>cpu = isa_view (soc_hart (soc e)), mem = mem_view l w\<rparr>"

text \<open>An emulator on the board with the built-in handler and no tracing; it need not be running.\<close>

definition on_board :: "nat \<Rightarrow> emulator_t \<Rightarrow> world_t \<Rightarrow> bool" where
  "on_board l e w \<longleftrightarrow> soc_bus (soc e) = board_bus l \<and> hart_ok (soc_hart (soc e)) \<and> live l w
     \<and> trace_fn e = None \<and> syscall_handler e = Some default_syscall_handler"

definition with_hart :: "emulator_t \<Rightarrow> hart_t \<Rightarrow> emulator_t" where
  "with_hart e h = e\<lparr>soc := (soc e)\<lparr>soc_hart := h\<rparr>, cycle_count := cycle_count e + 1\<rparr>"

lemma with_hart_simps [simp]:
  "soc_hart (soc (with_hart e h)) = h" "soc_bus (soc (with_hart e h)) = soc_bus (soc e)"
  "cycle_count (with_hart e h) = cycle_count e + 1" "trace_fn (with_hart e h) = trace_fn e"
  "syscall_handler (with_hart e h) = syscall_handler e"
  by (simp_all add: with_hart_def)

lemma hart_step_keeps_ok: "retires_to (hart_step b h w) t h' w' \<Longrightarrow> hart_ok h \<Longrightarrow> hart_ok h'"
  unfolding retires_to_def using hart_step_frame hart_commit_describes by metis

text \<open>One instruction of the process in the emulator.\<close>

lemma emulated_instruction:
  assumes "isa_step io_load io_store (cpu (proc_view l e w), mem (proc_view l e w)) t (s', m')" "on_board l e w"
  obtains h' w' where "retires_to (hart_step (board_bus l) (soc_hart (soc e)) w) t h' w'"
    "isa_view h' = s'" "mem_view l w' = m'" "on_board l (with_hart e h') w'"
proof -
  have st: "isa_step io_load io_store (isa_view (soc_hart (soc e)), mem_view l w) t (s', m')"
    using assms(1) by (simp add: proc_view_def)
  have ok: "hart_ok (soc_hart (soc e))" "live l w" using assms(2) by (simp_all add: on_board_def)
  from board_io.step [OF st ok(2)] obtain w' where w': "isa_step (bus_read (board_bus l))
      (bus_write (board_bus l)) (isa_view (soc_hart (soc e)), w) t (s', w')" "live l w'" "mem_view l w' = m'"
    by (auto simp: board_io.follows_def)
  from machine_step [OF w'(1) ok(1)] obtain h' where h': "retires_to (hart_step (board_bus l)
      (soc_hart (soc e)) w) t h' w'" "isa_view h' = s'" by (auto simp: hart_sees_def)
  then show thesis
    using that [OF h' w'(3)] hart_step_keeps_ok [OF h'(1) ok(1)] w'(2) assms(2)
    by (simp add: on_board_def)
qed

definition emulates :: "nat \<Rightarrow> emulator_t \<Rightarrow> world_t \<Rightarrow> proc \<Rightarrow> bool" where
  "emulates l e w p \<longleftrightarrow> (\<exists>r e' w'. emulator_step e w = Some ((r, e'), w') \<and> on_board l e' w'
     \<and> cycle_count e' = cycle_count e + 1 \<and> proc_view l e' w' = p)"

lemma emulatesI:
  assumes "emulator_step e w = Some ((r, with_hart e h), w')" "on_board l (with_hart e h) w'"
    and "p = \<lparr>cpu = isa_view h, mem = mem_view l w'\<rparr>"
  shows "emulates l e w p"
  using assms by (auto simp: emulates_def proc_view_def)

lemma emulated_run:
  assumes "isa_step io_load io_store (cpu (proc_view l e w), mem (proc_view l e w)) t (s', m')"
    and "on_board l e w" "\<not> halted w" "t \<noteq> TRAP_ECALL_M"
  shows "emulates l e w \<lparr>cpu = s', mem = m'\<rparr>"
proof -
  from emulated_instruction [OF assms(1,2)] obtain h' w' where st:
    "retires_to (hart_step (board_bus l) (soc_hart (soc e)) w) t h' w'" "isa_view h' = s'"
    "mem_view l w' = m'" "on_board l (with_hart e h') w'" by blast
  then obtain r where "emulator_step e w = Some ((r, with_hart e h'), w')"
    using assms(2-4) by (auto simp: retires_to_def emulator_step_def soc_step_def on_board_def with_hart_def Let_def)
  with st show ?thesis by (intro emulatesI) auto
qed

text \<open>A system call: what the handler makes of the hart after the call decides.\<close>

definition calls_back :: "emulator_t \<Rightarrow> world_t \<Rightarrow> hart_t \<Rightarrow> world_t \<Rightarrow> bool" where
  "calls_back e w h' w' \<longleftrightarrow> (\<forall>handled h2 w2.
     (\<forall>r ud. default_syscall_handler ((soc e)\<lparr>soc_hart := h'\<rparr>) r ud w' =
        Some ((handled, (soc e)\<lparr>soc_hart := h2\<rparr>), w2)) \<and> length (gpr h2) = 32 \<longrightarrow>
     (\<exists>r. emulator_step e w = Some ((r, with_hart e h2),
        if handled then w2 else w2\<lparr>halted := True, exit_code := sint (xreg h2 10)\<rparr>)))"

lemma emulated_call:
  assumes "isa_step io_load io_store (cpu (proc_view l e w), mem (proc_view l e w)) TRAP_ECALL_M (s', m')"
    and "on_board l e w" "\<not> halted w"
  obtains h' w' where "isa_view h' = s'" "mem_view l w' = m'" "on_board l (with_hart e h') w'"
    "calls_back e w h' w'"
proof -
  from emulated_instruction [OF assms(1,2)] obtain h' w' where st:
    "retires_to (hart_step (board_bus l) (soc_hart (soc e)) w) TRAP_ECALL_M h' w'" "isa_view h' = s'"
    "mem_view l w' = m'" "on_board l (with_hart e h') w'" by blast
  have "calls_back e w h' w'"
    unfolding calls_back_def
  proof (intro allI impI, elim conjE)
    fix handled h2 w2
    assume "\<forall>r ud. default_syscall_handler ((soc e)\<lparr>soc_hart := h'\<rparr>) r ud w' =
        Some ((handled, (soc e)\<lparr>soc_hart := h2\<rparr>), w2)" "length (gpr h2) = 32"
    then show "\<exists>r. emulator_step e w = Some ((r, with_hart e h2),
        if handled then w2 else w2\<lparr>halted := True, exit_code := sint (xreg h2 10)\<rparr>)"
      using st(1) assms(2,3)
      by (cases handled) (auto simp: retires_to_def emulator_step_def soc_step_def on_board_def with_hart_def
          reg_read_def xreg_def Let_def)
  qed
  with st(2-4) show thesis by (rule that)
qed

lemma calls_backD:
  assumes "calls_back e w h' w'" "\<And>r ud. default_syscall_handler ((soc e)\<lparr>soc_hart := h'\<rparr>) r ud w' =
      Some ((handled, (soc e)\<lparr>soc_hart := h2\<rparr>), w2)" "hart_ok h2"
  obtains r where "emulator_step e w = Some ((r, with_hart e h2),
    if handled then w2 else w2\<lparr>halted := True, exit_code := sint (xreg h2 10)\<rparr>)"
  using assms unfolding calls_back_def hart_ok_def by blast

text \<open>The loop of \<open>write\<close> sends what the memory of the process holds.\<close>

lemma io_load_cases:
  obtains v where "io_load a sz m = Some (Some v, m)" | "io_load a sz m = Some (None, m)"
proof -
  obtain r m' where r: "io_load a sz m = Some (r, m')" using io_total(1) [of a sz m] by fastforce
  then have "m' = m" by (auto simp: io_load_def split: if_splits option.splits)
  with r that show thesis by (cases r) auto
qed

lemma io_out_cong: "ram_bytes m' = ram_bytes m \<Longrightarrow> port m' = port m \<Longrightarrow> io_out n a m' = io_out n a m"
proof (induction n arbitrary: a)
  case (Suc n)
  then have "map_option fst (io_load a 8 m') = map_option fst (io_load a 8 m)"
    by (auto simp: io_load_def split: option.splits)
  with Suc show ?case
    by (cases rule: io_load_cases [of a 8 m]; cases rule: io_load_cases [of a 8 m']) auto
qed simp

lemma io_out_say: "io_out n a (say f bs m) = io_out n a m"
  by (rule io_out_cong) (simp_all add: say_def)

lemma write_loop_out:
  assumes "live l w"
  shows "write_loop (board_bus l) f n a k w = Some (k + of_nat (length (io_out n a (mem_view l w))),
    w\<lparr>out_stream := (out_stream w)(f := out_stream w f @ io_out n a (mem_view l w))\<rparr>)"
  using assms
proof (induction n arbitrary: a k w)
  case (Suc n)
  have sz: "access_size 8" by (simp add: access_size_def)
  show ?case
  proof (cases rule: io_load_cases [of a 8 "mem_view l w"])
    case (1 v)
    from live_load [OF Suc.prems sz 1] have ld: "bus_read (board_bus l) a 8 w = Some (Some v, w)" by simp
    have byte: "(ucast (v AND 0xFF) :: u8) = ucast v"
      by (rule bit_word_eqI) (auto simp: bit_simps mask_and_eq_take_bit)
    have sent: "mem_view l (fputc (ucast v) f w) = say f [ucast v] (mem_view l w)" "live l (fputc (ucast v) f w)"
      using Suc.prems by (simp_all add: out_fputc view_out live_out)
    from Suc.IH [OF sent(2), of "a + 1" "k + 1"] show ?thesis
      by (simp add: ld byte 1 sent(1) io_out_say) (simp add: out_fputc cong: if_cong)
  next
    case 2
    from live_load [OF Suc.prems sz 2] show ?thesis using 2 by simp
  qed
qed simp

lemma put_a0: "hart_ok h \<Longrightarrow> isa_view (h\<lparr>gpr := (gpr h)[10 := v]\<rparr>) = put (isa_view h) 10 v"
  by (simp add: view_put set_xreg_def)

lemma call_registers:
  "xreg h 17 = gpr h ! 17" "xreg h 10 = gpr h ! 10" "xreg h 11 = gpr h ! 11" "xreg h 12 = gpr h ! 12"
  by (simp_all add: xreg_def)

lemma hart_ok_a0: "hart_ok h \<Longrightarrow> hart_ok (h\<lparr>gpr := (gpr h)[10 := v]\<rparr>)"
  by (simp add: hart_ok_def)

lemma emulated_write:
  assumes "isa_step io_load io_store (cpu (proc_view l e w), mem (proc_view l e w)) TRAP_ECALL_M (s', m')"
    and "on_board l e w" "\<not> halted w" "xr s' 17 = 64" "xr s' 10 = 1 \<and> f = Stdout \<or> xr s' 10 = 2 \<and> f = Stderr"
    and bs: "bs = io_out (unat (xr s' 12)) (xr s' 11) m'"
  shows "emulates l e w \<lparr>cpu = put s' 10 (of_nat (length bs)), mem = say f bs m'\<rparr>"
proof -
  from emulated_call [OF assms(1-3)] obtain h' w' where c: "isa_view h' = s'" "mem_view l w' = m'"
    "on_board l (with_hart e h') w'" "calls_back e w h' w'" by blast
  have ok: "hart_ok h'" "live l w'" "soc_bus (soc e) = board_bus l"
    using c(3) by (simp_all add: on_board_def)
  let ?h2 = "h'\<lparr>gpr := (gpr h')[10 := of_nat (length bs)]\<rparr>"
    and ?w2 = "w'\<lparr>out_stream := (out_stream w')(f := out_stream w' f @ bs)\<rparr>"
  have "bs = io_out (unat (gpr h' ! 12)) (gpr h' ! 11) (mem_view l w')"
    using bs c(1,2) by (auto simp: call_registers)
  with write_loop_out [OF ok(2), of f "unat (gpr h' ! 12)" "gpr h' ! 11" 0]
  have "default_syscall_handler ((soc e)\<lparr>soc_hart := h'\<rparr>) r ud w' = Some ((True, (soc e)\<lparr>soc_hart := ?h2\<rparr>), ?w2)" for r ud
    using assms(4,5) ok c(1) by (auto simp: default_syscall_handler_def call_registers set_a0_def)
  from calls_backD [OF c(4) this hart_ok_a0 [OF ok(1)]] obtain r where
    "emulator_step e w = Some ((r, with_hart e ?h2), ?w2)" by auto
  moreover have "on_board l (with_hart e ?h2) ?w2"
    using c(3) hart_ok_a0 [OF ok(1)] by (simp add: on_board_def live_out)
  ultimately show ?thesis
    using c(1,2) by (intro emulatesI) (auto simp: put_a0 [OF ok(1)] view_out)
qed

lemma emulated_write_elsewhere:
  assumes "isa_step io_load io_store (cpu (proc_view l e w), mem (proc_view l e w)) TRAP_ECALL_M (s', m')"
    and "on_board l e w" "\<not> halted w" "xr s' 17 = 64" "xr s' 10 \<notin> {1, 2}"
  shows "emulates l e w \<lparr>cpu = put s' 10 (-1), mem = m'\<rparr>"
proof -
  from emulated_call [OF assms(1-3)] obtain h' w' where c: "isa_view h' = s'" "mem_view l w' = m'"
    "on_board l (with_hart e h') w'" "calls_back e w h' w'" by blast
  have ok: "hart_ok h'" using c(3) by (simp add: on_board_def)
  let ?h2 = "h'\<lparr>gpr := (gpr h')[10 := -1]\<rparr>"
  have "default_syscall_handler ((soc e)\<lparr>soc_hart := h'\<rparr>) r ud w' = Some ((True, (soc e)\<lparr>soc_hart := ?h2\<rparr>), w')" for r ud
    using assms(4,5) ok c(1) by (auto simp: default_syscall_handler_def call_registers set_a0_def)
  from calls_backD [OF c(4) this hart_ok_a0 [OF ok]] obtain r where
    "emulator_step e w = Some ((r, with_hart e ?h2), w')" by auto
  moreover have "on_board l (with_hart e ?h2) w'"
    using c(3) hart_ok_a0 [OF ok] by (simp add: on_board_def)
  ultimately show ?thesis
    using c(1,2) by (intro emulatesI) (auto simp: put_a0 [OF ok])
qed

lemma emulated_exit:
  assumes "isa_step io_load io_store (cpu (proc_view l e w), mem (proc_view l e w)) TRAP_ECALL_M (s', m')"
    and "on_board l e w" "\<not> halted w" "xr s' 17 \<noteq> 64"
  shows "emulates l e w \<lparr>cpu = s', mem = m'\<lparr>ended := Some (sint (xr s' 10))\<rparr>\<rparr>"
proof -
  from emulated_call [OF assms(1-3)] obtain h' w' where c: "isa_view h' = s'" "mem_view l w' = m'"
    "on_board l (with_hart e h') w'" "calls_back e w h' w'" by blast
  have ok: "hart_ok h'" using c(3) by (simp add: on_board_def)
  have "h'\<lparr>gpr := (gpr h')[10 := gpr h' ! 10]\<rparr> = h'" by simp
  then have "default_syscall_handler ((soc e)\<lparr>soc_hart := h'\<rparr>) r ud w' = Some ((False, (soc e)\<lparr>soc_hart := h'\<rparr>), w')" for r ud
    using assms(4) ok c(1) by (auto simp: default_syscall_handler_def call_registers set_a0_def)
  from calls_backD [OF c(4) this ok] obtain r where
    em: "emulator_step e w = Some ((r, with_hart e h'), w'\<lparr>halted := True, exit_code := sint (xreg h' 10)\<rparr>)" by auto
  let ?w2 = "w'\<lparr>halted := True, exit_code := sint (xreg h' 10)\<rparr>"
  have "on_board l (with_hart e h') ?w2"
    using c(3) live_heap [of ?w2 w' l] by (simp add: on_board_def)
  moreover have "mem_view l ?w2 = m'\<lparr>ended := Some (sint (xr s' 10))\<rparr>"
    using c(1,2) flat_view_cong [of ?w2 w' l] port_view_cong [of ?w2 l w'] by (auto simp: mem_view_def)
  ultimately show ?thesis
    using em c(1) by (intro emulatesI) auto
qed

lemma emulated_step:
  assumes "proc_step (proc_view l e w) p'" "on_board l e w" "\<not> halted w"
  shows "emulates l e w p'"
  using assms(1)
proof cases
  case (Run t s' m')
  from emulated_run [OF Run(2) assms(2,3) Run(3)] Run(1) show ?thesis by simp
next
  case (Write s' m' f bs)
  from emulated_write [OF Write(2) assms(2,3) Write(3-5)] Write(1) show ?thesis by simp
next
  case (Write_elsewhere s' m')
  from emulated_write_elsewhere [OF Write_elsewhere(2) assms(2,3) Write_elsewhere(3,4)] Write_elsewhere(1)
  show ?thesis by simp
qed

lemma emulated_continue:
  assumes "proc_step (proc_view l e w) p'" "on_board l e w" "\<not> halted w"
  obtains r e1 w1 where "emulator_step e w = Some ((r, e1), w1)" "on_board l e1 w1" "\<not> halted w1"
    "cycle_count e1 = cycle_count e + 1" "proc_view l e1 w1 = p'"
proof -
  from emulated_step [OF assms] obtain r e1 w1 where st: "emulator_step e w = Some ((r, e1), w1)"
    "on_board l e1 w1" "cycle_count e1 = cycle_count e + 1" "proc_view l e1 w1 = p'" by (auto simp: emulates_def)
  moreover from this proc_step_running [OF assms(1)] assms(3) have "\<not> halted w1"
    by (auto simp: proc_view_def mem_view_def split: if_splits)
  ultimately show thesis using that by blast
qed

text \<open>The step limit, when there is one, is not reached within the next \<open>n\<close> instructions.\<close>

definition within_limit :: "u64 \<Rightarrow> u64 \<Rightarrow> nat \<Rightarrow> bool" where
  "within_limit max_steps count_v n \<longleftrightarrow> max_steps = 0 \<or> unat count_v + n < unat max_steps"

lemma unat_next: "k < m \<Longrightarrow> unat (k + 1) = unat k + 1" for k m :: u64
  using unsigned_less [of m, where 'a = nat] by (simp add: unat_word_ariths word_less_nat_alt)

lemma within_limit_step:
  assumes "within_limit m k (Suc n)"
  shows "within_limit m (k + 1) n" "\<not> (m \<noteq> 0 \<and> m \<le> k + 1)"
proof -
  have "within_limit m (k + 1) n \<and> \<not> (m \<noteq> 0 \<and> m \<le> k + 1)"
  proof (cases "m = 0")
    case False
    then have lt: "unat k + Suc n < unat m" using assms by (simp add: within_limit_def)
    moreover from this have "unat (k + 1) = unat k + 1"
      by (intro unat_next [of k m]) (simp add: word_less_nat_alt)
    ultimately show ?thesis by (simp add: within_limit_def word_le_nat_alt)
  qed (simp add: within_limit_def)
  then show "within_limit m (k + 1) n" "\<not> (m \<noteq> 0 \<and> m \<le> k + 1)" by blast+
qed

text \<open>The last instruction: the run ends.\<close>

lemma run_ends:
  assumes "emulates l e w q" "\<not> halted w" "ended (mem q) = Some c" "within_limit max_steps (cycle_count e) 1"
  shows "\<exists>e' w'. emulator_run e max_steps w = Some (Some (c, e', w')) \<and> on_board l e' w' \<and> proc_view l e' w' = q
    \<and> cycle_count e' = cycle_count e + 1"
proof -
  from assms(1) obtain r e' w' where st: "emulator_step e w = Some ((r, e'), w')" "on_board l e' w'"
    "cycle_count e' = cycle_count e + 1" "proc_view l e' w' = q" by (auto simp: emulates_def)
  from st(4) assms(3) have "halted w'" "exit_code w' = c"
    by (auto simp: proc_view_def mem_view_def split: if_splits)
  moreover have "\<not> limit_reached max_steps e'"
    using within_limit_step(2) [of max_steps "cycle_count e" 0] assms(4) st(3) by (simp add: limit_reached_def)
  ultimately show ?thesis
    using st assms(2) by (simp add: run_unfold [of e] run_unfold [of e'])
qed

lemma process_run:
  assumes "proc_exits n p c q" "p = proc_view l e w" "on_board l e w" "\<not> halted w"
    and "within_limit max_steps (cycle_count e) n"
  shows "\<exists>e' w'. emulator_run e max_steps w = Some (Some (c, e', w')) \<and> on_board l e' w' \<and> proc_view l e' w' = q
    \<and> cycle_count e' = cycle_count e + of_nat n"
  using assms
proof (induction n p c q arbitrary: e w rule: proc_exits.induct)
  case (Tohost p t s' m' c)
  from emulated_run [of l e w t s' m'] Tohost.hyps Tohost.prems
  have "emulates l e w \<lparr>cpu = s', mem = m'\<rparr>" by simp
  from run_ends [OF this Tohost.prems(3) _ Tohost.prems(4)] Tohost.hyps(3) show ?case by simp
next
  case (Exit p s' m' c)
  from emulated_exit [of l e w s' m'] Exit.hyps Exit.prems
  have "emulates l e w \<lparr>cpu = s', mem = m'\<lparr>ended := Some c\<rparr>\<rparr>" by simp
  from run_ends [OF this Exit.prems(3) _ Exit.prems(4)] show ?case by simp
next
  case (Continue p p' n c q)
  from emulated_continue [of l e w p'] Continue.hyps(1) Continue.prems(1-3) obtain r e1 w1 where
    st: "emulator_step e w = Some ((r, e1), w1)" "on_board l e1 w1" "\<not> halted w1"
    "cycle_count e1 = cycle_count e + 1" "proc_view l e1 w1 = p'" by metis
  from within_limit_step [OF Continue.prems(4)] st(4)
  have lim: "within_limit max_steps (cycle_count e1) n" "\<not> limit_reached max_steps e1"
    by (simp_all add: limit_reached_def)
  from Continue.IH [OF st(5) [symmetric] st(2,3) lim(1)] st lim(2) Continue.prems(3) show ?case
    by (auto simp: run_unfold [of e] add.assoc)
qed

section \<open>A step limit\<close>

text \<open>What is printed stays printed.\<close>

lemma io_load_keeps: "io_load a sz m = Some (r, m') \<Longrightarrow> m' = m"
  by (auto simp: io_load_def split: if_splits option.splits)

lemma io_store_prints: "io_store a v sz m = Some (b, m') \<Longrightarrow> prefix (printed m f) (printed m' f)"
  by (auto simp: io_store_def port_store_def say_def split: if_splits option.splits)

lemma isa_step_prints:
  assumes "isa_step io_load io_store (s, m) t (s', m')"
  shows "prefix (printed m f) (printed m' f)"
  using assms
  by (cases rule: isa_step.cases) (auto simp: isa_fetch_def dest!: io_load_keeps io_store_prints [where f = f])

lemma proc_step_prints: "proc_step p p' \<Longrightarrow> prefix (printed (mem p) f) (printed (mem p') f)"
  by (induction rule: proc_step.induct)
    (auto simp: say_def intro: prefix_order.trans dest!: isa_step_prints [where f = f])

lemma proc_exits_prints: "proc_exits n p c q \<Longrightarrow> prefix (printed (mem p) f) (printed (mem q) f)"
  by (induction rule: proc_exits.induct)
    (auto intro: prefix_order.trans dest!: isa_step_prints [where f = f] proc_step_prints [where f = f])

lemma proc_exits_pos: "proc_exits n p c q \<Longrightarrow> 0 < n"
  by (induction rule: proc_exits.induct) simp_all

text \<open>
  A process that would exit after \<open>n\<close> instructions is stopped by a limit of at most \<open>n\<close>: the run returns
  1, and a prefix of the output of the process has been written.
\<close>

lemma run_limited:
  assumes "emulates l e w q" "\<not> halted w" "cycle_count e + 1 = m" "m \<noteq> 0"
  shows "\<exists>e' w'. emulator_run e m w = Some (Some (1, e', w')) \<and> out_stream w' = printed (mem q)
    \<and> cycle_count e' = m"
proof -
  from assms(1) obtain r e' w' where st: "emulator_step e w = Some ((r, e'), w')"
    "cycle_count e' = cycle_count e + 1" "proc_view l e' w' = q" by (auto simp: emulates_def)
  have "limit_reached m e'" using assms(3,4) st(2) by (simp add: limit_reached_def)
  then show ?thesis
    using st assms(2,3) by (auto simp: run_unfold [of e] proc_view_def mem_view_def)
qed

lemma last_step:
  fixes k m :: u64
  assumes "k < m" "unat m \<le> unat k + 1"
  shows "k + 1 = m" "m \<noteq> 0"
  using assms unat_next [OF assms(1)] by (auto simp: word_unat_eq_iff word_less_nat_alt)

lemma process_limited:
  assumes "proc_exits n p c q" "p = proc_view l e w" "on_board l e w" "\<not> halted w"
    and "cycle_count e < m" "unat m \<le> unat (cycle_count e) + n"
  shows "\<exists>e' w'. emulator_run e m w = Some (Some (1, e', w')) \<and> cycle_count e' = m
    \<and> (\<forall>f. prefix (out_stream w' f) (printed (mem q) f))"
  using assms
proof (induction n p c q arbitrary: e w rule: proc_exits.induct)
  case (Tohost p t s' m' c)
  from emulated_run [of l e w t s' m'] Tohost.hyps Tohost.prems
  have "emulates l e w \<lparr>cpu = s', mem = m'\<rparr>" by simp
  from run_limited [OF this Tohost.prems(3), of m] last_step [OF Tohost.prems(4,5)] show ?case by auto
next
  case (Exit p s' m' c)
  from emulated_exit [of l e w s' m'] Exit.hyps Exit.prems
  have "emulates l e w \<lparr>cpu = s', mem = m'\<lparr>ended := Some c\<rparr>\<rparr>" by simp
  from run_limited [OF this Exit.prems(3), of m] last_step [OF Exit.prems(4,5)] show ?case by auto
next
  case (Continue p p' n c q)
  from emulated_continue [of l e w p'] Continue.hyps(1) Continue.prems(1-3) obtain r e1 w1 where
    st: "emulator_step e w = Some ((r, e1), w1)" "on_board l e1 w1" "\<not> halted w1"
    "cycle_count e1 = cycle_count e + 1" "proc_view l e1 w1 = p'" by metis
  note count = unat_next [OF Continue.prems(4)]
  show ?case
  proof (cases "cycle_count e1 = m")
    case True
    have "limit_reached m e1" using True Continue.prems(4) by (auto simp: limit_reached_def)
    moreover have "prefix (out_stream w1 f) (printed (mem q) f)" for f
      using proc_exits_prints [OF Continue.hyps(2), of f] st(5) by (auto simp: proc_view_def mem_view_def)
    ultimately show ?thesis using st(1) True Continue.prems(3) by (simp add: run_unfold [of e])
  next
    case False
    then have lt: "cycle_count e1 < m" using Continue.prems(4) inc_le [of "cycle_count e" m] st(4) by simp
    moreover have "unat m \<le> unat (cycle_count e1) + n" using Continue.prems(5) count st(4) by simp
    moreover have "\<not> limit_reached m e1" using lt by (auto simp: limit_reached_def)
    ultimately show ?thesis
      using Continue.IH [OF st(5) [symmetric] st(2,3)] st(1) Continue.prems(3) by (simp add: run_unfold [of e])
  qed
qed

lemma process_outcome:
  assumes "proc_exits n (proc_view l e w) c q" "on_board l e w" "\<not> halted w" "cycle_count e = 0"
  shows "\<exists>e' w'. emulator_run e m w = Some (Some (if m = 0 \<or> n < unat m then c else 1, e', w'))
    \<and> (\<forall>f. prefix (out_stream w' f) (printed (mem q) f))
    \<and> (m = 0 \<or> n < unat m \<longrightarrow> out_stream w' = printed (mem q))"
proof (cases "m = 0 \<or> n < unat m")
  case True
  then have "within_limit m (cycle_count e) n" by (simp add: within_limit_def assms(4))
  from process_run [OF assms(1) refl assms(2,3) this] obtain e' w' where
    "emulator_run e m w = Some (Some (c, e', w'))" "proc_view l e' w' = q" by blast
  with True show ?thesis by (auto simp: proc_view_def mem_view_def)
next
  case False
  then have "cycle_count e < m" "unat m \<le> unat (cycle_count e) + n"
    by (simp_all add: assms(4) word_gt_0)
  from process_limited [OF assms(1) refl assms(2,3) this] False show ?thesis by auto
qed

section \<open>Processes that never end\<close>

coinductive proc_runs_on :: "proc \<Rightarrow> bool" where
  "proc_step p p' \<Longrightarrow> proc_runs_on p' \<Longrightarrow> proc_runs_on p"

lemma runs_on_diverges:
  assumes "proc_runs_on (proc_view l e w)" "on_board l e w" "\<not> halted w"
  shows "emulator_run e 0 w = None"
proof (rule emulator_run_diverges [where good = "\<lambda>e w. proc_runs_on (proc_view l e w) \<and> on_board l e w \<and> \<not> halted w"])
  fix e w assume g: "proc_runs_on (proc_view l e w) \<and> on_board l e w \<and> \<not> halted w"
  then obtain p' where "proc_step (proc_view l e w) p'" "proc_runs_on p'" by (auto elim: proc_runs_on.cases)
  with g show "\<exists>e1 w1. continues 0 (e, w) (e1, w1) \<and> proc_runs_on (proc_view l e1 w1) \<and> on_board l e1 w1 \<and> \<not> halted w1"
    by (metis emulated_continue continues_simps limit_reached_def)
qed (use assms in simp)

lemma runs_on_limited:
  assumes "proc_runs_on (proc_view l e w)" "on_board l e w" "\<not> halted w" "cycle_count e < m"
  shows "\<exists>e' w'. emulator_run e m w = Some (Some (1, e', w')) \<and> cycle_count e' = m"
  using assms
proof (induction "unat (m - cycle_count e)" arbitrary: e w rule: less_induct)
  case less
  from less.prems(1) obtain p' where "proc_step (proc_view l e w) p'" "proc_runs_on p'"
    by (auto elim: proc_runs_on.cases)
  with less.prems emulated_continue obtain r e1 w1 where st: "emulator_step e w = Some ((r, e1), w1)"
    "on_board l e1 w1" "\<not> halted w1" "cycle_count e1 = cycle_count e + 1" "proc_runs_on (proc_view l e1 w1)"
    by metis
  have le: "cycle_count e1 \<le> m" using less.prems(4) by (simp add: st(4) inc_le)
  show ?case
  proof (cases "cycle_count e1 = m")
    case True
    then have "limit_reached m e1" using less.prems(4) by (auto simp: limit_reached_def)
    with True st(1) less.prems(3) show ?thesis by (simp add: run_unfold [of e])
  next
    case False
    with le have lt: "cycle_count e1 < m" by simp
    then have "\<not> limit_reached m e1" by (auto simp: limit_reached_def)
    moreover have "unat (m - cycle_count e1) < unat (m - cycle_count e)"
      using less.prems(4) le unat_next [of "cycle_count e" m]
      by (simp add: st(4) word_less_nat_alt word_le_nat_alt unat_sub_if_size)
    from less.hyps [OF this st(5,2,3) lt] obtain e' w' where
      "emulator_run e1 m w1 = Some (Some (1, e', w'))" "cycle_count e' = m" by blast
    ultimately show ?thesis using st(1) less.prems(3) by (simp add: run_unfold [of e])
  qed
qed

section \<open>Every process ends or runs on\<close>

lemma process_progress: "(\<exists>p'. proc_step p p') \<or> (\<exists>c q. proc_exits 1 p c q)"
proof -
  obtain t s' m' where st: "isa_step io_load io_store (cpu p, mem p) t (s', m')"
    using isa_step_total [of io_load io_store "cpu p" "mem p"] io_total by (fastforce simp: can_step_def)
  show ?thesis
  proof (cases "t = TRAP_ECALL_M")
    case False
    with st proc_step.Run [of p t s' m'] proc_exits.Tohost [of p t s' m'] show ?thesis
      by (cases "ended m'") blast+
  next
    case True
    with st proc_step.Write [of p s' m' Stdout] proc_step.Write [of p s' m' Stderr]
      proc_step.Write_elsewhere [of p s' m'] proc_exits.Exit [of p s' m']
    show ?thesis by (cases "xr s' 17 = 64"; cases "xr s' 10 \<in> {1, 2}") auto
  qed
qed

lemma no_exit_runs_on: "(\<nexists>n c q. proc_exits n p c q) \<Longrightarrow> proc_runs_on p"
proof (coinduction arbitrary: p)
  case proc_runs_on
  with process_progress [of p] obtain p' where "proc_step p p'" by blast
  with proc_runs_on proc_exits.Continue [OF this] show ?case by blast
qed

lemma run_is_process:
  assumes "on_board l e w" "\<not> halted w"
  shows "emulator_run e 0 w = None \<longleftrightarrow> proc_runs_on (proc_view l e w)"
    and "(\<exists>e' w'. emulator_run e 0 w = Some (Some (c, e', w')) \<and> proc_view l e' w' = q) \<longleftrightarrow>
      (\<exists>n. proc_exits n (proc_view l e w) c q)"
proof -
  note runs = process_run [OF _ refl assms, of _ _ _ 0, unfolded within_limit_def, simplified]
  note ends = runs_on_diverges [OF _ assms]
  show "emulator_run e 0 w = None \<longleftrightarrow> proc_runs_on (proc_view l e w)"
    using runs ends no_exit_runs_on [of "proc_view l e w"] by fastforce
  show "(\<exists>e' w'. emulator_run e 0 w = Some (Some (c, e', w')) \<and> proc_view l e' w' = q) \<longleftrightarrow>
      (\<exists>n. proc_exits n (proc_view l e w) c q)"
  proof
    assume l: "\<exists>e' w'. emulator_run e 0 w = Some (Some (c, e', w')) \<and> proc_view l e' w' = q"
    then have "\<not> proc_runs_on (proc_view l e w)" using ends by auto
    with no_exit_runs_on obtain n c' q' where ex: "proc_exits n (proc_view l e w) c' q'" by blast
    from runs [OF this] l show "\<exists>n. proc_exits n (proc_view l e w) c q" using ex by auto
  next
    assume "\<exists>n. proc_exits n (proc_view l e w) c q"
    then show "\<exists>e' w'. emulator_run e 0 w = Some (Some (c, e', w')) \<and> proc_view l e' w' = q"
      using runs by blast
  qed
qed

lemma run_not_undefined:
  assumes "on_board l e w" "\<not> halted w"
  shows "emulator_run e 0 w \<noteq> Some None"
proof (cases "proc_runs_on (proc_view l e w)")
  case True
  then show ?thesis using runs_on_diverges [OF _ assms] by simp
next
  case False
  with no_exit_runs_on obtain n c q where "proc_exits n (proc_view l e w) c q" by blast
  from process_run [OF this refl assms, of 0] show ?thesis by (auto simp: within_limit_def)
qed

section \<open>Interrupts\<close>

lemma hart_ok_trap: "hart_ok (hart_take_trap h c t) \<longleftrightarrow> hart_ok h"
  by (simp add: hart_take_trap_def commit_trap_def hart_ok_def Let_def)

text \<open>
  C14 (functional): interrupts. \<open>soc_raise_interrupt\<close> with the cause 3, 7 or 11 makes the process enter its
  trap handler at once, whatever \<open>mstatus\<close> says of interrupts: the pc, the cause with the interrupt bit and
  the status are saved, and the pc is that of the handler. Other causes change nothing; memory and
  output stay, and the emulator remains one that runs processes exactly if it was.
\<close>

theorem interrupts_enter_the_handler:
  "proc_view l (e\<lparr>soc := soc_raise_interrupt (soc e) c\<rparr>) w =
     (if c \<in> {3, 7, 11} then (proc_view l e w)\<lparr>cpu := enter_trap (cpu (proc_view l e w)) c 0\<rparr>
      else proc_view l e w)
   \<and> on_board l (e\<lparr>soc := soc_raise_interrupt (soc e) c\<rparr>) w = on_board l e w"
  by (simp add: soc_raise_interrupt_def proc_view_def on_board_def view_trap interrupt_iff hart_ok_trap)

end
