(* ===== verification/Rve_Disasm.thy ===== *)
theory Rve_Disasm
  imports Rve_Hart Rve_Encoding Rve_Text
begin

unbundle bit_operations_syntax

text \<open>
  The disassembler: src/decoder.c lines 473 to 724, used by the tracer of main.c. A reference
  assembler reads its text back, and the text fits the tracer's buffer.
\<close>

section \<open>Names\<close>

fun rve_instruction_format_to_cstr :: "instruction_format_t \<Rightarrow> string" where
  "rve_instruction_format_to_cstr INSTRUCTION_FORMAT_UNKNOWN = ''UNKNOWN''"
| "rve_instruction_format_to_cstr INSTRUCTION_FORMAT_R = ''R''"
| "rve_instruction_format_to_cstr INSTRUCTION_FORMAT_I = ''I''"
| "rve_instruction_format_to_cstr INSTRUCTION_FORMAT_S = ''S''"
| "rve_instruction_format_to_cstr INSTRUCTION_FORMAT_B = ''B''"
| "rve_instruction_format_to_cstr INSTRUCTION_FORMAT_U = ''U''"
| "rve_instruction_format_to_cstr INSTRUCTION_FORMAT_J = ''J''"
| "rve_instruction_format_to_cstr _ = ''UNKNOWN_OTHER''"

fun rve_instruction_op_to_cstr :: "instruction_op_t \<Rightarrow> string" where
  "rve_instruction_op_to_cstr INSTRUCTION_OP_UNKNOWN = ''INSTRUCTION_OP_UNKNOWN''"
| "rve_instruction_op_to_cstr INSTRUCTION_OP_LUI = ''INSTRUCTION_OP_LUI''"
| "rve_instruction_op_to_cstr INSTRUCTION_OP_AUIPC = ''INSTRUCTION_OP_AUIPC''"
| "rve_instruction_op_to_cstr INSTRUCTION_OP_JAL = ''INSTRUCTION_OP_JAL''"
| "rve_instruction_op_to_cstr INSTRUCTION_OP_JALR = ''INSTRUCTION_OP_JALR''"
| "rve_instruction_op_to_cstr INSTRUCTION_OP_BEQ = ''INSTRUCTION_OP_BEQ''"
| "rve_instruction_op_to_cstr INSTRUCTION_OP_BNE = ''INSTRUCTION_OP_BNE''"
| "rve_instruction_op_to_cstr INSTRUCTION_OP_BLT = ''INSTRUCTION_OP_BLT''"
| "rve_instruction_op_to_cstr INSTRUCTION_OP_BGE = ''INSTRUCTION_OP_BGE''"
| "rve_instruction_op_to_cstr INSTRUCTION_OP_BLTU = ''INSTRUCTION_OP_BLTU''"
| "rve_instruction_op_to_cstr INSTRUCTION_OP_BGEU = ''INSTRUCTION_OP_BGEU''"
| "rve_instruction_op_to_cstr INSTRUCTION_OP_LB = ''INSTRUCTION_OP_LB''"
| "rve_instruction_op_to_cstr INSTRUCTION_OP_LH = ''INSTRUCTION_OP_LH''"
| "rve_instruction_op_to_cstr INSTRUCTION_OP_LW = ''INSTRUCTION_OP_LW''"
| "rve_instruction_op_to_cstr INSTRUCTION_OP_LBU = ''INSTRUCTION_OP_LBU''"
| "rve_instruction_op_to_cstr INSTRUCTION_OP_LHU = ''INSTRUCTION_OP_LHU''"
| "rve_instruction_op_to_cstr INSTRUCTION_OP_SB = ''INSTRUCTION_OP_SB''"
| "rve_instruction_op_to_cstr INSTRUCTION_OP_SH = ''INSTRUCTION_OP_SH''"
| "rve_instruction_op_to_cstr INSTRUCTION_OP_SW = ''INSTRUCTION_OP_SW''"
| "rve_instruction_op_to_cstr INSTRUCTION_OP_ADDI = ''INSTRUCTION_OP_ADDI''"
| "rve_instruction_op_to_cstr INSTRUCTION_OP_SLTI = ''INSTRUCTION_OP_SLTI''"
| "rve_instruction_op_to_cstr INSTRUCTION_OP_SLTIU = ''INSTRUCTION_OP_SLTIU''"
| "rve_instruction_op_to_cstr INSTRUCTION_OP_XORI = ''INSTRUCTION_OP_XORI''"
| "rve_instruction_op_to_cstr INSTRUCTION_OP_ORI = ''INSTRUCTION_OP_ORI''"
| "rve_instruction_op_to_cstr INSTRUCTION_OP_ANDI = ''INSTRUCTION_OP_ANDI''"
| "rve_instruction_op_to_cstr INSTRUCTION_OP_SLLI = ''INSTRUCTION_OP_SLLI''"
| "rve_instruction_op_to_cstr INSTRUCTION_OP_SRLI = ''INSTRUCTION_OP_SRLI''"
| "rve_instruction_op_to_cstr INSTRUCTION_OP_SRAI = ''INSTRUCTION_OP_SRAI''"
| "rve_instruction_op_to_cstr INSTRUCTION_OP_ADD = ''INSTRUCTION_OP_ADD''"
| "rve_instruction_op_to_cstr INSTRUCTION_OP_SUB = ''INSTRUCTION_OP_SUB''"
| "rve_instruction_op_to_cstr INSTRUCTION_OP_SLL = ''INSTRUCTION_OP_SLL''"
| "rve_instruction_op_to_cstr INSTRUCTION_OP_SLT = ''INSTRUCTION_OP_SLT''"
| "rve_instruction_op_to_cstr INSTRUCTION_OP_SLTU = ''INSTRUCTION_OP_SLTU''"
| "rve_instruction_op_to_cstr INSTRUCTION_OP_XOR = ''INSTRUCTION_OP_XOR''"
| "rve_instruction_op_to_cstr INSTRUCTION_OP_SRL = ''INSTRUCTION_OP_SRL''"
| "rve_instruction_op_to_cstr INSTRUCTION_OP_SRA = ''INSTRUCTION_OP_SRA''"
| "rve_instruction_op_to_cstr INSTRUCTION_OP_OR = ''INSTRUCTION_OP_OR''"
| "rve_instruction_op_to_cstr INSTRUCTION_OP_AND = ''INSTRUCTION_OP_AND''"
| "rve_instruction_op_to_cstr INSTRUCTION_OP_FENCE = ''INSTRUCTION_OP_FENCE''"
| "rve_instruction_op_to_cstr INSTRUCTION_OP_FENCE_I = ''INSTRUCTION_OP_FENCE_I''"
| "rve_instruction_op_to_cstr INSTRUCTION_OP_ECALL = ''INSTRUCTION_OP_ECALL''"
| "rve_instruction_op_to_cstr INSTRUCTION_OP_EBREAK = ''INSTRUCTION_OP_EBREAK''"
| "rve_instruction_op_to_cstr INSTRUCTION_OP_MRET = ''INSTRUCTION_OP_MRET''"
| "rve_instruction_op_to_cstr INSTRUCTION_OP_CSRRW = ''INSTRUCTION_OP_CSRRW''"
| "rve_instruction_op_to_cstr INSTRUCTION_OP_CSRRS = ''INSTRUCTION_OP_CSRRS''"
| "rve_instruction_op_to_cstr INSTRUCTION_OP_CSRRC = ''INSTRUCTION_OP_CSRRC''"
| "rve_instruction_op_to_cstr INSTRUCTION_OP_CSRRWI = ''INSTRUCTION_OP_CSRRWI''"
| "rve_instruction_op_to_cstr INSTRUCTION_OP_CSRRSI = ''INSTRUCTION_OP_CSRRSI''"
| "rve_instruction_op_to_cstr INSTRUCTION_OP_CSRRCI = ''INSTRUCTION_OP_CSRRCI''"
| "rve_instruction_op_to_cstr _ = ''INSTRUCTION_OP_UNKNOWN_OTHER''"

definition rve_opcode_to_str :: "u32 \<Rightarrow> string" where
  "rve_opcode_to_str opcode =
    (let oc = opcode AND 0x7F in
      if oc = RISCV_OPCODE_LUI then ''RISCV_OPCODE_LUI''
      else if oc = RISCV_OPCODE_AUIPC then ''RISCV_OPCODE_AUIPC''
      else if oc = RISCV_OPCODE_JAL then ''RISCV_OPCODE_JAL''
      else if oc = RISCV_OPCODE_JALR then ''RISCV_OPCODE_JALR''
      else if oc = RISCV_OPCODE_BRANCH then ''RISCV_OPCODE_BRANCH''
      else if oc = RISCV_OPCODE_LOAD then ''RISCV_OPCODE_LOAD''
      else if oc = RISCV_OPCODE_STORE then ''RISCV_OPCODE_STORE''
      else if oc = RISCV_OPCODE_OP_IMM then ''RISCV_OPCODE_OP_IMM''
      else if oc = RISCV_OPCODE_OP then ''RISCV_OPCODE_OP''
      else if oc = RISCV_OPCODE_MISC_MEM then ''RISCV_OPCODE_MISC_MEM''
      else if oc = RISCV_OPCODE_SYSTEM then ''RISCV_OPCODE_SYSTEM''
      else ''RISCV_OPCODE_UNKNOWN'')"

definition abi_names :: "string list" where
  "abi_names =
    [''zero'', ''ra'', ''sp'', ''gp'', ''tp'', ''t0'', ''t1'', ''t2'',
     ''s0'', ''s1'', ''a0'', ''a1'', ''a2'', ''a3'', ''a4'', ''a5'',
     ''a6'', ''a7'', ''s2'', ''s3'', ''s4'', ''s5'', ''s6'', ''s7'',
     ''s8'', ''s9'', ''s10'', ''s11'', ''t3'', ''t4'', ''t5'', ''t6'']"

definition get_abi_name :: "reg_t \<Rightarrow> string" where
  "get_abi_name reg_index =
    (if unat reg_index < XLEN then abi_names ! unat reg_index else ''x??'')"

section \<open>The operations as C numbers them\<close>

definition instruction_ops :: "instruction_op_t list" where
  "instruction_ops =
    [INSTRUCTION_OP_UNKNOWN, INSTRUCTION_OP_LUI, INSTRUCTION_OP_AUIPC, INSTRUCTION_OP_JAL,
     INSTRUCTION_OP_JALR, INSTRUCTION_OP_BEQ, INSTRUCTION_OP_BNE, INSTRUCTION_OP_BLT,
     INSTRUCTION_OP_BGE, INSTRUCTION_OP_BLTU, INSTRUCTION_OP_BGEU, INSTRUCTION_OP_LB,
     INSTRUCTION_OP_LH, INSTRUCTION_OP_LW, INSTRUCTION_OP_LBU, INSTRUCTION_OP_LHU,
     INSTRUCTION_OP_SB, INSTRUCTION_OP_SH, INSTRUCTION_OP_SW, INSTRUCTION_OP_ADDI,
     INSTRUCTION_OP_SLTI, INSTRUCTION_OP_SLTIU, INSTRUCTION_OP_XORI, INSTRUCTION_OP_ORI,
     INSTRUCTION_OP_ANDI, INSTRUCTION_OP_SLLI, INSTRUCTION_OP_SRLI, INSTRUCTION_OP_SRAI,
     INSTRUCTION_OP_ADD, INSTRUCTION_OP_SUB, INSTRUCTION_OP_SLL, INSTRUCTION_OP_SLT,
     INSTRUCTION_OP_SLTU, INSTRUCTION_OP_XOR, INSTRUCTION_OP_SRL, INSTRUCTION_OP_SRA,
     INSTRUCTION_OP_OR, INSTRUCTION_OP_AND, INSTRUCTION_OP_FENCE, INSTRUCTION_OP_FENCE_I,
     INSTRUCTION_OP_ECALL, INSTRUCTION_OP_EBREAK, INSTRUCTION_OP_MRET, INSTRUCTION_OP_MUL,
     INSTRUCTION_OP_MULH, INSTRUCTION_OP_MULHSU, INSTRUCTION_OP_MULHU, INSTRUCTION_OP_DIV,
     INSTRUCTION_OP_DIVU, INSTRUCTION_OP_REM, INSTRUCTION_OP_REMU, INSTRUCTION_OP_CSRRW,
     INSTRUCTION_OP_CSRRS, INSTRUCTION_OP_CSRRC, INSTRUCTION_OP_CSRRWI, INSTRUCTION_OP_CSRRSI,
     INSTRUCTION_OP_CSRRCI, INSTRUCTION_OP_NUM]"

instantiation instruction_op_t :: enum
begin

definition enum_instruction_op_t :: "instruction_op_t list" where
  "enum_instruction_op_t = instruction_ops"

definition enum_all_instruction_op_t :: "(instruction_op_t \<Rightarrow> bool) \<Rightarrow> bool" where
  "enum_all_instruction_op_t P \<longleftrightarrow> list_all P enum_class.enum"

definition enum_ex_instruction_op_t :: "(instruction_op_t \<Rightarrow> bool) \<Rightarrow> bool" where
  "enum_ex_instruction_op_t P \<longleftrightarrow> list_ex P enum_class.enum"

instance
proof
  show univ: "(UNIV :: instruction_op_t set) = set enum_class.enum"
  proof (rule UNIV_eq_I)
    fix x :: instruction_op_t
    show "x \<in> set enum_class.enum"
      unfolding enum_instruction_op_t_def instruction_ops_def by (cases x) simp_all
  qed
  show "distinct (enum_class.enum :: instruction_op_t list)"
    unfolding enum_instruction_op_t_def instruction_ops_def by simp
  fix P :: "instruction_op_t \<Rightarrow> bool"
  show "enum_class.enum_all P \<longleftrightarrow> Ball UNIV P"
    unfolding enum_all_instruction_op_t_def univ by (rule list_all_iff)
  show "enum_class.enum_ex P \<longleftrightarrow> Bex UNIV P"
    unfolding enum_ex_instruction_op_t_def univ by (rule list_ex_iff)
qed

end

definition op_number :: "instruction_op_t \<Rightarrow> nat" where
  "op_number oper = length (takeWhile (\<lambda>x. x \<noteq> oper) enum_class.enum)"

section \<open>The text of an instruction\<close>

text \<open>The cases of the switch, with the conversions of their format strings written out.\<close>

fun disasm_op :: "instruction_op_t \<Rightarrow> decoded_instruction_t \<Rightarrow> string" where
  "disasm_op INSTRUCTION_OP_LUI di =
     pad_right 8 ''lui'' @ '' '' @ get_abi_name (rd di) @ '', 0x'' @
       hex_string (unat (drop_bit 12 (imm di)))"
| "disasm_op INSTRUCTION_OP_AUIPC di =
     pad_right 8 ''auipc'' @ '' '' @ get_abi_name (rd di) @ '', 0x'' @
       hex_string (unat (drop_bit 12 (imm di)))"
| "disasm_op INSTRUCTION_OP_JAL di =
     pad_right 8 ''jal'' @ '' '' @ get_abi_name (rd di) @ '', '' @ int_string (sint (imm di))"
| "disasm_op INSTRUCTION_OP_JALR di =
     pad_right 8 ''jalr'' @ '' '' @ get_abi_name (rd di) @ '', '' @ int_string (sint (imm di)) @
       ''('' @ get_abi_name (rs1 di) @ '')''"
| "disasm_op INSTRUCTION_OP_BEQ di =
     pad_right 8 ''beq'' @ '' '' @ get_abi_name (rs1 di) @ '', '' @ get_abi_name (rs2 di) @
       '', '' @ int_string (sint (imm di))"
| "disasm_op INSTRUCTION_OP_BNE di =
     pad_right 8 ''bne'' @ '' '' @ get_abi_name (rs1 di) @ '', '' @ get_abi_name (rs2 di) @
       '', '' @ int_string (sint (imm di))"
| "disasm_op INSTRUCTION_OP_BLT di =
     pad_right 8 ''blt'' @ '' '' @ get_abi_name (rs1 di) @ '', '' @ get_abi_name (rs2 di) @
       '', '' @ int_string (sint (imm di))"
| "disasm_op INSTRUCTION_OP_BGE di =
     pad_right 8 ''bge'' @ '' '' @ get_abi_name (rs1 di) @ '', '' @ get_abi_name (rs2 di) @
       '', '' @ int_string (sint (imm di))"
| "disasm_op INSTRUCTION_OP_BLTU di =
     pad_right 8 ''bltu'' @ '' '' @ get_abi_name (rs1 di) @ '', '' @ get_abi_name (rs2 di) @
       '', '' @ int_string (sint (imm di))"
| "disasm_op INSTRUCTION_OP_BGEU di =
     pad_right 8 ''bgeu'' @ '' '' @ get_abi_name (rs1 di) @ '', '' @ get_abi_name (rs2 di) @
       '', '' @ int_string (sint (imm di))"
| "disasm_op INSTRUCTION_OP_LB di =
     pad_right 8 ''lb'' @ '' '' @ get_abi_name (rd di) @ '', '' @ int_string (sint (imm di)) @
       ''('' @ get_abi_name (rs1 di) @ '')''"
| "disasm_op INSTRUCTION_OP_LH di =
     pad_right 8 ''lh'' @ '' '' @ get_abi_name (rd di) @ '', '' @ int_string (sint (imm di)) @
       ''('' @ get_abi_name (rs1 di) @ '')''"
| "disasm_op INSTRUCTION_OP_LW di =
     pad_right 8 ''lw'' @ '' '' @ get_abi_name (rd di) @ '', '' @ int_string (sint (imm di)) @
       ''('' @ get_abi_name (rs1 di) @ '')''"
| "disasm_op INSTRUCTION_OP_LBU di =
     pad_right 8 ''lbu'' @ '' '' @ get_abi_name (rd di) @ '', '' @ int_string (sint (imm di)) @
       ''('' @ get_abi_name (rs1 di) @ '')''"
| "disasm_op INSTRUCTION_OP_LHU di =
     pad_right 8 ''lhu'' @ '' '' @ get_abi_name (rd di) @ '', '' @ int_string (sint (imm di)) @
       ''('' @ get_abi_name (rs1 di) @ '')''"
| "disasm_op INSTRUCTION_OP_SB di =
     pad_right 8 ''sb'' @ '' '' @ get_abi_name (rs2 di) @ '', '' @ int_string (sint (imm di)) @
       ''('' @ get_abi_name (rs1 di) @ '')''"
| "disasm_op INSTRUCTION_OP_SH di =
     pad_right 8 ''sh'' @ '' '' @ get_abi_name (rs2 di) @ '', '' @ int_string (sint (imm di)) @
       ''('' @ get_abi_name (rs1 di) @ '')''"
| "disasm_op INSTRUCTION_OP_SW di =
     pad_right 8 ''sw'' @ '' '' @ get_abi_name (rs2 di) @ '', '' @ int_string (sint (imm di)) @
       ''('' @ get_abi_name (rs1 di) @ '')''"
| "disasm_op INSTRUCTION_OP_ADDI di =
     pad_right 8 ''addi'' @ '' '' @ get_abi_name (rd di) @ '', '' @ get_abi_name (rs1 di) @
       '', '' @ int_string (sint (imm di))"
| "disasm_op INSTRUCTION_OP_SLTI di =
     pad_right 8 ''slti'' @ '' '' @ get_abi_name (rd di) @ '', '' @ get_abi_name (rs1 di) @
       '', '' @ int_string (sint (imm di))"
| "disasm_op INSTRUCTION_OP_SLTIU di =
     pad_right 8 ''sltiu'' @ '' '' @ get_abi_name (rd di) @ '', '' @ get_abi_name (rs1 di) @
       '', '' @ dec_string (unat (imm di))"
| "disasm_op INSTRUCTION_OP_XORI di =
     pad_right 8 ''xori'' @ '' '' @ get_abi_name (rd di) @ '', '' @ get_abi_name (rs1 di) @
       '', '' @ int_string (sint (imm di))"
| "disasm_op INSTRUCTION_OP_ORI di =
     pad_right 8 ''ori'' @ '' '' @ get_abi_name (rd di) @ '', '' @ get_abi_name (rs1 di) @
       '', '' @ int_string (sint (imm di))"
| "disasm_op INSTRUCTION_OP_ANDI di =
     pad_right 8 ''andi'' @ '' '' @ get_abi_name (rd di) @ '', '' @ get_abi_name (rs1 di) @
       '', '' @ int_string (sint (imm di))"
| "disasm_op INSTRUCTION_OP_SLLI di =
     pad_right 8 ''slli'' @ '' '' @ get_abi_name (rd di) @ '', '' @ get_abi_name (rs1 di) @
       '', '' @ dec_string (unat (imm di AND 0x1F))"
| "disasm_op INSTRUCTION_OP_SRLI di =
     pad_right 8 ''srli'' @ '' '' @ get_abi_name (rd di) @ '', '' @ get_abi_name (rs1 di) @
       '', '' @ dec_string (unat (imm di AND 0x1F))"
| "disasm_op INSTRUCTION_OP_SRAI di =
     pad_right 8 ''srai'' @ '' '' @ get_abi_name (rd di) @ '', '' @ get_abi_name (rs1 di) @
       '', '' @ dec_string (unat (imm di AND 0x1F))"
| "disasm_op INSTRUCTION_OP_ADD di =
     pad_right 8 ''add'' @ '' '' @ get_abi_name (rd di) @ '', '' @ get_abi_name (rs1 di) @
       '', '' @ get_abi_name (rs2 di)"
| "disasm_op INSTRUCTION_OP_SUB di =
     pad_right 8 ''sub'' @ '' '' @ get_abi_name (rd di) @ '', '' @ get_abi_name (rs1 di) @
       '', '' @ get_abi_name (rs2 di)"
| "disasm_op INSTRUCTION_OP_SLL di =
     pad_right 8 ''sll'' @ '' '' @ get_abi_name (rd di) @ '', '' @ get_abi_name (rs1 di) @
       '', '' @ get_abi_name (rs2 di)"
| "disasm_op INSTRUCTION_OP_SLT di =
     pad_right 8 ''slt'' @ '' '' @ get_abi_name (rd di) @ '', '' @ get_abi_name (rs1 di) @
       '', '' @ get_abi_name (rs2 di)"
| "disasm_op INSTRUCTION_OP_SLTU di =
     pad_right 8 ''sltu'' @ '' '' @ get_abi_name (rd di) @ '', '' @ get_abi_name (rs1 di) @
       '', '' @ get_abi_name (rs2 di)"
| "disasm_op INSTRUCTION_OP_XOR di =
     pad_right 8 ''xor'' @ '' '' @ get_abi_name (rd di) @ '', '' @ get_abi_name (rs1 di) @
       '', '' @ get_abi_name (rs2 di)"
| "disasm_op INSTRUCTION_OP_SRL di =
     pad_right 8 ''srl'' @ '' '' @ get_abi_name (rd di) @ '', '' @ get_abi_name (rs1 di) @
       '', '' @ get_abi_name (rs2 di)"
| "disasm_op INSTRUCTION_OP_SRA di =
     pad_right 8 ''sra'' @ '' '' @ get_abi_name (rd di) @ '', '' @ get_abi_name (rs1 di) @
       '', '' @ get_abi_name (rs2 di)"
| "disasm_op INSTRUCTION_OP_OR di =
     pad_right 8 ''or'' @ '' '' @ get_abi_name (rd di) @ '', '' @ get_abi_name (rs1 di) @ '', '' @
       get_abi_name (rs2 di)"
| "disasm_op INSTRUCTION_OP_AND di =
     pad_right 8 ''and'' @ '' '' @ get_abi_name (rd di) @ '', '' @ get_abi_name (rs1 di) @
       '', '' @ get_abi_name (rs2 di)"
| "disasm_op INSTRUCTION_OP_FENCE di = pad_right 8 ''fence''"
| "disasm_op INSTRUCTION_OP_FENCE_I di = pad_right 8 ''fence.i''"
| "disasm_op INSTRUCTION_OP_ECALL di = pad_right 8 ''ecall''"
| "disasm_op INSTRUCTION_OP_EBREAK di = pad_right 8 ''ebreak''"
| "disasm_op INSTRUCTION_OP_CSRRW di =
     pad_right 8 ''csrrw'' @ '' '' @ get_abi_name (rd di) @ '', 0x'' @
       pad_left (CHR ''0'') 3 (hex_string (unat (imm di AND 0xFFF))) @ '', '' @
       get_abi_name (rs1 di)"
| "disasm_op INSTRUCTION_OP_CSRRS di =
     pad_right 8 ''csrrs'' @ '' '' @ get_abi_name (rd di) @ '', 0x'' @
       pad_left (CHR ''0'') 3 (hex_string (unat (imm di AND 0xFFF))) @ '', '' @
       get_abi_name (rs1 di)"
| "disasm_op INSTRUCTION_OP_CSRRC di =
     pad_right 8 ''csrrc'' @ '' '' @ get_abi_name (rd di) @ '', 0x'' @
       pad_left (CHR ''0'') 3 (hex_string (unat (imm di AND 0xFFF))) @ '', '' @
       get_abi_name (rs1 di)"
| "disasm_op INSTRUCTION_OP_CSRRWI di =
     pad_right 8 ''csrrwi'' @ '' '' @ get_abi_name (rd di) @ '', 0x'' @
       pad_left (CHR ''0'') 3 (hex_string (unat (imm di AND 0xFFF))) @ '', '' @
       dec_string (unat (rs1 di))"
| "disasm_op INSTRUCTION_OP_CSRRSI di =
     pad_right 8 ''csrrsi'' @ '' '' @ get_abi_name (rd di) @ '', 0x'' @
       pad_left (CHR ''0'') 3 (hex_string (unat (imm di AND 0xFFF))) @ '', '' @
       dec_string (unat (rs1 di))"
| "disasm_op INSTRUCTION_OP_CSRRCI di =
     pad_right 8 ''csrrci'' @ '' '' @ get_abi_name (rd di) @ '', 0x'' @
       pad_left (CHR ''0'') 3 (hex_string (unat (imm di AND 0xFFF))) @ '', '' @
       dec_string (unat (rs1 di))"
| "disasm_op INSTRUCTION_OP_MRET di = pad_right 8 ''mret''"
| "disasm_op INSTRUCTION_OP_UNKNOWN di = ''<internal error: should be invalid>''"
| "disasm_op INSTRUCTION_OP_NUM di = ''<internal error: OP_NUM>''"
| "disasm_op oper di = ''<unhandled valid op: '' @ dec_string (op_number oper) @ '' format: ''
     @ rve_instruction_format_to_cstr (format di) @ ''>''"

text \<open>
  The first component is what the function returns, the second what is in the buffer up to the
  terminating NUL, or None when the buffer is not written at all. Neither a NULL instruction nor
  a NULL buffer is an error the callers can meet; both are arguments here.
\<close>

definition disasm_text :: "decoded_instruction_t \<Rightarrow> string" where
  "disasm_text di =
    (if \<not> valid di
     then ''<invalid instruction: 0x'' @ word_text (original_instruction di) @ ''>''
     else disasm_op (op di) di)"

definition rve_decoded_format_to_buffer ::
    "decoded_instruction_t option \<Rightarrow> bool \<Rightarrow> u64 \<Rightarrow> int \<times> string option" where
  "rve_decoded_format_to_buffer di buffer buffer_size =
    (if di = None \<or> \<not> buffer \<or> buffer_size = 0
     then (-1, if buffer \<and> 0 < buffer_size then Some '''' else None)
     else (let (n, s) = snprintf buffer_size (disasm_text (the di)) in (n, Some s)))"

section \<open>A reference assembler\<close>

text \<open>
  The mnemonics of the manual and the operands of each instruction as assembly text writes them.
\<close>

fun mnemonic :: "instruction_op_t \<Rightarrow> string" where
  "mnemonic INSTRUCTION_OP_UNKNOWN = ''''"
| "mnemonic INSTRUCTION_OP_LUI = ''lui''"
| "mnemonic INSTRUCTION_OP_AUIPC = ''auipc''"
| "mnemonic INSTRUCTION_OP_JAL = ''jal''"
| "mnemonic INSTRUCTION_OP_JALR = ''jalr''"
| "mnemonic INSTRUCTION_OP_BEQ = ''beq''"
| "mnemonic INSTRUCTION_OP_BNE = ''bne''"
| "mnemonic INSTRUCTION_OP_BLT = ''blt''"
| "mnemonic INSTRUCTION_OP_BGE = ''bge''"
| "mnemonic INSTRUCTION_OP_BLTU = ''bltu''"
| "mnemonic INSTRUCTION_OP_BGEU = ''bgeu''"
| "mnemonic INSTRUCTION_OP_LB = ''lb''"
| "mnemonic INSTRUCTION_OP_LH = ''lh''"
| "mnemonic INSTRUCTION_OP_LW = ''lw''"
| "mnemonic INSTRUCTION_OP_LBU = ''lbu''"
| "mnemonic INSTRUCTION_OP_LHU = ''lhu''"
| "mnemonic INSTRUCTION_OP_SB = ''sb''"
| "mnemonic INSTRUCTION_OP_SH = ''sh''"
| "mnemonic INSTRUCTION_OP_SW = ''sw''"
| "mnemonic INSTRUCTION_OP_ADDI = ''addi''"
| "mnemonic INSTRUCTION_OP_SLTI = ''slti''"
| "mnemonic INSTRUCTION_OP_SLTIU = ''sltiu''"
| "mnemonic INSTRUCTION_OP_XORI = ''xori''"
| "mnemonic INSTRUCTION_OP_ORI = ''ori''"
| "mnemonic INSTRUCTION_OP_ANDI = ''andi''"
| "mnemonic INSTRUCTION_OP_SLLI = ''slli''"
| "mnemonic INSTRUCTION_OP_SRLI = ''srli''"
| "mnemonic INSTRUCTION_OP_SRAI = ''srai''"
| "mnemonic INSTRUCTION_OP_ADD = ''add''"
| "mnemonic INSTRUCTION_OP_SUB = ''sub''"
| "mnemonic INSTRUCTION_OP_SLL = ''sll''"
| "mnemonic INSTRUCTION_OP_SLT = ''slt''"
| "mnemonic INSTRUCTION_OP_SLTU = ''sltu''"
| "mnemonic INSTRUCTION_OP_XOR = ''xor''"
| "mnemonic INSTRUCTION_OP_SRL = ''srl''"
| "mnemonic INSTRUCTION_OP_SRA = ''sra''"
| "mnemonic INSTRUCTION_OP_OR = ''or''"
| "mnemonic INSTRUCTION_OP_AND = ''and''"
| "mnemonic INSTRUCTION_OP_FENCE = ''fence''"
| "mnemonic INSTRUCTION_OP_FENCE_I = ''fence.i''"
| "mnemonic INSTRUCTION_OP_ECALL = ''ecall''"
| "mnemonic INSTRUCTION_OP_EBREAK = ''ebreak''"
| "mnemonic INSTRUCTION_OP_MRET = ''mret''"
| "mnemonic INSTRUCTION_OP_MUL = ''mul''"
| "mnemonic INSTRUCTION_OP_MULH = ''mulh''"
| "mnemonic INSTRUCTION_OP_MULHSU = ''mulhsu''"
| "mnemonic INSTRUCTION_OP_MULHU = ''mulhu''"
| "mnemonic INSTRUCTION_OP_DIV = ''div''"
| "mnemonic INSTRUCTION_OP_DIVU = ''divu''"
| "mnemonic INSTRUCTION_OP_REM = ''rem''"
| "mnemonic INSTRUCTION_OP_REMU = ''remu''"
| "mnemonic INSTRUCTION_OP_CSRRW = ''csrrw''"
| "mnemonic INSTRUCTION_OP_CSRRS = ''csrrs''"
| "mnemonic INSTRUCTION_OP_CSRRC = ''csrrc''"
| "mnemonic INSTRUCTION_OP_CSRRWI = ''csrrwi''"
| "mnemonic INSTRUCTION_OP_CSRRSI = ''csrrsi''"
| "mnemonic INSTRUCTION_OP_CSRRCI = ''csrrci''"
| "mnemonic INSTRUCTION_OP_NUM = ''''"

datatype operands_t =
    Rd_Upper | Rd_Offset | Rd_Mem | Rs1_Rs2_Offset | Rs2_Mem | Rd_Rs1_Imm | Rd_Rs1_Unsigned
  | Rd_Rs1_Shamt | Rd_Rs1_Rs2 | Rd_Csr_Rs1 | Rd_Csr_Uimm | No_Operands

definition operands_of :: "instruction_op_t \<Rightarrow> operands_t" where
  "operands_of oper =
    (case rv32_format oper of
       INSTRUCTION_FORMAT_U \<Rightarrow> Rd_Upper
     | INSTRUCTION_FORMAT_J \<Rightarrow> Rd_Offset
     | INSTRUCTION_FORMAT_B \<Rightarrow> Rs1_Rs2_Offset
     | INSTRUCTION_FORMAT_S \<Rightarrow> Rs2_Mem
     | INSTRUCTION_FORMAT_R \<Rightarrow> Rd_Rs1_Rs2
     | _ \<Rightarrow>
         if oper \<in> {INSTRUCTION_OP_JALR, INSTRUCTION_OP_LB, INSTRUCTION_OP_LH, INSTRUCTION_OP_LW,
              INSTRUCTION_OP_LBU, INSTRUCTION_OP_LHU} then Rd_Mem
         else if oper \<in> {INSTRUCTION_OP_SLLI, INSTRUCTION_OP_SRLI, INSTRUCTION_OP_SRAI} then Rd_Rs1_Shamt
         else if oper = INSTRUCTION_OP_SLTIU then Rd_Rs1_Unsigned
         else if oper \<in> {INSTRUCTION_OP_CSRRW, INSTRUCTION_OP_CSRRS, INSTRUCTION_OP_CSRRC} then Rd_Csr_Rs1
         else if oper \<in> {INSTRUCTION_OP_CSRRWI, INSTRUCTION_OP_CSRRSI, INSTRUCTION_OP_CSRRCI} then Rd_Csr_Uimm
         else if oper \<in> {INSTRUCTION_OP_FENCE, INSTRUCTION_OP_FENCE_I, INSTRUCTION_OP_ECALL,
              INSTRUCTION_OP_EBREAK, INSTRUCTION_OP_MRET} then No_Operands
         else Rd_Rs1_Imm)"

definition read_reg :: "string \<Rightarrow> u8 option" where
  "read_reg s =
    (let n = length (takeWhile (\<lambda>x. x \<noteq> s) abi_names)
     in if n < 32 then Some (of_nat n) else None)"

definition read_num :: "string \<Rightarrow> u32" where
  "read_num s =
    (case s of
       [] \<Rightarrow> 0
     | c # cs \<Rightarrow> if c = CHR ''-'' then - of_nat (read_digits 10 cs 0)
                 else of_nat (read_digits 10 s 0))"

definition read_0x :: "string \<Rightarrow> u32" where
  "read_0x s = of_nat (read_digits 16 (drop 2 s) 0)"

fun read_operands :: "operands_t \<Rightarrow> string list \<Rightarrow> (u8 option \<times> u8 option \<times> u8 option \<times> u32) option" where
  "read_operands Rd_Upper [d, i] = Some (read_reg d, Some 0, Some 0, push_bit 12 (read_0x i))"
| "read_operands Rd_Offset [d, i] = Some (read_reg d, Some 0, Some 0, read_num i)"
| "read_operands Rd_Mem [d, i, s1] = Some (read_reg d, read_reg s1, Some 0, read_num i)"
| "read_operands Rs1_Rs2_Offset [s1, s2, i] = Some (Some 0, read_reg s1, read_reg s2, read_num i)"
| "read_operands Rs2_Mem [s2, i, s1] = Some (Some 0, read_reg s1, read_reg s2, read_num i)"
| "read_operands Rd_Rs1_Imm [d, s1, i] = Some (read_reg d, read_reg s1, Some 0, read_num i)"
| "read_operands Rd_Rs1_Unsigned [d, s1, i] = Some (read_reg d, read_reg s1, Some 0, read_num i)"
| "read_operands Rd_Rs1_Shamt [d, s1, i] = Some (read_reg d, read_reg s1, Some 0, read_num i)"
| "read_operands Rd_Rs1_Rs2 [d, s1, s2] = Some (read_reg d, read_reg s1, read_reg s2, 0)"
| "read_operands Rd_Csr_Rs1 [d, i, s1] = Some (read_reg d, read_reg s1, Some 0, read_0x i)"
| "read_operands Rd_Csr_Uimm [d, i, s1] = Some (read_reg d, Some (ucast (read_num s1)), Some 0, read_0x i)"
| "read_operands No_Operands [] = Some (Some 0, Some 0, Some 0, 0)"
| "read_operands _ _ = None"

definition assemble :: "string \<Rightarrow> u32 option" where
  "assemble s =
    (case tokens [] s of
       [] \<Rightarrow> None
     | m # args \<Rightarrow>
         (case find (\<lambda>oper. mnemonic oper = m) enum_class.enum of
            None \<Rightarrow> None
          | Some oper \<Rightarrow>
              (case read_operands (operands_of oper) args of
                 Some (Some d, Some s1, Some s2, im) \<Rightarrow> rv32_encode oper d s1 s2 im
               | _ \<Rightarrow> None)))"

section \<open>The text is mnemonic and operands\<close>

text \<open>The operations without a case of their own in the switch.\<close>

definition unhandled_ops :: "instruction_op_t set" where
  "unhandled_ops =
    {INSTRUCTION_OP_MUL, INSTRUCTION_OP_MULH, INSTRUCTION_OP_MULHSU, INSTRUCTION_OP_MULHU,
     INSTRUCTION_OP_DIV, INSTRUCTION_OP_DIVU, INSTRUCTION_OP_REM, INSTRUCTION_OP_REMU}"

definition operand_text :: "operands_t \<Rightarrow> decoded_instruction_t \<Rightarrow> string" where
  "operand_text k di =
    (case k of
       Rd_Upper \<Rightarrow> get_abi_name (rd di) @ '', 0x'' @ hex_string (unat (drop_bit 12 (imm di)))
     | Rd_Offset \<Rightarrow> get_abi_name (rd di) @ '', '' @ int_string (sint (imm di))
     | Rd_Mem \<Rightarrow> get_abi_name (rd di) @ '', '' @ int_string (sint (imm di)) @ ''(''
         @ get_abi_name (rs1 di) @ '')''
     | Rs1_Rs2_Offset \<Rightarrow> get_abi_name (rs1 di) @ '', '' @ get_abi_name (rs2 di) @ '', ''
         @ int_string (sint (imm di))
     | Rs2_Mem \<Rightarrow> get_abi_name (rs2 di) @ '', '' @ int_string (sint (imm di)) @ ''(''
         @ get_abi_name (rs1 di) @ '')''
     | Rd_Rs1_Imm \<Rightarrow> get_abi_name (rd di) @ '', '' @ get_abi_name (rs1 di) @ '', ''
         @ int_string (sint (imm di))
     | Rd_Rs1_Unsigned \<Rightarrow> get_abi_name (rd di) @ '', '' @ get_abi_name (rs1 di) @ '', ''
         @ dec_string (unat (imm di))
     | Rd_Rs1_Shamt \<Rightarrow> get_abi_name (rd di) @ '', '' @ get_abi_name (rs1 di) @ '', ''
         @ dec_string (unat (imm di AND 0x1F))
     | Rd_Rs1_Rs2 \<Rightarrow> get_abi_name (rd di) @ '', '' @ get_abi_name (rs1 di) @ '', ''
         @ get_abi_name (rs2 di)
     | Rd_Csr_Rs1 \<Rightarrow> get_abi_name (rd di) @ '', 0x''
         @ pad_left (CHR ''0'') 3 (hex_string (unat (imm di AND 0xFFF))) @ '', '' @ get_abi_name (rs1 di)
     | Rd_Csr_Uimm \<Rightarrow> get_abi_name (rd di) @ '', 0x''
         @ pad_left (CHR ''0'') 3 (hex_string (unat (imm di AND 0xFFF))) @ '', '' @ dec_string (unat (rs1 di))
     | No_Operands \<Rightarrow> '''')"

lemma disasm_op_operands:
  assumes "oper \<notin> unhandled_ops" "oper \<noteq> INSTRUCTION_OP_UNKNOWN" "oper \<noteq> INSTRUCTION_OP_NUM"
  shows "disasm_op oper di = (if operands_of oper = No_Operands then pad_right 8 (mnemonic oper)
    else pad_right 8 (mnemonic oper) @ '' '' @ operand_text (operands_of oper) di)"
  using assms
  by (cases oper) (simp_all add: unhandled_ops_def operands_of_def rv32_format_def operand_text_def)

section \<open>Reading the text back\<close>

lemma word_ok_abi: "n < 32 \<Longrightarrow> word_ok (abi_names ! n)"
proof -
  have "list_all word_ok abi_names" by code_simp
  moreover have "length abi_names = 32" by (simp add: abi_names_def)
  ultimately show "n < 32 \<Longrightarrow> word_ok (abi_names ! n)" by (simp add: list_all_length)
qed

lemma read_abi:
  assumes "unat r < 32"
  shows "read_reg (get_abi_name r) = Some r" "word_ok (get_abi_name r)"
    "length (get_abi_name r) \<le> 4"
proof -
  have d: "distinct abi_names" by code_simp
  have len: "length abi_names = 32" by (simp add: abi_names_def)
  have "list_all (\<lambda>s. length s \<le> 4) abi_names" by code_simp
  with assms len show "length (get_abi_name r) \<le> 4"
    by (simp add: list_all_length get_abi_name_def XLEN_def)
  show "word_ok (get_abi_name r)"
    using assms by (simp add: word_ok_abi get_abi_name_def XLEN_def)
  have "takeWhile (\<lambda>x. x \<noteq> abi_names ! k) abi_names = take k abi_names" if "k < 32" for k
    using that d len
    by (intro takeWhile_eq_take_P_nth) (simp_all add: nth_eq_iff_index_eq)
  with assms len show "read_reg (get_abi_name r) = Some r"
    by (simp add: get_abi_name_def XLEN_def read_reg_def)
qed

lemma read_num_int: "read_num (int_string i) = word_of_int i"
proof -
  have "read_num (dec_string n) = of_nat n" for n
  proof -
    obtain c cs where s: "dec_string n = c # cs"
      by (cases "dec_string n") (simp_all add: dec_string_def)
    then have "digit_value c \<noteq> None"
      using radix_string_value [of c 10 n] by (simp add: dec_string_def)
    then have "c \<noteq> CHR ''-''" by (metis not_digits(1))
    with s show ?thesis using read_dec [of n] by (simp add: read_num_def)
  qed
  moreover have "read_num (CHR ''-'' # s) = - of_nat (read_digits 10 s 0)" for s
    by (simp add: read_num_def)
  ultimately show ?thesis
    by (cases i rule: int_cases2) (simp_all add: int_string_def read_dec)
qed

lemma read_num_dec: "read_num (dec_string n) = of_nat n"
  using read_num_int [of "int n"] by (simp add: int_string_def)

lemma read_zeros: "read_digits 16 (replicate k (CHR ''0'') @ s) 0 = read_digits 16 s 0"
proof -
  have "digit_value (CHR ''0'') = Some 0" by code_simp
  then show ?thesis by (induction k) simp_all
qed

lemma read_0x_hex [simp]:
  "read_0x (CHR ''0'' # CHR ''x'' # hex_string n) = of_nat n"
  "read_0x (CHR ''0'' # CHR ''x'' # pad_left (CHR ''0'') k (hex_string n)) = of_nat n"
  by (simp_all add: read_0x_def read_hex pad_left_def read_zeros)

lemma word_ok_0x [simp]:
  "word_ok (CHR ''0'' # CHR ''x'' # hex_string n)"
  "word_ok (CHR ''0'' # CHR ''x'' # pad_left (CHR ''0'') k (hex_string n))"
proof -
  have "list_all (\<lambda>c. \<not> is_sep c) (replicate k (CHR ''0''))" for k
    by (induction k) (simp_all add: is_sep_def)
  moreover have "list_all (\<lambda>c. \<not> is_sep c) (hex_string n)"
    using word_ok_numbers(2) [of n] by (simp only: word_ok_def)
  ultimately show "word_ok (CHR ''0'' # CHR ''x'' # hex_string n)"
    "word_ok (CHR ''0'' # CHR ''x'' # pad_left (CHR ''0'') k (hex_string n))"
    by (simp_all add: word_ok_def is_sep_def pad_left_def)
qed

lemma tokens_step:
  "word_ok s \<Longrightarrow> tokens [] (s @ CHR '','' # CHR '' '' # rest) = s # tokens [] rest"
  "word_ok s \<Longrightarrow> tokens [] (s @ CHR ''('' # rest) = s # tokens [] rest"
  "word_ok s \<Longrightarrow> tokens [] (s @ [CHR '')'']) = [s]"
proof -
  assume ok: "word_ok s"
  then have ne: "s \<noteq> []" by (simp add: word_ok_def)
  have sep: "is_sep (CHR '','')" "is_sep (CHR '' '')" "is_sep (CHR ''('')" "is_sep (CHR '')'')"
    by (simp_all add: is_sep_def)
  show "tokens [] (s @ CHR '','' # CHR '' '' # rest) = s # tokens [] rest"
    "tokens [] (s @ CHR ''('' # rest) = s # tokens [] rest" "tokens [] (s @ [CHR '')'']) = [s]"
    using ne sep by (simp_all add: tokens_word(1) [OF ok])
qed

lemma tokens_disasm_op:
  assumes "oper \<notin> unhandled_ops" "oper \<noteq> INSTRUCTION_OP_UNKNOWN" "oper \<noteq> INSTRUCTION_OP_NUM"
  shows "tokens [] (disasm_op oper di) = mnemonic oper # tokens [] (operand_text (operands_of oper) di)"
proof -
  have "list_all (\<lambda>x. word_ok (mnemonic x)
      \<or> x = INSTRUCTION_OP_UNKNOWN \<or> x = INSTRUCTION_OP_NUM) enum_class.enum"
    by code_simp
  then have "word_ok (mnemonic oper)"
    using assms UNIV_enum by (auto simp: list_all_iff)
  then show ?thesis
    using disasm_op_operands [OF assms, of di]
    by (simp add: tokens_pad_right operand_text_def)
qed

lemma assemble_tokens:
  assumes "tokens [] s = mnemonic oper # args" "oper \<notin> {INSTRUCTION_OP_UNKNOWN, INSTRUCTION_OP_NUM}"
    "read_operands (operands_of oper) args = Some (Some d, Some s1, Some s2, im)"
  shows "assemble s = rv32_encode oper d s1 s2 im"
proof -
  have "list_all (\<lambda>x. x \<in> {INSTRUCTION_OP_UNKNOWN, INSTRUCTION_OP_NUM}
      \<or> find (\<lambda>y. mnemonic y = mnemonic x) enum_class.enum = Some x) enum_class.enum"
    by code_simp
  then have "find (\<lambda>y. mnemonic y = mnemonic oper) enum_class.enum = Some oper"
    using assms(2) UNIV_enum by (auto simp: list_all_iff)
  with assms show ?thesis by (simp add: assemble_def)
qed

definition kept_operands :: "operands_t \<Rightarrow> decoded_instruction_t \<Rightarrow> u8 \<times> u8 \<times> u8 \<times> u32" where
  "kept_operands k di =
    (case k of
       Rd_Upper \<Rightarrow> (rd di, 0, 0, push_bit 12 (drop_bit 12 (imm di)))
     | Rd_Offset \<Rightarrow> (rd di, 0, 0, imm di)
     | Rs1_Rs2_Offset \<Rightarrow> (0, rs1 di, rs2 di, imm di)
     | Rs2_Mem \<Rightarrow> (0, rs1 di, rs2 di, imm di)
     | Rd_Rs1_Shamt \<Rightarrow> (rd di, rs1 di, 0, imm di AND 0x1F)
     | Rd_Rs1_Rs2 \<Rightarrow> (rd di, rs1 di, rs2 di, 0)
     | Rd_Csr_Rs1 \<Rightarrow> (rd di, rs1 di, 0, imm di AND 0xFFF)
     | Rd_Csr_Uimm \<Rightarrow> (rd di, rs1 di, 0, imm di AND 0xFFF)
     | No_Operands \<Rightarrow> (0, 0, 0, 0)
     | _ \<Rightarrow> (rd di, rs1 di, 0, imm di))"

lemma ucast_ucast_u8: "(ucast (ucast r :: u32) :: u8) = r"
  by (rule bit_word_eqI) (simp add: bit_simps)

lemma read_operand_text:
  assumes "unat (rd di) < 32" "unat (rs1 di) < 32" "unat (rs2 di) < 32"
  shows "read_operands k (tokens [] (operand_text k di)) =
    (case kept_operands k di of (d, s1, s2, im) \<Rightarrow> Some (Some d, Some s1, Some s2, im))"
proof -
  note [simp] = read_abi(1,2) [OF assms(1)] read_abi(1,2) [OF assms(2)] read_abi(1,2) [OF assms(3)]
  note hex_tokens = tokens_step(1) [OF word_ok_0x(2), unfolded append_Cons]
    tokens_word(2) [OF word_ok_0x(1)]
  show ?thesis
    by (cases k)
      (simp_all add: operand_text_def kept_operands_def tokens_step hex_tokens tokens_word(2)
        read_num_int read_num_dec ucast_ucast_u8 del: tokens.simps(2))
qed

lemma asm_kept:
  "asm_u (push_bit 12 (drop_bit 12 im)) d opc = asm_u im d opc"
  "asm_i (im AND 0xFFF) r1 f3 d opc = asm_i im r1 f3 d opc"
  "asm_r f7 (ucast (im AND 0x1F)) r1 f3 d opc = asm_r f7 (ucast im) r1 f3 d opc"
  by (rule bit_eq32I,
      simp add: asm_u_def asm_i_def asm_r_def mask_and_eq_take_bit bit_simps)+

lemma encode_kept:
  assumes "oper \<notin> {INSTRUCTION_OP_FENCE, INSTRUCTION_OP_FENCE_I}"
  shows "(case kept_operands (operands_of oper) di of (d, s1, s2, im) \<Rightarrow> rv32_encode oper d s1 s2 im)
    = rv32_encode oper (rd di) (rs1 di) (rs2 di) (imm di)"
  using assms
  by (cases oper)
    (simp_all add: kept_operands_def operands_of_def rv32_format_def asm_kept)

text \<open>
  C11 (roundtrip): the text of an instruction can be assembled again. For every word the decoder
  recognises, except FENCE and FENCE.I, whose operands are not printed, and the operations of the
  M extension, which the disassembler does not know, the reference assembler reads the text the
  disassembler prints back to the same word; so no two such instructions have the same text.
\<close>

theorem disassemble_assemble:
  assumes "op (rve_decode_instruction w) \<notin> unhandled_ops \<union>
    {INSTRUCTION_OP_UNKNOWN, INSTRUCTION_OP_FENCE, INSTRUCTION_OP_FENCE_I}"
  shows "assemble (disasm_text (rve_decode_instruction w)) = Some w"
proof -
  define di where "di = rve_decode_instruction w"
  have num: "op di \<noteq> INSTRUCTION_OP_NUM"
    using encode_decode_lemma [of w] assms by (auto simp: di_def Let_def)
  have shown: "disasm_text di = disasm_op (op di) di"
    using decode_invalid_unknown [of w] assms by (auto simp: disasm_text_def di_def)
  have "assemble (disasm_op (op di) di) = rv32_encode (op di) (rd di) (rs1 di) (rs2 di) (imm di)"
  proof (cases "kept_operands (operands_of (op di)) di")
    case (fields d s1 s2 im)
    have "tokens [] (disasm_op (op di) di)
        = mnemonic (op di) # tokens [] (operand_text (operands_of (op di)) di)"
      using assms num by (intro tokens_disasm_op) (auto simp: di_def)
    moreover have "read_operands (operands_of (op di)) (tokens [] (operand_text (operands_of (op di)) di))
        = Some (Some d, Some s1, Some s2, im)"
      using read_operand_text [of di] decode_regs_lemma [of w] fields by (simp add: di_def)
    ultimately have "assemble (disasm_op (op di) di) = rv32_encode (op di) d s1 s2 im"
      using assms num by (intro assemble_tokens) (auto simp: di_def)
    then show ?thesis
      using encode_kept [of "op di" di] fields assms by (auto simp: di_def)
  qed
  then show ?thesis
    using encode_decode_lemma [of w] assms shown by (auto simp: di_def Let_def)
qed

lemma disassemble_assemble_witness:
  "assemble (disasm_text (rve_decode_instruction 0xFE20CEE3)) = Some 0xFE20CEE3
   \<and> disasm_text (rve_decode_instruction 0xFE20CEE3) = ''blt      ra, sp, -4''"
proof -
  have "op (rve_decode_instruction 0xFE20CEE3) = INSTRUCTION_OP_BLT"
    "disasm_text (rve_decode_instruction 0xFE20CEE3) = ''blt      ra, sp, -4''"
    by code_simp+
  then show ?thesis
    using disassemble_assemble [of "0xFE20CEE3"] by (simp add: unhandled_ops_def)
qed


section \<open>The length of the text\<close>

lemma dec_length: "n < 10 ^ k \<Longrightarrow> 0 < k \<Longrightarrow> length (dec_string n) \<le> k"
  unfolding dec_string_def by (rule radix_string_length) simp_all

lemma hex_length: "n < 16 ^ k \<Longrightarrow> 0 < k \<Longrightarrow> length (hex_string n) \<le> k"
  unfolding hex_string_def by (rule radix_string_length) simp_all

lemma word_lengths:
  "length (dec_string (unat w)) \<le> 10" "length (hex_string (unat w)) \<le> 8"
  "length (int_string (sint w)) \<le> 11" for w :: u32
proof -
  show "length (dec_string (unat w)) \<le> 10"
    using unat_less32 [of w] by (intro dec_length) simp_all
  show "length (hex_string (unat w)) \<le> 8"
    using unat_less32 [of w] by (intro hex_length) simp_all
  have "- (2 ^ 31) \<le> sint w" "sint w < 2 ^ 31"
    using sint_range_size [of w] by (simp_all add: word_size)
  then have "nat (sint w) < 10 ^ 10" "nat (- sint w) < 10 ^ 10" by simp_all
  then have "length (dec_string (nat (sint w))) \<le> 10" "length (dec_string (nat (- sint w))) \<le> 10"
    by (auto intro!: dec_length)
  then show "length (int_string (sint w)) \<le> 11" by (simp add: int_string_def)
qed

lemma reg_lengths: "length (get_abi_name r) \<le> 4" "length (dec_string (unat r)) \<le> 3" for r :: u8
proof -
  show "length (get_abi_name r) \<le> 4"
    using read_abi(3) [of r] by (cases "unat r < 32") (simp_all add: get_abi_name_def XLEN_def)
  have "unat r < 2 ^ LENGTH(8)" by (rule unsigned_less)
  then show "length (dec_string (unat r)) \<le> 3" by (intro dec_length) simp_all
qed

lemma operand_text_length: "length (operand_text k di) \<le> 23"
  using word_lengths [of "imm di"] word_lengths [of "imm di AND 0x1F"]
    word_lengths [of "imm di AND 0xFFF"] word_lengths [of "drop_bit 12 (imm di)"]
    reg_lengths [of "rd di"] reg_lengths [of "rs1 di"] reg_lengths [of "rs2 di"]
  by (cases k) (simp_all add: operand_text_def pad_left_def)

lemma enum_bounds:
  "length (mnemonic oper) \<le> 8" "length (dec_string (op_number oper)) \<le> 2"
proof -
  have "list_all (\<lambda>x. length (mnemonic x) \<le> 8 \<and> op_number x < 100) enum_class.enum"
    by code_simp
  then have "length (mnemonic oper) \<le> 8 \<and> op_number oper < 10 ^ 2"
    using UNIV_enum by (auto simp: list_all_iff)
  then show "length (mnemonic oper) \<le> 8" "length (dec_string (op_number oper)) \<le> 2"
    by (auto intro!: dec_length)
qed

lemma disasm_text_length: "length (disasm_text di) \<le> 46"
proof (cases "valid di")
  case False
  then show ?thesis by (simp add: disasm_text_def word_text_length)
next
  case True
  have fmt: "length (rve_instruction_format_to_cstr (format di)) \<le> 13"
    by (cases "format di") simp_all
  consider "op di \<in> unhandled_ops" | "op di = INSTRUCTION_OP_UNKNOWN" | "op di = INSTRUCTION_OP_NUM"
    | "op di \<notin> unhandled_ops" "op di \<noteq> INSTRUCTION_OP_UNKNOWN" "op di \<noteq> INSTRUCTION_OP_NUM"
    by blast
  then show ?thesis
  proof cases
    case 1
    have "length (disasm_op (op di) di) = 31 + length (dec_string (op_number (op di)))
        + length (rve_instruction_format_to_cstr (format di))"
      using 1 by (auto simp: unhandled_ops_def)
    with fmt enum_bounds(2) [of "op di"] True show ?thesis by (simp add: disasm_text_def)
  next
    case 4
    from disasm_op_operands [OF 4] operand_text_length [of "operands_of (op di)" di]
      enum_bounds(1) [of "op di"] True
    show ?thesis by (simp add: disasm_text_def pad_right_def split: if_splits)
  qed (simp_all add: disasm_text_def True)
qed

text \<open>
  C29 (bounds): the tracer's buffer of 64 bytes holds the text of every decoded instruction, whatever
  the struct contains: nothing is cut off and the function returns the length of the text, at
  most 46.
\<close>

theorem disassembly_fits_trace_buffer:
  "length (disasm_text di) \<le> 46
   \<and> rve_decoded_format_to_buffer (Some di) True 64
      = (int (length (disasm_text di)), Some (disasm_text di))"
  using disasm_text_length [of di] by (simp add: rve_decoded_format_to_buffer_def snprintf_def)

text \<open>
  C30 (error): which instructions the disassembler has no text for, exactly. It reports an
  operation it does not know for the eight multiplications and divisions, although the decoder and
  the hart implement them; it prints its internal error for the words the decoder marks valid
  without an operation; and it calls invalid only those the decoder calls invalid.
\<close>

theorem disassembly_errors:
  "(take 11 (disasm_text di) = ''<unhandled '' \<longleftrightarrow> valid di \<and> op di \<in> unhandled_ops)
   \<and> (disasm_text di = ''<internal error: should be invalid>''
      \<longleftrightarrow> valid di \<and> op di = INSTRUCTION_OP_UNKNOWN)
   \<and> (take 9 (disasm_text di) = ''<invalid '' \<longleftrightarrow> \<not> valid di)"
proof -
  have hd: "\<exists>c s. disasm_op (op di) di = c # s \<and> c \<noteq> CHR ''<''"
    if "op di \<notin> unhandled_ops" "op di \<noteq> INSTRUCTION_OP_UNKNOWN" "op di \<noteq> INSTRUCTION_OP_NUM"
    using that by (cases "op di") (simp_all add: unhandled_ops_def pad_right_def)
  show ?thesis
  proof (cases "valid di")
    case False
    then show ?thesis by (simp add: disasm_text_def)
  next
    case True
    consider "op di \<in> unhandled_ops" | "op di = INSTRUCTION_OP_UNKNOWN" | "op di = INSTRUCTION_OP_NUM"
      | "op di \<notin> unhandled_ops" "op di \<noteq> INSTRUCTION_OP_UNKNOWN" "op di \<noteq> INSTRUCTION_OP_NUM"
      by blast
    then show ?thesis
    proof cases
      case 4
      with hd show ?thesis using True by (auto simp: disasm_text_def)
    qed (use True in \<open>auto simp: disasm_text_def unhandled_ops_def\<close>)
  qed
qed

end
