(* ===== verification/Rve_Trace.thy ===== *)
theory Rve_Trace
  imports Rve_Runs Rve_Disasm
begin

unbundle bit_operations_syntax

text \<open>
  What the emulator prints about the hart: the tracer of src/main.c (lines 21 to 49) and
  \<open>hart_print\<close> of src/hart.c; and \<open>peripheral_debug\<close> of src/peripheral.c.
\<close>

section \<open>The tracer (src/main.c)\<close>

text \<open>
  What the callback appends to the line: the most interesting side effect. \<open>TRAP(%d)\<close> prints the
  enumerator as a signed number, and \<open>%u\<close> a width in bits.
\<close>

definition trace_effect :: "hart_retire_t \<Rightarrow> string" where
  "trace_effect r =
    (if r_trap r \<noteq> TRAP_NONE then ''  TRAP('' @ int_string (r_trap r) @ '')''
     else if mem_write r then
       ''  mem[0x'' @ word_text (mem_write_addr r) @ ''] <- 0x'' @ word_text (mem_write_value r)
         @ '' ('' @ dec_string (unat (mem_write_size r)) @ ''b)''
     else if mem_read r then
       ''  mem[0x'' @ word_text (mem_read_addr r) @ ''] -> 0x'' @ word_text (mem_read_value r)
         @ '' ('' @ dec_string (unat (mem_read_size r)) @ ''b)''
     else if rd_written r then
       ''  '' @ get_abi_name (r_rd r) @ '' <- 0x'' @ word_text (rd_value r)
     else if r_next_pc r \<noteq> r_pc r + 4 then ''  -> 0x'' @ word_text (r_next_pc r)
     else '''')"

text \<open>\<open>asm_buf\<close> after the call of the disassembler, whose result is ignored.\<close>

definition asm_buf :: "hart_retire_t \<Rightarrow> string" where
  "asm_buf r =
    (case snd (rve_decoded_format_to_buffer (Some (r_di r)) True 64) of None \<Rightarrow> '''' | Some s \<Rightarrow> s)"

definition trace_line :: "u64 \<Rightarrow> hart_retire_t \<Rightarrow> string" where
  "trace_line cycle r =
     ''['' @ pad_left (CHR '' '') 6 (dec_string (unat cycle)) @ ''] 0x'' @ word_text (r_pc r) @ ''  ''
       @ pad_right 32 (asm_buf r) @ trace_effect r @ [newline]"

text \<open>The user data is the address of a counter, a variable of the caller; NULL is undefined.\<close>

definition trace_callback :: trace_fn_t where
  "trace_callback r userdata w =
    (case userdata of
       None \<Rightarrow> None
     | Some v \<Rightarrow>
         let w1 = printf_stdout (trace_line (host_vars w v) r) w
         in Some (w1\<lparr>host_vars := (host_vars w1)(v := host_vars w1 v + 1)\<rparr>))"

section \<open>Dumping the hart (src/hart.c)\<close>

definition reg_cell :: "hart_t \<Rightarrow> nat \<Rightarrow> string option" where
  "reg_cell h i =
    do {
      v \<leftarrow> reg_read h (of_nat i);
      Some (''x'' @ pad_right 2 (dec_string i) @ '' '' @ pad_right 5 (get_abi_name (of_nat i))
        @ '' 0x'' @ word_text v)
    }"

function reg_rows :: "hart_t \<Rightarrow> nat \<Rightarrow> string option" where
  "reg_rows h i =
    (if i < XLEN then
       do {
         a \<leftarrow> reg_cell h i;
         b \<leftarrow> reg_cell h (i + 1);
         c \<leftarrow> reg_cell h (i + 2);
         d \<leftarrow> reg_cell h (i + 3);
         rest \<leftarrow> reg_rows h (i + 4);
         Some (''  '' @ a @ ''    '' @ b @ ''    '' @ c @ ''    '' @ d @ [newline] @ rest)
       }
     else Some '''')"
  by pat_completeness auto

termination reg_rows
  by (relation "measure (\<lambda>(h, i). XLEN - i)") auto

declare reg_rows.simps [simp del]

definition hart_print :: "hart_t \<Rightarrow> string option \<Rightarrow> world_t \<Rightarrow> world_t option" where
  "hart_print h title w =
    do {
      rows \<leftarrow> reg_rows h 0;
      Some (printf_stdout
        (''=== '' @ (case title of None \<Rightarrow> ''hart'' | Some t \<Rightarrow> t) @ '' ==='' @ [newline]
         @ ''PC: 0x'' @ word_text (pc h) @ [newline]
         @ rows
         @ ''  mstatus=0x'' @ word_text (mstatus (csr h)) @ ''  mtvec=0x'' @ word_text (mtvec (csr h))
         @ [newline]
         @ ''  mepc=0x'' @ word_text (mepc (csr h)) @ ''  mcause=0x'' @ word_text (mcause (csr h))
         @ ''  mtval=0x'' @ word_text (mtval (csr h)) @ ''  mscratch=0x'' @ word_text (mscratch (csr h))
         @ [newline] @ ''==='' @ [newline]) w)
    }"

text \<open>\<open>peripheral_debug\<close> of src/peripheral.c.\<close>

definition peripheral_debug :: "world_t peripheral_t \<Rightarrow> world_t \<Rightarrow> world_t" where
  "peripheral_debug p w =
    printf_stdout ([CHR 0x09] @ ''addr_end   0x'' @ word_text (addr_end p) @ [newline])
      (printf_stdout ([CHR 0x09] @ ''addr_start 0x'' @ word_text (addr_start p) @ [newline])
        (printf_stdout (name p @ [newline]) w))"

lemma reg_rows_defined: "regs_ok h \<Longrightarrow> i mod 4 = 0 \<Longrightarrow> \<exists>s. reg_rows h i = Some s"
proof (induction h i rule: reg_rows.induct)
  case (1 h i)
  have cell: "\<exists>s. reg_cell h k = Some s" if "k < 32" for k
  proof -
    have "unat (of_nat k :: u8) = k" using that by (simp add: unat_of_nat_small)
    with 1(2,3) that show ?thesis by (simp add: reg_cell_def)
  qed
  show ?case
  proof (cases "i < XLEN")
    case False
    then show ?thesis by (subst reg_rows.simps) simp
  next
    case True
    then have "i < 32" by (simp add: XLEN_def)
    with 1(3) have lt: "i + 3 < 32" by presburger
    obtain a b c d where cells: "reg_cell h i = Some a" "reg_cell h (i + 1) = Some b"
      "reg_cell h (i + 2) = Some c" "reg_cell h (i + 3) = Some d"
      using cell [of i] cell [of "i + 1"] cell [of "i + 2"] cell [of "i + 3"] lt by auto
    have "(i + 4) mod 4 = 0" using 1(3) by presburger
    from 1(1) [OF True cells 1(2) this] cells True show ?thesis
      by (subst reg_rows.simps) auto
  qed
qed

lemma hart_print_defined:
  assumes "hart_ok h"
  shows "\<exists>s. hart_print h title w = Some (printf_stdout s w)"
  using reg_rows_defined [of h 0] assms by (auto simp: hart_print_def)

end
