(* ===== verification/Rve_Tracing.thy ===== *)
theory Rve_Tracing
  imports Rve_Trace "HOL-Library.Sublist"
begin

text \<open>
  Tracing (src/main.c) is transparent: a simulation between runs with and without the tracer. What is
  printed is related by a relation on texts, a parameter of the simulation (locale \<open>output_relation\<close>);
  it is interpreted with \<open>subseq\<close> in both directions, so that a traced run prints what the untraced one
  prints, with more text in between.
\<close>

section \<open>Computations that agree up to a relation on worlds\<close>

definition agree :: "('w \<Rightarrow> 'w \<Rightarrow> bool) \<Rightarrow> ('a \<Rightarrow> 'b \<Rightarrow> bool) \<Rightarrow> ('a \<times> 'w) option \<Rightarrow> ('b \<times> 'w) option \<Rightarrow> bool" where
  "agree S R = rel_option (rel_prod R S)"

lemma agree_simps [simp]:
  "agree S R (Some (a, w)) (Some (b, v)) \<longleftrightarrow> R a b \<and> S w v" "agree S R None None"
  by (simp_all add: agree_def)

lemma agree_pure: "(\<And>a. agree S R (f a) (g a)) \<Longrightarrow> agree S R (x \<bind> f) (x \<bind> g)"
  by (cases x) simp_all

lemma agree_bind:
  assumes "agree S Q x y" "\<And>a b w v. x = Some (a, w) \<Longrightarrow> Q a b \<Longrightarrow> S w v \<Longrightarrow> agree S R (f (a, w)) (g (b, v))"
  shows "agree S R (x \<bind> f) (y \<bind> g)"
  using assms by (cases x; cases y) (auto simp: agree_def)

lemma agree_world:
  assumes "rel_option S x y" "\<And>w v. S w v \<Longrightarrow> agree S R (f w) (g v)"
  shows "agree S R (x \<bind> f) (y \<bind> g)"
  using assms by (cases x; cases y) auto

lemma agree_pure_case: "S w v \<Longrightarrow> agree S (=) (pure_case x w) (pure_case x v)"
  by (cases x) (simp_all add: pure_case_def)

text \<open>A bus that two worlds cannot be told apart by, and the hart on it.\<close>

locale bus_sim =
  fixes sim :: "'w \<Rightarrow> 'w \<Rightarrow> bool" and bus :: "'w bus_t"
  assumes rd_sim: "sim w v \<Longrightarrow> agree sim (=) (bus_read bus a sz w) (bus_read bus a sz v)"
    and wr_sim: "sim w v \<Longrightarrow> agree sim (=) (bus_write bus a d sz w) (bus_write bus a d sz v)"
begin

lemma load_sim: "sim w v \<Longrightarrow> agree sim (=) (exec_load bus di sz se s w) (exec_load bus di sz se s v)"
  unfolding exec_load_def Let_def
  by (auto intro!: agree_pure agree_bind [OF rd_sim] split: option.split)

lemma store_sim: "sim w v \<Longrightarrow> agree sim (=) (exec_store bus di sz m s w) (exec_store bus di sz m s v)"
  unfolding exec_store_def Let_def
  by (auto intro!: agree_pure agree_bind [OF wr_sim])

lemma execute_sim: "sim w v \<Longrightarrow> agree sim (=) (execute bus di oper s w) (execute bus di oper s v)"
  by (cases oper) (simp_all add: load_sim store_sim agree_pure_case)

lemma step_sim: "sim w v \<Longrightarrow> agree sim (=) (hart_step bus h w) (hart_step bus h v)"
  unfolding hart_step_def Let_def
  by (auto intro!: agree_pure agree_bind [OF rd_sim] agree_bind [OF execute_sim] split: option.split)

end

section \<open>Worlds that differ in what was printed\<close>

text \<open>
  Everything but the standard output and the caller's variables is the same, and the standard outputs
  are related by \<open>T\<close>.
\<close>

definition same_but_printed :: "(u8 list \<Rightarrow> u8 list \<Rightarrow> bool) \<Rightarrow> world_t \<Rightarrow> world_t \<Rightarrow> bool" where
  "same_but_printed T w v \<longleftrightarrow>
     heap w = heap v \<and> allocs w = allocs v \<and> alloc_ok w = alloc_ok v \<and> in_stream w = in_stream v
     \<and> (\<forall>f. f \<noteq> Stdout \<longrightarrow> out_stream w f = out_stream v f) \<and> halted w = halted v \<and> exit_code w = exit_code v
     \<and> T (out_stream w Stdout) (out_stream v Stdout)"

lemma same_but_printed_get:
  assumes "same_but_printed T w v"
  shows "get_memory w cx = get_memory v cx" "get_uart w cx = get_uart v cx"
    "get_tohost w cx = get_tohost v cx" "halted w = halted v" "exit_code w = exit_code v"
  using assms
  by (cases cx; simp add: same_but_printed_def get_memory_def get_uart_def get_tohost_def)+

text \<open>A bus all of whose devices are of the three kinds.\<close>

definition known_devices :: "world_t bus_t \<Rightarrow> bool" where
  "known_devices b \<longleftrightarrow> (\<forall>p \<in> set (peripherals b). active p \<longrightarrow>
     ops p \<in> {Some memory_ops, Some uart_ns16550a_ops, Some peripheral_tohost_ops})"

lemma bus_ok_known: "bus_ok slot_ok b w \<Longrightarrow> known_devices b"
  by (force simp: known_devices_def bus_ok_def slot_ok_def)

lemma board_known: "known_devices (board_bus l)"
  by (auto simp: known_devices_def board_bus_def board_slot_def zero_peripheral_def)

lemma default_handler_bus:
  "default_syscall_handler s r ud w = Some ((b, s'), w') \<Longrightarrow> soc_bus s' = soc_bus s"
  by (auto simp: default_syscall_handler_def set_a0_def split: Option.bind_splits if_splits)

lemma soc_step_bus: "soc_step s w = Some ((r, s'), w') \<Longrightarrow> soc_bus s' = soc_bus s"
  by (auto simp: soc_step_def split: Option.bind_splits)

text \<open>The part of \<open>emulator_step\<close> after the step of the system.\<close>

definition call_handler :: "emulator_t \<Rightarrow> hart_retire_t \<Rightarrow> world_t \<Rightarrow> ((bool \<times> soc_t) \<times> world_t) option" where
  "call_handler e r w =
    (case syscall_handler e of
       None \<Rightarrow> Some ((False, soc e), w)
     | Some f \<Rightarrow> f (soc e) r (syscall_userdata e) w)"

definition step_end :: "emulator_t \<Rightarrow> hart_retire_t \<Rightarrow> world_t \<Rightarrow> ((hart_retire_t \<times> emulator_t) \<times> world_t) option" where
  "step_end e1 r w1 =
    do {
      w2 \<leftarrow> (case trace_fn e1 of None \<Rightarrow> Some w1 | Some f \<Rightarrow> f r (trace_userdata e1) w1);
      if r_trap r = TRAP_ECALL_M then
        do {
          ((handled, s2), w3) \<leftarrow> call_handler e1 r w2;
          if \<not> handled then
            do {
              a0 \<leftarrow> reg_read (soc_hart s2) 10;
              Some ((r, e1\<lparr>soc := s2\<rparr>), w3\<lparr>halted := True, exit_code := sint a0\<rparr>)
            }
          else Some ((r\<lparr>r_trap := TRAP_NONE\<rparr>, e1\<lparr>soc := s2\<rparr>), w3)
        }
      else Some ((r, e1), w2)
    }"

lemma emulator_step_end:
  "emulator_step e w =
    (if halted w then Some ((zero_retire\<lparr>r_trap := TRAP_ILLEGAL_INSTR\<rparr>, e), w)
     else do {
       ((r, s1), w1) \<leftarrow> soc_step (soc e) w;
       step_end (e\<lparr>soc := s1, cycle_count := cycle_count e + 1\<rparr>) r w1
     })"
  by (simp only: emulator_step_def step_end_def call_handler_def Let_def)

text \<open>
  Two emulators that differ at most in whether they are traced by \<open>trace_callback\<close> and where its
  counter is. Only one that may print more is traced.
\<close>

definition grows_left :: "(u8 list \<Rightarrow> u8 list \<Rightarrow> bool) \<Rightarrow> bool" where
  "grows_left T \<longleftrightarrow> (\<forall>xs ys zs. T xs ys \<longrightarrow> T (xs @ zs) ys)"

definition grows_right :: "(u8 list \<Rightarrow> u8 list \<Rightarrow> bool) \<Rightarrow> bool" where
  "grows_right T \<longleftrightarrow> (\<forall>xs ys zs. T xs ys \<longrightarrow> T xs (ys @ zs))"

lemma grows_subseq [simp]:
  "grows_right subseq" "grows_left (\<lambda>xs ys. subseq ys xs)"
  "grows_right (\<lambda>xs ys. subseq ys xs) = grows_left subseq"
  by (auto simp: grows_left_def grows_right_def)

definition tracer_ok :: "bool \<Rightarrow> emulator_t \<Rightarrow> bool" where
  "tracer_ok may_add e \<longleftrightarrow> trace_fn e = None \<or> may_add \<and> trace_fn e = Some trace_callback \<and> trace_userdata e \<noteq> None"

definition same_but_traced :: "(u8 list \<Rightarrow> u8 list \<Rightarrow> bool) \<Rightarrow> emulator_t \<Rightarrow> emulator_t \<Rightarrow> bool" where
  "same_but_traced T e d \<longleftrightarrow> soc e = soc d \<and> syscall_handler e = syscall_handler d
     \<and> syscall_userdata e = syscall_userdata d \<and> cycle_count e = cycle_count d
     \<and> tracer_ok (grows_left T) e \<and> tracer_ok (grows_right T) d
     \<and> known_devices (soc_bus (soc e))
     \<and> (syscall_handler e = None \<or> syscall_handler e = Some default_syscall_handler)"

text \<open>One way round the loop of a run, with the rest of the run given.\<close>

definition run_body :: "(emulator_t \<Rightarrow> u64 \<Rightarrow> world_t \<Rightarrow> (int \<times> emulator_t \<times> world_t) option option) \<Rightarrow>
    emulator_t \<Rightarrow> u64 \<Rightarrow> world_t \<Rightarrow> (int \<times> emulator_t \<times> world_t) option option" where
  "run_body run e m w =
    (if halted w then Some (Some (exit_code w, e, w))
     else case emulator_step e w of
            None \<Rightarrow> Some None
          | Some ((r, e1), w1) \<Rightarrow>
              if m \<noteq> 0 \<and> m \<le> cycle_count e1
              then Some (Some (1, e1, w1\<lparr>halted := True, exit_code := 1\<rparr>))
              else run e1 m w1)"

section \<open>The simulation\<close>

text \<open>A relation on texts that printing the same on both sides keeps.\<close>

locale output_relation =
  fixes T :: "u8 list \<Rightarrow> u8 list \<Rightarrow> bool"
  assumes same_text: "T xs xs"
    and keeps: "T xs ys \<Longrightarrow> T (xs @ zs) (ys @ zs)"
begin

abbreviation same_world :: "world_t \<Rightarrow> world_t \<Rightarrow> bool" where
  "same_world \<equiv> same_but_printed T"

abbreviation same_emulator :: "emulator_t \<Rightarrow> emulator_t \<Rightarrow> bool" where
  "same_emulator \<equiv> same_but_traced T"

abbreviation same_outcome where
  "same_outcome \<equiv> rel_option (rel_prod (=) (rel_prod same_emulator same_world))"

lemma same_but_printed_simps [simp]:
  "same_world w w"
  "same_world w v \<Longrightarrow> same_world (fputc c f w) (fputc c f v)"
  "same_world w v \<Longrightarrow> same_world (printf_stdout s w) (printf_stdout s v)"
  "same_world w v \<Longrightarrow> same_world (put_memory w cx m) (put_memory v cx m)"
  "same_world w v \<Longrightarrow> same_world (put_uart w cx u) (put_uart v cx u)"
  "same_world w v \<Longrightarrow> same_world (w\<lparr>halted := b, exit_code := k\<rparr>) (v\<lparr>halted := b, exit_code := k\<rparr>)"
  by (auto simp: same_but_printed_def fputc_def printf_stdout_def put_memory_def put_uart_def keeps same_text
      split: option.split)

lemma fgetc_sim:
  "same_world w v \<Longrightarrow> rel_prod (=) same_world (fgetc f w) (fgetc f v)"
  by (auto simp: fgetc_def same_but_printed_def split: list.split)

lemma rx_prefetch_sim:
  "same_world w v \<Longrightarrow> rel_prod (=) same_world (rx_prefetch u w) (rx_prefetch u v)"
  using fgetc_sim [of w v "the (rx_file u)"]
  by (auto simp: rx_prefetch_def rel_prod_conv split: option.split prod.splits)

lemma uart_read_reg_sim:
  "same_world w v \<Longrightarrow>
   rel_prod (=) (rel_prod (=) same_world) (uart_read_reg u off w) (uart_read_reg u off v)"
  using rx_prefetch_sim [of w v "u\<lparr>rx_ready := False\<rparr>"]
  by (simp add: uart_read_reg_def)

lemma uart_write_reg_sim:
  "same_world w v \<Longrightarrow>
   rel_prod (=) same_world (uart_write_reg u off b w) (uart_write_reg u off b v)"
  by (simp add: uart_write_reg_def)

text \<open>Every operation of the three devices, whatever context it is given.\<close>

lemma device_sims:
  assumes "same_world w v"
  shows "agree same_world (=) (memory_read_cb cx a sz w) (memory_read_cb cx a sz v)"
    "agree same_world (=) (memory_write_cb cx a d sz w) (memory_write_cb cx a d sz v)"
    "agree same_world (=) (uart_read cx a sz w) (uart_read cx a sz v)"
    "agree same_world (=) (uart_write cx a d sz w) (uart_write cx a d sz v)"
    "agree same_world (=) (tohost_write cx a d sz w) (tohost_write cx a d sz v)"
proof -
  note get = same_but_printed_get [OF assms]
  show "agree same_world (=) (memory_read_cb cx a sz w) (memory_read_cb cx a sz v)"
    using assms by (auto simp: memory_read_cb_def get intro!: agree_pure)
  show "agree same_world (=) (memory_write_cb cx a d sz w) (memory_write_cb cx a d sz v)"
    using assms by (auto simp: memory_write_cb_def get intro!: agree_pure)
  show "agree same_world (=) (uart_read cx a sz w) (uart_read cx a sz v)"
    using uart_read_reg_sim [OF assms]
    by (auto simp: uart_read_def get rel_prod_sel case_prod_beta intro!: agree_pure)
  show "agree same_world (=) (uart_write cx a d sz w) (uart_write cx a d sz v)"
    using uart_write_reg_sim [OF assms]
    by (auto simp: uart_write_def get rel_prod_sel case_prod_beta intro!: agree_pure)
  show "agree same_world (=) (tohost_write cx a d sz w) (tohost_write cx a d sz v)"
    using assms
    by (cases "get_tohost v cx")
      (auto simp: tohost_write_def get set_exit_code_def set_halted_def same_but_printed_def
        printf_stdout_def intro!: keeps)
qed

lemma bus_sims:
  assumes "known_devices b" "same_world w v"
  shows "agree same_world (=) (bus_read b a sz w) (bus_read b a sz v)"
    "agree same_world (=) (bus_write b a d sz w) (bus_write b a d sz v)"
proof -
  consider "bus_get_peripheral b a = None"
    | k where "bus_get_peripheral b a = Some k" "ops (peripherals b ! k) \<in>
        {Some memory_ops, Some uart_ns16550a_ops, Some peripheral_tohost_ops}"
    using assms(1) bus_get_peripheral_covers [of b a]
    by (cases "bus_get_peripheral b a") (auto simp: known_devices_def)
  then have "agree same_world (=) (bus_read b a sz w) (bus_read b a sz v)
    \<and> agree same_world (=) (bus_write b a d sz w) (bus_write b a d sz v)"
  proof cases
    case 1
    with assms(2) show ?thesis by (simp add: bus_read_def bus_write_def)
  next
    case (2 k)
    with device_sims [OF assms(2)] assms(2) show ?thesis
      by (auto simp: bus_read_def bus_write_def memory_ops_def uart_ns16550a_ops_def
          peripheral_tohost_ops_def)
  qed
  then show "agree same_world (=) (bus_read b a sz w) (bus_read b a sz v)"
    "agree same_world (=) (bus_write b a d sz w) (bus_write b a d sz v)" by simp_all
qed

lemma known_bus_sim: "known_devices b \<Longrightarrow> bus_sim same_world b"
  by unfold_locales (simp_all add: bus_sims)

lemma soc_step_sim:
  assumes "known_devices (soc_bus s)" "same_world w v"
  shows "agree same_world (=) (soc_step s w) (soc_step s v)"
  unfolding soc_step_def
  by (rule agree_bind [OF bus_sim.step_sim [OF known_bus_sim [OF assms(1)] assms(2)]]) auto

lemma write_loop_sim:
  assumes "known_devices b"
  shows "same_world w v \<Longrightarrow> agree same_world (=) (write_loop b f n a k w) (write_loop b f n a k v)"
proof (induction n arbitrary: a k w v)
  case (Suc n)
  show ?case
    unfolding write_loop.simps
    by (rule agree_bind [OF bus_sims(1) [OF assms Suc.prems]])
      (auto intro!: Suc.IH split: option.split)
qed simp

lemma default_handler_sim:
  assumes "known_devices (soc_bus s)" "same_world w v"
  shows "agree same_world (=) (default_syscall_handler s r ud w) (default_syscall_handler s r ud v)"
  unfolding default_syscall_handler_def
  using assms
  by (auto intro!: agree_pure agree_bind [OF write_loop_sim])

lemma trace_sim:
  assumes "tracer_ok (grows_left T) e"
    "tracer_ok (grows_right T) d" "same_world w v"
  shows "rel_option same_world
    (case trace_fn e of None \<Rightarrow> Some w | Some f \<Rightarrow> f r (trace_userdata e) w)
    (case trace_fn d of None \<Rightarrow> Some v | Some f \<Rightarrow> f r (trace_userdata d) v)"
  using assms
  by (auto simp: tracer_ok_def trace_callback_def Let_def same_but_printed_def printf_stdout_def
      grows_left_def grows_right_def keeps)

lemma call_handler_sim:
  assumes "same_emulator e d" "same_world w v"
  shows "agree same_world (=) (call_handler e r w) (call_handler d r v)"
  using assms default_handler_sim [of "soc e" w v]
  by (cases "syscall_handler d") (auto simp: call_handler_def same_but_traced_def)

lemma call_handler_bus:
  "call_handler e r w = Some ((b, s'), w') \<Longrightarrow> same_emulator e d \<Longrightarrow> soc_bus s' = soc_bus (soc e)"
  by (cases "syscall_handler d")
    (auto simp: call_handler_def same_but_traced_def dest: default_handler_bus)

lemma same_but_traced_upd:
  assumes "same_emulator e d" "soc_bus s = soc_bus (soc e)"
  shows "same_emulator (e\<lparr>soc := s\<rparr>) (d\<lparr>soc := s\<rparr>)"
    "same_emulator (e\<lparr>soc := s, cycle_count := cycle_count e + 1\<rparr>)
      (d\<lparr>soc := s, cycle_count := cycle_count d + 1\<rparr>)"
  using assms by (auto simp: same_but_traced_def tracer_ok_def)

lemma step_end_sim:
  assumes "same_emulator e d" "same_world w v"
  shows "agree same_world (rel_prod (=) same_emulator) (step_end e r w) (step_end d r v)"
  unfolding step_end_def
proof (rule agree_world)
  show "rel_option same_world
    (case trace_fn e of None \<Rightarrow> Some w | Some f \<Rightarrow> f r (trace_userdata e) w)
    (case trace_fn d of None \<Rightarrow> Some v | Some f \<Rightarrow> f r (trace_userdata d) v)"
    using assms by (intro trace_sim) (simp_all add: same_but_traced_def)
  fix w2 v2 assume "same_world w2 v2"
  then show "agree same_world (rel_prod (=) same_emulator)
    (if r_trap r = TRAP_ECALL_M then
        do {
          ((handled, s2), w3) \<leftarrow> call_handler e r w2;
          if \<not> handled then
            do {
              a0 \<leftarrow> reg_read (soc_hart s2) 10;
              Some ((r, e\<lparr>soc := s2\<rparr>), w3\<lparr>halted := True, exit_code := sint a0\<rparr>)
            }
          else Some ((r\<lparr>r_trap := TRAP_NONE\<rparr>, e\<lparr>soc := s2\<rparr>), w3)
        }
      else Some ((r, e), w2))
    (if r_trap r = TRAP_ECALL_M then
        do {
          ((handled, s2), w3) \<leftarrow> call_handler d r v2;
          if \<not> handled then
            do {
              a0 \<leftarrow> reg_read (soc_hart s2) 10;
              Some ((r, d\<lparr>soc := s2\<rparr>), w3\<lparr>halted := True, exit_code := sint a0\<rparr>)
            }
          else Some ((r\<lparr>r_trap := TRAP_NONE\<rparr>, d\<lparr>soc := s2\<rparr>), w3)
        }
      else Some ((r, d), v2))"
    using assms(1) call_handler_bus [OF _ assms(1)]
    by (auto intro!: agree_pure agree_bind [OF call_handler_sim [OF assms(1)]] same_but_traced_upd)
qed

lemma emulator_step_sim:
  assumes "same_emulator e d" "same_world w v"
  shows "agree same_world (rel_prod (=) same_emulator) (emulator_step e w) (emulator_step d v)"
proof -
  have parts: "soc d = soc e" "known_devices (soc_bus (soc e))" "halted v = halted w"
    using assms same_but_printed_get(4) [OF assms(2)] by (auto simp: same_but_traced_def)
  show ?thesis
    unfolding emulator_step_end parts
    using assms
    by (auto intro!: agree_bind [OF soc_step_sim [OF parts(2) assms(2)]] step_end_sim
        same_but_traced_upd dest: soc_step_bus)
qed

lemma run_body_sim:
  assumes "run_body run e m w = Some res" "same_emulator e d" "same_world w v"
    and "\<And>e w d v res. run e m w = Some res \<Longrightarrow> same_emulator e d \<Longrightarrow> same_world w v \<Longrightarrow>
      \<exists>res'. run' d m v = Some res' \<and> same_outcome res res'"
  shows "\<exists>res'. run_body run' d m v = Some res' \<and> same_outcome res res'"
proof (cases "halted w")
  case True
  with assms same_but_printed_get(4,5) [OF assms(3)] show ?thesis by (auto simp: run_body_def)
next
  case False
  then have run: "\<not> halted v" using same_but_printed_get(4) [OF assms(3)] by simp
  note steps = emulator_step_sim [OF assms(2,3)]
  show ?thesis
  proof (cases "emulator_step e w")
    case None
    with steps have "emulator_step d v = None" by (simp add: agree_def)
    with None assms(1) run False show ?thesis by (auto simp: run_body_def)
  next
    case (Some out)
    then obtain r e1 w1 where st: "emulator_step e w = Some ((r, e1), w1)" by (cases out) auto
    with steps obtain d1 v1 where st': "emulator_step d v = Some ((r, d1), v1)"
      "same_emulator e1 d1" "same_world w1 v1"
      by (auto simp: agree_def option_rel_Some1 rel_prod_sel)
    then have count: "cycle_count d1 = cycle_count e1" by (simp add: same_but_traced_def)
    show ?thesis
    proof (cases "m \<noteq> 0 \<and> m \<le> cycle_count e1")
      case True
      with assms(1) st st' count False run show ?thesis by (auto simp: run_body_def)
    next
      case more: False
      with assms(1) st False have "run e1 m w1 = Some res" by (simp only: run_body_def) auto
      from assms(4) [OF this st'(2,3)] more st'(1) count run show ?thesis
        by (simp only: run_body_def) auto
    qed
  qed
qed

lemma run_sim_half:
  assumes "emulator_run e m w = Some res" "same_emulator e d" "same_world w v"
  shows "\<exists>res'. emulator_run d m v = Some res' \<and> same_outcome res res'"
proof -
  have "\<forall>d v. same_emulator e d \<longrightarrow> same_world w v \<longrightarrow>
    (\<exists>res'. emulator_run d m v = Some res' \<and> same_outcome res res')"
  proof (rule emulator_run.raw_induct [OF _ assms(1), folded run_body_def], intro allI impI)
    fix run e m w res d v
    assume ih: "\<And>e m w y. run e m w = Some y \<Longrightarrow> \<forall>d v. same_emulator e d \<longrightarrow>
        same_world w v \<longrightarrow> (\<exists>res'. emulator_run d m v = Some res' \<and> same_outcome y res')"
      and "run_body run e m w = Some res" "same_emulator e d" "same_world w v"
    from run_body_sim [OF this(2-4), of emulator_run] ih
    show "\<exists>res'. emulator_run d m v = Some res' \<and> same_outcome res res'"
      by (subst emulator_run.simps, fold run_body_def) blast
  qed
  with assms show ?thesis by blast
qed

end

text \<open>The outputs of a run and of one that prints more, both ways round.\<close>

interpretation adding: output_relation subseq
  by unfold_locales (auto intro: list_emb_append_mono)

interpretation removing: output_relation "\<lambda>xs ys. subseq ys xs"
  by unfold_locales (auto intro: list_emb_append_mono)

interpretation printing: bus_sim "same_but_printed subseq" "board_bus l" for l
  by (rule adding.known_bus_sim) (rule board_known)

section \<open>Tracing is transparent\<close>

lemma same_but_printed_sym: "same_but_printed subseq w v \<Longrightarrow> same_but_printed (\<lambda>xs ys. subseq ys xs) v w"
  by (auto simp: same_but_printed_def)

lemma same_but_traced_sym: "same_but_traced subseq e d \<Longrightarrow> same_but_traced (\<lambda>xs ys. subseq ys xs) d e"
  by (auto simp: same_but_traced_def)

lemma run_sim:
  assumes "same_but_traced subseq e d" "same_but_printed subseq w v"
  shows "rel_option (rel_option (rel_prod (=) (rel_prod (same_but_traced subseq) (same_but_printed subseq))))
    (emulator_run e m w) (emulator_run d m v)"
proof (cases "emulator_run e m w")
  case None
  moreover have "emulator_run d m v = None"
  proof (rule ccontr)
    assume "emulator_run d m v \<noteq> None"
    then obtain res where "emulator_run d m v = Some res" by auto
    from removing.run_sim_half [OF this same_but_traced_sym [OF assms(1)] same_but_printed_sym [OF assms(2)]]
    show False using None by simp
  qed
  ultimately show ?thesis by simp
next
  case (Some res)
  from adding.run_sim_half [OF this assms] Some show ?thesis by auto
qed

section \<open>The tracer keeps the callbacks' contract\<close>

lemma soc_ok_trace: "soc_ok s w \<Longrightarrow> \<exists>w'. trace_callback r (Some a) w = Some w' \<and> soc_ok s w'"
  by (auto simp: trace_callback_def Let_def intro!: soc_ok_same_shape [of s w] same_shape_heap)

interpretation traced: callbacks default_syscall_handler trace_callback "Some a" for a
  by unfold_locales (simp_all add: default_handler_ok soc_ok_trace)

context callbacks
begin

text \<open>Whether it ends or not, a run of a well-formed emulator never goes wrong.\<close>

lemma emu_run_result:
  assumes "emulator_run e m w = Some res" "emu_ok handler trace tud e w"
  shows "\<exists>code e' w'. res = Some (code, e', w') \<and> emu_ok handler trace tud e' w' \<and> halted w'
    \<and> exit_code w' = code"
proof -
  let ?good = "\<lambda>res. \<exists>code e' w'. res = Some (code, e', w') \<and> emu_ok handler trace tud e' w'
    \<and> halted w' \<and> exit_code w' = code"
  have "emu_ok handler trace tud e w \<longrightarrow> ?good res"
  proof (rule emulator_run.raw_induct [OF _ assms(1)], intro impI)
    fix run e m w res
    assume ih: "\<And>e m w y. run e m w = Some y \<Longrightarrow> emu_ok handler trace tud e w \<longrightarrow> ?good y"
      and body: "(if halted w then Some (Some (exit_code w, e, w))
        else case emulator_step e w of None \<Rightarrow> Some None
          | Some ((r, e1), w1) \<Rightarrow>
              if m \<noteq> 0 \<and> m \<le> cycle_count e1
              then Some (Some (1, e1, w1\<lparr>halted := True, exit_code := 1\<rparr>))
              else run e1 m w1) = Some res"
      and ok: "emu_ok handler trace tud e w"
    have halts: "emu_ok handler trace tud e1 (w1\<lparr>halted := True, exit_code := 1\<rparr>)"
      if "emu_ok handler trace tud e1 w1" for e1 w1
      using that by (auto simp: emu_ok_def soc_ok_halt)
    from emu_step_ok [OF ok] body ok show "?good res"
      by (auto split: if_splits dest!: ih intro!: halts)
  qed
  with assms show ?thesis by blast
qed

lemma emu_run_defined: "emu_ok handler trace tud e w \<Longrightarrow> emulator_run e m w \<noteq> Some None"
  using emu_run_result [of e m w None] by blast

end

lemma tracing_is_transparent_lemma:
  assumes "emu_ok default_syscall_handler trace_callback (Some a) e w"
  shows "case (emulator_run (emulator_set_trace e None None) max_steps w,
      emulator_run (emulator_set_trace e (Some trace_callback) (Some a)) max_steps w) of
    (None, None) \<Rightarrow> True
  | (Some (Some (code, e1, w1)), Some (Some (code', e2, w2))) \<Rightarrow>
      code = code' \<and> soc e1 = soc e2 \<and> cycle_count e1 = cycle_count e2 \<and> same_but_printed subseq w1 w2
  | _ \<Rightarrow> False"
proof -
  let ?e = "emulator_set_trace e None None" and ?d = "emulator_set_trace e (Some trace_callback) (Some a)"
  have same: "same_but_traced subseq ?e ?d"
    using assms bus_ok_known [of "soc_bus (soc e)" w]
    by (simp add: same_but_traced_def emulator_set_trace_def tracer_ok_def emu_ok_def soc_ok_def)
  have "emu_ok default_syscall_handler trace_callback (Some a) ?e w"
    using assms by (simp add: emu_ok_def emulator_set_trace_def)
  from traced.emu_run_defined [OF this, of max_steps] run_sim [OF same adding.same_but_printed_simps(1), of max_steps w]
  show ?thesis
    by (cases "emulator_run ?e max_steps w"; cases "emulator_run ?d max_steps w")
      (auto simp: same_but_traced_def rel_prod_sel option_rel_Some1 option_rel_Some2 split: option.split)
qed

text \<open>
  C12 (equivalence): tracing is transparent. A run of a well-formed emulator with the tracer installed
  and the run of the same emulator without it either both never end, or both return, with the same
  exit code, the same hart, the same number of instructions and the same world, except for the text on
  the standard output and the tracer's counter: what the untraced run prints there is also printed by the
  traced run, in the same order, with other text in between. Neither goes wrong.
\<close>

theorem tracing_is_transparent:
  assumes "emu_ok default_syscall_handler trace_callback (Some a) e w"
  shows "case (emulator_run (emulator_set_trace e None None) max_steps w,
      emulator_run (emulator_set_trace e (Some trace_callback) (Some a)) max_steps w) of
    (None, None) \<Rightarrow> True
  | (Some (Some (code, e1, w1)), Some (Some (code', e2, w2))) \<Rightarrow>
      code = code' \<and> soc e1 = soc e2 \<and> cycle_count e1 = cycle_count e2 \<and> same_but_printed subseq w1 w2
  | _ \<Rightarrow> False"
  using assms by (rule tracing_is_transparent_lemma)

lemma tracing_is_transparent_witness:
  "case (emulator_run (emulator_set_trace (boot (replicate 32 0) 0) None None) 2 (low_program [0x6F]),
      emulator_run (emulator_set_trace (boot (replicate 32 0) 0) (Some trace_callback) (Some 7)) 2
        (low_program [0x6F])) of
    (None, None) \<Rightarrow> True
  | (Some (Some (code, e1, w1)), Some (Some (code', e2, w2))) \<Rightarrow>
      code = code' \<and> soc e1 = soc e2 \<and> cycle_count e1 = cycle_count e2 \<and> same_but_printed subseq w1 w2
  | _ \<Rightarrow> False"
proof (rule tracing_is_transparent)
  show "emu_ok default_syscall_handler trace_callback (Some 7) (boot (replicate 32 0) 0) (low_program [0x6F])"
    using low_program_ok [of "replicate 32 0" 0 "[0x6F]"] by (simp add: emu_ok_def)
qed

end
