(* ===== verification/Rve_Main.thy ===== *)
theory Rve_Main
  imports Rve_Tracing
begin

unbundle bit_operations_syntax

text \<open>
  The command line and \<open>main\<close> of src/main.c. A string is the list of its characters before the NUL;
  what is printed to stderr is in Rve_Diagnostics. The file system is the function \<open>files\<close> from names to
  contents.
\<close>

section \<open>Arguments\<close>

record args_t =
  binary :: "string option"
  reset_pc :: u32
  load_addr :: u32
  max_steps :: u64
  trace :: bool
  dump_regs :: bool

definition zero_args :: args_t where
  "zero_args = \<lparr>binary = None, reset_pc = 0, load_addr = 0, max_steps = 0, trace = False,
     dump_regs = False\<rparr>"

text \<open>
  The loop of \<open>parse_args\<close>, on the arguments that are left; and what follows it. A failing call
  leaves what it has parsed in \<open>out\<close>.
\<close>

fun parse_options :: "string list \<Rightarrow> args_t \<Rightarrow> bool \<times> args_t" where
  "parse_options [] out = (binary out \<noteq> None, out)"
| "parse_options (a # rest) out =
    (if a = ''--help'' then (False, out)
     else if a = ''--trace'' then parse_options rest (out\<lparr>trace := True\<rparr>)
     else if a = ''--regs'' then parse_options rest (out\<lparr>dump_regs := True\<rparr>)
     else if a = ''--pc'' then
       (case rest of
          [] \<Rightarrow> (False, out)
        | v # rest' \<Rightarrow> parse_options rest' (out\<lparr>reset_pc := ucast (strtoul v 16)\<rparr>))
     else if a = ''--load'' then
       (case rest of
          [] \<Rightarrow> (False, out)
        | v # rest' \<Rightarrow> parse_options rest' (out\<lparr>load_addr := ucast (strtoul v 16)\<rparr>))
     else if a = ''--max'' then
       (case rest of
          [] \<Rightarrow> (False, out)
        | v # rest' \<Rightarrow> parse_options rest' (out\<lparr>max_steps := strtoul v 10\<rparr>))
     else if a \<noteq> [] \<and> hd a = CHR ''-'' then (False, out)
     else if binary out \<noteq> None then (False, out)
     else parse_options rest (out\<lparr>binary := Some a\<rparr>))"

text \<open>\<open>argv\<close> without the program's name.\<close>

definition parse_args :: "string list \<Rightarrow> bool \<times> args_t" where
  "parse_args argv = parse_options argv zero_args"

section \<open>The main function\<close>

text \<open>
  The result: \<open>None\<close> when \<open>main\<close> does not return, \<open>Some None\<close> when it meets undefined behaviour,
  and otherwise its exit status and the world it leaves. Its local \<open>cycle_count\<close> is the host
  variable 0.
\<close>

definition main :: "string list \<Rightarrow> (string \<Rightarrow> u8 list option) \<Rightarrow> bool \<Rightarrow> world_t \<Rightarrow>
    (int \<times> world_t) option option" where
  "main argv files read_ok w =
    (let (ok, args) = parse_args argv
     in if \<not> ok then Some (Some (1, w))
        else case emulator_init (reset_pc args) w of
          None \<Rightarrow> Some None
        | Some (emu, w1) \<Rightarrow>
            let w2 = w1\<lparr>host_vars := (host_vars w1)(0 := 0)\<rparr>;
                emu1 = (if trace args then emulator_set_trace emu (Some trace_callback) (Some 0) else emu)
            in case emulator_load_binary emu1 (files (the (binary args))) read_ok (load_addr args) w2 of
                 None \<Rightarrow> Some None
               | Some (rc, w3) \<Rightarrow>
                   if rc \<noteq> 0 then Some (Some (1, w3))
                   else case emulator_run emu1 (max_steps args) w3 of
                     None \<Rightarrow> None
                   | Some None \<Rightarrow> Some None
                   | Some (Some (code, emu2, w4)) \<Rightarrow>
                       if dump_regs args then
                         Some (map_option (\<lambda>w5. (code, w5))
                           (hart_print (soc_hart (soc emu2)) (Some ''Final register state'') w4))
                       else Some (Some (code, w4)))"

section \<open>The file helper (src/utils.c)\<close>

text \<open>
  \<open>rve_file_to_string\<close>: \<open>contents\<close> is the file, \<open>None\<close> when it cannot be opened, and \<open>allocated\<close>
  whether \<open>malloc\<close> succeeds. The result is what is returned with \<open>*buffer\<close> and \<open>*size\<close>, where they
  are set; the test after the allocation is of the wrong pointer, so a failure is undefined behaviour.
\<close>

definition rve_file_to_string :: "u8 list option \<Rightarrow> bool \<Rightarrow> (int \<times> (u8 list \<times> nat) option) option" where
  "rve_file_to_string contents allocated =
    (case contents of
       None \<Rightarrow> Some (-1, None)
     | Some bytes \<Rightarrow>
         if \<not> allocated then None else Some (0, Some (bytes @ [0], length bytes)))"

section \<open>Parsing what an option list means\<close>

text \<open>
  The options as the usage text presents them, how they are written, and what each means. The
  addresses are written in hexadecimal, without or with the prefix \<open>0x\<close>.
\<close>

datatype cli_option = Trace | Regs | Pc bool u32 | Load bool u32 | Max u64 | File string

definition hex_arg :: "bool \<Rightarrow> u32 \<Rightarrow> string" where
  "hex_arg prefixed a = (if prefixed then ''0x'' else '''') @ hex_string (unat a)"

fun cli_text :: "cli_option \<Rightarrow> string list" where
  "cli_text Trace = [''--trace'']"
| "cli_text Regs = [''--regs'']"
| "cli_text (Pc p a) = [''--pc'', hex_arg p a]"
| "cli_text (Load p a) = [''--load'', hex_arg p a]"
| "cli_text (Max n) = [''--max'', dec_string (unat n)]"
| "cli_text (File f) = [f]"

fun cli_apply :: "cli_option \<Rightarrow> args_t \<Rightarrow> args_t" where
  "cli_apply Trace out = out\<lparr>trace := True\<rparr>"
| "cli_apply Regs out = out\<lparr>dump_regs := True\<rparr>"
| "cli_apply (Pc p a) out = out\<lparr>reset_pc := a\<rparr>"
| "cli_apply (Load p a) out = out\<lparr>load_addr := a\<rparr>"
| "cli_apply (Max n) out = out\<lparr>max_steps := n\<rparr>"
| "cli_apply (File f) out = out\<lparr>binary := Some f\<rparr>"

fun file_names :: "cli_option list \<Rightarrow> string list" where
  "file_names [] = []"
| "file_names (File f # opts) = f # file_names opts"
| "file_names (_ # opts) = file_names opts"

definition not_option :: "string \<Rightarrow> bool" where
  "not_option f \<longleftrightarrow> f = [] \<or> hd f \<noteq> CHR ''-''"

lemma digit_not_space: "digit_value c \<noteq> None \<Longrightarrow> \<not> is_space c"
  by (auto simp: digit_value_def is_space_def Let_def split: if_splits)

lemma strtoul_digits:
  assumes "digit_value c \<noteq> None"
  shows "strtoul (c # cs) b =
    (let v = read_digits b (if b = 16 then strip_0x (c # cs) else c # cs) 0
     in if 2 ^ 64 \<le> v then -1 else of_nat v)"
proof -
  have "digit_value (CHR ''+'') = None" by code_simp
  with assms not_digits(1) have "c \<noteq> CHR ''-''" "c \<noteq> CHR ''+''" by metis+
  then show ?thesis using digit_not_space [OF assms]
    by (simp add: strtoul_def Let_def del: read_digits.simps)
qed

lemma radix_digit_below:
  assumes "c \<in> set (radix_string lower_digit b n)" "2 \<le> b" "b \<le> 16"
  shows "\<exists>d < b. digit_value c = Some d"
proof -
  from radix_string_digits [OF assms(1,2)] obtain k where k: "k < b" "c = lower_digit k" by blast
  with assms(3) digits_ok(1) have "digit_value c = Some k" by (simp add: digits_ok_def del: digits_ok)
  with k(1) show ?thesis by blast
qed

lemma strtoul_dec: "strtoul (dec_string (unat n)) 10 = n" for n :: u64
proof -
  obtain c cs where s: "dec_string (unat n) = c # cs"
    by (cases "dec_string (unat n)") (simp_all add: dec_string_def)
  then have "digit_value c \<noteq> None"
    using radix_digit_below [of c 10 "unat n"] by (auto simp: dec_string_def)
  moreover have "unat n < 2 ^ LENGTH(64)" by (rule unsigned_less)
  ultimately show ?thesis
    using read_dec [of "unat n"] by (simp add: s strtoul_digits Let_def)
qed

lemma strtoul_hex_arg: "ucast (strtoul (hex_arg p a) 16) = a" for a :: u32
proof -
  obtain c cs where s: "hex_string (unat a) = c # cs"
    by (cases "hex_string (unat a)") (simp_all add: hex_string_def)
  have digits: "\<exists>d < 16. digit_value x = Some d" if "x \<in> set (c # cs)" for x
    using radix_digit_below [of x 16 "unat a"] that s by (simp add: hex_string_def)
  obtain d where d: "digit_value c = Some d" "d < 16" using digits [of c] by auto
  have nx: "digit_value (CHR ''x'') = Some 33" "digit_value (CHR ''X'') = Some 33"
    "digit_value (CHR ''0'') = Some 0"
    by code_simp+
  have "strip_0x (c # cs) = c # cs"
  proof (cases cs)
    case (Cons x xs)
    have "x \<noteq> CHR ''x''" "x \<noteq> CHR ''X''" using digits [of x] nx by (auto simp: Cons)
    then show ?thesis by (cases xs) (simp_all add: Cons)
  qed simp
  moreover have "strip_0x (CHR ''0'' # CHR ''x'' # c # cs) = c # cs" using d by simp
  moreover have "read_digits 16 (c # cs) 0 = unat a"
    using read_hex(1) [of "unat a"] s by simp
  moreover have "(ucast (ucast a :: u64) :: u32) = a"
    by (rule bit_word_eqI) (simp add: bit_simps)
  ultimately show ?thesis
    using d nx unat_less32 [of a]
    by (simp add: hex_arg_def s strtoul_digits Let_def take_bit_word_eq_self)
qed

text \<open>
  The arguments of an option list, in any order, are parsed to what the options mean.
\<close>

lemma parse_options_cli:
  assumes "list_all not_option (file_names opts)"
    "length (file_names opts) + (if binary out = None then 0 else 1) \<le> 1"
  shows "parse_options (concat (map cli_text opts) @ rest) out = parse_options rest (fold cli_apply opts out)"
  using assms
proof (induction opts arbitrary: out)
  case (Cons opt opts)
  show ?case
  proof (cases opt)
    case (File f)
    have "''--help'' \<noteq> f" "''--trace'' \<noteq> f" "''--regs'' \<noteq> f" "''--pc'' \<noteq> f" "''--load'' \<noteq> f" "''--max'' \<noteq> f"
      using Cons.prems(1) by (auto simp: File not_option_def)
    with Cons File show ?thesis by (auto simp: not_option_def split: if_splits)
  qed (use Cons in \<open>simp_all add: strtoul_hex_arg strtoul_dec split: if_splits\<close>)
qed simp

lemma binary_fold:
  "binary (fold cli_apply opts out) =
    (if file_names opts = [] then binary out else Some (last (file_names opts)))"
proof (induction opts arbitrary: out)
  case (Cons opt opts)
  then show ?case by (cases opt) simp_all
qed simp

text \<open>
  C28 (roundtrip): the command line is parsed to what its options mean. For every list of options in
  any order, with exactly one file name that does not look like an option, \<open>parse_args\<close> accepts
  the arguments that write it, and its result is that of applying the options one after the other, so
  that the last of several equal options counts; addresses may have the prefix 0x.
\<close>

theorem parse_args_reads_options:
  assumes "file_names opts = [f]" "not_option f"
  shows "parse_args (concat (map cli_text opts)) = (True, fold cli_apply opts zero_args)"
  using parse_options_cli [of opts zero_args "[]"] binary_fold [of opts zero_args] assms
  by (simp add: parse_args_def zero_args_def)

lemma parse_args_reads_options_witness:
  "parse_args [''--max'', ''250'', ''a.bin'', ''--pc'', ''0x1f00'', ''--trace''] =
     (True, \<lparr>binary = Some ''a.bin'', reset_pc = 0x1F00, load_addr = 0, max_steps = 250, trace = True,
       dump_regs = False\<rparr>)"
proof -
  let ?opts = "[Max 250, File ''a.bin'', Pc True 0x1F00, Trace]"
  have "parse_args (concat (map cli_text ?opts)) = (True, fold cli_apply ?opts zero_args)"
    by (rule parse_args_reads_options [of _ "''a.bin''"]) (simp_all add: not_option_def)
  moreover have "concat (map cli_text ?opts) =
    [''--max'', ''250'', ''a.bin'', ''--pc'', ''0x1f00'', ''--trace'']"
    by (simp add: hex_arg_def hex_string_def dec_string_def radix_string.simps lower_digit_def,
        code_simp)
  moreover have "fold cli_apply ?opts zero_args = \<lparr>binary = Some ''a.bin'', reset_pc = 0x1F00,
      load_addr = 0, max_steps = 250, trace = True, dump_regs = False\<rparr>"
    by (simp add: zero_args_def)
  ultimately show ?thesis by (simp only:)
qed

section \<open>What main does\<close>

lemma board_load:
  assumes "soc_bus (soc e) = board_bus l" "heap w (l + 1) = Some (Memory_Obj m1)"
    "heap w (l + 3) = Some (Memory_Obj m2)"
    and "bus_get_peripheral (board_bus l) a \<notin> {Some 0, Some 3}"
    and "\<And>bytes. contents = Some bytes \<Longrightarrow> length bytes < 2 ^ 63"
  shows "\<exists>rc w'. emulator_load_binary e contents read_ok a w = Some (rc, w') \<and> same_shape w w'"
proof -
  have loads: "\<exists>rc w'. soc_load_binary (soc e) bytes (of_nat (length bytes)) a w1 = Some (rc, w') \<and> same_shape w1 w'"
    if len: "length bytes < 2 ^ 63" and w1: "heap w1 = heap w" for bytes w1
  proof -
    have "\<exists>rc w'. soc_load_binary (soc e) bytes (of_nat (length bytes)) a w1 = Some (rc, w') \<and> same_shape w1 w'"
      if slot: "bus_get_peripheral (board_bus l) a = Some k" "ctx (peripherals (board_bus l) ! k) = Some j"
        "heap w j = Some (Memory_Obj m)" for k j m
    proof -
      have get: "get_memory w1 (Some j) = Some (Some m)" using slot(3) w1 by (simp add: get_memory_def)
      have put: "same_shape w1 (put_memory w1 (Some j) (Some m'))"
        if "shape (Memory_Obj m') = shape (Memory_Obj m)" for m'
        using slot(3) w1 that by (intro same_shape_put_memory) simp_all
      show ?thesis
        using slot get put assms(1) memory_load_file_spec_lemma [OF len, of m a]
        by (auto simp: soc_load_binary_def split: option.split)
    qed
    moreover have "ctx (peripherals (board_bus l) ! 1) = Some (l + 1)"
      "ctx (peripherals (board_bus l) ! 2) = Some (l + 3)"
      by (simp_all add: board_bus_def board_slot_def)
    ultimately show ?thesis
      using assms by (cases "bus_get_peripheral (board_bus l) a")
        (auto simp: board_dispatch soc_load_binary_def split: if_splits)
  qed
  have shape: "same_shape w (w\<lparr>allocs := n\<rparr>)" for n by (rule same_shape_heap) simp
  have "\<exists>rc w'. soc_load_binary (soc e) bytes (of_nat (length bytes)) a (w\<lparr>allocs := allocs w + 1\<rparr>)
      = Some (rc, w') \<and> same_shape w w'" if "length bytes < 2 ^ 63" for bytes
    using loads [OF that, of "w\<lparr>allocs := allocs w + 1\<rparr>"] same_shape_trans [OF shape [of "allocs w + 1"]]
    by force
  with assms(5) shape show ?thesis
    by (cases contents) (auto simp: emulator_load_binary_def Let_def)
qed

text \<open>The emulator \<open>main\<close> sets up, and the world after it, when the allocations succeed.\<close>

definition main_emulator :: "args_t \<Rightarrow> nat \<Rightarrow> emulator_t" where
  "main_emulator args l =
    (if trace args
     then emulator_set_trace (board_emulator l (reset_pc args)) (Some trace_callback) (Some 0)
     else board_emulator l (reset_pc args))"

definition main_world :: "nat \<Rightarrow> world_t \<Rightarrow> world_t" where
  "main_world l w = (board_world l w)\<lparr>host_vars := (host_vars (board_world l w))(0 := 0)\<rparr>"

lemma main_emulator_simps [simp]:
  "soc_bus (soc (main_emulator args l)) = board_bus l" "cycle_count (main_emulator args l) = 0"
  "heap (main_world l w) (l + 1) = Some (Memory_Obj (fresh_memory 0 0x400000))"
  "heap (main_world l w) (l + 3) = Some (Memory_Obj (fresh_memory 0x80000000 0x1000000))"
  by (simp_all add: main_emulator_def emulator_set_trace_def board_emulator_def main_world_def
      board_world_def)

lemma main_emulator_ok:
  assumes "same_shape (main_world l w) w3"
  shows "emu_ok default_syscall_handler trace_callback (Some 0) (main_emulator args l) w3"
proof -
  have "same_shape (board_world l w) (main_world l w)"
    by (rule same_shape_heap) (simp add: main_world_def)
  with assms have "same_shape (board_world l w) w3" by (blast intro: same_shape_trans)
  with board_ok [of l "reset_pc args" w] show ?thesis
    by (auto simp: emu_ok_def main_emulator_def emulator_set_trace_def board_emulator_def
        intro: soc_ok_same_shape)
qed

lemma main_after_init:
  assumes "\<forall>i < 6. alloc_ok w (allocs w + i)" "parse_args argv = (True, args)"
    and "emulator_load_binary (main_emulator args (allocs w)) (files (the (binary args))) read_ok
      (load_addr args) (main_world (allocs w) w) = Some (rc, w3)"
  shows "main argv files read_ok w =
    (if rc \<noteq> 0 then Some (Some (1, w3))
     else case emulator_run (main_emulator args (allocs w)) (max_steps args) w3 of
       None \<Rightarrow> None
     | Some None \<Rightarrow> Some None
     | Some (Some (code, e, w4)) \<Rightarrow>
         if dump_regs args then
           Some (map_option (\<lambda>w5. (code, w5))
             (hart_print (soc_hart (soc e)) (Some ''Final register state'') w4))
         else Some (Some (code, w4)))"
  by (simp only: main_def assms(2,3) prod.case Let_def emulator_init_eq [OF assms(1) [rule_format]] option.case
      main_emulator_def [symmetric] main_world_def [symmetric] if_True not_True_eq_False if_False)

text \<open>The end of \<open>main\<close>, from a well-formed emulator.\<close>

lemma main_tail:
  assumes "emu_ok default_syscall_handler trace_callback (Some 0) e w"
  shows "(case emulator_run e m w of
       None \<Rightarrow> None
     | Some None \<Rightarrow> Some None
     | Some (Some (code, e, w4)) \<Rightarrow>
         if dump then Some (map_option (\<lambda>w5. (code, w5)) (hart_print (soc_hart (soc e)) t w4))
         else Some (Some (code, w4)))
    = (case emulator_run e m w of
       None \<Rightarrow> None
     | Some None \<Rightarrow> Some None
     | Some (Some (code, e, w4)) \<Rightarrow>
         Some (Some (code, if dump then the (hart_print (soc_hart (soc e)) t w4) else w4)))
    \<and> emulator_run e m w \<noteq> Some None
    \<and> (cycle_count e < m \<longrightarrow> emulator_run e m w \<noteq> None)"
proof -
  have bounded: "cycle_count e < m \<longrightarrow> emulator_run e m w \<noteq> None"
    using traced.emu_run_bounded [OF assms] by force
  show ?thesis
  proof (cases "emulator_run e m w")
    case None
    with bounded show ?thesis by simp
  next
    case (Some res)
    from traced.emu_run_result [OF Some assms] obtain code e' w4 where res: "res = Some (code, e', w4)"
      "emu_ok default_syscall_handler trace_callback (Some 0) e' w4" by auto
    from hart_print_defined [of "soc_hart (soc e')" t w4] res(2)
    obtain s where "hart_print (soc_hart (soc e')) t w4 = Some (printf_stdout s w4)"
      by (auto simp: emu_ok_def soc_ok_def)
    with Some res(1) show ?thesis by simp
  qed
qed

text \<open>
  C13 (safety): \<open>main\<close> never goes wrong, whatever the command line and the contents of the file, as
  long as memory can be allocated, the file has fewer than 2^63 bytes and it is not to be loaded into
  the registers of the UART or TOHOST. It returns the exit status 1 for a command line it rejects, and
  with a step limit it always returns.
\<close>

theorem main_safe:
  assumes "\<And>i. i < 7 \<Longrightarrow> alloc_ok w (allocs w + i)"
    and "\<And>f bytes. files f = Some bytes \<Longrightarrow> length bytes < 2 ^ 63"
    and "args = snd (parse_args argv)"
    and "load_addr args < 0x10000000 \<or> 0x10000008 \<le> load_addr args"
    and "load_addr args < 0x80001000 \<or> 0x80001008 \<le> load_addr args"
  shows "main argv files read_ok w \<noteq> Some None
    \<and> (if fst (parse_args argv) then max_steps args = 0 \<or> main argv files read_ok w \<noteq> None
       else main argv files read_ok w = Some (Some (1, w)))"
proof (cases "fst (parse_args argv)")
  case False
  then show ?thesis by (simp add: main_def case_prod_beta Let_def)
next
  case True
  let ?e = "main_emulator args (allocs w)"
  have parse: "parse_args argv = (True, args)" using True assms(3) by (cases "parse_args argv") simp
  have allocs: "\<forall>i < 6. alloc_ok w (allocs w + i)" using assms(1) by simp
  have "bus_get_peripheral (board_bus (allocs w)) (load_addr args) \<notin> {Some 0, Some 3}"
    using assms(4,5) by (auto simp: board_dispatch)
  then obtain rc w3 where
    load: "emulator_load_binary ?e (files (the (binary args))) read_ok (load_addr args)
      (main_world (allocs w) w) = Some (rc, w3)"
    and shape: "same_shape (main_world (allocs w) w) w3"
    using board_load [of ?e "allocs w" "main_world (allocs w) w" _ _ "load_addr args"
        "files (the (binary args))"] assms(2)
    by (metis main_emulator_simps(1,3,4))
  have "cycle_count ?e < max_steps args \<or> max_steps args = 0"
    by (cases "max_steps args = 0") (simp_all add: word_neq_0_conv)
  with main_tail [OF main_emulator_ok [OF shape, of args], where m = "max_steps args"
      and dump = "dump_regs args" and t = "Some ''Final register state''"] parse
  show ?thesis
    unfolding main_after_init [of w argv args files, OF allocs parse load]
    by (auto split: option.splits)
qed

lemma main_safe_witness:
  "main [''a.bin'', ''--max'', ''9''] (\<lambda>_. Some [0x6F, 0, 0, 0]) True blank_world \<noteq> None"
proof -
  have args: "parse_args [''a.bin'', ''--max'', ''9''] = (True, zero_args\<lparr>binary := Some ''a.bin'', max_steps := 9\<rparr>)"
  proof -
    let ?opts = "[File ''a.bin'', Max 9]"
    have "parse_args (concat (map cli_text ?opts) @ []) = (True, fold cli_apply ?opts zero_args)"
      unfolding parse_args_def
      by (subst parse_options_cli) (simp_all add: not_option_def zero_args_def)
    moreover have "concat (map cli_text ?opts) @ [] = [''a.bin'', ''--max'', ''9'']"
      by (simp add: dec_string_def radix_string.simps lower_digit_def, code_simp)
    ultimately show ?thesis by (simp only: fold_simps cli_apply.simps comp_apply id_apply)
  qed
  show ?thesis
    using main_safe [of blank_world "\<lambda>_. Some [0x6F, 0, 0, 0]"
        "zero_args\<lparr>binary := Some ''a.bin'', max_steps := 9\<rparr>" "[''a.bin'', ''--max'', ''9'']" True]
    by (simp add: blank_world_def args zero_args_def)
qed

end
