(* ===== verification/Rve_Programs.thy ===== *)
theory Rve_Programs
  imports Rve_Process Rve_Main
begin

unbundle bit_operations_syntax

text \<open>
  Programs from end to end: a file given to \<open>main\<close> (src/main.c) is run as the process that starts with
  its bytes in memory, and its exit code and output are those of the process. Three examples: a program
  that prints with the write call and exits, one that drives the serial port and TOHOST, and one that
  never ends.
\<close>

section \<open>The process of a file\<close>

definition blank_ram :: flat where
  "blank_ram x = (if unat x < 0x400000 \<or> 0x80000000 \<le> unat x \<and> unat x < 0x81000000 then Some 0 else None)"

text \<open>The serial port after its reset.\<close>

definition blank_port :: port where
  "blank_port = (\<lambda>_. 0)(Port_DLL := 1)"

text \<open>All registers and CSRs 0, the program counter at \<open>p\<close>, the file at \<open>a\<close> in otherwise blank RAM.\<close>

definition fresh_process :: "u8 list \<Rightarrow> u32 \<Rightarrow> u32 \<Rightarrow> (host_file \<Rightarrow> u8 list) \<Rightarrow> proc" where
  "fresh_process bytes a p out = \<lparr>cpu = \<lparr>regs = (\<lambda>_. 0), at = p, csrs = csr_view zero_csr\<rparr>,
     mem = \<lparr>ram_bytes = flat_update blank_ram a bytes, port = blank_port, printed = out, ended = None\<rparr>\<rparr>"

lemma isa_view_init: "isa_view (hart_init p) = \<lparr>regs = (\<lambda>_. 0), at = p, csrs = csr_view zero_csr\<rparr>"
  by (auto simp: isa_view_def hart_init_def reg_view_def XLEN_def fun_eq_iff)

lemma blank_flat:
  assumes "heap w (l + 1) = Some (Memory_Obj (fresh_memory 0 0x400000))"
    "heap w (l + 3) = Some (Memory_Obj (fresh_memory 0x80000000 0x1000000))"
  shows "flat_view l w = blank_ram"
  using assms by (auto simp: flat_view_def blank_ram_def ram_byte_def fresh_memory_def fun_eq_iff)

lemma blank_port_view: "heap w (l + 5) = Some (Uart_Obj fresh_uart) \<Longrightarrow> port_view l w = blank_port"
  by (auto simp: port_view_def blank_port_def fresh_uart_def fun_eq_iff split: port_register.splits)

text \<open>
  A file of \<open>n\<close> bytes to be loaded at \<open>a\<close> fits into one of the two RAMs: the low one, or the one at
  0x80000000, where the load address must not be one of TOHOST.
\<close>

definition fits_ram :: "u32 \<Rightarrow> nat \<Rightarrow> bool" where
  "fits_ram a n \<longleftrightarrow> unat a + n \<le> 0x400000
     \<or> 0x80000000 \<le> unat a \<and> unat a + n \<le> 0x81000000 \<and> \<not> (0x80001000 \<le> a \<and> a < 0x80001008)"

lemma fits_low_ram: "unat a + n \<le> 0x400000 \<Longrightarrow> fits_ram a n"
  by (simp add: fits_ram_def)

lemma file_in_ram:
  assumes "fits_ram a n" "0 < n"
  obtains r m k where "heap (main_world l w) r = Some (Memory_Obj m)" "m = fresh_memory (base_addr m) (size_m m)"
    "ram_region l r m" "in_memory m a n" "bus_get_peripheral (board_bus l) a = Some k"
    "ctx (peripherals (board_bus l) ! k) = Some r"
  using assms(1) unfolding fits_ram_def
proof (elim disjE)
  assume "unat a + n \<le> 0x400000"
  with assms(2) board_ram_slots(1) [of a l] show thesis
    by (intro that [OF main_emulator_simps(3) _ _ _ _ board_ram_slots(5)])
      (simp_all add: fresh_memory_def ram_region_def in_memory_def)
next
  assume a: "0x80000000 \<le> unat a \<and> unat a + n \<le> 0x81000000 \<and> \<not> (0x80001000 \<le> a \<and> a < 0x80001008)"
  then have "\<not> device_at a" by (auto simp: device_at_def word_le_nat_alt word_less_nat_alt)
  with a assms(2) board_ram_slots(2) [of a l] show thesis
    by (intro that [OF main_emulator_simps(4) _ _ _ _ board_ram_slots(6)])
      (simp_all add: fresh_memory_def ram_region_def in_memory_def word_le_nat_alt le_diff_conv)
qed

lemma loaded_process:
  assumes "bytes \<noteq> []" "fits_ram a (length bytes)" "\<forall>i < 7. alloc_ok w (allocs w + i)"
    and "\<not> trace args" "reset_pc args = p"
  obtains w' where "emulator_load_binary (main_emulator args (allocs w)) (Some bytes) True a (main_world (allocs w) w)
      = Some (0, w')"
    "proc_view (allocs w) (main_emulator args (allocs w)) w' = fresh_process bytes a p (out_stream w)"
    "on_board (allocs w) (main_emulator args (allocs w)) w'" "\<not> halted w'" "same_shape (main_world (allocs w) w) w'"
proof -
  let ?l = "allocs w" and ?w = "main_world (allocs w) w" and ?e = "main_emulator args (allocs w)"
  from assms(1) have "0 < length bytes" by simp
  from file_in_ram [OF assms(2) this, of ?l w] obtain r m k where
    m: "heap ?w r = Some (Memory_Obj m)" "m = fresh_memory (base_addr m) (size_m m)" "ram_region ?l r m"
    and at: "in_memory m a (length bytes)" "bus_get_peripheral (board_bus ?l) a = Some k"
    "ctx (peripherals (board_bus ?l) ! k) = Some r" by blast
  let ?m = "m\<lparr>raw_memory := Some (store_bytes (\<lambda>_. 0) (unat a - unat (base_addr m)) bytes)\<rparr>"
  define w1 where "w1 = ?w\<lparr>heap := (heap ?w)(r \<mapsto> Memory_Obj ?m)\<rparr>"
  have n: "length bytes < 2 ^ 63" using assms(2) by (auto simp: fits_ram_def)
  have ok: "alloc_ok ?w (allocs ?w)" using assms(3) by (simp add: main_world_def board_world_def)
  have raw: "raw_memory m = Some (\<lambda>_. 0)" by (subst m(2)) (simp add: fresh_memory_def)
  have load: "emulator_load_binary ?e (Some bytes) True a ?w = Some (0, w1\<lparr>allocs := allocs ?w + 1\<rparr>)"
    using load_binary_ram [OF main_emulator_simps(1) m(1) raw at(2,3,1) assms(1) ok n] by (simp add: w1_def)
  from flat_view_store [OF m(1) raw m(3) at(1)]
  have "flat_view ?l w1 = flat_update (flat_view ?l ?w) a bytes" by (simp add: w1_def)
  then have flat: "flat_view ?l (w1\<lparr>allocs := n\<rparr>) = flat_update blank_ram a bytes" for n
    using blank_flat [OF main_emulator_simps(3,4)] flat_view_cong [of "w1\<lparr>allocs := n\<rparr>" w1] by simp
  have r: "r = ?l + 1 \<and> base_addr m = 0 \<and> size_m m = 0x400000
      \<or> r = ?l + 3 \<and> base_addr m = 0x80000000 \<and> size_m m = 0x1000000"
    using m(3) by (simp add: ram_region_def)
  then have w1: "out_stream w1 = out_stream w" "\<not> halted w1" "port_view ?l (w1\<lparr>allocs := n\<rparr>) = blank_port" for n
    by (auto simp: w1_def main_world_def board_world_def blank_port_view)
  then have "proc_view ?l ?e (w1\<lparr>allocs := n\<rparr>) = fresh_process bytes a p (out_stream w)" for n
    using assms(4,5) by (simp add: proc_view_def mem_view_def fresh_process_def flat main_emulator_def
        board_emulator_def isa_view_init)
  moreover have "on_board ?l ?e (w1\<lparr>allocs := n\<rparr>)" for n
    using assms(4) r by (auto simp: on_board_def live_def main_emulator_def board_emulator_def board_rams_def
        ram_at_def mem_ok_def w1_def main_world_def board_world_def fresh_memory_def fresh_uart_def tohost_ok_def dlab_def)
  moreover have "same_shape ?w (w1\<lparr>allocs := n\<rparr>)" for n
    by (rule same_shape_upd [OF m(1), of "Memory_Obj ?m"]) (simp_all add: w1_def raw)
  ultimately show thesis using that [OF load] w1(2) by simp
qed

text \<open>
  \<open>main\<close> with the tracer and without it: loading does not depend on it, and of an emulator that does
  not trace the run is simulated by that of the tracing one.
\<close>

lemma load_soc: "soc e = soc d \<Longrightarrow> emulator_load_binary e bs ok a w = emulator_load_binary d bs ok a w"
  by (cases bs) (simp_all add: emulator_load_binary_def Let_def)

lemma main_emulator_run:
  assumes "emulator_run (main_emulator (args\<lparr>trace := False\<rparr>) l) m w = Some (Some (c, e1, w1))"
    and "same_shape (main_world l w0) w"
  shows "\<exists>e2 w2. emulator_run (main_emulator args l) m w = Some (Some (c, e2, w2)) \<and> soc e2 = soc e1
    \<and> (if trace args then same_but_printed subseq w1 w2 else w2 = w1)"
proof (cases "trace args")
  case False
  then have "args\<lparr>trace := False\<rparr> = args" by simp
  with assms False show ?thesis by simp
next
  case True
  let ?e = "main_emulator args l"
  have set: "emulator_set_trace ?e None None = main_emulator (args\<lparr>trace := False\<rparr>) l"
    "emulator_set_trace ?e (Some trace_callback) (Some 0) = ?e"
    using True by (simp_all add: main_emulator_def emulator_set_trace_def board_emulator_def)
  from tracing_is_transparent_lemma [OF main_emulator_ok [OF assms(2), of args], of m] assms(1) True
  show ?thesis unfolding set by (auto split: option.splits)
qed

lemma main_emulator_none:
  assumes "same_shape (main_world l w0) w"
  shows "emulator_run (main_emulator args l) m w = None \<longleftrightarrow> emulator_run (main_emulator (args\<lparr>trace := False\<rparr>) l) m w = None"
proof (cases "trace args")
  case False
  then have "args\<lparr>trace := False\<rparr> = args" by simp
  then show ?thesis by simp
next
  case True
  let ?e = "main_emulator args l"
  have set: "emulator_set_trace ?e None None = main_emulator (args\<lparr>trace := False\<rparr>) l"
    "emulator_set_trace ?e (Some trace_callback) (Some 0) = ?e"
    using True by (simp_all add: main_emulator_def emulator_set_trace_def board_emulator_def)
  from tracing_is_transparent_lemma [OF main_emulator_ok [OF assms, of args], of m]
  show ?thesis unfolding set by (auto split: option.splits)
qed

text \<open>
  C5 (liveness): programs run. Let the command line be accepted and name a readable, non-empty file that
  fits into one of the two RAMs at the load address, let the allocations succeed, and let the process that
  starts with the bytes of the file in blank memory, all registers 0 and the given reset address, exit
  with the code c after n instructions. Then \<open>main\<close> returns: c, having written what the process has
  printed, when there is no step limit or one above n; and 1, having written a prefix of what the process
  would have printed to each stream, when the limit is n or less. Written is exactly this to every stream
  but stdout, and to stdout too, followed only with \<open>--regs\<close> by the registers, unless there is
  \<open>--trace\<close>, which adds text to stdout in between. (The emulator's own messages on stderr are not
  modelled.)
\<close>

theorem main_runs_process:
  assumes "parse_args argv = (True, args)" "files (the (binary args)) = Some bytes"
    and "bytes \<noteq> []" "fits_ram (load_addr args) (length bytes)"
    and "\<And>i. i < 7 \<Longrightarrow> alloc_ok w (allocs w + i)"
    and "proc_exits n (fresh_process bytes (load_addr args) (reset_pc args) (out_stream w)) c q"
  shows "\<exists>w' out s. main argv files True w =
      Some (Some (if max_steps args = 0 \<or> n < unat (max_steps args) then c else 1, w'))
    \<and> (\<forall>f. prefix (out f) (printed (mem q) f))
    \<and> (max_steps args = 0 \<or> n < unat (max_steps args) \<longrightarrow> out = printed (mem q))
    \<and> (\<forall>f. f \<noteq> Stdout \<longrightarrow> out_stream w' f = out f)
    \<and> (if trace args then subseq (out Stdout) (out_stream w' Stdout)
       else out_stream w' Stdout = out Stdout @ s)
    \<and> (s = [] \<or> dump_regs args)"
proof -
  let ?a = "args\<lparr>trace := False\<rparr>" and ?e = "main_emulator args (allocs w)"
  let ?d = "main_emulator ?a (allocs w)" and ?m = "max_steps args"
  let ?c = "if ?m = 0 \<or> n < unat ?m then c else 1"
  have allocs: "\<forall>i < 7. alloc_ok w (allocs w + i)" "\<forall>i < 6. alloc_ok w (allocs w + i)" using assms(5) by simp_all
  from loaded_process [OF assms(3,4) allocs(1), of ?a] obtain w3 where
    load: "emulator_load_binary ?d (Some bytes) True (load_addr args) (main_world (allocs w) w) = Some (0, w3)"
    and view: "proc_view (allocs w) ?d w3 = fresh_process bytes (load_addr args) (reset_pc args) (out_stream w)"
    and board: "on_board (allocs w) ?d w3" "\<not> halted w3" and shape: "same_shape (main_world (allocs w) w) w3" by auto
  have "soc ?e = soc ?d" by (simp add: main_emulator_def emulator_set_trace_def board_emulator_def)
  from load load_soc [OF this]
  have load: "emulator_load_binary ?e (Some bytes) True (load_addr args) (main_world (allocs w) w) = Some (0, w3)" by simp
  from process_outcome [OF assms(6) [folded view] board main_emulator_simps(2), of ?m] obtain e4 w4 where
    run: "emulator_run ?d ?m w3 = Some (Some (?c, e4, w4))"
    and out: "\<forall>f. prefix (out_stream w4 f) (printed (mem q) f)"
      "?m = 0 \<or> n < unat ?m \<longrightarrow> out_stream w4 = printed (mem q)" by blast
  from main_emulator_run [OF run shape] obtain e5 w5 where
    traced: "emulator_run ?e ?m w3 = Some (Some (?c, e5, w5))"
      "if trace args then same_but_printed subseq w4 w5 else w5 = w4" by blast
  from traced.emu_run_result [OF traced(1) main_emulator_ok [OF shape]]
  have "hart_ok (soc_hart (soc e5))" by (auto simp: emu_ok_def soc_ok_def)
  from hart_print_defined [OF this, of "Some ''Final register state''" w5] obtain str where
    print: "hart_print (soc_hart (soc e5)) (Some ''Final register state'') w5 = Some (printf_stdout str w5)" by blast
  define w6 where "w6 = (if dump_regs args then printf_stdout str w5 else w5)"
  have main: "main argv files True w = Some (Some (?c, w6))"
    using main_after_init [of w argv args files, OF allocs(2) assms(1)] load traced(1) print assms(2)
    by (simp add: w6_def)
  have "out_stream w5 f = out_stream w4 f" if "f \<noteq> Stdout" for f
    using traced(2) that by (auto simp: same_but_printed_def split: if_splits)
  moreover have "if trace args then subseq (out_stream w4 Stdout) (out_stream w5 Stdout)
      else out_stream w5 Stdout = out_stream w4 Stdout"
    using traced(2) by (auto simp: same_but_printed_def split: if_splits)
  ultimately have "\<exists>s. (\<forall>f. f \<noteq> Stdout \<longrightarrow> out_stream w6 f = out_stream w4 f)
    \<and> (if trace args then subseq (out_stream w4 Stdout) (out_stream w6 Stdout)
       else out_stream w6 Stdout = out_stream w4 Stdout @ s) \<and> (s = [] \<or> dump_regs args)"
    by (cases "dump_regs args") (auto simp: w6_def printf_stdout_def intro: subseq_rev_drop_many split: if_splits)
  with main out show ?thesis by blast
qed

lemma printed_view: "printed (mem (proc_view l e w)) = out_stream w"
  by (simp add: proc_view_def mem_view_def)

lemma main_is_the_process_lemma:
  assumes "parse_args argv = (True, args)" "max_steps args = 0"
    and "files (the (binary args)) = Some bytes" "bytes \<noteq> []" "fits_ram (load_addr args) (length bytes)"
    and "\<And>i. i < 7 \<Longrightarrow> alloc_ok w (allocs w + i)"
  shows "let p = fresh_process bytes (load_addr args) (reset_pc args) (out_stream w)
    in ((\<exists>w'. main argv files True w = Some (Some (c, w'))) \<longleftrightarrow> (\<exists>n q. proc_exits n p c q))
     \<and> (main argv files True w = None \<longleftrightarrow> proc_runs_on p)
     \<and> (\<not> trace args \<and> \<not> dump_regs args \<longrightarrow>
          (\<exists>w'. main argv files True w = Some (Some (c, w')) \<and> out_stream w' = out) \<longleftrightarrow>
          (\<exists>n q. proc_exits n p c q \<and> printed (mem q) = out))"
proof -
  let ?e = "main_emulator args (allocs w)" and ?a = "args\<lparr>trace := False\<rparr>"
  let ?d = "main_emulator ?a (allocs w)"
  let ?p = "fresh_process bytes (load_addr args) (reset_pc args) (out_stream w)"
  have allocs: "\<forall>i < 7. alloc_ok w (allocs w + i)" "\<forall>i < 6. alloc_ok w (allocs w + i)" using assms(6) by simp_all
  from loaded_process [OF assms(4,5) allocs(1), of ?a] obtain w3 where
    load: "emulator_load_binary ?d (Some bytes) True (load_addr args) (main_world (allocs w) w) = Some (0, w3)"
    and view: "proc_view (allocs w) ?d w3 = ?p" and board: "on_board (allocs w) ?d w3" "\<not> halted w3"
    and shape: "same_shape (main_world (allocs w) w) w3" by auto
  have "soc ?e = soc ?d" by (simp add: main_emulator_def emulator_set_trace_def board_emulator_def)
  from load load_soc [OF this]
  have load: "emulator_load_binary ?e (Some bytes) True (load_addr args) (main_world (allocs w) w) = Some (0, w3)" by simp
  note run = run_is_process [OF board, unfolded view]
  have main: "main argv files True w = (case emulator_run ?e 0 w3 of None \<Rightarrow> None | Some None \<Rightarrow> Some None
      | Some (Some (code, e, w4)) \<Rightarrow> Some (Some (code, if dump_regs args then
          the (hart_print (soc_hart (soc e)) (Some ''Final register state'') w4) else w4)))"
    using main_after_init [of w argv args files, OF allocs(2) assms(1)] load assms(2,3)
      main_tail [OF main_emulator_ok [OF shape, of args], where m = 0 and dump = "dump_regs args" and t = "Some ''Final register state''"]
    by simp
  have none: "main argv files True w = None \<longleftrightarrow> emulator_run ?d 0 w3 = None"
    using main_emulator_none [OF shape, of args 0] unfolding main by (auto split: option.splits)
  have ret: "(\<exists>w'. main argv files True w = Some (Some (c, w'))) \<longleftrightarrow>
      (\<exists>q. \<exists>e' w'. emulator_run ?d 0 w3 = Some (Some (c, e', w')) \<and> proc_view (allocs w) e' w' = q)"
  proof
    assume "\<exists>w'. main argv files True w = Some (Some (c, w'))"
    then obtain e2 w2 where "emulator_run ?e 0 w3 = Some (Some (c, e2, w2))"
      unfolding main by (auto split: option.splits)
    moreover have "emulator_run ?d 0 w3 \<noteq> None" "emulator_run ?d 0 w3 \<noteq> Some None"
      using main_emulator_none [OF shape, of args 0] run_not_undefined [OF board] calculation by simp_all
    moreover obtain x where "emulator_run ?d 0 w3 = Some x" using calculation(2) by blast
    moreover obtain k e1 w1 where "emulator_run ?d 0 w3 = Some (Some (k, e1, w1))"
      using calculation by (cases x) auto
    ultimately show "\<exists>q. \<exists>e' w'. emulator_run ?d 0 w3 = Some (Some (c, e', w')) \<and> proc_view (allocs w) e' w' = q"
      using main_emulator_run [OF _ shape, of args 0 k e1 w1] by auto
  next
    assume "\<exists>q. \<exists>e' w'. emulator_run ?d 0 w3 = Some (Some (c, e', w')) \<and> proc_view (allocs w) e' w' = q"
    then obtain e1 w1 where "emulator_run ?d 0 w3 = Some (Some (c, e1, w1))" by blast
    from main_emulator_run [OF this shape] show "\<exists>w'. main argv files True w = Some (Some (c, w'))"
      unfolding main by auto
  qed
  have exact: "(\<exists>w'. main argv files True w = Some (Some (c, w')) \<and> out_stream w' = out) \<longleftrightarrow>
      (\<exists>q. (\<exists>e' w'. emulator_run ?d 0 w3 = Some (Some (c, e', w')) \<and> proc_view (allocs w) e' w' = q)
        \<and> printed (mem q) = out)" if "\<not> trace args" "\<not> dump_regs args"
  proof -
    have "?a = args" using that(1) by simp
    then show ?thesis unfolding main using that(2) printed_view by (auto split: option.splits)
  qed
  show ?thesis
    unfolding Let_def none ret run(1) using exact unfolding run(2) by blast
qed

text \<open>
  C2 (equivalence): the program is the process. Without a step limit, \<open>main\<close> called on a
  non-empty file that fits into one of the RAMs returns the code c if and only if the process that starts
  with the file in blank memory exits with the code c, and does not return if and only if that process runs on for ever,
  whatever the other options; and without tracing and register dump, it returns c having written
  exactly certain bytes to each stream if and only if the process exits with c having printed them. The
  emulator's own messages on stderr are not part of the streams of the model.
\<close>

theorem main_is_the_process:
  assumes "parse_args argv = (True, args)" "max_steps args = 0"
    and "files (the (binary args)) = Some bytes" "bytes \<noteq> []" "fits_ram (load_addr args) (length bytes)"
    and "\<And>i. i < 7 \<Longrightarrow> alloc_ok w (allocs w + i)"
  shows "let p = fresh_process bytes (load_addr args) (reset_pc args) (out_stream w)
    in ((\<exists>w'. main argv files True w = Some (Some (c, w'))) \<longleftrightarrow> (\<exists>n q. proc_exits n p c q))
     \<and> (main argv files True w = None \<longleftrightarrow> proc_runs_on p)
     \<and> (\<not> trace args \<and> \<not> dump_regs args \<longrightarrow>
          (\<exists>w'. main argv files True w = Some (Some (c, w')) \<and> out_stream w' = out) \<longleftrightarrow>
          (\<exists>n q. proc_exits n p c q \<and> printed (mem q) = out))"
  using assms by (rule main_is_the_process_lemma)

section \<open>Programs on a blank machine\<close>

definition ram_image :: "u32 list \<Rightarrow> u8 list \<Rightarrow> u8 list" where
  "ram_image ws bs = concat (map (le_bytes 4) ws) @ bs"

lemma machine_simps [simp]:
  "xr (goto s a) k = xr s k" "at (goto s a) = a" "at (put s d v) = at s"
  "xr (put s d v) k = (if take_bit 5 d \<noteq> 0 \<and> take_bit 5 k = take_bit 5 d then v else xr s k)"
  "xr \<lparr>regs = (\<lambda>_. 0), at = p, csrs = cs\<rparr> k = 0"
  by (auto simp: goto_def xr_def put_def)

lemma length_ram_image [simp]: "length (ram_image ws bs) = 4 * length ws + length bs"
  by (induction ws) (simp_all add: ram_image_def)

lemma program_word:
  "k < length ws \<Longrightarrow> take 4 (drop (4 * k) (ram_image ws bs)) = le_bytes 4 (ws ! k)"
proof (induction ws arbitrary: k)
  case (Cons w ws)
  have "length (le_bytes 4 w) = 4" by simp
  with Cons show ?case by (cases k) (simp_all add: ram_image_def)
qed simp

text \<open>The memory of a process with a program at 0, and one instruction of the program.\<close>

definition program_mem :: "u32 list \<Rightarrow> u8 list \<Rightarrow> (host_file \<Rightarrow> u8 list) \<Rightarrow> proc_mem" where
  "program_mem ws bs out = \<lparr>ram_bytes = flat_update blank_ram 0 (ram_image ws bs), port = blank_port, printed = out, ended = None\<rparr>"

lemma program_fetch:
  assumes "at s = 4 * of_nat k" "k < length ws" "length (ram_image ws bs) \<le> 0x400000"
    and "rv32_encode oper d s1 s2 im = Some (ws ! k)"
  shows "isa_fetch io_load s (program_mem ws bs out) oper d s1 s2 im (ws ! k) (program_mem ws bs out)"
proof -
  let ?m = "flat_update blank_ram 0 (ram_image ws bs)"
  have pc: "unat (at s) = 4 * k" using assms(1-3) by (simp add: unat_word_ariths unat_of_nat)
  with assms(2,3) have a: "\<not> device_at (at s)" "unat (at s) + 4 \<le> length (ram_image ws bs)"
    by (auto simp: device_at_def word_le_nat_alt)
  have "?m (at s + of_nat j) = Some (ram_image ws bs ! (unat (at s) + j))" if "j < 4" for j
    using that assms(2,3) pc unat_add_below [of "at s" j] by (simp add: flat_update_def)
  then have "map (\<lambda>j. ?m (at s + of_nat j)) [0..<4] = map (\<lambda>j. Some (ram_image ws bs ! (unat (at s) + j))) [0..<4]"
    by simp
  then have "flat_bytes ?m (at s) 4 = Some (map (\<lambda>j. ram_image ws bs ! (unat (at s) + j)) [0..<4])"
    by (auto simp: flat_bytes_def Let_def simp del: set_map) (auto simp: o_def)
  moreover have "map (\<lambda>j. ram_image ws bs ! (unat (at s) + j)) [0..<4] = take 4 (drop (unat (at s)) (ram_image ws bs))"
    using a(2) by (auto intro!: nth_equalityI)
  ultimately have "flat_bytes ?m (at s) 4 = Some (le_bytes 4 (ws ! k))"
    using program_word [OF assms(2)] by (simp add: pc)
  then show ?thesis
    using assms(4) a(1) device_windows [of "at s"] pc
    by (simp add: isa_fetch_def io_load_def flat_load_def program_mem_def le_word_le_bytes take_bit_word_eq_self)
qed

lemma program_addi:
  assumes "at s = 4 * of_nat k" "k < length ws" "length (ram_image ws bs) \<le> 0x400000"
    and "rv32_encode INSTRUCTION_OP_ADDI d r 0 im = Some (ws ! k)"
    and "v = xr s r + sx 12 im" "p = 4 * of_nat k + 4"
  shows "proc_step \<lparr>cpu = s, mem = program_mem ws bs out\<rparr>
    \<lparr>cpu = goto (put s d v) p, mem = program_mem ws bs out\<rparr>"
proof -
  have "rv_alu INSTRUCTION_OP_ADD (xr s r) (rv32_imm INSTRUCTION_OP_ADDI im) = Some v"
    by (simp add: rv32_imm_def rv32_format_def assms(5))
  from isa_step.Immediate [OF program_fetch [OF assms(1-4)] _ this]
  have "isa_step io_load io_store (s, program_mem ws bs out) TRAP_NONE (goto (put s d v) p, program_mem ws bs out)"
    by (simp add: assms(1,6))
  from proc_step.Run [of "\<lparr>cpu = s, mem = program_mem ws bs out\<rparr>"] this show ?thesis
    by (simp add: program_mem_def)
qed

lemma program_li:
  assumes "at s = 4 * of_nat k" "k < length ws" "length (ram_image ws bs) \<le> 0x400000"
    and "rv32_encode INSTRUCTION_OP_ADDI d 0 0 im = Some (ws ! k)"
    and "xr s 0 = 0" "v = sx 12 im" "p = 4 * of_nat k + 4"
  shows "proc_step \<lparr>cpu = s, mem = program_mem ws bs out\<rparr>
    \<lparr>cpu = goto (put s d v) p, mem = program_mem ws bs out\<rparr>"
  using program_addi [OF assms(1-4)] assms(5-7) by simp

lemma program_ecall:
  assumes "at s = 4 * of_nat k" "k < length ws" "length (ram_image ws bs) \<le> 0x400000" "ws ! k = 0x73"
  shows "isa_step io_load io_store (s, program_mem ws bs out) TRAP_ECALL_M
    (goto s (at s + 4), program_mem ws bs out)"
proof -
  have "rv32_encode INSTRUCTION_OP_ECALL 0 0 0 0 = Some (ws ! k)"
    using assms(4) by (simp only: encode_ignores)
  from isa_step.Ecall [OF program_fetch [OF assms(1-3) this]] show ?thesis .
qed

section \<open>A program that prints and exits\<close>

text \<open>
  The words: li a7, 64; li a0, 1; li a1, 32; li a2, 2; ecall; li a7, 93; li a0, 0; ecall; and then, at
  address 32, the letters \<open>hi\<close>.
\<close>

definition hello_words :: "u32 list" where
  "hello_words = [asm_i 64 0 0 17 0x13, asm_i 1 0 0 10 0x13, asm_i 32 0 0 11 0x13, asm_i 2 0 0 12 0x13, 0x73,
     asm_i 93 0 0 17 0x13, asm_i 0 0 0 10 0x13, 0x73]"

definition hello :: "u8 list" where
  "hello = ram_image hello_words [104, 105]"

lemma hello_letters: "io_out 2 32 (program_mem hello_words [104, 105] (\<lambda>_. [])) = [104, 105]"
  by code_simp

lemma hello_exits:
  fixes out :: "host_file \<Rightarrow> u8 list"
  shows "\<exists>s r. proc_exits 8 (fresh_process hello 0 0 out) 0
    \<lparr>cpu = s, mem = \<lparr>ram_bytes = r, port = blank_port, printed = out(Stdout := out Stdout @ [104, 105]), ended = Some 0\<rparr>\<rparr>"
proof -
  define s0 :: isa_t where "s0 = \<lparr>regs = (\<lambda>_. 0), at = 0, csrs = csr_view zero_csr\<rparr>"
  define s1 where "s1 = goto (put s0 17 64) 4"
  define s2 where "s2 = goto (put s1 10 1) 8"
  define s3 where "s3 = goto (put s2 11 32) 12"
  define s4 where "s4 = goto (put s3 12 2) 16"
  define s5 where "s5 = put (goto s4 20) 10 2"
  define s6 where "s6 = goto (put s5 17 93) 24"
  define s7 where "s7 = goto (put s6 10 0) 28"
  note states = s0_def s1_def s2_def s3_def s4_def s5_def s6_def s7_def
  let ?m = "program_mem hello_words [104, 105]"
  let ?P = "\<lambda>s out. \<lparr>cpu = s, mem = ?m out\<rparr>"
  let ?out = "out(Stdout := out Stdout @ [104, 105])"
  have sx: "sx 12 (64 :: u32) = 64" "sx 12 (1 :: u32) = 1" "sx 12 (32 :: u32) = 32" "sx 12 (2 :: u32) = 2"
    "sx 12 (93 :: u32) = 93" "sx 12 (0 :: u32) = 0" by code_simp+
  have at: "at s0 = 0" "at s1 = 4" "at s2 = 8" "at s3 = 12" "at s4 = 16" "at s5 = 20" "at s6 = 24" "at s7 = 28"
    by (simp_all add: states)
  have zero: "xr s0 0 = 0" "xr s1 0 = 0" "xr s2 0 = 0" "xr s3 0 = 0" "xr s5 0 = 0" "xr s6 0 = 0"
    by (simp_all add: states)
  note facts = at zero sx hello_words_def
  have li: "proc_step (?P s0 out) (?P s1 out)" "proc_step (?P s1 out) (?P s2 out)"
    "proc_step (?P s2 out) (?P s3 out)" "proc_step (?P s3 out) (?P s4 out)"
    "proc_step (?P s5 ?out) (?P s6 ?out)" "proc_step (?P s6 ?out) (?P s7 ?out)"
    unfolding s1_def s2_def s3_def s4_def s6_def s7_def
    by (rule program_li [where k = 0 and im = 64] program_li [where k = 1 and im = 1]
        program_li [where k = 2 and im = 32] program_li [where k = 3 and im = 2]
        program_li [where k = 5 and im = 93] program_li [where k = 6 and im = 0]; simp add: facts)+
  have regs: "xr (goto s4 20) 17 = 64" "xr (goto s4 20) 10 = 1" "xr (goto s4 20) 11 = 32" "xr (goto s4 20) 12 = 2"
    "xr (goto s7 32) 17 = 93" "xr (goto s7 32) 10 = 0"
    by (simp_all add: states)
  have says: "?m ?out = say Stdout [104, 105] (?m out)" by (simp add: program_mem_def say_def)
  have "io_out 2 32 (?m out) = [104, 105]"
    using io_out_cong [of "?m out" "?m (\<lambda>_. [])" 2 32] hello_letters by (simp add: program_mem_def)
  then have letters: "[104, 105] = io_out (unat (xr (goto s4 20) 12)) (xr (goto s4 20) 11) (?m out)"
    using regs(3,4) by simp
  have call: "isa_step io_load io_store (cpu (?P s4 out), mem (?P s4 out)) TRAP_ECALL_M (goto s4 20, ?m out)"
    using program_ecall [of s4 4 hello_words "[104, 105]" out] at(5) by (simp add: hello_words_def)
  from proc_step.Write [OF call regs(1) _ letters, of Stdout] regs(2)
  have prints: "proc_step (?P s4 out) (?P s5 ?out)" by (simp add: s5_def says)
  from regs(5,6) proc_exits.Exit [of "?P s7 ?out" "goto s7 32" "?m ?out"]
    program_ecall [of s7 7 hello_words "[104, 105]" ?out] at(8)
  have ends: "proc_exits 1 (?P s7 ?out) 0 \<lparr>cpu = goto s7 32, mem = (?m ?out)\<lparr>ended := Some 0\<rparr>\<rparr>"
    by (simp add: hello_words_def)
  have "proc_exits 8 (?P s0 out) 0 \<lparr>cpu = goto s7 32, mem = (?m ?out)\<lparr>ended := Some 0\<rparr>\<rparr>"
    using proc_exits.Continue [OF li(1), OF proc_exits.Continue [OF li(2), OF proc_exits.Continue [OF li(3),
      OF proc_exits.Continue [OF li(4), OF proc_exits.Continue [OF prints, OF proc_exits.Continue [OF li(5),
      OF proc_exits.Continue [OF li(6) ends]]]]]]]
    by (simp only: Suc_1 Suc_numeral add_One Num.inc.simps)
  then show ?thesis
    unfolding fresh_process_def s0_def hello_def program_mem_def by (auto simp: program_mem_def)
qed

lemma parse_file_and_max:
  assumes "not_option f"
  shows "parse_args [f, ''--max'', dec_string (unat n)] = (True, zero_args\<lparr>binary := Some f, max_steps := n\<rparr>)"
  using parse_options_cli [of "[File f, Max n]" zero_args "[]"] assms
  by (simp add: parse_args_def zero_args_def)

lemma main_runs_process_witness:
  "(\<exists>w'. main [''hello.bin''] (\<lambda>_. Some hello) True blank_world = Some (Some (0, w'))
      \<and> out_stream w' Stdout = [104, 105])
   \<and> (\<exists>w'. main [''hello.bin'', ''--max'', ''5''] (\<lambda>_. Some hello) True blank_world = Some (Some (1, w')))"
proof -
  have five: "dec_string 5 = ''5''" by (simp add: dec_string_def radix_string.simps digit_chars)
  have args: "parse_args [''hello.bin''] = (True, zero_args\<lparr>binary := Some ''hello.bin''\<rparr>)"
    by (simp add: parse_args_def zero_args_def)
  have limited: "parse_args [''hello.bin'', ''--max'', ''5''] =
      (True, zero_args\<lparr>binary := Some ''hello.bin'', max_steps := 5\<rparr>)"
    using parse_file_and_max [of "''hello.bin''" 5] by (simp add: not_option_def five)
  have len: "hello \<noteq> []" "length hello = 34" by (simp_all add: hello_def hello_words_def ram_image_def)
  from hello_exits [of "\<lambda>_. []"] obtain s r where
    ends: "proc_exits 8 (fresh_process hello 0 0 (\<lambda>_. [])) 0 \<lparr>cpu = s, mem = \<lparr>ram_bytes = r, port = blank_port,
      printed = (\<lambda>_. [])(Stdout := [104, 105]), ended = Some 0\<rparr>\<rparr>" (is "proc_exits 8 _ 0 ?q")
    by auto
  have run: "\<exists>w' out s. main argv (\<lambda>_. Some hello) True blank_world =
      Some (Some (if max_steps args = 0 \<or> 8 < unat (max_steps args) then 0 else 1, w'))
    \<and> (max_steps args = 0 \<or> 8 < unat (max_steps args) \<longrightarrow> out Stdout = [104, 105])
    \<and> out_stream w' Stdout = out Stdout @ s \<and> s = []"
    if "parse_args argv = (True, args)" "\<not> trace args" "\<not> dump_regs args" "load_addr args = 0" "reset_pc args = 0" for argv args
    using main_runs_process [OF that(1), of "\<lambda>_. Some hello" hello blank_world 8 0 ?q] that len ends
    by (fastforce simp: blank_world_def fits_ram_def)
  show ?thesis
    using run [OF args] run [OF limited] by (auto simp: zero_args_def)
qed

section \<open>A program that drives the devices\<close>

text \<open>
  C4 (refinement): the emulator runs processes. When the emulator is on the board, with the built-in
  handler and no tracing, not halted, and the process it holds exits with the code c in the state q
  after n instructions, then \<open>emulator_run\<close> with no step limit, or a larger one, returns c after n steps;
  the emulator then holds q, on the board.
\<close>

theorem process_is_emulated:
  assumes "proc_exits n (proc_view l e w) c q" "on_board l e w" "\<not> halted w"
    and "m = 0 \<or> unat (cycle_count e) + n < unat m"
  shows "\<exists>e' w'. emulator_run e m w = Some (Some (c, e', w')) \<and> on_board l e' w'
    \<and> proc_view l e' w' = q \<and> cycle_count e' = cycle_count e + of_nat n"
  using process_run [OF assms(1) refl assms(2,3)] assms(4) by (simp add: within_limit_def)

text \<open>
  C3 (equivalence): the runs of an emulator on the board are the runs of its process. From any state
  that is not halted, \<open>emulator_run\<close> without a step limit returns the code c with the process q in the
  machine if and only if the process exits with c in the state q, and it does not return if and only
  if the process runs on for ever. In particular no run is undefined.
\<close>

theorem emulator_run_is_the_process:
  assumes "on_board l e w" "\<not> halted w"
  shows "((\<exists>e' w'. emulator_run e 0 w = Some (Some (c, e', w')) \<and> proc_view l e' w' = q) \<longleftrightarrow>
      (\<exists>n. proc_exits n (proc_view l e w) c q))
    \<and> (emulator_run e 0 w = None \<longleftrightarrow> proc_runs_on (proc_view l e w))
    \<and> emulator_run e 0 w \<noteq> Some None"
  using run_is_process [OF assms] run_not_undefined [OF assms] by blast

text \<open>
  The words: lui a0, 0x10000; li a1, 104; sb a1, 0(a0); lui a0, 0x80001; li a1, 1; sw a1, 0(a0). The first
  store prints \<open>h\<close> through the UART, the second one ends the run through TOHOST.
\<close>

definition bell_words :: "u32 list" where
  "bell_words = [asm_u 0x10000000 10 0x37, asm_i 104 0 0 11 0x13, asm_s 0 11 10 0 0x23,
     asm_u 0x80001000 10 0x37, asm_i 1 0 0 11 0x13, asm_s 0 11 10 2 0x23]"

lemma program_lui:
  assumes "at s = 4 * of_nat k" "k < length ws" "length (ram_image ws bs) \<le> 0x400000"
    and "rv32_encode INSTRUCTION_OP_LUI d 0 0 im = Some (ws ! k)"
    and "v = im AND NOT (mask 12)" "p = 4 * of_nat k + 4"
  shows "proc_step \<lparr>cpu = s, mem = program_mem ws bs out\<rparr>
    \<lparr>cpu = goto (put s d v) p, mem = program_mem ws bs out\<rparr>"
proof -
  from isa_step.Lui [OF program_fetch [OF assms(1-4)]]
  have "isa_step io_load io_store (s, program_mem ws bs out) TRAP_NONE (goto (put s d v) p, program_mem ws bs out)"
    by (simp add: assms(1,5,6))
  from proc_step.Run [of "\<lparr>cpu = s, mem = program_mem ws bs out\<rparr>"] this show ?thesis
    by (simp add: program_mem_def)
qed

lemma program_store:
  assumes "at s = 4 * of_nat k" "k < length ws" "length (ram_image ws bs) \<le> 0x400000"
    and "rv32_encode oper 0 s1 s2 0 = Some (ws ! k)" "rv_store oper = Some sz"
    and "io_store (xr s s1) (take_bit (unat sz) (xr s s2)) sz (program_mem ws bs out) = Some (True, m')"
  shows "isa_step io_load io_store (s, program_mem ws bs out) TRAP_NONE (goto s (at s + 4), m')"
proof -
  have "sx 12 (0 :: u32) = 0" by code_simp
  with isa_step.Store [OF program_fetch [OF assms(1-4)] assms(5)] assms(6) show ?thesis by simp
qed

lemma bell_exits:
  fixes out :: "host_file \<Rightarrow> u8 list"
  shows "\<exists>s r. proc_exits 6 (fresh_process (ram_image bell_words []) 0 0 out) 0 \<lparr>cpu = s, mem = \<lparr>ram_bytes = r, port = blank_port,
    printed = out(Stdout := out Stdout @ 104 # map of_char (tohost_line 1)), ended = Some 0\<rparr>\<rparr>"
proof -
  define s0 :: isa_t where "s0 = \<lparr>regs = (\<lambda>_. 0), at = 0, csrs = csr_view zero_csr\<rparr>"
  define s1 where "s1 = goto (put s0 10 0x10000000) 4"
  define s2 where "s2 = goto (put s1 11 104) 8"
  define s3 where "s3 = goto s2 12"
  define s4 where "s4 = goto (put s3 10 0x80001000) 16"
  define s5 where "s5 = goto (put s4 11 1) 20"
  note states = s0_def s1_def s2_def s3_def s4_def s5_def
  let ?m = "program_mem bell_words []"
  let ?P = "\<lambda>s out. \<lparr>cpu = s, mem = ?m out\<rparr>"
  let ?out = "out(Stdout := out Stdout @ [104])"
  have sx: "sx 12 (104 :: u32) = 104" "sx 12 (1 :: u32) = 1" "0x10000000 AND NOT (mask 12) = (0x10000000 :: u32)"
    "0x80001000 AND NOT (mask 12) = (0x80001000 :: u32)" by code_simp+
  have at: "at s0 = 0" "at s1 = 4" "at s2 = 8" "at s3 = 12" "at s4 = 16" "at s5 = 20" by (simp_all add: states)
  have xr: "xr s1 0 = 0" "xr s4 0 = 0" "xr s2 10 = 0x10000000" "xr s2 11 = 104" "xr s5 10 = 0x80001000" "xr s5 11 = 1"
    by (simp_all add: states)
  note facts = at xr sx bell_words_def
  have li: "proc_step (?P s0 out) (?P s1 out)" "proc_step (?P s3 ?out) (?P s4 ?out)"
    "proc_step (?P s1 out) (?P s2 out)" "proc_step (?P s4 ?out) (?P s5 ?out)"
    using program_lui [of s0 0 bell_words "[]" 10 "0x10000000"] program_lui [of s3 3 bell_words "[]" 10 "0x80001000"]
      program_li [of s1 1 bell_words "[]" 11 104] program_li [of s4 4 bell_words "[]" 11 1]
    by (simp_all add: facts s1_def [symmetric] s2_def [symmetric] s4_def [symmetric] s5_def [symmetric])
  have "io_store 0x10000000 (take_bit (unat (8 :: u8)) 104) 8 (?m out) = Some (True, ?m ?out)"
    by (simp add: io_store_def say_def program_mem_def port_window_def port_store_def port_at_def blank_port_def)
  with program_store [of s2 2 bell_words "[]" INSTRUCTION_OP_SB 10 11 8 out "?m ?out"]
  have "isa_step io_load io_store (s2, ?m out) TRAP_NONE (s3, ?m ?out)" by (simp add: facts s3_def)
  with proc_step.Run [of "?P s2 out" TRAP_NONE s3 "?m ?out"] have print: "proc_step (?P s2 out) (?P s3 ?out)"
    by (simp add: program_mem_def)
  let ?fin = "(say Stdout (map of_char (tohost_line 1)) (?m ?out))\<lparr>ended := Some 0\<rparr>"
  have "io_store 0x80001000 (take_bit (unat (32 :: u8)) 1) 32 (?m ?out) = Some (True, ?fin)"
    by (simp add: io_store_def tohost_window_def port_window_def)
  with program_store [of s5 5 bell_words "[]" INSTRUCTION_OP_SW 10 11 32 ?out ?fin]
  have "isa_step io_load io_store (s5, ?m ?out) TRAP_NONE (goto s5 24, ?fin)" by (simp add: facts)
  with proc_exits.Tohost [of "?P s5 ?out" TRAP_NONE "goto s5 24" ?fin 0]
  have ends: "proc_exits 1 (?P s5 ?out) 0 \<lparr>cpu = goto s5 24, mem = ?fin\<rparr>" by simp
  have "proc_exits 6 (?P s0 out) 0 \<lparr>cpu = goto s5 24, mem = ?fin\<rparr>"
    using proc_exits.Continue [OF li(1), OF proc_exits.Continue [OF li(3), OF proc_exits.Continue [OF print,
      OF proc_exits.Continue [OF li(2), OF proc_exits.Continue [OF li(4) ends]]]]]
    by (simp only: Suc_1 Suc_numeral add_One Num.inc.simps)
  then show ?thesis
    unfolding fresh_process_def s0_def by (auto simp: program_mem_def say_def)
qed

lemma bell_loaded:
  obtains w s where "emulator_load_binary (main_emulator zero_args 0) (Some (ram_image bell_words [])) True 0
        (main_world 0 blank_world) = Some (0, w)"
    "on_board 0 (main_emulator zero_args 0) w" "\<not> halted w"
    "proc_exits 6 (proc_view 0 (main_emulator zero_args 0) w) 0 s"
    "printed (mem s) Stdout = 104 # map of_char (tohost_line 1)"
proof -
  have len: "length (ram_image bell_words []) = 24" by (simp add: bell_words_def)
  then have "ram_image bell_words [] \<noteq> []" by force
  with len loaded_process [of "ram_image bell_words []" 0 blank_world zero_args 0] obtain w where
    w: "emulator_load_binary (main_emulator zero_args 0) (Some (ram_image bell_words [])) True 0
        (main_world 0 blank_world) = Some (0, w)"
    "proc_view 0 (main_emulator zero_args 0) w = fresh_process (ram_image bell_words []) 0 0 (\<lambda>_. [])"
    "on_board 0 (main_emulator zero_args 0) w" "\<not> halted w"
    by (auto simp: blank_world_def zero_args_def fits_ram_def)
  from bell_exits [of "\<lambda>_. []"] obtain s r where "proc_exits 6 (proc_view 0 (main_emulator zero_args 0) w) 0
      \<lparr>cpu = s, mem = \<lparr>ram_bytes = r, port = blank_port,
        printed = (\<lambda>_. [])(Stdout := 104 # map of_char (tohost_line 1)), ended = Some 0\<rparr>\<rparr>"
    unfolding w(2) by auto
  from that [OF w(1,3,4) this] show thesis by simp
qed

lemma process_is_emulated_witness:
  "\<exists>w. emulator_load_binary (main_emulator zero_args 0) (Some (ram_image bell_words [])) True 0
        (main_world 0 blank_world) = Some (0, w)
     \<and> (\<exists>e' w'. emulator_run (main_emulator zero_args 0) 7 w = Some (Some (0, e', w'))
          \<and> out_stream w' Stdout = 104 # map of_char (tohost_line 1) \<and> cycle_count e' = 6)"
proof -
  obtain w s where w: "emulator_load_binary (main_emulator zero_args 0) (Some (ram_image bell_words [])) True 0
        (main_world 0 blank_world) = Some (0, w)" "on_board 0 (main_emulator zero_args 0) w" "\<not> halted w"
    "proc_exits 6 (proc_view 0 (main_emulator zero_args 0) w) 0 s"
    "printed (mem s) Stdout = 104 # map of_char (tohost_line 1)" by (rule bell_loaded)
  from process_is_emulated [OF w(4,2,3), of 7] w(1,5) show ?thesis
    by (auto simp: proc_view_def mem_view_def)
qed

lemma emulator_run_is_the_process_witness:
  "\<exists>w. emulator_load_binary (main_emulator zero_args 0) (Some (ram_image bell_words [])) True 0
        (main_world 0 blank_world) = Some (0, w)
     \<and> (\<exists>e' w'. emulator_run (main_emulator zero_args 0) 0 w = Some (Some (0, e', w'))
          \<and> out_stream w' Stdout = 104 # map of_char (tohost_line 1))"
proof -
  obtain w s where w: "emulator_load_binary (main_emulator zero_args 0) (Some (ram_image bell_words [])) True 0
        (main_world 0 blank_world) = Some (0, w)" "on_board 0 (main_emulator zero_args 0) w" "\<not> halted w"
    "proc_exits 6 (proc_view 0 (main_emulator zero_args 0) w) 0 s"
    "printed (mem s) Stdout = 104 # map of_char (tohost_line 1)" by (rule bell_loaded)
  from emulator_run_is_the_process [OF w(2,3), of 0 s] w(1,4,5) show ?thesis
    by (auto simp: proc_view_def mem_view_def)
qed

section \<open>A program that never ends\<close>

text \<open>
  C17 (liveness): a process that runs on for ever does so in the emulator. Without a step limit
  \<open>emulator_run\<close> does not return; with a limit above the instructions executed so far it returns 1 after
  exactly so many.
\<close>

theorem endless_process_never_returns:
  assumes "proc_runs_on (proc_view l e w)" "on_board l e w" "\<not> halted w"
  shows "emulator_run e 0 w = None \<and> (\<forall>m. cycle_count e < m \<longrightarrow>
    (\<exists>e' w'. emulator_run e m w = Some (Some (1, e', w')) \<and> cycle_count e' = m))"
  using runs_on_diverges [OF assms] runs_on_limited [OF assms] by blast

lemma idle_runs_on: "proc_runs_on (fresh_process (ram_image [0x6F] []) 0 0 out)"
proof -
  define s :: isa_t where "s = \<lparr>regs = (\<lambda>_. 0), at = 0, csrs = csr_view zero_csr\<rparr>"
  let ?m = "program_mem [0x6F] [] out"
  have "asm_j 0 0 0x6F = 0x6F" "sx 21 (0 :: u32) = 0" by code_simp+
  then have "rv32_encode INSTRUCTION_OP_JAL 0 0 0 0 = Some ([0x6F] ! 0)"
    "rv_jump_target INSTRUCTION_OP_JAL 0 (xr s 0) 0 = Some 0" by simp_all
  with isa_step.Jump [OF program_fetch [of s 0 "[0x6F]" "[]" INSTRUCTION_OP_JAL 0 0 0 0 out], of 0 io_store]
  have "isa_step io_load io_store (s, ?m) TRAP_NONE (goto (put s 0 4) 0, ?m)" by (simp add: s_def)
  moreover have "goto (put s 0 4) 0 = s" by (simp add: goto_def put_def s_def)
  ultimately have "proc_step \<lparr>cpu = s, mem = ?m\<rparr> \<lparr>cpu = s, mem = ?m\<rparr>"
    using proc_step.Run [of "\<lparr>cpu = s, mem = ?m\<rparr>" TRAP_NONE s ?m] by (simp add: program_mem_def)
  then have "proc_runs_on \<lparr>cpu = s, mem = ?m\<rparr>"
    by (coinduction) blast
  then show ?thesis by (simp add: fresh_process_def s_def program_mem_def)
qed

lemma endless_process_never_returns_witness:
  "\<exists>w. emulator_load_binary (main_emulator zero_args 0) (Some (ram_image [0x6F] [])) True 0
        (main_world 0 blank_world) = Some (0, w)
     \<and> emulator_run (main_emulator zero_args 0) 0 w = None
     \<and> (\<exists>e' w'. emulator_run (main_emulator zero_args 0) 1000 w = Some (Some (1, e', w')) \<and> cycle_count e' = 1000)"
proof -
  have len: "length (ram_image [0x6F] []) = 4" by simp
  then have "ram_image [0x6F] [] \<noteq> []" by force
  with len loaded_process [of "ram_image [0x6F] []" 0 blank_world zero_args 0] obtain w where
    w: "emulator_load_binary (main_emulator zero_args 0) (Some (ram_image [0x6F] [])) True 0
        (main_world 0 blank_world) = Some (0, w)"
    "proc_view 0 (main_emulator zero_args 0) w = fresh_process (ram_image [0x6F] []) 0 0 (\<lambda>_. [])"
    "on_board 0 (main_emulator zero_args 0) w" "\<not> halted w"
    by (auto simp: blank_world_def zero_args_def fits_ram_def)
  with endless_process_never_returns [OF _ w(3,4)] idle_runs_on [of "\<lambda>_. []"] show ?thesis by simp
qed

lemma main_is_the_process_witness:
  "main [''idle.bin''] (\<lambda>_. Some (ram_image [0x6F] [])) True blank_world = None"
proof -
  have args: "parse_args [''idle.bin''] = (True, zero_args\<lparr>binary := Some ''idle.bin''\<rparr>)"
    by (simp add: parse_args_def zero_args_def)
  have len: "length (ram_image [0x6F] []) = 4" by simp
  then have "ram_image [0x6F] [] \<noteq> []" by force
  with main_is_the_process [OF args, of "\<lambda>_. Some (ram_image [0x6F] [])" "ram_image [0x6F] []" blank_world]
    idle_runs_on [of "out_stream blank_world"]
  show ?thesis by (simp add: zero_args_def blank_world_def fits_ram_def Let_def)
qed

end
