(* ===== verification/Rve_Gen.thy ===== *)
theory Rve_Gen
  imports Rve_Programs
begin

unbundle bit_operations_syntax

text \<open>
  The program generator tools/gen.c (src/tests/gen.c is the same file): the words of the program, the
  bytes of the file it writes, its \<open>main\<close>, and what the emulator does with the file.
\<close>

section \<open>The test program of the repository\<close>

definition program :: "u32 list" where
  "program = [0x40000113, 0x00000793, 0x00500713, 0x00178793, 0xFEE7C8E3, 0x00000513, 0x05D00893, 0x00000073]"

definition write_word :: "u32 \<Rightarrow> u8 list" where
  "write_word w = [ucast (drop_bit 0 w AND 0xFF), ucast (drop_bit 8 w AND 0xFF),
     ucast (drop_bit 16 w AND 0xFF), ucast (drop_bit 24 w AND 0xFF)]"

definition gen_file :: "u8 list" where
  "gen_file = concat (map write_word program)"

text \<open>
  \<open>main\<close> of the generator, on the arguments after the program's name: the exit code, the file written
  with its name, and what is printed to stdout. \<open>can_open\<close> says which files can be opened for writing.
\<close>

definition gen_main :: "string list \<Rightarrow> (string \<Rightarrow> bool) \<Rightarrow> int \<times> (string \<times> u8 list) option \<times> string" where
  "gen_main argv can_open =
    (let outfile = (if length argv \<ge> 1 then argv ! 0 else ''test.bin'')
     in if \<not> can_open outfile then (1, None, [])
        else (0, Some (outfile, gen_file),
          ''Wrote '' @ dec_string (length program) @ '' instructions to '' @ outfile @ [newline]))"

section \<open>The program does not end\<close>

lemma gen_file_image: "gen_file = ram_image program []" "length gen_file = 32"
  by code_simp+

text \<open>
  Where the program is: the registers it has set matter from the fourth instruction on, the counter x15
  and the limit x14. The branch at 0x10 goes back to the first instruction and not to the fourth.
\<close>

definition in_loop :: "isa_t \<Rightarrow> bool" where
  "in_loop s \<longleftrightarrow> xr s 0 = 0 \<and>
     (at s = 0 \<or> at s = 4 \<or> at s = 8 \<and> xr s 15 = 0 \<or> at s = 12 \<and> xr s 15 = 0 \<and> xr s 14 = 5
      \<or> at s = 16 \<and> xr s 15 = 1 \<and> xr s 14 = 5)"

lemma encodings:
  "rv32_encode INSTRUCTION_OP_ADDI 2 0 0 0x400 = Some (program ! 0)"
  "rv32_encode INSTRUCTION_OP_ADDI 15 0 0 0 = Some (program ! 1)"
  "rv32_encode INSTRUCTION_OP_ADDI 14 0 0 5 = Some (program ! 2)"
  "rv32_encode INSTRUCTION_OP_ADDI 15 15 0 1 = Some (program ! 3)"
  "rv32_encode INSTRUCTION_OP_BLT 0 15 14 0xFFFFFFF0 = Some (program ! 4)"
  by code_simp+

lemma constants:
  "sx 12 (0 :: u32) = 0" "sx 12 (5 :: u32) = 5" "sx 12 (1 :: u32) = 1"
  "sx 13 (0xFFFFFFF0 :: u32) = -16"
  "take_bit 5 (15 :: u8) = 15" "take_bit 5 (14 :: u8) = 14" "take_bit 5 (2 :: u8) = 2"
  "rv_branch_cond INSTRUCTION_OP_BLT 1 5 = Some True"
  by code_simp+

lemma in_loop_step:
  assumes "in_loop s"
  shows "\<exists>s'. proc_step \<lparr>cpu = s, mem = program_mem program [] out\<rparr> \<lparr>cpu = s', mem = program_mem program [] out\<rparr>
    \<and> in_loop s'"
proof -
  have len: "length program = 8" "length (ram_image program []) \<le> 0x400000" by (simp_all add: program_def)
  note addi = program_addi [OF _ _ len(2) encodings(1) refl refl, of s out]
    program_addi [OF _ _ len(2) encodings(2) refl refl, of s out]
    program_addi [OF _ _ len(2) encodings(3) refl refl, of s out]
    program_addi [OF _ _ len(2) encodings(4) refl refl, of s out]
  note regs = constants in_loop_def len(1)
  have x0: "xr s 0 = 0" using assms by (simp add: in_loop_def)
  from assms consider "at s = 0" | "at s = 4" | "at s = 8" "xr s 15 = 0"
    | "at s = 12" "xr s 15 = 0" "xr s 14 = 5" | "at s = 16" "xr s 15 = 1" "xr s 14 = 5"
    by (auto simp: in_loop_def)
  then show ?thesis
  proof cases
    case 1
    with addi(1) x0 show ?thesis by (intro exI conjI) (simp add: len, simp add: regs)
  next
    case 2
    with addi(2) x0 show ?thesis by (intro exI conjI) (simp add: len, simp add: regs)
  next
    case 3
    with addi(3) x0 show ?thesis by (intro exI conjI) (simp add: len, simp add: regs)
  next
    case 4
    with addi(4) x0 show ?thesis by (intro exI conjI) (simp add: len, simp add: regs)
  next
    case 5
    with isa_step.Branch_taken [OF program_fetch [OF _ _ len(2) encodings(5), of s out], of 0 io_store]
    have "isa_step io_load io_store (s, program_mem program [] out) TRAP_NONE (goto s 0, program_mem program [] out)"
      by (simp add: constants len)
    with proc_step.Run [of "\<lparr>cpu = s, mem = program_mem program [] out\<rparr>" TRAP_NONE "goto s 0"] x0
    show ?thesis by (intro exI [of _ "goto s 0"]) (simp add: in_loop_def program_mem_def)
  qed
qed

lemma gen_runs_on: "proc_runs_on (fresh_process gen_file 0 0 out)"
proof -
  have "proc_runs_on \<lparr>cpu = s, mem = program_mem program [] out\<rparr>" if "in_loop s" for s
    using that
  proof (coinduction arbitrary: s)
    case proc_runs_on
    with in_loop_step [of s out] show ?case by blast
  qed
  from this [of "\<lparr>regs = (\<lambda>_. 0), at = 0, csrs = csr_view zero_csr\<rparr>"] show ?thesis
    by (simp add: fresh_process_def program_mem_def gen_file_image(1) in_loop_def)
qed

text \<open>
  C20 (liveness): the program tools/gen.c writes, which is meant to count to five and exit with 0, never
  ends. When the generator has succeeded and \<open>main\<close> of the emulator is called on the file it has
  written, to be loaded and started at 0, without a step limit, it does not return, traced or not: the offset of the
  branch is that of the first instruction and not of the loop, so the counter is reset each time.
\<close>

theorem gen_program_never_ends:
  assumes "gen_main gen_argv can_open = (0, Some (outfile, bytes), msg)" "files outfile = Some bytes"
    and "parse_args argv = (True, args)" "binary args = Some outfile" "load_addr args = 0" "reset_pc args = 0"
    and "max_steps args = 0"
    and "\<And>i. i < 7 \<Longrightarrow> alloc_ok w (allocs w + i)"
  shows "main argv files True w = None"
proof -
  from assms(1) have bytes: "bytes = gen_file" by (auto simp: gen_main_def Let_def split: if_splits)
  have "gen_file \<noteq> []" using gen_file_image(2) by auto
  with main_is_the_process_lemma [OF assms(3,7), of files gen_file w] assms(2,4-6,8) gen_runs_on
  show ?thesis by (simp add: bytes gen_file_image(2) fits_ram_def Let_def)
qed

lemma gen_program_never_ends_witness:
  "gen_main [] (\<lambda>_. True) = (0, Some (''test.bin'', gen_file), ''Wrote 8 instructions to test.bin'' @ [newline])
   \<and> main [''test.bin''] [''test.bin'' \<mapsto> gen_file] True blank_world = None"
proof -
  have gen: "gen_main [] (\<lambda>_. True) = (0, Some (''test.bin'', gen_file), ''Wrote 8 instructions to test.bin'' @ [newline])"
    by code_simp
  have "parse_args [''test.bin''] = (True, zero_args\<lparr>binary := Some ''test.bin''\<rparr>)"
    by (simp add: parse_args_def zero_args_def)
  from gen_program_never_ends [OF gen _ this, of "[''test.bin'' \<mapsto> gen_file]" blank_world] gen show ?thesis
    by (simp add: zero_args_def blank_world_def)
qed

end
