(* ===== verification/Rve_Trace_Line.thy ===== *)
theory Rve_Trace_Line
  imports Rve_Trace Rve_Isa_System
begin

unbundle bit_operations_syntax

text \<open>
  What the line of the tracer (\<open>trace_callback\<close>, src/main.c) tells of a step: the program counter, the
  disassembly of the instruction at it, and its effect on the memory, the registers or the control flow.
\<close>

section \<open>The memory access of a record\<close>

definition no_access :: "exec_t \<Rightarrow> bool" where
  "no_access s \<longleftrightarrow> \<not> mem_read (ret_s s) \<and> \<not> mem_write (ret_s s)"

lemma no_access_steps:
  "set_rd di v s = Some s' \<Longrightarrow> no_access s' = no_access s"
  "op_imm di f s = Some s' \<Longrightarrow> no_access s' = no_access s"
  "op_reg di g s = Some s' \<Longrightarrow> no_access s' = no_access s"
  "op_branch di c s = Some s' \<Longrightarrow> no_access s' = no_access s"
  "exec_jump di t s = Some s' \<Longrightarrow> no_access s' = no_access s"
  "exec_csr di k u s = Some s' \<Longrightarrow> no_access s' = no_access s"
  "exec_ecall s = Some s' \<Longrightarrow> no_access s' = no_access s"
  by (auto simp: no_access_def set_rd_def op_imm_def op_reg_def op_branch_def exec_branch_def exec_jump_def
      exec_csr_def exec_ecall_def exec_mret_def Let_def split: Option.bind_splits if_splits)

lemma no_access_simps [simp]:
  "no_access (exec_mret s) = no_access s" "no_access (s\<lparr>pending_trap := p\<rparr>) = no_access s"
  by (simp_all add: no_access_def exec_mret_def Let_def)

lemma execute_no_access:
  assumes "execute bus di oper s w = Some (s', w')" "rv_load oper = None" "rv_store oper = None"
  shows "no_access s' = no_access s"
  using assms
  by (cases oper; auto simp: pure_case_Some dest: no_access_steps split: Option.bind_splits)

lemma exec_store_access:
  assumes "exec_store bus di n m s w = Some (s', w')" "regs_ok (hart_s s)" "di_ok di" "pending_trap s' = TRAP_NONE"
  shows "mem_write (ret_s s') \<and> mem_write_addr (ret_s s') = gpr (hart_s s) ! unat (rs1 di) + sext (imm di) 12
    \<and> mem_write_value (ret_s s') = gpr (hart_s s) ! unat (rs2 di) AND m \<and> mem_write_size (ret_s s') = n"
  using assms by (auto simp: exec_store_def Let_def split: Option.bind_splits if_splits)

lemma exec_load_access:
  assumes "exec_load bus di n sg s w = Some (s', w')" "regs_ok (hart_s s)" "di_ok di" "pending_trap s' = TRAP_NONE"
  shows "mem_write (ret_s s') = mem_write (ret_s s) \<and> mem_read (ret_s s')
    \<and> mem_read_addr (ret_s s') = gpr (hart_s s) ! unat (rs1 di) + sext (imm di) 12
    \<and> mem_read_value (ret_s s') = gpr (hart_s s') ! unat (rd di) \<and> mem_read_size (ret_s s') = n"
  using assms by (auto simp: exec_load_def Let_def split: Option.bind_splits option.splits)

lemma exec_load_value:
  assumes "exec_load bus di n sg s w = Some (s', w')" "regs_ok (hart_s s)" "di_ok di" "pending_trap s' = TRAP_NONE"
    and "access_size n"
  shows "\<exists>x. bus_read bus (gpr (hart_s s) ! unat (rs1 di) + sext (imm di) 12) n w = Some (Some x, w')
    \<and> mem_read_value (ret_s s') = load_value n sg x"
  using assms by (auto simp: exec_load_def Let_def load_value_def sext_access split: Option.bind_splits option.splits) metis

section \<open>The effect of an instruction\<close>

text \<open>
  What the line shows of an instruction that did not trap: for a store the address, the value and the
  width; for a load the address, the value that is loaded and the width; for another instruction that
  writes a register its name and its new value; for one that does not the new pc, unless it is the next.
\<close>

definition shown_effect :: "instruction_op_t \<Rightarrow> reg_t \<Rightarrow> u32 \<Rightarrow> u32 \<Rightarrow> u32 \<Rightarrow> hart_t \<Rightarrow> hart_t \<Rightarrow> string" where
  "shown_effect oper d addr stored loaded h h' =
    (case rv_store oper of
       Some n \<Rightarrow> ''  mem[0x'' @ word_text addr @ ''] <- 0x'' @ word_text (take_bit (unat n) stored)
          @ '' ('' @ dec_string (unat n) @ ''b)''
     | None \<Rightarrow>
         (case rv_load oper of
            Some (n, _) \<Rightarrow> ''  mem[0x'' @ word_text addr @ ''] -> 0x'' @ word_text loaded
              @ '' ('' @ dec_string (unat n) @ ''b)''
          | None \<Rightarrow>
              if d \<noteq> 0 \<and> rv32_format oper \<noteq> INSTRUCTION_FORMAT_B
              then ''  '' @ get_abi_name d @ '' <- 0x'' @ word_text (gpr h' ! unat d)
              else if pc h' \<noteq> pc h + 4 then ''  -> 0x'' @ word_text (pc h') else ''''))"

lemma asm_buf_text: "asm_buf r = disasm_text (r_di r)"
  using disasm_text_length [of "r_di r"] by (simp add: asm_buf_def rve_decoded_format_to_buffer_def snprintf_def)

lemma step_executes:
  assumes "hart_ok h" "fetches bus h w i w1" "rv32_encode oper d s1 s2 im = Some i"
    and "hart_step bus h w = Some ((r, h'), w')"
  obtains s where "execute bus (rve_decode_instruction i) oper (exec_at h i) w1 = Some (s, w')"
    "hart_commit (rve_decode_instruction i) s = Some (r, h')" "exec_frame (rve_decode_instruction i) (exec_at h i) s"
proof -
  from assms(4) encoded_fields(2) [OF assms(3)] obtain s where
    s: "execute bus (rve_decode_instruction i) oper (exec_at h i) w1 = Some (s, w')"
    "hart_commit (rve_decode_instruction i) s = Some (r, h')"
    by (auto simp: step_encoded [OF assms(2,3)] run_decoded_def split: Option.bind_splits)
  from s(1) have "exec_frame (rve_decode_instruction i) (exec_at h i) s"
    by (rule execute_frame) (use assms(1) encoded_fields(3) [OF assms(3)] in simp_all)
  with s that show thesis by blast
qed

text \<open>The commit stage, seen from the record: which trap, and what it does to the access.\<close>

lemma commit_record:
  assumes "hart_commit di s = Some (r, h')" "exec_frame di (exec_at h i) s" "hart_ok h" "di_ok di"
  shows "r_pc r = pc h \<and> r_di r = rve_decode_instruction i \<and> r_trap r = pending_trap s
    \<and> (pending_trap s = TRAP_NONE \<longrightarrow>
        (mem_read r, mem_read_addr r, mem_read_value r, mem_read_size r)
          = (mem_read (ret_s s), mem_read_addr (ret_s s), mem_read_value (ret_s s), mem_read_size (ret_s s))
        \<and> (mem_write r, mem_write_addr r, mem_write_value r, mem_write_size r)
          = (mem_write (ret_s s), mem_write_addr (ret_s s), mem_write_value (ret_s s), mem_write_size (ret_s s))
        \<and> rd_written r = (rd di \<noteq> 0 \<and> format di \<notin> {INSTRUCTION_FORMAT_S, INSTRUCTION_FORMAT_B})
        \<and> (rd_written r \<longrightarrow> r_rd r = rd di \<and> rd_value r = gpr h' ! unat (rd di))
        \<and> r_next_pc r = pc h')"
proof -
  have rok: "regs_ok (hart_s s)"
    using assms(2,3) by (auto simp: exec_frame_def regs_ok_def hart_ok_def)
  have start: "r_pc (ret_s (exec_at h i)) = pc h" "r_di (ret_s (exec_at h i)) = rve_decode_instruction i"
    "r_trap (ret_s (exec_at h i)) = TRAP_NONE" "\<not> rd_written (ret_s (exec_at h i))"
    by (simp_all add: exec_at_def exec_init_def zero_retire_def)
  note frame = assms(2) [unfolded exec_frame_def start]
  consider "pending_trap s = TRAP_ECALL_M" | "pending_trap s \<noteq> TRAP_ECALL_M" "pending_trap s \<noteq> TRAP_NONE"
    | "pending_trap s = TRAP_NONE" by blast
  then show ?thesis
  proof cases
    case 1
    with assms(1) frame show ?thesis by (auto simp: hart_commit_ecall)
  next
    case 2
    with assms(1) frame show ?thesis by (auto simp: hart_commit_trap [OF rok] Let_def)
  next
    case 3
    let ?written = "rd di \<noteq> 0 \<and> format di \<noteq> INSTRUCTION_FORMAT_S \<and> format di \<noteq> INSTRUCTION_FORMAT_B"
    from assms(1) hart_commit_clean [OF rok assms(4) 3]
    have r: "r = (if ?written then (ret_s s)\<lparr>rd_written := True, r_rd := rd di, rd_value := gpr (hart_s s) ! unat (rd di)\<rparr>
        else ret_s s)\<lparr>r_next_pc := next_pc s\<rparr>" and h': "h' = (hart_s s)\<lparr>gpr := (gpr (hart_s s))[0 := 0], pc := next_pc s\<rparr>"
      by simp_all
    have f: "\<not> rd_written (ret_s s)" "r_pc (ret_s s) = pc h" "r_di (ret_s s) = rve_decode_instruction i" "r_trap (ret_s s) = TRAP_NONE"
      using frame 3 start(4) by simp_all
    have "?written \<Longrightarrow> unat (rd di) \<noteq> 0" by (metis unat_eq_zero)
    then show ?thesis
      using f by (cases ?written) (auto simp: r h' 3)
  qed
qed

text \<open>
  C35 (functional): the line of the tracer describes the instruction. For a step on the encoding of an
  instruction, it has the program counter and the disassembly of the instruction, and then the trap, or
  the effect: the address, width and bits of a store; the address, width and value, sign-extended for LB
  and LH, of a load; the name and new value of the register another instruction writes; and for those
  that write none, branches and jumps without a link, where they go.
\<close>

theorem trace_line_describes_instruction:
  assumes "hart_ok h" "fetches bus h w i w1" "rv32_encode oper d s1 s2 im = Some i"
    and "hart_step bus h w = Some ((r, h'), w')"
  shows "\<exists>v eff. trace_line cycle r = ''['' @ pad_left (CHR '' '') 6 (dec_string (unat cycle)) @ ''] 0x''
        @ word_text (pc h) @ ''  '' @ pad_right 32 (disasm_text (rve_decode_instruction i)) @ eff @ [newline]
    \<and> (if r_trap r \<noteq> TRAP_NONE then eff = ''  TRAP('' @ int_string (r_trap r) @ '')''
       else eff = shown_effect oper (rv32_reg oper d) (xreg h s1 + sx 12 im) (xreg h s2) v h h'
         \<and> (case rv_load oper of None \<Rightarrow> True
            | Some (n, sg) \<Rightarrow> \<exists>x. bus_read bus (xreg h s1 + sx 12 im) n w1 = Some (Some x, w') \<and> v = load_value n sg x))"
proof -
  let ?di = "rve_decode_instruction i" and ?s = "exec_at h i"
  from step_executes [OF assms] obtain s where ex: "execute bus ?di oper ?s w1 = Some (s, w')"
    and commit: "hart_commit ?di s = Some (r, h')" "exec_frame ?di ?s s" .
  note fields = encoded_fields [OF assms(3)]
  note rec = commit_record [OF commit assms(1) di_ok_decode]
  show ?thesis
  proof (cases "pending_trap s = TRAP_NONE")
    case False
    with rec show ?thesis by (simp add: trace_line_def asm_buf_text trace_effect_def)
  next
    case True
    have "trace_effect r = shown_effect oper (rv32_reg oper d) (xreg h s1 + sx 12 im) (xreg h s2) (mem_read_value r) h h'
      \<and> (case rv_load oper of None \<Rightarrow> True
        | Some (n, sg) \<Rightarrow> \<exists>x. bus_read bus (xreg h s1 + sx 12 im) n w1 = Some (Some x, w') \<and> mem_read_value r = load_value n sg x)"
    proof (cases "rv_store oper")
      case (Some n)
      note store = store_facts [OF Some, of im]
      with fields have "mem_write (ret_s s)" "mem_write_addr (ret_s s) = xreg h s1 + sx 12 im"
        "mem_write_value (ret_s s) = take_bit (unat n) (xreg h s2)" "mem_write_size (ret_s s) = n"
        using exec_store_access [OF ex [unfolded execute_store [OF Some]]] assms(1) True
        by (simp_all add: xreg_def rv32_reg_def take_bit_eq_mask)
      moreover have "rv_load oper = None" using Some by (cases oper) simp_all
      ultimately show ?thesis using rec True by (simp add: trace_effect_def shown_effect_def Some)
    next
      case none: None
      show ?thesis
      proof (cases "rv_load oper")
        case (Some nsg)
        obtain n sg where nsg: "rv_load oper = Some (n, sg)" using Some by (cases nsg) simp
        note load = load_facts [OF nsg, of im]
        have "\<not> mem_write (ret_s s)" "mem_read (ret_s s)" "mem_read_addr (ret_s s) = xreg h s1 + sx 12 im"
          "mem_read_size (ret_s s) = n"
          using exec_load_access [OF ex [unfolded execute_load [OF nsg]]] assms(1) True fields load
          by (simp_all add: xreg_def rv32_reg_def exec_at_def exec_init_def zero_retire_def)
        moreover have "\<exists>x. bus_read bus (xreg h s1 + sx 12 im) n w1 = Some (Some x, w') \<and> mem_read_value (ret_s s) = load_value n sg x"
          using exec_load_value [OF ex [unfolded execute_load [OF nsg]]] assms(1) True fields load
          by (simp add: xreg_def rv32_reg_def)
        ultimately show ?thesis using rec True by (simp add: trace_effect_def shown_effect_def none nsg)
      next
        case None
        have "no_access s" using execute_no_access [OF ex None none]
          by (simp add: no_access_def exec_at_def exec_init_def zero_retire_def)
        moreover have "rv32_format oper \<noteq> INSTRUCTION_FORMAT_S"
          using none assms(3) by (cases oper) (simp_all add: rv32_format_def)
        then have "rd_written r \<longleftrightarrow> rv32_reg oper d \<noteq> 0 \<and> rv32_format oper \<noteq> INSTRUCTION_FORMAT_B"
          "rd_written r \<Longrightarrow> r_rd r = rv32_reg oper d \<and> rd_value r = gpr h' ! unat (rv32_reg oper d)"
          using rec True fields(3,5) by auto
        ultimately show ?thesis
          using rec True by (simp add: trace_effect_def shown_effect_def no_access_def none None)
      qed
    qed
    with rec True show ?thesis
      by (intro exI [of _ "mem_read_value r"] exI [of _ "trace_effect r"]) (simp add: trace_line_def asm_buf_text)
  qed
qed

lemma trace_line_describes_instruction_witness:
  "\<exists>r h' w'. hart_step rom_bus demo_hart (\<lambda>_. asm_i 0xFFF 1 0 5 0x13) = Some ((r, h'), w')
     \<and> trace_line 9 r = ''[     9] 0x00000100  '' @ pad_right 32 ''addi     t0, ra, -1'' @ ''  t0 <- 0x00000006'' @ [newline]"
proof -
  let ?i = "asm_i 0xFFF 1 0 5 0x13"
  have enc: "rv32_encode INSTRUCTION_OP_ADDI 5 1 0 0xFFF = Some ?i" by code_simp
  have "rv_alu INSTRUCTION_OP_ADD (xreg demo_hart 1) (rv32_imm INSTRUCTION_OP_ADDI 0xFFF) = Some 6"
    by code_simp
  from step_immediate_instruction_lemma [OF demo_hart_simps(1,3) enc _ this]
  obtain r where st: "hart_step rom_bus demo_hart (\<lambda>_. ?i) = Some ((r, set_xreg demo_hart 5 6\<lparr>pc := 0x104\<rparr>), \<lambda>_. ?i)"
    and r: "r_trap r = TRAP_NONE"
    by (auto simp: retires_to_def)
  have shown: "disasm_text (rve_decode_instruction ?i) = ''addi     t0, ra, -1''" by code_simp
  have numbers: "word_text 0x100 = ''00000100''" "word_text 6 = ''00000006''"
    "pad_left (CHR '' '') 6 (dec_string 9) = ''     9''"
    by (simp_all add: word_text_def HEX_string_def dec_string_def radix_string.simps pad_left_def digit_chars replicate_digits)
  have v: "gpr (set_xreg demo_hart 5 6) ! 5 = 6" by code_simp
  have reg: "rv32_reg INSTRUCTION_OP_ADDI 5 = 5" "get_abi_name 5 = ''t0''" by code_simp+
  from trace_line_describes_instruction [OF demo_hart_simps(1,3) enc st, of 9] st r show ?thesis
    by (simp add: shown numbers reg v shown_effect_def rv32_format_def)
qed

end
