(* ===== verification/Rve_Diagnostics.thy ===== *)
theory Rve_Diagnostics
  imports Rve_Main
begin

unbundle bit_operations_syntax

text \<open>
  What the decoder (src/decoder.c) and the command line (src/main.c) write to stderr. The functions that
  compute leave these messages out; here are the same branches again with the text each of them prints,
  and theorems that relate the two: a message is printed exactly when something is wrong.
\<close>

section \<open>The decoder\<close>

definition line :: "string \<Rightarrow> string" where
  "line s = s @ [newline]"

definition decode_instruction_u_messages :: "u32 \<Rightarrow> string" where
  "decode_instruction_u_messages opcode =
    (if opcode = RISCV_OPCODE_LUI then [] else if opcode = RISCV_OPCODE_AUIPC then []
     else line (''ERROR: Unknown opcode for U-type instruction: '' @ hex_string (unat opcode)))"

definition decode_instruction_j_messages :: "u32 \<Rightarrow> string" where
  "decode_instruction_j_messages opcode =
    (if opcode = RISCV_OPCODE_JAL then []
     else line (''ERROR: Unknown opcode for J-type instruction: '' @ hex_string (unat opcode)))"

definition decode_op_imm_messages :: "u32 \<Rightarrow> string" where
  "decode_op_imm_messages instruction =
    (let funct3 = get_funct3 instruction; funct7 = get_funct7 instruction
     in if funct3 = RISCV_FUNCT3_SLLI then
          (if funct7 = RISCV_FUNCT7_SLLI then []
           else line (''ERROR: Unknown funct7 for SLLI: '' @ hex_string (unat funct7)))
        else if funct3 = RISCV_FUNCT3_SRLI_SRAI then
          (if funct7 = RISCV_FUNCT7_SRLI then [] else if funct7 = RISCV_FUNCT7_SRAI then []
           else line (''ERROR: Unknown funct7 for SRLI/SRAI: '' @ hex_string (unat funct7)))
        else [])"

definition decode_system_messages :: "u32 \<Rightarrow> string" where
  "decode_system_messages instruction =
    (let funct3 = get_funct3 instruction; rs1 = get_rs1 instruction; rd = get_rd instruction;
         rs2_val = get_rs2 instruction; funct12 = get_imm_i instruction AND 0xFFF
     in if funct3 = RISCV_FUNCT3_PRIV then
          (if funct12 = RISCV_FUNCT12_ECALL \<and> rs1 = 0 \<and> rd = 0 \<and> rs2_val = 0 then []
           else if funct12 = RISCV_FUNCT12_EBREAK \<and> rs1 = 0 \<and> rd = 0 \<and> rs2_val = 1 then []
           else if funct12 = RISCV_FUNCT12_MRET \<and> rs1 = 0 \<and> rd = 0 \<and> rs2_val = 2 then []
           else line (''TODO/ERROR: Unsupported PRIV instruction (funct3=0, imm=0x'' @ hex_string (unat funct12)
                  @ '', rs2=0x'' @ hex_string (unat rs2_val) @ '') in Inst: 0x'' @ word_text instruction))
        else if funct3 \<in> {RISCV_FUNCT3_CSRRW, RISCV_FUNCT3_CSRRS, RISCV_FUNCT3_CSRRC, RISCV_FUNCT3_CSRRWI,
               RISCV_FUNCT3_CSRRSI, RISCV_FUNCT3_CSRRCI} then []
        else line (''ERROR: Unknown funct3 0x'' @ hex_string (unat funct3) @ '' for SYSTEM (Inst: 0x''
               @ word_text instruction @ '')''))"

definition decode_instruction_i_messages :: "u32 \<Rightarrow> u32 \<Rightarrow> string" where
  "decode_instruction_i_messages instruction opcode =
    (let funct3 = get_funct3 instruction
     in if opcode = RISCV_OPCODE_JALR then
          (if funct3 = RISCV_FUNCT3_JALR then []
           else line (''ERROR: Unknown funct3 for JALR: '' @ hex_string (unat funct3)))
        else if opcode = RISCV_OPCODE_LOAD then
          (if funct3 \<in> {RISCV_FUNCT3_LB, RISCV_FUNCT3_LH, RISCV_FUNCT3_LW, RISCV_FUNCT3_LBU, RISCV_FUNCT3_LHU} then []
           else line (''ERROR: Unknown funct3 for LOAD: '' @ hex_string (unat funct3)))
        else if opcode = RISCV_OPCODE_OP_IMM then decode_op_imm_messages instruction
        else if opcode = RISCV_OPCODE_MISC_MEM then
          (if funct3 \<in> {RISCV_FUNCT3_FENCE, RISCV_FUNCT3_FENCE_I} then []
           else line (''ERROR: Unknown funct3 for MISC_MEM: '' @ hex_string (unat funct3)))
        else if opcode = RISCV_OPCODE_SYSTEM then decode_system_messages instruction
        else line (''ERROR: Unknown opcode for I-type instruction: '' @ hex_string (unat opcode)))"

definition decode_instruction_b_messages :: "u32 \<Rightarrow> string" where
  "decode_instruction_b_messages instruction =
    (let funct3 = get_funct3 instruction
     in if funct3 \<in> {RISCV_FUNCT3_BEQ, RISCV_FUNCT3_BNE, RISCV_FUNCT3_BLT, RISCV_FUNCT3_BGE, RISCV_FUNCT3_BLTU,
            RISCV_FUNCT3_BGEU} then []
        else line (''ERROR: Unknown funct3 for BRANCH instruction: 0x'' @ hex_string (unat funct3)
               @ '' (Instruction: 0x'' @ word_text instruction @ '')''))"

definition decode_instruction_s_messages :: "u32 \<Rightarrow> string" where
  "decode_instruction_s_messages instruction =
    (let funct3 = get_funct3 instruction
     in if funct3 \<in> {RISCV_FUNCT3_SB, RISCV_FUNCT3_SH, RISCV_FUNCT3_SW} then []
        else line (''ERROR: Unknown funct3 for STORE instruction: 0x'' @ hex_string (unat funct3)
               @ '' (Instruction: 0x'' @ word_text instruction @ '')''))"

definition decode_instruction_r_messages :: "u32 \<Rightarrow> string" where
  "decode_instruction_r_messages instruction =
    (let funct3 = get_funct3 instruction; funct7 = get_funct7 instruction
     in if funct7 = RISCV_FUNCT7_ADD then
          (if funct3 \<in> {RISCV_FUNCT3_ADD_SUB, RISCV_FUNCT3_SLL, RISCV_FUNCT3_SLT, RISCV_FUNCT3_SLTU,
              RISCV_FUNCT3_XOR, RISCV_FUNCT3_SRL_SRA, RISCV_FUNCT3_OR, RISCV_FUNCT3_AND} then []
           else line (''ERROR: Unknown funct3 for ADD: '' @ hex_string (unat funct3)))
        else if funct7 = RISCV_FUNCT7_SUB then
          (if funct3 \<in> {RISCV_FUNCT3_ADD_SUB, RISCV_FUNCT3_SRL_SRA} then []
           else line (''ERROR: Unknown funct3 for SUB: '' @ hex_string (unat funct3)))
        else if funct7 = RISCV_FUNCT7_MULDIV then
          (if funct3 \<in> {RISCV_FUNCT3_MUL, RISCV_FUNCT3_MULH, RISCV_FUNCT3_MULHSU, RISCV_FUNCT3_MULHU,
              RISCV_FUNCT3_DIV, RISCV_FUNCT3_DIVU, RISCV_FUNCT3_REM, RISCV_FUNCT3_REMU} then []
           else line (''ERROR: Unknown funct3 for MULDIV: '' @ hex_string (unat funct3)))
        else line (''ERROR: Unknown funct7 for R-type instruction: '' @ hex_string (unat funct7)))"

definition rve_decode_messages :: "word_t \<Rightarrow> string" where
  "rve_decode_messages instruction =
    (let opcode = get_opcode instruction
     in if opcode = RISCV_OPCODE_LUI \<or> opcode = RISCV_OPCODE_AUIPC then decode_instruction_u_messages opcode
        else if opcode = RISCV_OPCODE_JAL then decode_instruction_j_messages opcode
        else if opcode = RISCV_OPCODE_JALR \<or> opcode = RISCV_OPCODE_LOAD
             \<or> opcode = RISCV_OPCODE_OP_IMM \<or> opcode = RISCV_OPCODE_MISC_MEM
             \<or> opcode = RISCV_OPCODE_SYSTEM then decode_instruction_i_messages instruction opcode
        else if opcode = RISCV_OPCODE_BRANCH then decode_instruction_b_messages instruction
        else if opcode = RISCV_OPCODE_STORE then decode_instruction_s_messages instruction
        else if opcode = RISCV_OPCODE_OP then decode_instruction_r_messages instruction
        else line (''ERROR: Unknown opcode: '' @ hex_string (unat opcode)))"

section \<open>The command line\<close>

definition print_usage :: "string \<Rightarrow> string" where
  "print_usage argv0 =
     line (''Usage: '' @ argv0 @ '' [options] <binary>'') @ line ''''
     @ line ''Options:''
     @ line ''  --trace          Print one line per retired instruction''
     @ line ''  --regs           Dump register file on exit''
     @ line ''  --pc <hex>       Set reset PC (default: 0x00000000)''
     @ line ''  --load <hex>     Load binary at this address (default: 0x00000000)''
     @ line ''  --max <n>        Stop after n instructions''
     @ line ''  --help           Show this message'' @ line ''''
     @ line ''The binary is a flat raw image (not ELF). It is loaded verbatim''
     @ line (''into the SoC'' @ [CHR 0x27] @ ''s address space starting at --load.'')"

text \<open>The loop of \<open>parse_args\<close>, with \<open>out->binary\<close>, on which its branches depend.\<close>

fun parse_options_messages :: "string list \<Rightarrow> string option \<Rightarrow> string" where
  "parse_options_messages [] bin = (if bin = None then line ''No binary specified.'' else [])"
| "parse_options_messages (a # rest) bin =
    (if a = ''--help'' then []
     else if a = ''--trace'' then parse_options_messages rest bin
     else if a = ''--regs'' then parse_options_messages rest bin
     else if a = ''--pc'' then
       (case rest of [] \<Rightarrow> line ''--pc requires a value'' | v # rest' \<Rightarrow> parse_options_messages rest' bin)
     else if a = ''--load'' then
       (case rest of [] \<Rightarrow> line ''--load requires a value'' | v # rest' \<Rightarrow> parse_options_messages rest' bin)
     else if a = ''--max'' then
       (case rest of [] \<Rightarrow> line ''--max requires a value'' | v # rest' \<Rightarrow> parse_options_messages rest' bin)
     else if a \<noteq> [] \<and> hd a = CHR ''-'' then line (''Unknown option: '' @ a)
     else if bin \<noteq> None then line (''Unexpected argument: '' @ a)
     else parse_options_messages rest (Some a))"

definition parse_args_messages :: "string list \<Rightarrow> string" where
  "parse_args_messages argv = parse_options_messages argv None"

text \<open>What \<open>main\<close> has written to stderr when it knows whether it accepts the command line.\<close>

definition command_line_messages :: "string \<Rightarrow> string list \<Rightarrow> string" where
  "command_line_messages argv0 argv =
    parse_args_messages argv @ (if \<not> fst (parse_args argv) then print_usage argv0 else [])"

section \<open>Messages of the decoder\<close>

lemma hex_no_newline [simp]: "newline \<notin> set (hex_string n)" "newline \<notin> set (word_text w)"
proof -
  have "digit_value newline = None" "newline \<noteq> CHR ''0''" by code_simp+
  then have ne: "newline \<noteq> lower_digit k" "newline \<noteq> upper_digit k" if "k < 16" for k
    using that digits_ok by (auto simp: digits_ok_def simp del: digits_ok)
  then show "newline \<notin> set (hex_string n)"
    using radix_string_digits [of newline lower_digit 16 n] by (auto simp: hex_string_def)
  from ne have "newline \<notin> set (HEX_string k)" for k
    using radix_string_digits [of newline upper_digit 16 k] by (auto simp: HEX_string_def)
  then show "newline \<notin> set (word_text w)" by (auto simp: word_text_def pad_left_def)
qed

text \<open>A text that is empty or a single line.\<close>

definition one_line :: "bool \<Rightarrow> string \<Rightarrow> bool" where
  "one_line b s \<longleftrightarrow> (if b then \<exists>t. newline \<notin> set t \<and> s = line t else s = [])"

lemma one_line_line [simp]: "newline \<notin> set t \<Longrightarrow> one_line b (line t) = b" "one_line b [] = (\<not> b)"
  by (auto simp: one_line_def line_def)

lemmas messages_defs =
  decode_instruction_u_messages_def decode_instruction_j_messages_def decode_instruction_i_messages_def
  decode_op_imm_messages_def decode_system_messages_def decode_instruction_b_messages_def
  decode_instruction_s_messages_def decode_instruction_r_messages_def rve_decode_messages_def

text \<open>
  C36 (error): the decoder says what it does not know. For every word, \<open>rve_decode_instruction\<close> writes
  nothing to stderr when it recognises an operation, and exactly one line when it does not.
\<close>

theorem decoder_reports_unknown:
  "\<exists>s. newline \<notin> set s
     \<and> rve_decode_messages w = (if op (rve_decode_instruction w) = INSTRUCTION_OP_UNKNOWN then line s else [])"
proof -
  have "one_line (op (rve_decode_instruction w) = INSTRUCTION_OP_UNKNOWN) (rve_decode_messages w)"
    by (cases w rule: opcode_cases)
      (use get_funct3_range [of w] in \<open>auto simp: decode_dispatch decode_unknown_opcode decode_format_defs messages_defs\<close>)
  then show ?thesis by (auto simp: one_line_def split: if_splits intro: exI [of _ "[]"])
qed

section \<open>Messages of the command line\<close>

lemma parse_messages_cli:
  assumes "list_all not_option (file_names opts)"
    "length (file_names opts) + (if binary out = None then 0 else 1) \<le> 1"
  shows "parse_options_messages (concat (map cli_text opts) @ rest) (binary out)
    = parse_options_messages rest (binary (fold cli_apply opts out))"
  using assms
proof (induction opts arbitrary: out)
  case (Cons opt opts)
  show ?case
  proof (cases opt)
    case (File f)
    have "''--help'' \<noteq> f" "''--trace'' \<noteq> f" "''--regs'' \<noteq> f" "''--pc'' \<noteq> f" "''--load'' \<noteq> f" "''--max'' \<noteq> f"
      using Cons.prems(1) by (auto simp: File not_option_def)
    with Cons.IH [of "cli_apply opt out"] Cons.prems File show ?thesis
      by (auto simp: not_option_def split: if_splits)
  qed (use Cons.IH [of "cli_apply opt out"] Cons.prems in auto)
qed simp

text \<open>\<open>main\<close> rejects a command line, with a message before the usage.\<close>

definition rejected_with :: "string \<Rightarrow> string list \<Rightarrow> string \<Rightarrow> bool" where
  "rejected_with argv0 argv message \<longleftrightarrow>
    \<not> fst (parse_args argv) \<and> command_line_messages argv0 argv = message @ print_usage argv0"

text \<open>
  C37 (error): what \<open>parse_args\<close> rejects, after any well-formed arguments, and what it says. A request
  for help prints the usage only; an option whose value is missing, an option that is not known, a second
  file name, and an end without a file name print their own line before the usage.
\<close>

theorem parse_args_rejects:
  assumes "list_all not_option (file_names opts)" "length (file_names opts) \<le> 1"
    and "argv = concat (map cli_text opts)"
  shows "rejected_with argv0 (argv @ ''--help'' # rest) []
    \<and> (v \<in> {''--pc'', ''--load'', ''--max''} \<longrightarrow> rejected_with argv0 (argv @ [v]) (line (v @ '' requires a value'')))
    \<and> (\<not> not_option v \<and> v \<notin> {''--help'', ''--trace'', ''--regs'', ''--pc'', ''--load'', ''--max''}
        \<longrightarrow> rejected_with argv0 (argv @ v # rest) (line (''Unknown option: '' @ v)))
    \<and> (file_names opts \<noteq> [] \<and> not_option v \<longrightarrow> rejected_with argv0 (argv @ v # rest) (line (''Unexpected argument: '' @ v)))
    \<and> (file_names opts = [] \<longrightarrow> rejected_with argv0 argv (line ''No binary specified.''))"
proof -
  have parse: "parse_args (argv @ more) = parse_options more (fold cli_apply opts zero_args)"
    "parse_args_messages (argv @ more) = parse_options_messages more (binary (fold cli_apply opts zero_args))" for more
    using parse_options_cli [of opts zero_args more] parse_messages_cli [of opts zero_args more] assms
    by (simp_all add: parse_args_def parse_args_messages_def zero_args_def)
  have "rejected_with argv0 (argv @ more) message \<longleftrightarrow> \<not> fst (parse_options more (fold cli_apply opts zero_args))
      \<and> parse_options_messages more (binary (fold cli_apply opts zero_args)) = message" for more message
    by (auto simp: rejected_with_def command_line_messages_def parse)
  from this this [of "[]"] binary_fold [of opts zero_args] show ?thesis
    by (auto simp: not_option_def zero_args_def)
qed

lemma parse_args_rejects_witness:
  "\<not> fst (parse_args [''a.bin'', ''--max''])
   \<and> command_line_messages ''rve'' [''a.bin'', ''--max''] = line ''--max requires a value'' @ print_usage ''rve''"
proof -
  have "list_all not_option (file_names [File ''a.bin''])" "length (file_names [File ''a.bin'']) \<le> 1"
    "[''a.bin''] = concat (map cli_text [File ''a.bin''])"
    by (simp_all add: not_option_def)
  from parse_args_rejects [OF this, of "''rve''" "[]" "''--max''"] show ?thesis
    by (simp only: append.simps rejected_with_def) blast
qed

end
