(* ===== verification/Rve_Tests.thy ===== *)
theory Rve_Tests
  imports Rve_Trace "HOL-Library.Sublist"
begin

unbundle bit_operations_syntax

text \<open>
  The decoder tests of the repository, src/tests/decoder.c: the table of cases, the comparison of a
  decoded instruction with a case, and what \<open>run_decoder_tests\<close> returns and prints. A case passes exactly
  when it agrees with the reference encoding of its word.
\<close>

section \<open>The cases\<close>

record decoder_test_case_t =
  case_name :: string
  instruction :: word_t
  expect_valid :: bool
  expect_format :: instruction_format_t
  expect_op :: instruction_op_t
  expect_rd :: reg_t
  expect_rs1 :: reg_t
  expect_rs2 :: reg_t
  expect_imm :: u32

abbreviation (input) NA :: reg_t where "NA \<equiv> 0xFF"
abbreviation (input) NA_IMM :: u32 where "NA_IMM \<equiv> 0xBADBAD"

definition test_case :: "string \<Rightarrow> word_t \<Rightarrow> bool \<Rightarrow> instruction_format_t \<Rightarrow> instruction_op_t \<Rightarrow>
    reg_t \<Rightarrow> reg_t \<Rightarrow> reg_t \<Rightarrow> u32 \<Rightarrow> decoder_test_case_t" where
  "test_case n i v f oper d s1 s2 im = \<lparr>case_name = n, instruction = i, expect_valid = v,
     expect_format = f, expect_op = oper, expect_rd = d, expect_rs1 = s1, expect_rs2 = s2,
     expect_imm = im\<rparr>"

definition decoder_tests :: "decoder_test_case_t list" where
  "decoder_tests =
    [test_case ''lui x5, 0xABCD0'' 0xABCD02B7 True INSTRUCTION_FORMAT_U
       INSTRUCTION_OP_LUI 5 NA NA 0xABCD0000,
     test_case ''auipc x6, 0x1'' 0x00001317 True INSTRUCTION_FORMAT_U
       INSTRUCTION_OP_AUIPC 6 NA NA 0x1000,
     test_case ''auipc x1, -4096'' 0xff000097 True INSTRUCTION_FORMAT_U
       INSTRUCTION_OP_AUIPC 1 NA NA 0xFFFFF000,
     test_case ''jal x1, +20'' 0x014000EF True INSTRUCTION_FORMAT_J
       INSTRUCTION_OP_JAL 1 NA NA 20,
     test_case ''jal x0, -32'' 0xfe1ff06f True INSTRUCTION_FORMAT_J
       INSTRUCTION_OP_JAL 0 NA NA (- 32),
     test_case ''jalr x0, 0(x1)'' 0x00008067 True INSTRUCTION_FORMAT_I
       INSTRUCTION_OP_JALR 0 1 NA 0,
     test_case ''jalr x5, 16(x2)'' 0x010102E7 True INSTRUCTION_FORMAT_I
       INSTRUCTION_OP_JALR 5 2 NA 16,
     test_case ''lw x7, 12(x5)'' 0x00C2A383 True INSTRUCTION_FORMAT_I
       INSTRUCTION_OP_LW 7 5 NA 12,
     test_case ''lb x10, -1(x2)'' 0xfff10503 True INSTRUCTION_FORMAT_I
       INSTRUCTION_OP_LB 10 2 NA (- 1),
     test_case ''lhu x3, 1024(x4)'' 0x40025183 True INSTRUCTION_FORMAT_I
       INSTRUCTION_OP_LHU 3 4 NA 1024,
     test_case ''lbu x1, 0(x0)'' 0x00004083 True INSTRUCTION_FORMAT_I
       INSTRUCTION_OP_LBU 1 0 NA 0,
     test_case ''beq x1, x2, +8'' 0x00208463 True INSTRUCTION_FORMAT_B
       INSTRUCTION_OP_BEQ NA 1 2 8,
     test_case ''bne x5, x0, -16'' 0xfe0298e3 True INSTRUCTION_FORMAT_B
       INSTRUCTION_OP_BNE NA 5 0 (- 16),
     test_case ''blt x3, x4, +4'' 0x0041C263 True INSTRUCTION_FORMAT_B
       INSTRUCTION_OP_BLT NA 3 4 4,
     test_case ''bgeu x6, x7, 0'' 0x00737063 True INSTRUCTION_FORMAT_B
       INSTRUCTION_OP_BGEU NA 6 7 0,
     test_case ''sw x2, 8(x5)'' 0x0022a423 True INSTRUCTION_FORMAT_S
       INSTRUCTION_OP_SW NA 5 2 8,
     test_case ''sb x0, -4(x6)'' 0xfe030e23 True INSTRUCTION_FORMAT_S
       INSTRUCTION_OP_SB NA 6 0 (- 4),
     test_case ''sh x15, 60(sp)'' 0x02f11e23 True INSTRUCTION_FORMAT_S
       INSTRUCTION_OP_SH NA 2 15 60,
     test_case ''addi x5, x6, 42'' 0x02A30293 True INSTRUCTION_FORMAT_I
       INSTRUCTION_OP_ADDI 5 6 NA 42,
     test_case ''addi x7, x7, -1'' 0xFFF38393 True INSTRUCTION_FORMAT_I
       INSTRUCTION_OP_ADDI 7 7 NA (- 1),
     test_case ''slti x8, x9, 10'' 0x00A4A413 True INSTRUCTION_FORMAT_I
       INSTRUCTION_OP_SLTI 8 9 NA 10,
     test_case ''sltiu x10, x11, 1'' 0x0015B513 True INSTRUCTION_FORMAT_I
       INSTRUCTION_OP_SLTIU 10 11 NA 1,
     test_case ''xori x12, x13, -1'' 0xFFF6C613 True INSTRUCTION_FORMAT_I
       INSTRUCTION_OP_XORI 12 13 NA (- 1),
     test_case ''ori x14, x15, 0xFF'' 0x0FF7E713 True INSTRUCTION_FORMAT_I
       INSTRUCTION_OP_ORI 14 15 NA 0xFF,
     test_case ''andi x1, x1, 0'' 0x0000F093 True INSTRUCTION_FORMAT_I
       INSTRUCTION_OP_ANDI 1 1 NA 0,
     test_case ''slli x5, x6, 5'' 0x00531293 True INSTRUCTION_FORMAT_I
       INSTRUCTION_OP_SLLI 5 6 NA 5,
     test_case ''srli x7, x8, 31'' 0x01F45393 True INSTRUCTION_FORMAT_I
       INSTRUCTION_OP_SRLI 7 8 NA 31,
     test_case ''srai x9, x10, 10'' 0x40a55493 True INSTRUCTION_FORMAT_I
       INSTRUCTION_OP_SRAI 9 10 NA 10,
     test_case ''add x3, x1, x2'' 0x002081B3 True INSTRUCTION_FORMAT_R
       INSTRUCTION_OP_ADD 3 1 2 0,
     test_case ''sub x4, x5, x6'' 0x40628233 True INSTRUCTION_FORMAT_R
       INSTRUCTION_OP_SUB 4 5 6 0,
     test_case ''sll x7, x8, x9'' 0x009413B3 True INSTRUCTION_FORMAT_R
       INSTRUCTION_OP_SLL 7 8 9 0,
     test_case ''slt x10, x1, x0'' 0x0000A533 True INSTRUCTION_FORMAT_R
       INSTRUCTION_OP_SLT 10 1 0 0,
     test_case ''sltu x11, x12, x13'' 0x00D635B3 True INSTRUCTION_FORMAT_R
       INSTRUCTION_OP_SLTU 11 12 13 0,
     test_case ''xor x14, x15, x1'' 0x0017C733 True INSTRUCTION_FORMAT_R
       INSTRUCTION_OP_XOR 14 15 1 0,
     test_case ''srl x2, x3, x4'' 0x0041D133 True INSTRUCTION_FORMAT_R
       INSTRUCTION_OP_SRL 2 3 4 0,
     test_case ''sra x5, x6, x7'' 0x407352B3 True INSTRUCTION_FORMAT_R
       INSTRUCTION_OP_SRA 5 6 7 0,
     test_case ''or x8, x9, x10'' 0x00A4E433 True INSTRUCTION_FORMAT_R
       INSTRUCTION_OP_OR 8 9 10 0,
     test_case ''and x11, x12, x13'' 0x00D675B3 True INSTRUCTION_FORMAT_R
       INSTRUCTION_OP_AND 11 12 13 0,
     test_case ''ecall'' 0x00000073 True INSTRUCTION_FORMAT_I
       INSTRUCTION_OP_ECALL 0 0 NA 0,
     test_case ''ebreak'' 0x00100073 True INSTRUCTION_FORMAT_I
       INSTRUCTION_OP_EBREAK 0 0 NA 1,
     test_case ''Invalid Opcode'' 0xFFFFFFFF False INSTRUCTION_FORMAT_UNKNOWN
       INSTRUCTION_OP_UNKNOWN NA NA NA NA_IMM,
     test_case ''JALR with bad funct3'' 0x00009067 False INSTRUCTION_FORMAT_UNKNOWN
       INSTRUCTION_OP_UNKNOWN NA NA NA NA_IMM,
     test_case ''LOAD with bad funct3'' 0x00C2B383 False INSTRUCTION_FORMAT_UNKNOWN
       INSTRUCTION_OP_UNKNOWN NA NA NA NA_IMM]"

section \<open>Running them\<close>

text \<open>
  The number \<open>printf\<close> shows for a format. \<open>%d\<close> of a \<open>uint32_t\<close> shows it as a signed number, and a
  register index is promoted to \<open>int\<close>.
\<close>

fun format_number :: "instruction_format_t \<Rightarrow> nat" where
  "format_number INSTRUCTION_FORMAT_UNKNOWN = 0"
| "format_number INSTRUCTION_FORMAT_R = 1"
| "format_number INSTRUCTION_FORMAT_I = 2"
| "format_number INSTRUCTION_FORMAT_S = 3"
| "format_number INSTRUCTION_FORMAT_B = 4"
| "format_number INSTRUCTION_FORMAT_U = 5"
| "format_number INSTRUCTION_FORMAT_J = 6"
| "format_number INSTRUCTION_FORMAT_NUM = 7"

definition differ :: "string \<Rightarrow> string \<Rightarrow> string \<Rightarrow> string" where
  "differ what e g = what @ '' mismatch! E:'' @ e @ '' G:'' @ g"

text \<open>What \<open>*test_passed\<close>, \<open>*failures\<close> and the output are; the macro \<open>CHECK\<close> updates them.\<close>

type_synonym check_state = "bool \<times> nat \<times> string"

definition CHECK :: "bool \<Rightarrow> string \<Rightarrow> check_state \<Rightarrow> check_state" where
  "CHECK condition message st =
    (if \<not> condition then
       (case st of (test_passed, failures, out) \<Rightarrow>
          (False, failures + 1, out @ ''    FAIL: '' @ message @ [newline]))
     else st)"

text \<open>The checks of a register and of an immediate, left out where the case does not care.\<close>

definition check_reg :: "string \<Rightarrow> reg_t \<Rightarrow> reg_t \<Rightarrow> check_state \<Rightarrow> check_state" where
  "check_reg what e g st =
    (if e \<noteq> NA then CHECK (g = e) (differ what (dec_string (unat e)) (dec_string (unat g))) st else st)"

definition check_imm :: "u32 \<Rightarrow> u32 \<Rightarrow> check_state \<Rightarrow> check_state" where
  "check_imm e g st =
    (if e \<noteq> NA_IMM then CHECK (g = e) (differ ''imm'' (int_string (sint e)) (int_string (sint g))) st else st)"

definition check_decoded_fields :: "decoder_test_case_t \<Rightarrow> decoded_instruction_t \<Rightarrow> check_state \<Rightarrow> check_state" where
  "check_decoded_fields test decoded st0 =
    (let st = CHECK (format decoded = expect_format test)
           (''Format mismatch! Expected: '' @ rve_instruction_format_to_cstr (expect_format test)
             @ '', Got: '' @ rve_instruction_format_to_cstr (format decoded)) st0;
         st = CHECK (op decoded = expect_op test)
           (''Operation mismatch! Expected: '' @ dec_string (op_number (expect_op test))
             @ '', Got: '' @ dec_string (op_number (op decoded))) st;
         chk_rd = check_reg ''rd'' (expect_rd test) (rd decoded);
         chk_rs1 = check_reg ''rs1'' (expect_rs1 test) (rs1 decoded);
         chk_rs2 = check_reg ''rs2'' (expect_rs2 test) (rs2 decoded);
         chk_imm = check_imm (expect_imm test) (imm decoded)
     in case expect_format test of
          INSTRUCTION_FORMAT_R \<Rightarrow>
            CHECK (imm decoded = 0) (''R-type imm not 0! G:'' @ int_string (sint (imm decoded)))
              (chk_rs2 (chk_rs1 (chk_rd st)))
        | INSTRUCTION_FORMAT_I \<Rightarrow>
            (let st = chk_rs1 (chk_rd st);
                 st = (if expect_op test \<noteq> INSTRUCTION_OP_FENCE \<and> expect_op test \<noteq> INSTRUCTION_OP_FENCE_I
                       then chk_imm st else st)
             in if expect_op test = INSTRUCTION_OP_SLLI \<or> expect_op test = INSTRUCTION_OP_SRLI
                   \<or> expect_op test = INSTRUCTION_OP_SRAI
                then CHECK (imm decoded AND 0x1F = expect_imm test AND 0x1F)
                       (differ ''shamt'' (int_string (sint (expect_imm test AND 0x1F)))
                         (int_string (sint (imm decoded AND 0x1F)))) st
                else st)
        | INSTRUCTION_FORMAT_S \<Rightarrow> chk_imm (chk_rs2 (chk_rs1 st))
        | INSTRUCTION_FORMAT_B \<Rightarrow> chk_imm (chk_rs2 (chk_rs1 st))
        | INSTRUCTION_FORMAT_U \<Rightarrow> chk_imm (chk_rd st)
        | INSTRUCTION_FORMAT_J \<Rightarrow> chk_imm (chk_rd st)
        | _ \<Rightarrow> st)"

definition bool_text :: "bool \<Rightarrow> string" where
  "bool_text b = (if b then ''true'' else ''false'')"

text \<open>The body of the loop for the case of index \<open>i\<close>: the failures it adds, and what it prints.\<close>

definition run_test :: "nat \<Rightarrow> decoder_test_case_t \<Rightarrow> nat \<times> string" where
  "run_test i test =
    (let out = ''Test '' @ pad_right 3 (dec_string (i + 1)) @ '': '' @ pad_right 20 (case_name test)
           @ '' (0x'' @ word_text (instruction test) @ '')...'';
         decoded = rve_decode_instruction (instruction test);
         (passed, failures, out) =
           (if valid decoded \<noteq> expect_valid test then
              (False, 1, out @ [newline] @ ''    FAIL: Validity mismatch! Expected: ''
                 @ bool_text (expect_valid test) @ '', Got: '' @ bool_text (valid decoded) @ [newline])
            else if expect_valid test then check_decoded_fields test decoded (True, 0, out)
            else (True, 0, out))
     in (failures,
         if passed then out @ ''    PASS'' @ [newline]
         else if expect_valid test then
           out @ ''    Decoded: Fmt:'' @ dec_string (format_number (format decoded))
             @ '' Op:'' @ dec_string (op_number (op decoded)) @ '' rd:'' @ dec_string (unat (rd decoded))
             @ '' rs1:'' @ dec_string (unat (rs1 decoded)) @ '' rs2:'' @ dec_string (unat (rs2 decoded))
             @ '' imm:'' @ int_string (sint (imm decoded)) @ ''(0x'' @ HEX_string (unat (imm decoded))
             @ '') Valid:'' @ (if valid decoded then ''T'' else ''F'') @ [newline]
         else out))"

fun run_tests_from :: "nat \<Rightarrow> decoder_test_case_t list \<Rightarrow> nat \<times> string \<Rightarrow> nat \<times> string" where
  "run_tests_from i [] (total_failures, out) = (total_failures, out)"
| "run_tests_from i (test # tests) (total_failures, out) =
    (let (n, s) = run_test i test in run_tests_from (i + 1) tests (total_failures + n, out @ s))"

definition run_decoder_tests :: "nat \<times> string" where
  "run_decoder_tests =
    (let (total_failures, out) = run_tests_from 0 decoder_tests
           (0, ''--- Running '' @ dec_string (length decoder_tests) @ '' Decoder Tests ---'' @ [newline])
     in (total_failures, out @ ''--- Decoder Test Summary: '' @ dec_string total_failures @ '' Failures ---'' @ [newline]))"

section \<open>The number of failures\<close>

text \<open>Counting without the text: the checks a case fails.\<close>

definition fails_reg :: "reg_t \<Rightarrow> reg_t \<Rightarrow> nat" where
  "fails_reg e g = (if e \<noteq> NA \<and> g \<noteq> e then 1 else 0)"

definition fails_imm :: "u32 \<Rightarrow> u32 \<Rightarrow> nat" where
  "fails_imm e g = (if e \<noteq> NA_IMM \<and> g \<noteq> e then 1 else 0)"

definition field_failures :: "decoder_test_case_t \<Rightarrow> decoded_instruction_t \<Rightarrow> nat" where
  "field_failures t di =
    of_bool (format di \<noteq> expect_format t) + of_bool (op di \<noteq> expect_op t) +
    (case expect_format t of
       INSTRUCTION_FORMAT_R \<Rightarrow> fails_reg (expect_rd t) (rd di) + fails_reg (expect_rs1 t) (rs1 di)
         + fails_reg (expect_rs2 t) (rs2 di) + of_bool (imm di \<noteq> 0)
     | INSTRUCTION_FORMAT_I \<Rightarrow> fails_reg (expect_rd t) (rd di) + fails_reg (expect_rs1 t) (rs1 di)
         + (if expect_op t \<in> {INSTRUCTION_OP_FENCE, INSTRUCTION_OP_FENCE_I} then 0
            else fails_imm (expect_imm t) (imm di))
         + of_bool (expect_op t \<in> {INSTRUCTION_OP_SLLI, INSTRUCTION_OP_SRLI, INSTRUCTION_OP_SRAI}
             \<and> imm di AND 0x1F \<noteq> expect_imm t AND 0x1F)
     | INSTRUCTION_FORMAT_S \<Rightarrow>
         fails_reg (expect_rs1 t) (rs1 di) + fails_reg (expect_rs2 t) (rs2 di) + fails_imm (expect_imm t) (imm di)
     | INSTRUCTION_FORMAT_B \<Rightarrow>
         fails_reg (expect_rs1 t) (rs1 di) + fails_reg (expect_rs2 t) (rs2 di) + fails_imm (expect_imm t) (imm di)
     | INSTRUCTION_FORMAT_U \<Rightarrow> fails_reg (expect_rd t) (rd di) + fails_imm (expect_imm t) (imm di)
     | INSTRUCTION_FORMAT_J \<Rightarrow> fails_reg (expect_rd t) (rd di) + fails_imm (expect_imm t) (imm di)
     | _ \<Rightarrow> 0)"

definition test_failures :: "decoder_test_case_t \<Rightarrow> nat" where
  "test_failures t =
    (let di = rve_decode_instruction (instruction t)
     in if valid di \<noteq> expect_valid t then 1 else if expect_valid t then field_failures t di else 0)"

text \<open>\<open>st\<close> is \<open>n\<close> failures after \<open>st0\<close>, and says so.\<close>

definition failed :: "nat \<Rightarrow> check_state \<Rightarrow> check_state \<Rightarrow> bool" where
  "failed n st0 st \<longleftrightarrow> fst (snd st) = fst (snd st0) + n \<and> fst st = (fst st0 \<and> n = 0)
     \<and> (if n = 0 then snd (snd st) = snd (snd st0)
        else prefix (snd (snd st0) @ ''    FAIL: '') (snd (snd st)))"

lemma failed_refl: "m = 0 \<Longrightarrow> failed m st st"
  by (simp add: failed_def)

lemma failed_CHECK: "failed n st0 st \<Longrightarrow> m = n + of_bool (\<not> c) \<Longrightarrow> failed m st0 (CHECK c msg st)"
  by (cases "n = 0"; cases c) (simp_all add: failed_def CHECK_def case_prod_beta)

lemma failed_reg: "failed n st0 st \<Longrightarrow> m = n + fails_reg e g \<Longrightarrow> failed m st0 (check_reg what e g st)"
  by (auto simp: check_reg_def fails_reg_def intro: failed_CHECK)

lemma failed_imm: "failed n st0 st \<Longrightarrow> m = n + fails_imm e g \<Longrightarrow> failed m st0 (check_imm e g st)"
  by (auto simp: check_imm_def fails_imm_def intro: failed_CHECK)

lemmas failed_steps = failed_CHECK failed_reg failed_imm failed_refl

lemma check_decoded_fields_failures: "failed (field_failures t di) st (check_decoded_fields t di st)"
proof (cases "expect_format t")
  case INSTRUCTION_FORMAT_I
  define shift where "shift \<longleftrightarrow> expect_op t \<in> {INSTRUCTION_OP_SLLI, INSTRUCTION_OP_SRLI, INSTRUCTION_OP_SRAI}"
  define fence where "fence \<longleftrightarrow> expect_op t \<in> {INSTRUCTION_OP_FENCE, INSTRUCTION_OP_FENCE_I}"
  have f: "expect_op t \<noteq> INSTRUCTION_OP_FENCE \<and> expect_op t \<noteq> INSTRUCTION_OP_FENCE_I \<longleftrightarrow> \<not> fence"
    "expect_op t = INSTRUCTION_OP_SLLI \<or> expect_op t = INSTRUCTION_OP_SRLI \<or> expect_op t = INSTRUCTION_OP_SRAI \<longleftrightarrow> shift"
    by (auto simp: shift_def fence_def)
  show ?thesis
    unfolding check_decoded_fields_def field_failures_def Let_def INSTRUCTION_FORMAT_I instruction_format_t.case f
      shift_def [symmetric] fence_def [symmetric]
    by (cases shift; cases fence; simp only: if_True if_False not_True_eq_False not_False_eq_True;
        (rule failed_steps)+; simp)
qed (unfold check_decoded_fields_def field_failures_def Let_def,
    (simp only: instruction_format_t.case, (rule failed_steps)+; simp)+)

lemma run_test_failures: "fst (run_test i t) = test_failures t"
  using check_decoded_fields_failures [of t "rve_decode_instruction (instruction t)"]
  by (simp add: run_test_def test_failures_def failed_def Let_def case_prod_beta)

text \<open>A case without failures is reported as passed, and no other is.\<close>

definition test_line :: "nat \<Rightarrow> decoder_test_case_t \<Rightarrow> string" where
  "test_line i t = ''Test '' @ pad_right 3 (dec_string (i + 1)) @ '': '' @ pad_right 20 (case_name t)
     @ '' (0x'' @ word_text (instruction t) @ '')...''"

lemma run_test_pass:
  "snd (run_test i t) = test_line i t @ ''    PASS'' @ [newline] \<longleftrightarrow> test_failures t = 0"
  using check_decoded_fields_failures [of t "rve_decode_instruction (instruction t)" "(True, 0, test_line i t)"]
  by (auto simp: run_test_def test_failures_def test_line_def failed_def Let_def case_prod_beta split: if_splits)

lemma run_tests_from_sum:
  "fst (run_tests_from i ts (n, out)) = n + sum_list (map test_failures ts)"
proof (induction ts arbitrary: i n out)
  case (Cons t ts)
  then show ?case using run_test_failures [of i t] by (simp add: case_prod_beta)
qed simp

lemma run_decoder_tests_sum: "fst run_decoder_tests = sum_list (map test_failures decoder_tests)"
  by (simp add: run_decoder_tests_def case_prod_beta run_tests_from_sum)

lemma failing_tests: "filter (\<lambda>t. test_failures t \<noteq> 0) decoder_tests = [decoder_tests ! 2]"
  by code_simp

lemma failures_of_list:
  "filter (\<lambda>t. test_failures t \<noteq> 0) ts = fs \<Longrightarrow> sum_list (map test_failures ts) = sum_list (map test_failures fs)"
  by (induction ts arbitrary: fs) auto

section \<open>The result\<close>

lemma run_decoder_tests_one: "fst run_decoder_tests = 1"
proof -
  have "test_failures (decoder_tests ! 2) = 1" by code_simp
  then show ?thesis
    using failures_of_list [OF failing_tests] by (simp add: run_decoder_tests_sum)
qed

text \<open>
  The outcome of the repository's decoder tests. \<open>run_decoder_tests\<close> returns one
  failure; all cases pass but the third, for which it prints the two immediates and the decoded
  fields. The expectation of the case is wrong: its word is not the encoding of AUIPC with the
  immediate 0xFFFFF000 it asks for.
\<close>

lemma decoder_tests_outcome:
  "fst run_decoder_tests = 1
   \<and> filter (\<lambda>t. fst (run_test 0 t) \<noteq> 0) decoder_tests = [decoder_tests ! 2]
   \<and> snd (run_test 2 (decoder_tests ! 2)) =
       ''Test 3  : auipc x1, -4096      (0xFF000097)...    FAIL: imm mismatch! E:-4096 G:-16777216'' @ [newline]
       @ ''    Decoded: Fmt:5 Op:2 rd:1 rs1:0 rs2:0 imm:-16777216(0xFF000000) Valid:T'' @ [newline]
   \<and> (let t = decoder_tests ! 2
      in expect_op t = INSTRUCTION_OP_AUIPC \<and> instruction t = 0xFF000097
         \<and> rv32_encode INSTRUCTION_OP_AUIPC (expect_rd t) 0 0 (expect_imm t) = Some 0xFFFFF097)"
proof (intro conjI)
  show "fst run_decoder_tests = 1" by (rule run_decoder_tests_one)
  show "filter (\<lambda>t. fst (run_test 0 t) \<noteq> 0) decoder_tests = [decoder_tests ! 2]"
    using failing_tests by (simp add: run_test_failures)
  have t: "decoder_tests ! 2 = test_case ''auipc x1, -4096'' 0xff000097 True INSTRUCTION_FORMAT_U
       INSTRUCTION_OP_AUIPC 1 NA NA 0xFFFFF000" by (simp add: decoder_tests_def)
  have di: "format (rve_decode_instruction 0xff000097) = INSTRUCTION_FORMAT_U"
    "op (rve_decode_instruction 0xff000097) = INSTRUCTION_OP_AUIPC" "valid (rve_decode_instruction 0xff000097)"
    "rd (rve_decode_instruction 0xff000097) = 1" "rs1 (rve_decode_instruction 0xff000097) = 0"
    "rs2 (rve_decode_instruction 0xff000097) = 0" "imm (rve_decode_instruction 0xff000097) = 0xFF000000"
    by code_simp+
  have numbers: "dec_string 3 = ''3''" "dec_string 5 = ''5''" "dec_string (Suc 0) = ''1''" "dec_string 0 = ''0''"
    "dec_string 2 = ''2''" "int_string (- 4096) = ''-4096''" "int_string (- 16777216) = ''-16777216''"
    "word_text 0xff000097 = ''FF000097''" "HEX_string 4278190080 = ''FF000000''"
    by (simp_all add: word_text_def HEX_string_def int_string_def dec_string_def radix_string.simps digit_chars pad_left_def)
  have op: "op_number INSTRUCTION_OP_AUIPC = 2"
    by (simp add: op_number_def enum_instruction_op_t_def instruction_ops_def)
  show "snd (run_test 2 (decoder_tests ! 2)) =
       ''Test 3  : auipc x1, -4096      (0xFF000097)...    FAIL: imm mismatch! E:-4096 G:-16777216'' @ [newline]
       @ ''    Decoded: Fmt:5 Op:2 rd:1 rs1:0 rs2:0 imm:-16777216(0xFF000000) Valid:T'' @ [newline]"
    by (simp add: t test_case_def run_test_def di check_decoded_fields_def check_reg_def check_imm_def CHECK_def
        differ_def op numbers pad_right_def replicate_digits)
  show "let t = decoder_tests ! 2
      in expect_op t = INSTRUCTION_OP_AUIPC \<and> instruction t = 0xFF000097
         \<and> rv32_encode INSTRUCTION_OP_AUIPC (expect_rd t) 0 0 (expect_imm t) = Some 0xFFFFF097"
    by code_simp
qed

section \<open>The tests judge a case by the encoding of its word\<close>

text \<open>
  A case states of a word what its encoding says: the operation, its format, and the registers and the
  immediate that format has, each of them or the mark that the case does not care. A shift by a constant
  has to have the right low five bits of the immediate even then.
\<close>

definition right_case :: "decoder_test_case_t \<Rightarrow> instruction_op_t \<Rightarrow> u8 \<Rightarrow> u8 \<Rightarrow> u8 \<Rightarrow> u32 \<Rightarrow> bool" where
  "right_case t oper d s1 s2 im \<longleftrightarrow>
     expect_valid t \<and> expect_op t = oper \<and> expect_format t = rv32_format oper
     \<and> (rv32_format oper \<in> {INSTRUCTION_FORMAT_S, INSTRUCTION_FORMAT_B} \<or> expect_rd t \<in> {NA, rv32_reg oper d})
     \<and> (rv32_format oper \<in> {INSTRUCTION_FORMAT_U, INSTRUCTION_FORMAT_J} \<or> expect_rs1 t \<in> {NA, rv32_reg oper s1})
     \<and> (rv32_format oper \<in> {INSTRUCTION_FORMAT_U, INSTRUCTION_FORMAT_J, INSTRUCTION_FORMAT_I}
          \<or> expect_rs2 t \<in> {NA, rv32_reg oper s2})
     \<and> (rv32_format oper = INSTRUCTION_FORMAT_R \<or> oper \<in> {INSTRUCTION_OP_FENCE, INSTRUCTION_OP_FENCE_I}
          \<or> expect_imm t \<in> {NA_IMM, rv32_imm oper im})
     \<and> (oper \<in> {INSTRUCTION_OP_SLLI, INSTRUCTION_OP_SRLI, INSTRUCTION_OP_SRAI}
          \<longrightarrow> take_bit 5 (expect_imm t) = take_bit 5 (rv32_imm oper im))"

lemma fails_zero:
  "fails_reg e g = 0 \<longleftrightarrow> e \<in> {NA, g}" "fails_imm x y = 0 \<longleftrightarrow> x \<in> {NA_IMM, y}"
  by (auto simp: fails_reg_def fails_imm_def)

lemma low_five: "x AND 0x1F = take_bit 5 x" for x :: u32
  by (simp add: take_bit_eq_mask mask_eq_exp_minus_1)

lemma encoded_format:
  "rv32_encode oper d s1 s2 im = Some w \<Longrightarrow> rv32_format oper \<notin> {INSTRUCTION_FORMAT_UNKNOWN, INSTRUCTION_FORMAT_NUM}"
  by (cases oper) (simp_all add: rv32_format_def)

lemma field_failures_right:
  assumes enc: "rv32_encode oper d s1 s2 im = Some w"
    and t: "expect_op t = oper" "expect_format t = rv32_format oper"
    and shift: "shift \<longleftrightarrow> oper \<in> {INSTRUCTION_OP_SLLI, INSTRUCTION_OP_SRLI, INSTRUCTION_OP_SRAI}"
    and fence: "fence \<longleftrightarrow> oper \<in> {INSTRUCTION_OP_FENCE, INSTRUCTION_OP_FENCE_I}"
  shows "field_failures t (rve_decode_instruction w) = 0 \<longleftrightarrow>
    (rv32_format oper \<in> {INSTRUCTION_FORMAT_S, INSTRUCTION_FORMAT_B} \<or> expect_rd t \<in> {NA, rv32_reg oper d})
    \<and> (rv32_format oper \<in> {INSTRUCTION_FORMAT_U, INSTRUCTION_FORMAT_J} \<or> expect_rs1 t \<in> {NA, rv32_reg oper s1})
    \<and> (rv32_format oper \<in> {INSTRUCTION_FORMAT_U, INSTRUCTION_FORMAT_J, INSTRUCTION_FORMAT_I}
         \<or> expect_rs2 t \<in> {NA, rv32_reg oper s2})
    \<and> (rv32_format oper = INSTRUCTION_FORMAT_R \<or> fence \<or> expect_imm t \<in> {NA_IMM, rv32_imm oper im})
    \<and> (shift \<longrightarrow> take_bit 5 (expect_imm t) = take_bit 5 (rv32_imm oper im))"
proof -
  let ?di = "rve_decode_instruction w"
  have di: "op ?di = oper" "format ?di = rv32_format oper" "imm ?di = rv32_imm oper im"
    and rd: "rv32_format oper \<in> {INSTRUCTION_FORMAT_S, INSTRUCTION_FORMAT_B} \<or> rd ?di = rv32_reg oper d"
    and rs1: "rv32_format oper \<in> {INSTRUCTION_FORMAT_U, INSTRUCTION_FORMAT_J} \<or> rs1 ?di = rv32_reg oper s1"
    and rs2: "rv32_format oper \<in> {INSTRUCTION_FORMAT_U, INSTRUCTION_FORMAT_J, INSTRUCTION_FORMAT_I}
        \<or> rs2 ?di = rv32_reg oper s2"
    using decode_encode_lemma [OF enc] unfolding Let_def by blast+
  have shifts: "\<not> shift \<and> \<not> fence" if "rv32_format oper \<noteq> INSTRUCTION_FORMAT_I"
    using that shift fence by (auto simp: rv32_format_def)
  show ?thesis
  proof (cases "rv32_format oper = INSTRUCTION_FORMAT_I")
    case True
    have eq: "field_failures t ?di = fails_reg (expect_rd t) (rd ?di) + fails_reg (expect_rs1 t) (rs1 ?di)
        + (if fence then 0 else fails_imm (expect_imm t) (imm ?di))
        + of_bool (shift \<and> take_bit 5 (imm ?di) \<noteq> take_bit 5 (expect_imm t))"
      unfolding field_failures_def shift fence low_five using True t di by simp
    have "rd ?di = rv32_reg oper d" "rs1 ?di = rv32_reg oper s1" using rd rs1 True by simp_all
    then show ?thesis
      by (cases fence; cases shift; simp add: eq di(3) True fails_zero eq_commute [of "take_bit 5 (expect_imm t)"])
  next
    case False
    with shifts have "\<not> shift" "\<not> fence" by blast+
    with False t di rd rs1 rs2 encoded_format [OF enc] show ?thesis
      by (cases "rv32_format oper") (auto simp: field_failures_def fails_zero rv32_imm_def)
  qed
qed

lemma test_failures_right:
  assumes enc: "rv32_encode oper d s1 s2 im = Some (instruction t)"
  shows "test_failures t = 0 \<longleftrightarrow> right_case t oper d s1 s2 im"
proof -
  let ?di = "rve_decode_instruction (instruction t)"
  have di: "valid ?di" "op ?di = oper" "format ?di = rv32_format oper"
    using decode_encode_lemma [OF enc] unfolding Let_def by blast+
  then have split: "test_failures t = 0 \<longleftrightarrow> expect_valid t \<and> field_failures t ?di = 0"
    by (simp add: test_failures_def Let_def)
  show ?thesis
  proof (cases "expect_op t = oper \<and> expect_format t = rv32_format oper")
    case False
    then have "field_failures t ?di \<noteq> 0" using di by (auto simp: field_failures_def)
    with False show ?thesis by (auto simp: split right_case_def)
  next
    case True
    with field_failures_right [OF enc _ _ refl refl] show ?thesis
      unfolding split right_case_def by (simp only: simp_thms)
  qed
qed

text \<open>
  C40 (functional): how the decoder tests judge a case. For a case of the table, or any other, whose word
  is the encoding of an operation with some operands: \<open>run_test\<close> adds no failure, and prints the line that
  ends in PASS, exactly when the case states what that encoding says; and \<open>run_decoder_tests\<close>, whose loop
  is \<open>run_tests_from\<close>, comes out without a new failure exactly when this case and those after it do.
\<close>

theorem decoder_tests_judge_by_encoding:
  assumes "rv32_encode oper d s1 s2 im = Some (instruction t)"
  shows "(fst (run_test i t) = 0 \<longleftrightarrow> right_case t oper d s1 s2 im)
    \<and> (snd (run_test i t) = test_line i t @ ''    PASS'' @ [newline] \<longleftrightarrow> right_case t oper d s1 s2 im)
    \<and> (fst (run_tests_from i (t # ts) (n, out)) = n \<longleftrightarrow>
         right_case t oper d s1 s2 im \<and> fst (run_tests_from (i + 1) ts (n, out)) = n)"
  unfolding run_test_failures run_test_pass run_tests_from_sum test_failures_right [OF assms, symmetric] by simp

text \<open>The third case of the table asks for the immediate 0xFFFFF000 where the word has 0xFF000000; the first passes.\<close>

lemma decoder_tests_judge_by_encoding_witness:
  "fst (run_test 0 (decoder_tests ! 0)) = 0 \<and> fst (run_test 2 (decoder_tests ! 2)) \<noteq> 0"
proof -
  have t: "decoder_tests ! 0 = test_case ''lui x5, 0xABCD0'' 0xABCD02B7 True INSTRUCTION_FORMAT_U
       INSTRUCTION_OP_LUI 5 NA NA 0xABCD0000"
    "decoder_tests ! 2 = test_case ''auipc x1, -4096'' 0xff000097 True INSTRUCTION_FORMAT_U
       INSTRUCTION_OP_AUIPC 1 NA NA 0xFFFFF000" by (simp_all add: decoder_tests_def)
  have enc: "rv32_encode INSTRUCTION_OP_LUI 5 0 0 0xABCD0000 = Some (instruction (decoder_tests ! 0))"
    "rv32_encode INSTRUCTION_OP_AUIPC 1 0 0 0xFF000000 = Some (instruction (decoder_tests ! 2))"
    unfolding t by code_simp+
  have "right_case (decoder_tests ! 0) INSTRUCTION_OP_LUI 5 0 0 0xABCD0000"
    "\<not> right_case (decoder_tests ! 2) INSTRUCTION_OP_AUIPC 1 0 0 0xFF000000"
    unfolding t by code_simp+
  with decoder_tests_judge_by_encoding [OF enc(1), of 0] decoder_tests_judge_by_encoding [OF enc(2), of 2]
  show ?thesis by blast
qed

end
