(* ===== verification/Rve_Main2.thy ===== *)
theory Rve_Main2
  imports Rve_Gen Rve_Tests Rve_Diagnostics
begin

unbundle bit_operations_syntax

text \<open>
  The old main program, src/main2.c: a lister of the instructions of a binary file, with the decoder
  tests before it. The whole file is disabled by \<open>#if 0\<close>; it is modelled as it is written, with the
  macro TESTS as an argument.
\<close>

section \<open>The host\<close>

text \<open>
  A file that can be opened has its contents; reading it may fail after them, and closing it may fail.
  \<open>reason\<close> is the text \<open>perror\<close> adds. A short count from \<open>fread\<close> sets one of the two indicators of the
  stream: error if reading fails, end of file otherwise.
\<close>

record host_files =
  contents :: "string \<Rightarrow> u8 list option"
  read_fails :: "string \<Rightarrow> bool"
  close_fails :: "string \<Rightarrow> bool"
  reason :: string

definition fprintf_stderr :: "string \<Rightarrow> world_t \<Rightarrow> world_t" where
  "fprintf_stderr s w = w\<lparr>out_stream :=
     (out_stream w)(Stderr := out_stream w Stderr @ map of_char s)\<rparr>"

definition perror :: "host_files \<Rightarrow> string \<Rightarrow> world_t \<Rightarrow> world_t" where
  "perror fs s w = fprintf_stderr (s @ '': '' @ reason fs @ [newline]) w"

section \<open>Walking through a file\<close>

type_synonym instruction_callback_t = "u32 \<Rightarrow> u32 \<Rightarrow> world_t \<Rightarrow> world_t"

text \<open>
  The loop, on the bytes still to be read. The result is the address it has reached, how many bytes the
  last \<open>fread\<close> delivered, and the world.
\<close>

fun process_loop :: "instruction_callback_t \<Rightarrow> u8 list \<Rightarrow> u32 \<Rightarrow> world_t \<Rightarrow> u32 \<times> nat \<times> world_t" where
  "process_loop func (b0 # b1 # b2 # b3 # rest) current_address w =
    (let instr = (ucast b0 :: u32) OR push_bit 8 (ucast b1) OR push_bit 16 (ucast b2) OR push_bit 24 (ucast b3)
     in process_loop func rest (current_address + 4) (func current_address instr w))"
| "process_loop func rest current_address w = (current_address, length rest, w)"

definition process_binary_file :: "string option \<Rightarrow> instruction_callback_t option \<Rightarrow> host_files \<Rightarrow> world_t \<Rightarrow>
    int \<times> world_t" where
  "process_binary_file filepath func fs w =
    (case (filepath, func) of
       (Some path, Some f) \<Rightarrow>
         (case contents fs path of
            None \<Rightarrow> (-1, perror fs ''Error al abrir el fichero'' w)
          | Some bytes \<Rightarrow>
              let w1 = printf_stdout (''Procesando fichero: '' @ path @ [newline]) w;
                  (current_address, bytes_read, w2) = process_loop f bytes 0 w1;
                  ferror = read_fails fs path;
                  feof = (\<not> read_fails fs path);
                  (result, w3) =
                    (if ferror then (-1, perror fs ''Error durante la lectura del fichero'' w2)
                     else if \<not> feof then
                       (0, fprintf_stderr (''Warning: El tamano del fichero no es multiplo de 4 bytes. ''
                             @ ''Se ignoraron los ultimos '' @ dec_string bytes_read
                             @ '' bytes en la direccion 0x'' @ HEX_string (unat current_address) @ ''.''
                             @ [newline]) w2)
                     else
                       (0, printf_stdout (''Fin del fichero alcanzado con exito en la direccion 0x''
                             @ HEX_string (unat current_address) @ ''.'' @ [newline]) w2));
                  (result, w4) =
                    (if close_fails fs path then
                       (if result = 0 then -1 else result, perror fs ''Error al cerrar el fichero'' w3)
                     else (result, w3))
              in (result, printf_stdout (''Procesamiento terminado.'' @ [newline]) w4))
     | _ \<Rightarrow> (-1, fprintf_stderr (''Error: filepath o func no pueden ser NULL.'' @ [newline]) w))"

section \<open>The lister\<close>

definition my_instruction_handler :: instruction_callback_t where
  "my_instruction_handler address instr w0 =
    (let decoded = rve_decode_instruction instr;
         w = fprintf_stderr (rve_decode_messages instr) w0
     in if valid decoded then
          (let buffer = (case snd (rve_decoded_format_to_buffer (Some decoded) True 32) of
                           None \<Rightarrow> '''' | Some s \<Rightarrow> s)
           in printf_stdout (pad_right 25 buffer
                @ '' Decoded: '' @ rve_instruction_op_to_cstr (op decoded)
                @ '', Format: '' @ rve_instruction_format_to_cstr (format decoded)
                @ '', Imm: 0x'' @ word_text (imm decoded)
                @ '', Rd: '' @ dec_string (unat (rd decoded))
                @ '', Rs1: '' @ dec_string (unat (rs1 decoded))
                @ '', Rs2: '' @ dec_string (unat (rs2 decoded)) @ [newline]) w)
        else printf_stdout (''Invalid instruction: 0x'' @ word_text instr @ [newline]) w)"

text \<open>
  What decoding the words of the test cases writes to stderr while the tests print to stdout.
\<close>

definition test_messages :: string where
  "test_messages = concat (map (\<lambda>t. rve_decode_messages (instruction t)) decoder_tests)"

text \<open>
  \<open>main\<close>, here \<open>main2\<close>, on the program's name and the arguments after it: the exit code and the world.
\<close>

definition main2 :: "bool \<Rightarrow> string \<Rightarrow> string list \<Rightarrow> host_files \<Rightarrow> world_t \<Rightarrow> int \<times> world_t" where
  "main2 TESTS argv0 argv fs w =
    (if TESTS then
       (let (failed_tests, out) = run_decoder_tests;
            w1 = fprintf_stderr test_messages (printf_stdout out w)
        in if failed_tests > 0 then
             (1, printf_stdout (newline # ''Decoder tests finished with errors.'' @ [newline]) w1)
           else
             (let w2 = printf_stdout (newline # ''All decoder tests passed!'' @ [newline]) w1
              in if length argv + 1 \<noteq> 2 then
                   (1, fprintf_stderr (''Uso: '' @ argv0 @ '' <fichero_binario>'' @ [newline]) w2)
                 else
                   (let (status, w3) = process_binary_file (Some (argv ! 0)) (Some my_instruction_handler) fs w2
                    in if status = 0 then (0, printf_stdout (''Fichero procesado correctamente.'' @ [newline]) w3)
                       else (1, fprintf_stderr (''Hubo un error durante el procesamiento del fichero.'' @ [newline]) w3))))
     else (0, w))"

section \<open>What a file's walk visits\<close>

lemma assemble_bytes:
  "(ucast (ucast (drop_bit 0 w AND 0xFF) :: u8) :: u32) OR push_bit 8 (ucast (ucast (drop_bit 8 w AND 0xFF) :: u8))
     OR push_bit 16 (ucast (ucast (drop_bit 16 w AND 0xFF) :: u8))
     OR push_bit 24 (ucast (ucast (drop_bit 24 w AND 0xFF) :: u8)) = w"
  for w :: u32
proof (rule bit_word_eqI)
  fix n assume n: "n < LENGTH(32)"
  have ff: "bit (0xFF :: int) k \<longleftrightarrow> k < 8" for k
    using bit_mask_iff [of 8 k, where ?'a = int] by (auto simp: mask_eq_exp_minus_1)
  consider "n < 8" | "8 \<le> n" "n - 8 < 8" | "16 \<le> n" "n - 16 < 8" | "24 \<le> n" "n - 24 < 8"
    using n by fastforce
  then show "bit ((ucast (ucast (drop_bit 0 w AND 0xFF) :: u8) :: u32)
     OR push_bit 8 (ucast (ucast (drop_bit 8 w AND 0xFF) :: u8))
     OR push_bit 16 (ucast (ucast (drop_bit 16 w AND 0xFF) :: u8))
     OR push_bit 24 (ucast (ucast (drop_bit 24 w AND 0xFF) :: u8))) n = bit w n"
    using n by cases (auto simp: bit_simps ff)
qed

text \<open>The calls of the callback: the words in order, each with its address.\<close>

definition calls :: "instruction_callback_t \<Rightarrow> u32 \<Rightarrow> u32 list \<Rightarrow> world_t \<Rightarrow> world_t" where
  "calls func a ws = fold (\<lambda>(k, i). func (a + 4 * of_nat k) i) (enumerate 0 ws)"

lemma calls_simps:
  "calls func a [] w = w"
  "calls func a (i # ws) w = calls func (a + 4) ws (func a i w)"
proof -
  have "map (\<lambda>(k, i). func (a + 4 * of_nat k) i) (enumerate (Suc n) ws)
      = map (\<lambda>(k, i). func (a + 4 + 4 * of_nat k) i) (enumerate n ws)" for n
    by (induction ws arbitrary: n) (simp_all add: algebra_simps)
  then have "fold id (map (\<lambda>(k, i). func (a + 4 * of_nat k) i) (enumerate (Suc 0) ws))
      = fold id (map (\<lambda>(k, i). func (a + 4 + 4 * of_nat k) i) (enumerate 0 ws))" by (rule arg_cong)
  then show "calls func a (i # ws) w = calls func (a + 4) ws (func a i w)"
    by (simp add: calls_def fold_map o_def case_prod_beta' cong: fold_cong)
qed (simp add: calls_def)

lemma process_loop_short: "length bs < 4 \<Longrightarrow> process_loop func bs a w = (a, length bs, w)"
  by (cases "(func, bs, a, w)" rule: process_loop.cases) auto

lemma process_loop_words:
  assumes "length bs < 4"
  shows "process_loop func (concat (map write_word ws) @ bs) a w
    = (a + 4 * of_nat (length ws), length bs, calls func a ws w)"
proof (induction ws arbitrary: a w)
  case Nil
  then show ?case using assms by (simp add: process_loop_short calls_simps)
next
  case (Cons i ws)
  then show ?case
    by (simp add: calls_simps write_word_def Let_def assemble_bytes [simplified] algebra_simps
        del: push_bit_of_nat)
qed

lemma printf_printf: "printf_stdout s (printf_stdout t w) = printf_stdout (t @ s) w"
  by (simp add: printf_stdout_def)

lemma printf_stderr_stdout: "printf_stdout s (fprintf_stderr t w) = fprintf_stderr t (printf_stdout s w)"
  by (simp add: printf_stdout_def fprintf_stderr_def fun_upd_twist)

text \<open>
  C38 (functional): \<open>process_binary_file\<close> visits a file. Called with a name and a callback on a file that
  can be opened, which holds whole words as the program generator writes them and up to three bytes
  after them, it calls the callback on exactly these words, in order, each with its address, between its
  first and its last message. It returns 0 after a message with the end address and without a word
  about the bytes that are left over, unless reading or closing fails; then it returns -1 and says why
  on stderr.
\<close>

theorem process_binary_file_visits_words:
  assumes "contents fs path = Some (concat (map write_word ws) @ bs)" "length bs < 4"
  shows "let start = printf_stdout (''Procesando fichero: '' @ path @ [newline]) w;
      visited = calls func 0 ws start;
      final = printf_stdout (''Procesamiento terminado.'' @ [newline]);
      closed = (if close_fails fs path then perror fs ''Error al cerrar el fichero'' else id)
    in process_binary_file (Some path) (Some func) fs w =
      (if read_fails fs path then
         (-1, final (closed (perror fs ''Error durante la lectura del fichero'' visited)))
       else
         (if close_fails fs path then -1 else 0,
          final (closed (printf_stdout (''Fin del fichero alcanzado con exito en la direccion 0x''
            @ HEX_string (unat (4 * of_nat (length ws) :: u32)) @ ''.'' @ [newline]) visited))))"
  using assms process_loop_words [OF assms(2), of func ws 0]
  by (simp add: process_binary_file_def Let_def)

lemma process_binary_file_visits_words_witness:
  "process_binary_file (Some ''a'') (Some my_instruction_handler)
     \<lparr>contents = [''a'' \<mapsto> [0x73, 0, 0, 0, 1]], read_fails = (\<lambda>_. False), close_fails = (\<lambda>_. False), reason = ''''\<rparr>
     blank_world =
   (0, printf_stdout (''Procesando fichero: a'' @ [newline] @ pad_right 25 (pad_right 8 ''ecall'')
      @ '' Decoded: INSTRUCTION_OP_ECALL, Format: I, Imm: 0x00000000, Rd: 0, Rs1: 0, Rs2: 0'' @ [newline]
      @ ''Fin del fichero alcanzado con exito en la direccion 0x4.'' @ [newline]
      @ ''Procesamiento terminado.'' @ [newline]) blank_world)"
proof -
  let ?fs = "\<lparr>contents = [''a'' \<mapsto> [0x73, 0, 0, 0, 1]], read_fails = (\<lambda>_. False), close_fails = (\<lambda>_. False), reason = ''''\<rparr>"
  have "concat (map write_word [0x73]) @ [1] = [0x73, 0, 0, 0, 1]" by code_simp
  then have fs: "contents ?fs ''a'' = Some (concat (map write_word [0x73]) @ [1])" by simp
  have di: "valid (rve_decode_instruction 0x73)" "op (rve_decode_instruction 0x73) = INSTRUCTION_OP_ECALL"
    "format (rve_decode_instruction 0x73) = INSTRUCTION_FORMAT_I" "imm (rve_decode_instruction 0x73) = 0"
    "rd (rve_decode_instruction 0x73) = 0" "rs1 (rve_decode_instruction 0x73) = 0"
    "rs2 (rve_decode_instruction 0x73) = 0" by code_simp+
  have texts: "word_text 0 = ''00000000''" "dec_string 0 = ''0''" "HEX_string 4 = ''4''"
    by (simp_all add: word_text_def HEX_string_def dec_string_def radix_string.simps pad_left_def)
      (code_simp+)
  have silent: "rve_decode_messages 0x73 = []" by code_simp
  have line: "my_instruction_handler 0 0x73 w = printf_stdout (pad_right 25 (pad_right 8 ''ecall'')
      @ '' Decoded: INSTRUCTION_OP_ECALL, Format: I, Imm: 0x00000000, Rd: 0, Rs1: 0, Rs2: 0'' @ [newline]) w" for w
    by (simp add: my_instruction_handler_def silent fprintf_stderr_def di texts rve_decoded_format_to_buffer_def snprintf_def disasm_text_def
        pad_right_def)
  from process_binary_file_visits_words [OF fs, of blank_world my_instruction_handler] show ?thesis
    by (simp add: calls_simps line printf_printf texts)
qed

section \<open>The lister's buffer\<close>

lemma int_string_length:
  assumes "- (10 ^ 9) < i" "i < 10 ^ 9"
  shows "length (int_string i) \<le> 10"
proof -
  have "nat i < 10 ^ 9" "nat (- i) < 10 ^ 9" using assms by simp_all
  from this [THEN dec_length] show ?thesis by (simp add: int_string_def)
qed

lemma decoded_text_length:
  assumes "op (rve_decode_instruction i) \<notin> unhandled_ops" "op (rve_decode_instruction i) \<noteq> INSTRUCTION_OP_UNKNOWN"
  shows "length (disasm_text (rve_decode_instruction i)) \<le> 31"
proof -
  let ?di = "rve_decode_instruction i"
  have typed: "instruction_typed ?di" using decode_typed_lemma [of i] assms(2) by blast
  then have fmt: "valid ?di" "imm_typed (rv32_format (op ?di)) (imm ?di)"
    unfolding instruction_typed_def by metis+
  have num: "op ?di \<noteq> INSTRUCTION_OP_NUM"
  proof
    assume "op ?di = INSTRUCTION_OP_NUM"
    with encode_decode_lemma [of i] show False by (simp add: Let_def)
  qed
  have "length (int_string (sint (imm ?di))) \<le> 10" if "rv32_format (op ?di) \<noteq> INSTRUCTION_FORMAT_U"
    using fmt(2) that by (intro int_string_length) (auto simp: imm_typed_def split: instruction_format_t.splits)
  moreover have "operands_of (op ?di) = Rd_Upper" if "rv32_format (op ?di) = INSTRUCTION_FORMAT_U"
    using that by (cases "op ?di") (simp_all add: rv32_format_def operands_of_def)
  ultimately have "length (operand_text (operands_of (op ?di)) ?di) \<le> 22"
    using word_lengths [of "imm ?di"] word_lengths [of "imm ?di AND 0x1F"]
      word_lengths [of "imm ?di AND 0xFFF"] word_lengths [of "drop_bit 12 (imm ?di)"]
      reg_lengths [of "rd ?di"] reg_lengths [of "rs1 ?di"] reg_lengths [of "rs2 ?di"]
    by (cases "operands_of (op ?di)"; cases "rv32_format (op ?di) = INSTRUCTION_FORMAT_U")
      (simp_all add: operand_text_def pad_left_def)
  with disasm_op_operands [OF assms num, of ?di] enum_bounds(1) [of "op ?di"] fmt(1)
  show ?thesis by (simp add: disasm_text_def pad_right_def split: if_splits)
qed

text \<open>The line the lister prints for a decoded word whose disassembly is shown as \<open>t\<close>.\<close>

definition lister_line :: "decoded_instruction_t \<Rightarrow> string \<Rightarrow> string" where
  "lister_line di t = pad_right 25 t
     @ '' Decoded: '' @ rve_instruction_op_to_cstr (op di) @ '', Format: '' @ rve_instruction_format_to_cstr (format di)
     @ '', Imm: 0x'' @ word_text (imm di) @ '', Rd: '' @ dec_string (unat (rd di))
     @ '', Rs1: '' @ dec_string (unat (rs1 di)) @ '', Rs2: '' @ dec_string (unat (rs2 di)) @ [newline]"

lemma lister_line_length:
  "25 \<le> length t \<Longrightarrow> length (lister_line di t) = length (lister_line di []) - 25 + length t"
  by (simp add: lister_line_def pad_right_def)

lemma printf_stdout_length:
  assumes "printf_stdout s w = printf_stdout t w"
  shows "length s = length t"
proof -
  from assms have "out_stream (printf_stdout s w) Stdout = out_stream (printf_stdout t w) Stdout" by simp
  then have "map (of_char :: char \<Rightarrow> u8) s = map of_char t" by (simp add: printf_stdout_def)
  then show ?thesis by (rule map_eq_imp_length_eq)
qed

text \<open>
  C39 (bounds): the lister and its buffer of 32 bytes. (The file is disabled by \<open>#if 0\<close>.) For a word the
  decoder takes for valid, \<open>my_instruction_handler\<close> writes the messages of the decoder to stderr and one
  line to stdout, whose disassembly is that of the word, cut off after 31 characters. The line is the one
  with the whole disassembly exactly when the operation is known to the disassembler: only the
  multiplications and divisions and the words that are valid without an operation are cut off.
\<close>

theorem lister_buffer:
  assumes "di = rve_decode_instruction i" "valid di"
  shows "let w1 = fprintf_stderr (rve_decode_messages i) w in
    my_instruction_handler a i w = printf_stdout (lister_line di (take 31 (disasm_text di))) w1
    \<and> (my_instruction_handler a i w = printf_stdout (lister_line di (disasm_text di)) w1
       \<longleftrightarrow> op di \<notin> unhandled_ops \<and> op di \<noteq> INSTRUCTION_OP_UNKNOWN)"
proof -
  have handler: "my_instruction_handler a i w =
      printf_stdout (lister_line di (take 31 (disasm_text di))) (fprintf_stderr (rve_decode_messages i) w)"
    using assms by (simp add: my_instruction_handler_def lister_line_def rve_decoded_format_to_buffer_def snprintf_def Let_def)
  have cut: "printf_stdout (lister_line di (take 31 (disasm_text di))) v = printf_stdout (lister_line di (disasm_text di)) v
      \<longleftrightarrow> length (disasm_text di) \<le> 31" for v
    using printf_stdout_length [of "lister_line di (take 31 (disasm_text di))" v "lister_line di (disasm_text di)"]
      lister_line_length [of "take 31 (disasm_text di)" di] lister_line_length [of "disasm_text di" di] by force
  have long: "31 < length (disasm_text di)" if "op di \<in> unhandled_ops"
  proof -
    have "length (dec_string (op_number (op di))) \<noteq> 0" by (simp add: dec_string_def)
    with that assms(2) show ?thesis by (auto simp: disasm_text_def unhandled_ops_def)
  qed
  have "length (disasm_text di) \<le> 31 \<longleftrightarrow> op di \<notin> unhandled_ops \<and> op di \<noteq> INSTRUCTION_OP_UNKNOWN"
    using long decoded_text_length [of i] assms by (auto simp: disasm_text_def)
  then show ?thesis by (simp add: handler cut Let_def)
qed

lemma lister_buffer_witness:
  "my_instruction_handler 0 0x02208033 blank_world
     \<noteq> printf_stdout (lister_line (rve_decode_instruction 0x02208033) (disasm_text (rve_decode_instruction 0x02208033)))
         (fprintf_stderr (rve_decode_messages 0x02208033) blank_world)"
proof -
  have "valid (rve_decode_instruction 0x02208033)" "op (rve_decode_instruction 0x02208033) = INSTRUCTION_OP_MUL"
    by code_simp+
  with lister_buffer [OF refl, of "0x02208033" blank_world 0, unfolded Let_def, THEN conjunct2] show ?thesis
    by (simp add: unhandled_ops_def)
qed

section \<open>The test build\<close>

text \<open>Built with TESTS the program never gets to listing: the decoder tests fail.\<close>

lemma main2_tests_fail:
  "fst (main2 True argv0 argv fs w) = 1
   \<and> snd (main2 True argv0 argv fs w) =
       fprintf_stderr test_messages
         (printf_stdout (snd run_decoder_tests @ newline # ''Decoder tests finished with errors.'' @ [newline]) w)"
  using run_decoder_tests_one by (simp add: main2_def case_prod_beta printf_printf printf_stderr_stdout)

end
