(* ===== verification/Spec2Isabelle.thy ===== *)
theory Spec2Isabelle
  imports Rve_Gen Rve_Programs Rve_Trace_Line Rve_Diagnostics Rve_Main2
begin

text \<open>
  rve is an emulator of a 32-bit RISC-V machine (RV32IM with Zicsr, machine mode only), written in C.
  This development is a shallow embedding of its sources (the paths below are those of the repository's
  src/ and include/ directories) and the proofs of what they do.

  \<^bold>\<open>The program.\<close> \<open>main\<close> (src/main.c) parses the command line, builds a machine with \<open>emulator_init\<close>,
  loads a flat binary and calls \<open>emulator_run\<close> (src/emulator.c). Each round of that loop is an
  \<open>emulator_step\<close>: \<open>soc_step\<close> (src/soc.c) runs the hart for one instruction, then the trace callback
  is called, and an ECALL goes to the system call handler, which may halt the machine. \<open>hart_step\<close>
  (src/hart.c) fetches over the bus, decodes (src/decoder.c), executes and commits. The bus
  (src/bus.c) dispatches an access to the covering device of the smallest range: RAM (src/memory.c), a
  16550 UART (src/uart.c), or TOHOST (src/tohost.c), a device whose writes halt the emulator.

  \<^bold>\<open>How it is modelled.\<close> A C struct is a record, an enumeration a datatype (\<open>trap_t\<close>, two pairs of
  whose enumerators are equal, is an integer), a w-bit integer a word of that width. A function that can
  meet undefined behaviour returns an option, and \<open>None\<close> is that behaviour: a null or dangling pointer, a
  pointer of the wrong type, an access outside an array or a block. What the devices and the host hold is
  \<open>world_t\<close>: the heap of device contexts, which allocations succeed, the input and output streams, the
  emulator's fields that TOHOST writes through pointers, and the variables of \<open>main\<close> handed to callbacks.
  Callbacks (the devices' operation tables, the system call handler, the tracer) are functions in
  records. Loops over arrays are recursions over lists; the write system call recurses on the number of
  bytes left; \<open>emulator_run\<close>, which may run for ever, is a \<open>partial_function\<close> whose outer \<open>None\<close> is that it
  does not return. No fuel is used.

  \<^bold>\<open>The theories\<close>, in the order of the code.
  \<^item> Rve_Prelude: the integer types (types.h), arithmetic shift, sign extension, C booleans, and lemmas
    on words and lists; Rve_Text: the C library's number formats, snprintf and strtoul, with the lemmas
    that read printed numbers back.
  \<^item> Rve_Decoder: decoder.c 13-471, decoder.h, riscv.h. Rve_Encoding: a reference encoder written from
    the manual's formats; the decoder and the encoder are inverse to each other (but for the immediate
    field of FENCE and FENCE.I, which the decoder drops), the decoder recognises exactly the encodings, and
    where it says valid without an operation.
  \<^item> Rve_Bus: bus.h, bus.c, peripheral.h, \<open>peripheral_init\<close>; the locale \<open>bus_world\<close> is what the bus
    needs of its devices, \<open>safe_bus\<close> what the hart needs of the bus.
  \<^item> Rve_Memory: memory.c on its own; Rve_Devices: the heap and the streams, the callbacks of memory.c,
    uart.c and tohost.c; the three devices interpret \<open>bus_world\<close>.
  \<^item> Rve_Hart: hart.h and hart.c; Rve_Step: no step on a safe bus is undefined (locale \<open>hart_bus\<close>), and
    what a step can change. Rve_Isa and Rve_Isa_System: the instructions of the manual on integers, and
    that a step on the encoding of an instruction does what the manual says: arithmetic, jumps, branches,
    loads, stores, CSRs, traps, ECALL and MRET, illegal words and fetch faults.
  \<^item> Rve_Soc: soc.h, soc.c; \<open>hart_bus\<close> is interpreted on the real bus. Rve_Emulator: emulator.h,
    emulator.c. Rve_Run: the contract of callbacks (locale \<open>callbacks\<close>), interpreted on the built-in
    handler; steps are safe and bounded runs end. Rve_Board: the machine \<open>emulator_init\<close> builds, its memory
    map, and loading a binary. Rve_Syscalls: exit, write and TOHOST. Rve_Runs: the loop of \<open>emulator_run\<close>
    as an inductive relation, and when it diverges.
  \<^item> Rve_Machine, Rve_Flat, Rve_Process: three abstract specifications, each above the one before.
    Rve_Machine gives the instruction set as a step relation (\<open>isa_step\<close>) over registers, pc and CSRs as
    maps, for any functions that load and store; \<open>hart_step\<close> implements it. Rve_Flat is the memory of the
    board as a map from addresses to bytes; the locale \<open>memory_refinement\<close> carries steps from such an
    abstract memory to the bus. Rve_Process adds what a program sees of the UART, TOHOST and the system
    calls (\<open>proc_step\<close>, \<open>proc_exits\<close>, \<open>proc_runs_on\<close>), every access described. A process exits or runs on,
    and \<open>emulator_run\<close> returns exactly the exit code and the state it exits with, or does not return.
    Rve_Programs composes this with loading (a file that fits into one of the two RAMs, \<open>fits_ram\<close>) and the
    command line: \<open>main\<close> on a file is the process that starts with the file in blank memory, and a step
    limit stops it with the code 1 and a prefix of its output.
  \<^item> Rve_Gen: tools/gen.c (src/tests/gen.c is the same file) and what becomes of the program it writes.
  \<^item> Rve_Disasm: decoder.c 473-724; a reference assembler reads its text back. Rve_Trace: the tracer of
    main.c, \<open>hart_print\<close> and \<open>peripheral_debug\<close>; Rve_Trace_Line: what a line of the tracer tells of the
    instruction; Rve_Tracing: a traced and an untraced run are related by a simulation (locales
    \<open>bus_sim\<close> and \<open>output_relation\<close>), and \<open>callbacks\<close> is interpreted on the tracer.
    Rve_Main: the rest of main.c, and utils.c. Rve_Diagnostics: what the decoder and the command line print to stderr, and that they do so exactly
    for what they do not accept.
  \<^item> Rve_Tests: src/tests/decoder.c with all it prints; a case passes exactly when it agrees with the
    reference encoding of its word, and what the repository's own cases come to. Rve_Main2: src/main2.c,
    the old main program that lists a file, and what its 32-byte buffer cuts off; the file is disabled by
    the preprocessor and modelled as it is written.

  \<^bold>\<open>Assumptions.\<close> \<open>size_t\<close>, \<open>unsigned long\<close> and \<open>long\<close> have 64 bits, the host is little-endian, right
  shifts of negative integers are arithmetic, and conversions to signed types wrap, as the compilers the
  build uses define them. Whether an allocation succeeds, the contents of a file, and whether reading it
  delivers all of it are parameters. \<open>stdin\<close> and other input streams are lists of the bytes still to come.

  \<^bold>\<open>Not modelled.\<close> In the model of the emulator \<open>world_t\<close> does not get its own diagnostics on stderr: those of
  the decoder, of \<open>parse_args\<close> and the usage text are functions of their own in Rve_Diagnostics; those of
  the bus, the SoC, the hart's CSR dispatch and \<open>emulator.c\<close>, and the two progress lines of \<open>main\<close>, are
  left out. The system call handler's writes to file descriptor 2 are modelled.
  include/rve/cosim.h declares functions of a library that is not in the repository; error.h is
  unused. The build and test scripts are not part of the program.
\<close>

end
